(* ===== verification/Prelude.thy ===== *)
theory Prelude
  imports Main
begin

text \<open>
  Shared vocabulary of the development: how a JavaScript exception, an out-of-range array
  read, \<open>Array.prototype.slice\<close> and the truthiness of strings are rendered, and the
  generic list and map lemmas the component theories share.

  A call that may throw returns \<open>js_exn + 'a\<close>: \<open>Inl\<close> is the exception, \<open>Inr\<close> the value.
\<close>

named_theorems model_simps \<open>defining equations unfolded when a component is evaluated\<close>
named_theorems inv_intros \<open>preservation facts of the component invariants\<close>

datatype js_exn =
    TypeError            \<comment> \<open>property access or call on \<open>undefined\<close> or \<open>null\<close>\<close>
  | AssertionError       \<comment> \<open>\<open>Errors.assertInternal\<close> with a false condition\<close>
  | RangeError           \<comment> \<open>standard library range failure\<close>
  | SyntaxError          \<comment> \<open>\<open>JSON.parse\<close> of a malformed text\<close>
  | ReferenceError       \<comment> \<open>use of a name that is not defined\<close>
  | PlainError           \<comment> \<open>a plain \<open>Error\<close> thrown by the code\<close>

type_synonym 'a js = "js_exn + 'a"

subsection \<open>Throwing computations\<close>

definition js_bind :: "'a js \<Rightarrow> ('a \<Rightarrow> 'b js) \<Rightarrow> 'b js" where
  "js_bind m f = (case m of Inl e \<Rightarrow> Inl e | Inr x \<Rightarrow> f x)"

lemma js_bind_simps [simp]:
  "js_bind (Inl e) f = Inl e"
  "js_bind (Inr x) f = f x"
  by (simp_all add: js_bind_def)

lemma js_bind_cong [fundef_cong]:
  "m = n \<Longrightarrow> (\<And>x. n = Inr x \<Longrightarrow> f x = g x) \<Longrightarrow> js_bind m f = js_bind n g"
  by (cases n) simp_all

lemma js_bind_eq_Inr: "js_bind m f = Inr y \<longleftrightarrow> (\<exists>x. m = Inr x \<and> f x = Inr y)"
  by (cases m) simp_all

lemma js_bind_eq_Inl:
  "js_bind m f = Inl e \<longleftrightarrow> m = Inl e \<or> (\<exists>x. m = Inr x \<and> f x = Inl e)"
  by (cases m) simp_all

subsection \<open>Arrays\<close>

text \<open>
  \<open>js_at xs i\<close> is \<open>xs[i]\<close> used as a receiver of a method call or property access: out of
  range the read gives \<open>undefined\<close> and the access throws a TypeError.
\<close>

definition js_at :: "'a list \<Rightarrow> int \<Rightarrow> 'a js" where
  "js_at xs i = (if 0 \<le> i \<and> i < int (length xs) then Inr (xs ! nat i) else Inl TypeError)"

lemma nth_list_update_iff: "xs[i := x] ! j = (if i = j \<and> i < length xs then x else xs ! j)"
  by (cases "i < length xs") (auto simp: nth_list_update list_update_beyond)

lemma js_at_Inr [simp]: "0 \<le> i \<Longrightarrow> i < int (length xs) \<Longrightarrow> js_at xs i = Inr (xs ! nat i)"
  by (simp add: js_at_def)

lemma js_at_neg [simp]: "i < 0 \<Longrightarrow> js_at xs i = Inl TypeError"
  by (simp add: js_at_def)

lemma js_at_ge [simp]: "int (length xs) \<le> i \<Longrightarrow> js_at xs i = Inl TypeError"
  by (simp add: js_at_def)

text \<open>\<open>Array.prototype.slice(from, to)\<close>: negative arguments count from the end.\<close>

definition slice_index :: "nat \<Rightarrow> int \<Rightarrow> nat" where
  "slice_index n i = (if i < 0 then nat (max 0 (int n + i)) else min n (nat i))"

definition js_slice :: "'a list \<Rightarrow> int \<Rightarrow> int \<Rightarrow> 'a list" where
  "js_slice xs i j =
     (let a = slice_index (length xs) i; b = slice_index (length xs) j
      in take (b - a) (drop a xs))"

lemma js_slice_nonneg:
  assumes i: "0 \<le> i" and j: "0 \<le> j"
  shows "js_slice xs i j = take (nat j - nat i) (drop (nat i) xs)"
proof (cases "nat i \<le> length xs")
  case True
  then show ?thesis
    using i j by (cases "nat j \<le> length xs") (simp_all add: js_slice_def slice_index_def Let_def min_def)
next
  case False
  then show ?thesis
    using i j by (simp add: js_slice_def slice_index_def Let_def min_def)
qed

lemma length_js_slice_le: "length (js_slice xs i j) \<le> length xs"
  by (simp add: js_slice_def Let_def)

subsection \<open>Optional strings\<close>

text \<open>\<open>Util.string.isNotNullOrEmpty\<close> on a value that is a string, \<open>null\<close> or \<open>undefined\<close>.\<close>

definition nonempty_str :: "string option \<Rightarrow> bool" where
  "nonempty_str s = (case s of None \<Rightarrow> False | Some t \<Rightarrow> t \<noteq> [])"

lemma nonempty_str_simps [simp]:
  "\<not> nonempty_str None"
  "nonempty_str (Some t) \<longleftrightarrow> t \<noteq> []"
  by (simp_all add: nonempty_str_def)

subsection \<open>Decimal text of an integer\<close>

definition digit_char :: "nat \<Rightarrow> char" where
  "digit_char d = char_of (48 + d)"

fun show_nat :: "nat \<Rightarrow> string" where
  "show_nat n = (if n < 10 then [digit_char n] else show_nat (n div 10) @ [digit_char (n mod 10)])"

declare show_nat.simps [simp del]

definition show_int :: "int \<Rightarrow> string" where
  "show_int i = (if i < 0 then CHR ''-'' # show_nat (nat (- i)) else show_nat (nat i))"

definition char_digit :: "char \<Rightarrow> nat" where
  "char_digit c = of_char c - 48"

definition is_digit :: "char \<Rightarrow> bool" where
  "is_digit c \<longleftrightarrow> 48 \<le> (of_char c :: nat) \<and> (of_char c :: nat) \<le> 57"

definition read_nat :: "string \<Rightarrow> nat" where
  "read_nat s = foldl (\<lambda>n c. 10 * n + char_digit c) 0 s"

lemma of_char_digit_char: "d < 10 \<Longrightarrow> (of_char (digit_char d) :: nat) = 48 + d"
  by (simp add: digit_char_def)

lemma char_digit_digit_char [simp]: "d < 10 \<Longrightarrow> char_digit (digit_char d) = d"
  by (simp add: char_digit_def of_char_digit_char)

lemma is_digit_digit_char [simp]: "d < 10 \<Longrightarrow> is_digit (digit_char d)"
  by (simp add: is_digit_def of_char_digit_char)

lemma show_nat_nonempty [simp]: "show_nat n \<noteq> []"
  by (subst show_nat.simps) simp

lemma show_nat_digits: "\<forall>c\<in>set (show_nat n). is_digit c"
proof (induction n rule: show_nat.induct)
  case (1 n)
  then show ?case by (subst show_nat.simps) auto
qed

lemma read_show_nat [simp]: "read_nat (show_nat n) = n"
proof (induction n rule: show_nat.induct)
  case (1 n)
  show ?case
  proof (cases "n < 10")
    case True
    then show ?thesis by (subst show_nat.simps) (simp add: read_nat_def)
  next
    case False
    then show ?thesis using 1 by (subst show_nat.simps) (simp add: read_nat_def)
  qed
qed

lemma show_nat_inject [simp]: "show_nat m = show_nat n \<longleftrightarrow> m = n"
  by (metis read_show_nat)

lemma digits_stop:
  assumes "\<forall>c\<in>set a. is_digit c" "\<forall>c\<in>set b. is_digit c" "\<not> is_digit x" "\<not> is_digit y"
    "a @ x # s = b @ y # t"
  shows "a = b \<and> x # s = y # t"
  using assms
proof (induction a arbitrary: b)
  case Nil
  then show ?case by (cases b) auto
next
  case (Cons c a)
  then show ?case by (cases b) auto
qed

lemma minus_not_digit [simp]: "\<not> is_digit CHR ''-''"
  by (simp add: is_digit_def)

lemma show_int_inject [simp]: "show_int i = show_int j \<longleftrightarrow> i = j"
proof
  have hd: "hd (show_nat n) \<noteq> CHR ''-''" for n
    using show_nat_digits[of n] hd_in_set[OF show_nat_nonempty[of n]] minus_not_digit by metis
  assume e: "show_int i = show_int j"
  show "i = j"
  proof (cases "i < 0"; cases "j < 0")
    assume "i < 0" "\<not> j < 0"
    then have "show_nat (nat j) = CHR ''-'' # show_nat (nat (- i))" using e by (simp add: show_int_def)
    then show ?thesis using hd[of "nat j"] by simp
  next
    assume "\<not> i < 0" "j < 0"
    then have "show_nat (nat i) = CHR ''-'' # show_nat (nat (- j))" using e by (simp add: show_int_def)
    then show ?thesis using hd[of "nat i"] by simp
  qed (use e in \<open>auto simp: show_int_def nat_eq_iff split: if_splits\<close>)
qed simp

subsection \<open>Insertion-ordered sets and stable sorting\<close>

text \<open>\<open>Set.add\<close> and \<open>Set.delete\<close> of an insertion-ordered set kept as a list.\<close>

definition set_add :: "'a \<Rightarrow> 'a list \<Rightarrow> 'a list" where
  "set_add x xs = (if x \<in> set xs then xs else xs @ [x])"

definition set_delete :: "'a \<Rightarrow> 'a list \<Rightarrow> 'a list" where
  "set_delete x xs = filter (\<lambda>y. y \<noteq> x) xs"

lemma set_set_add [simp]: "set (set_add x xs) = insert x (set xs)"
  by (auto simp: set_add_def)

lemma set_set_delete [simp]: "set (set_delete x xs) = set xs - {x}"
  by (auto simp: set_delete_def)

lemma distinct_set_add [simp]: "distinct (set_add x xs) \<longleftrightarrow> distinct xs"
  by (simp add: set_add_def)

lemma distinct_set_delete [simp]: "distinct xs \<Longrightarrow> distinct (set_delete x xs)"
  by (simp add: set_delete_def)

lemma sorted_map_set_delete: "sorted (map f xs) \<Longrightarrow> sorted (map f (set_delete x xs))"
  unfolding set_delete_def by (rule sorted_filter)

lemma set_delete_snoc: "distinct (xs @ [x]) \<Longrightarrow> set_delete x (xs @ [x]) = xs"
  by (auto simp: set_delete_def filter_id_conv)

lemma length_set_delete_less: "x \<in> set xs \<Longrightarrow> length (set_delete x xs) < length xs"
  unfolding set_delete_def by (rule length_filter_less) auto

lemma sort_key_cong: "(\<And>x. x \<in> set xs \<Longrightarrow> f x = g x) \<Longrightarrow> sort_key f xs = sort_key g xs"
proof (induction xs)
  case (Cons x xs)
  have "insort_key f x ys = insort_key g x ys" if "\<forall>y\<in>set ys. f y = g y" "f x = g x" for ys
    using that by (induction ys) auto
  with Cons show ?case by simp
qed simp

subsection \<open>Lengths of decimal texts\<close>

lemma show_nat_length: "n < 10 ^ k \<Longrightarrow> 0 < k \<Longrightarrow> length (show_nat n) \<le> k"
proof (induction n arbitrary: k rule: show_nat.induct)
  case (1 n)
  show ?case
  proof (cases "n < 10")
    case True
    then show ?thesis using 1(3) by (subst show_nat.simps) simp
  next
    case False
    then obtain j where k: "k = Suc j" "0 < j" using 1(2,3) by (cases k; cases "k - 1") auto
    have "n div 10 < 10 ^ j" using 1(2) k by (simp add: div_less_iff_less_mult mult.commute)
    then have "length (show_nat (n div 10)) \<le> j" using 1(1) False k by blast
    then show ?thesis using False k by (subst show_nat.simps) simp
  qed
qed

lemma read_nat_append: "read_nat (a @ b) = read_nat a * 10 ^ length b + read_nat b"
proof (induction b rule: rev_induct)
  case (snoc x b)
  then show ?case by (simp add: read_nat_def algebra_simps flip: append_assoc)
qed (simp add: read_nat_def)

lemma read_nat_zeros [simp]: "read_nat (replicate k CHR ''0'') = 0"
  by (induction k) (simp_all add: read_nat_append[of "[CHR ''0'']", simplified] read_nat_def char_digit_def)

end
