(* ===== verification/QueryContextCache.thy ===== *)
theory QueryContextCache
  imports Prelude
begin

text \<open>
  Model of \<open>lib/queryContextCache.js\<close>: the per-session cache of query-context elements the
  driver echoes back to the server.

  The JavaScript keeps three collections that share the same element objects: \<open>idMap\<close>,
  \<open>priorityMap\<close> and the insertion-ordered \<open>treeSet\<close>; \<open>merge\<close> updates an element in place, so
  the sharing matters. The model has an explicit heap of elements; the three collections
  hold references. Logging calls are left out. Ids, timestamps and priorities are numbers
  (\<open>int\<close>), as the server sends them.
\<close>

section \<open>Data\<close>

record qce =
  qid :: int
  qtimestamp :: int
  qpriority :: int
  qcontext :: "string option"

record qcc =
  capacity :: int
  idMap :: "int \<rightharpoonup> nat"
  treeSet :: "nat list"
  priorityMap :: "int \<rightharpoonup> nat"
  heap :: "nat \<Rightarrow> qce"
  next_ref :: nat

text \<open>The \<open>context\<close> field of a received node, by the branches of its type test.\<close>

datatype ctx_field = CtxString string | CtxNullish | CtxOther

text \<open>A received entry; destructuring \<open>null\<close> or \<open>undefined\<close> throws.\<close>

datatype node = NullishNode | Node int int int ctx_field

text \<open>The response data, by the branches of \<open>deserializeQueryContext\<close>.\<close>

datatype qc_data = FalsyData | EmptyObject | NullEntries | EntriesNotArray | Entries "node list"

definition empty_qce :: qce where
  "empty_qce = \<lparr>qid = 0, qtimestamp = 0, qpriority = 0, qcontext = None\<rparr>"

definition newQueryContextCache :: "int \<Rightarrow> qcc" where
  "newQueryContextCache cap =
     \<lparr>capacity = cap, idMap = Map.empty, treeSet = [], priorityMap = Map.empty,
      heap = (\<lambda>_. empty_qce), next_ref = 0\<rparr>"

section \<open>Operations\<close>

definition sortTreeSet :: "qcc \<Rightarrow> qcc" where
  "sortTreeSet s = s\<lparr>treeSet := sort_key (\<lambda>r. qpriority (heap s r)) (treeSet s)\<rparr>"

definition addQCE :: "nat \<Rightarrow> qcc \<Rightarrow> qcc" where
  "addQCE r s =
     sortTreeSet (s\<lparr>idMap := (idMap s)(qid (heap s r) \<mapsto> r),
                    priorityMap := (priorityMap s)(qpriority (heap s r) \<mapsto> r),
                    treeSet := set_add r (treeSet s)\<rparr>)"

definition removeQCE :: "nat \<Rightarrow> qcc \<Rightarrow> qcc" where
  "removeQCE r s =
     s\<lparr>idMap := (idMap s)(qid (heap s r) := None),
       priorityMap := (priorityMap s)(qpriority (heap s r) := None),
       treeSet := set_delete r (treeSet s)\<rparr>"

definition replaceQCE :: "nat \<Rightarrow> nat \<Rightarrow> qcc \<Rightarrow> qcc" where
  "replaceQCE old new s = addQCE new (removeQCE old s)"

text \<open>The in-place branch of \<open>merge\<close> writes timestamp and context of the stored object.\<close>

definition overwriteQCE :: "nat \<Rightarrow> nat \<Rightarrow> qcc \<Rightarrow> qcc" where
  "overwriteQCE old new s =
     s\<lparr>heap := (heap s)(old := (heap s old)\<lparr>qtimestamp := qtimestamp (heap s new),
                                         qcontext := qcontext (heap s new)\<rparr>)\<rparr>"

definition merge :: "nat \<Rightarrow> qcc \<Rightarrow> qcc" where
  "merge new s =
     (let n = heap s new in
      case idMap s (qid n) of
        Some old \<Rightarrow>
          (let q = heap s old in
           if qtimestamp q < qtimestamp n then
             (if qpriority q = qpriority n then overwriteQCE old new s
              else replaceQCE old new s)
           else if qtimestamp n = qtimestamp q \<and> qpriority q \<noteq> qpriority n then
             replaceQCE old new s
           else s)
      | None \<Rightarrow>
          (case priorityMap s (qpriority n) of
             Some old \<Rightarrow> replaceQCE old new s
           | None \<Rightarrow> addQCE new s))"

text \<open>
  The eviction loop. \<open>pop\<close> of an empty array gives \<open>undefined\<close>, whose \<open>id\<close> cannot be
  read: with a negative capacity the loop ends in a TypeError.
\<close>

function checkCacheCapacity :: "qcc \<Rightarrow> qcc js" where
  "checkCacheCapacity s =
     (if capacity s < int (length (treeSet s)) then
        (if treeSet s = [] then Inl TypeError
         else checkCacheCapacity (removeQCE (last (treeSet s)) s))
      else Inr s)"
  by pat_completeness auto
termination
  by (relation "measure (\<lambda>s. length (treeSet s))")
     (auto simp: removeQCE_def intro!: length_set_delete_less)

declare checkCacheCapacity.simps [simp del]

definition clearCache :: "qcc \<Rightarrow> qcc" where
  "clearCache s = s\<lparr>idMap := Map.empty, priorityMap := Map.empty, treeSet := []\<rparr>"

text \<open>Object creation: the next free reference.\<close>

definition alloc :: "qce \<Rightarrow> qcc \<Rightarrow> nat \<times> qcc" where
  "alloc q s = (next_ref s, s\<lparr>heap := (heap s)(next_ref s := q), next_ref := Suc (next_ref s)\<rparr>)"

text \<open>\<open>None\<close> is the \<open>null\<close> the JavaScript returns for a context of the wrong type.\<close>

fun deserializeQueryContextElement :: "node \<Rightarrow> qcc \<Rightarrow> (nat option \<times> qcc) js" where
  "deserializeQueryContextElement NullishNode s = Inl TypeError"
| "deserializeQueryContextElement (Node i t p c) s =
     (case c of
        CtxString str \<Rightarrow>
          (case alloc \<lparr>qid = i, qtimestamp = t, qpriority = p, qcontext = Some str\<rparr> s of
             (r, s') \<Rightarrow> Inr (Some r, s'))
      | CtxNullish \<Rightarrow>
          (case alloc \<lparr>qid = i, qtimestamp = t, qpriority = p, qcontext = None\<rparr> s of
             (r, s') \<Rightarrow> Inr (Some r, s'))
      | CtxOther \<Rightarrow>
          (case alloc \<lparr>qid = i, qtimestamp = t, qpriority = p, qcontext = None\<rparr> s of
             (r, s') \<Rightarrow> Inr (None, s')))"

text \<open>How the \<open>for\<close> loop over the entries ends: normally, by the early return, or by a throw.\<close>

datatype loop_end = LoopDone qcc | LoopReturned qcc | LoopThrew qcc

fun mergeEntries :: "node list \<Rightarrow> qcc \<Rightarrow> loop_end" where
  "mergeEntries [] s = LoopDone s"
| "mergeEntries (e # es) s =
     (case deserializeQueryContextElement e s of
        Inl _ \<Rightarrow> LoopThrew s
      | Inr (None, s') \<Rightarrow> LoopReturned (clearCache s')
      | Inr (Some r, s') \<Rightarrow> mergeEntries es (merge r s'))"

fun deserializeQueryContext :: "qc_data \<Rightarrow> qcc \<Rightarrow> qcc js" where
  "deserializeQueryContext FalsyData s = Inr (clearCache s)"
| "deserializeQueryContext EmptyObject s = Inr (clearCache s)"
| "deserializeQueryContext NullEntries s = Inr (clearCache s)"
| "deserializeQueryContext EntriesNotArray s = checkCacheCapacity s"
| "deserializeQueryContext (Entries es) s =
     (case mergeEntries es s of
        LoopReturned s' \<Rightarrow> Inr s'
      | LoopDone s' \<Rightarrow> checkCacheCapacity s'
      | LoopThrew s' \<Rightarrow> checkCacheCapacity (clearCache s'))"

definition getSize :: "qcc \<Rightarrow> nat" where
  "getSize s = length (treeSet s)"

text \<open>The cached elements, in the order of the tree set.\<close>

definition getElements :: "qcc \<Rightarrow> qce list" where
  "getElements s = map (heap s) (treeSet s)"

record dto_entry =
  dto_id :: int
  dto_timestamp :: int
  dto_priority :: int
  dto_context :: "string option"

definition getQueryContextDTO :: "qcc \<Rightarrow> dto_entry list" where
  "getQueryContextDTO s =
     map (\<lambda>q. \<lparr>dto_id = qid q, dto_timestamp = qtimestamp q, dto_priority = qpriority q,
              dto_context = qcontext q\<rparr>) (getElements s)"

text \<open>\<open>context || null\<close>: an empty string becomes \<open>null\<close>.\<close>

definition serialize_context :: "string option \<Rightarrow> ctx_field" where
  "serialize_context c = (case c of None \<Rightarrow> CtxNullish
                          | Some str \<Rightarrow> if str = [] then CtxNullish else CtxString str)"

definition getSerializeQueryContext :: "qcc \<Rightarrow> qc_data" where
  "getSerializeQueryContext s =
     Entries (map (\<lambda>q. Node (qid q) (qtimestamp q) (qpriority q) (serialize_context (qcontext q)))
                  (getElements s))"

section \<open>The invariant\<close>

definition qcc_inv :: "qcc \<Rightarrow> bool" where
  "qcc_inv s \<longleftrightarrow>
     distinct (treeSet s) \<and>
     (\<forall>r\<in>set (treeSet s). r < next_ref s) \<and>
     sorted (map (\<lambda>r. qpriority (heap s r)) (treeSet s)) \<and>
     (\<forall>i r. idMap s i = Some r \<longleftrightarrow> r \<in> set (treeSet s) \<and> qid (heap s r) = i) \<and>
     (\<forall>p r. priorityMap s p = Some r \<longrightarrow> r \<in> set (treeSet s) \<and> qpriority (heap s r) = p)"

lemma qcc_invI:
  assumes "distinct (treeSet s)" "\<And>r. r \<in> set (treeSet s) \<Longrightarrow> r < next_ref s"
    "sorted (map (\<lambda>r. qpriority (heap s r)) (treeSet s))"
    "\<And>i r. idMap s i = Some r \<longleftrightarrow> r \<in> set (treeSet s) \<and> qid (heap s r) = i"
    "\<And>p r. priorityMap s p = Some r \<Longrightarrow> r \<in> set (treeSet s) \<and> qpriority (heap s r) = p"
  shows "qcc_inv s"
  using assms unfolding qcc_inv_def by blast

lemma qcc_invD:
  assumes "qcc_inv s"
  shows "distinct (treeSet s)" "\<And>r. r \<in> set (treeSet s) \<Longrightarrow> r < next_ref s"
    "sorted (map (\<lambda>r. qpriority (heap s r)) (treeSet s))"
    "\<And>i r. idMap s i = Some r \<longleftrightarrow> r \<in> set (treeSet s) \<and> qid (heap s r) = i"
    "\<And>p r. priorityMap s p = Some r \<Longrightarrow> r \<in> set (treeSet s) \<and> qpriority (heap s r) = p"
  using assms unfolding qcc_inv_def by blast+

lemma qcc_inv_ids_unique:
  "qcc_inv s \<Longrightarrow> r \<in> set (treeSet s) \<Longrightarrow> r' \<in> set (treeSet s) \<Longrightarrow>
   qid (heap s r) = qid (heap s r') \<Longrightarrow> r = r'"
  using qcc_invD(4)[of s] by (metis option.inject)

lemma qcc_inv_new [inv_intros, simp]: "qcc_inv (newQueryContextCache cap)"
  by (simp add: newQueryContextCache_def qcc_inv_def)

lemma qcc_inv_clear [inv_intros, simp]: "qcc_inv (clearCache s)"
  by (simp add: clearCache_def qcc_inv_def)

lemma qcc_inv_remove [inv_intros]:
  assumes "qcc_inv s" "r \<in> set (treeSet s)"
  shows "qcc_inv (removeQCE r s)"
proof (rule qcc_invI)
  note d = qcc_invD[OF assms(1)]
  show "distinct (treeSet (removeQCE r s))" using d(1) by (simp add: removeQCE_def)
  show "x < next_ref (removeQCE r s)" if "x \<in> set (treeSet (removeQCE r s))" for x
    using d(2) that by (simp add: removeQCE_def)
  show "sorted (map (\<lambda>r'. qpriority (heap (removeQCE r s) r')) (treeSet (removeQCE r s)))"
    using d(3) by (simp add: removeQCE_def sorted_map_set_delete)
  show "idMap (removeQCE r s) i = Some x \<longleftrightarrow>
      x \<in> set (treeSet (removeQCE r s)) \<and> qid (heap (removeQCE r s) x) = i" for i x
    using d(4)[of i x] qcc_inv_ids_unique[OF assms(1,2), of x]
    by (auto simp: removeQCE_def)
  show "x \<in> set (treeSet (removeQCE r s)) \<and> qpriority (heap (removeQCE r s) x) = p"
    if "priorityMap (removeQCE r s) p = Some x" for p x
    using d(5)[of p x] that by (auto simp: removeQCE_def split: if_splits)
qed

lemma qcc_inv_add [inv_intros]:
  assumes "qcc_inv s" "r \<notin> set (treeSet s)" "r < next_ref s" "idMap s (qid (heap s r)) = None"
  shows "qcc_inv (addQCE r s)"
proof (rule qcc_invI)
  note d = qcc_invD[OF assms(1)]
  let ?s = "addQCE r s"
  have t: "treeSet ?s = sort_key (\<lambda>r. qpriority (heap s r)) (treeSet s @ [r])"
    using assms(2) by (simp add: addQCE_def sortTreeSet_def set_add_def)
  show "distinct (treeSet ?s)" using d(1) assms(2) by (simp add: t)
  show "x < next_ref ?s" if "x \<in> set (treeSet ?s)" for x
    using d(2) that assms(3) by (auto simp: t addQCE_def sortTreeSet_def)
  show "sorted (map (\<lambda>r. qpriority (heap ?s r)) (treeSet ?s))"
    by (simp add: addQCE_def sortTreeSet_def)
  show "idMap ?s i = Some x \<longleftrightarrow> x \<in> set (treeSet ?s) \<and> qid (heap ?s x) = i" for i x
    using d(4)[of i x] d(4)[of "qid (heap s r)" x] assms(2,4)
    by (auto simp: t) (auto simp: addQCE_def sortTreeSet_def split: if_splits)
  show "x \<in> set (treeSet ?s) \<and> qpriority (heap ?s x) = p" if "priorityMap ?s p = Some x" for p x
    using d(5)[of p x] that by (auto simp: addQCE_def sortTreeSet_def split: if_splits)
qed

lemma qcc_inv_alloc [inv_intros]:
  assumes "qcc_inv s" "alloc q s = (r, s')"
  shows "qcc_inv s'"
proof -
  have e: "heap s' x = heap s x" if "x \<in> set (treeSet s)" for x
    using assms qcc_invD(2)[OF assms(1) that] by (auto simp: alloc_def)
  have f: "treeSet s' = treeSet s" "idMap s' = idMap s" "priorityMap s' = priorityMap s"
    "next_ref s' = Suc (next_ref s)" using assms(2) by (auto simp: alloc_def)
  have m: "map (\<lambda>r. qpriority (heap s' r)) (treeSet s) = map (\<lambda>r. qpriority (heap s r)) (treeSet s)"
    using e by simp
  note d = qcc_invD[OF assms(1)]
  show ?thesis
    by (rule qcc_invI) (use d e in \<open>auto simp: f m less_Suc_eq\<close>)
qed

text \<open>What \<open>alloc\<close> leaves: a fresh reference holding the element, everything else as before.\<close>

lemma alloc_props:
  assumes "alloc q s = (r, s')" "qcc_inv s"
  shows "heap s' r = q" "r \<notin> set (treeSet s')" "r < next_ref s'" "treeSet s' = treeSet s"
    "capacity s' = capacity s" "getElements s' = getElements s"
    "idMap s' = idMap s" "priorityMap s' = priorityMap s"
    "\<And>x. x \<in> set (treeSet s) \<Longrightarrow> heap s' x = heap s x"
proof -
  have n: "next_ref s \<notin> set (treeSet s)" using qcc_invD(2)[OF assms(2)] by blast
  show "heap s' r = q" "r \<notin> set (treeSet s')" "r < next_ref s'" "treeSet s' = treeSet s"
    "capacity s' = capacity s" "getElements s' = getElements s"
    "idMap s' = idMap s" "priorityMap s' = priorityMap s"
    using assms(1) n by (auto simp: alloc_def getElements_def)
  show "heap s' x = heap s x" if "x \<in> set (treeSet s)" for x
    using assms(1) n that by (auto simp: alloc_def)
qed

lemma qcc_inv_overwrite [inv_intros]:
  assumes "qcc_inv s"
  shows "qcc_inv (overwriteQCE old new s)"
proof -
  let ?s = "overwriteQCE old new s"
  have f: "treeSet ?s = treeSet s" "next_ref ?s = next_ref s" "idMap ?s = idMap s"
    "priorityMap ?s = priorityMap s" by (simp_all add: overwriteQCE_def)
  have k: "qpriority (heap ?s r) = qpriority (heap s r)" "qid (heap ?s r) = qid (heap s r)" for r
    by (simp_all add: overwriteQCE_def)
  show ?thesis using assms by (simp add: qcc_inv_def f k)
qed

lemma removeQCE_frame [simp]:
  "heap (removeQCE r s) = heap s" "next_ref (removeQCE r s) = next_ref s"
  "capacity (removeQCE r s) = capacity s" "treeSet (removeQCE r s) = set_delete r (treeSet s)"
  "idMap (removeQCE r s) = (idMap s)(qid (heap s r) := None)"
  "priorityMap (removeQCE r s) = (priorityMap s)(qpriority (heap s r) := None)"
  by (simp_all add: removeQCE_def)

lemma addQCE_frame [simp]:
  "heap (addQCE r s) = heap s" "next_ref (addQCE r s) = next_ref s"
  "capacity (addQCE r s) = capacity s"
  "idMap (addQCE r s) = (idMap s)(qid (heap s r) \<mapsto> r)"
  "priorityMap (addQCE r s) = (priorityMap s)(qpriority (heap s r) \<mapsto> r)"
  "set (treeSet (addQCE r s)) = insert r (set (treeSet s))"
  by (simp_all add: addQCE_def sortTreeSet_def)

lemma qcc_inv_replace [inv_intros]:
  assumes "qcc_inv s" "old \<in> set (treeSet s)" "new \<notin> set (treeSet s)" "new < next_ref s"
    "qid (heap s old) = qid (heap s new) \<or> idMap s (qid (heap s new)) = None"
  shows "qcc_inv (replaceQCE old new s)"
  unfolding replaceQCE_def
  by (rule qcc_inv_add[OF qcc_inv_remove[OF assms(1,2)]]) (use assms in auto)

lemma qcc_inv_merge [inv_intros]:
  assumes "qcc_inv s" "new \<notin> set (treeSet s)" "new < next_ref s"
  shows "qcc_inv (merge new s)"
proof (cases "idMap s (qid (heap s new))")
  case None
  then show ?thesis
    using assms qcc_invD(5)[OF assms(1), of "qpriority (heap s new)"]
    by (auto simp: merge_def Let_def split: option.split intro!: qcc_inv_add qcc_inv_replace)
next
  case (Some old)
  then have "old \<in> set (treeSet s) \<and> qid (heap s old) = qid (heap s new)"
    using qcc_invD(4)[OF assms(1)] by simp
  then show ?thesis
    using assms Some
    by (auto simp: merge_def Let_def intro!: qcc_inv_overwrite qcc_inv_replace)
qed

lemma capacity_merge [simp]: "capacity (merge r s) = capacity s"
  by (simp add: merge_def Let_def replaceQCE_def overwriteQCE_def split: option.split)

lemma capacity_clear [simp]: "capacity (clearCache s) = capacity s" "treeSet (clearCache s) = []"
  by (simp_all add: clearCache_def)

subsection \<open>The loop over the received entries\<close>

lemma deserialize_element_inv:
  assumes "deserializeQueryContextElement e s = Inr (ro, s')" "qcc_inv s"
  shows "qcc_inv s' \<and> capacity s' = capacity s \<and>
         (\<forall>r. ro = Some r \<longrightarrow> r \<notin> set (treeSet s') \<and> r < next_ref s')"
  using assms
  by (cases e) (auto split: ctx_field.splits prod.splits
      intro: qcc_inv_alloc dest: alloc_props(2,3,5))

fun end_state :: "loop_end \<Rightarrow> qcc" where
  "end_state (LoopDone s) = s"
| "end_state (LoopReturned s) = s"
| "end_state (LoopThrew s) = s"

lemma mergeEntries_inv:
  "qcc_inv s \<Longrightarrow> qcc_inv (end_state (mergeEntries es s)) \<and>
   capacity (end_state (mergeEntries es s)) = capacity s"
proof (induction es arbitrary: s)
  case (Cons e es)
  show ?case
  proof (cases "deserializeQueryContextElement e s")
    case (Inl x)
    with Cons.prems show ?thesis by simp
  next
    case (Inr p)
    obtain ro s' where p: "p = (ro, s')" by fastforce
    note d = deserialize_element_inv[OF Inr[unfolded p] Cons.prems]
    show ?thesis
    proof (cases ro)
      case None
      with Inr p d show ?thesis by simp
    next
      case (Some r)
      with Cons.IH[of "merge r s'"] d Inr p show ?thesis by (simp add: qcc_inv_merge)
    qed
  qed
qed simp

lemma mergeEntries_Returned: "mergeEntries es s = LoopReturned s' \<Longrightarrow> treeSet s' = []"
  by (induction es arbitrary: s) (auto split: sum.splits option.splits)

subsection \<open>Eviction\<close>

text \<open>The eviction loop keeps exactly the elements with the lowest priority numbers.\<close>

lemma checkCacheCapacity_take:
  "qcc_inv s \<Longrightarrow> 0 \<le> capacity s \<Longrightarrow>
   \<exists>s'. checkCacheCapacity s = Inr s' \<and> treeSet s' = take (nat (capacity s)) (treeSet s) \<and>
        heap s' = heap s \<and> capacity s' = capacity s \<and> qcc_inv s'"
proof (induction s rule: checkCacheCapacity.induct)
  case (1 s)
  show ?case
  proof (cases "capacity s < int (length (treeSet s))")
    case False
    with "1.prems" show ?thesis by (subst checkCacheCapacity.simps) simp
  next
    case True
    with "1.prems" have ne: "treeSet s \<noteq> []" by auto
    let ?s = "removeQCE (last (treeSet s)) s"
    have "treeSet s = butlast (treeSet s) @ [last (treeSet s)]" using ne by simp
    then have "set_delete (last (treeSet s)) (treeSet s) = butlast (treeSet s)"
      using set_delete_snoc qcc_invD(1)[OF "1.prems"(1)] by metis
    moreover have "take (nat (capacity s)) (butlast (treeSet s)) = take (nat (capacity s)) (treeSet s)"
      using True "1.prems"(2) by (simp add: take_butlast)
    moreover obtain s' where "checkCacheCapacity ?s = Inr s'"
        "treeSet s' = take (nat (capacity ?s)) (treeSet ?s)"
        "heap s' = heap ?s" "capacity s' = capacity ?s" "qcc_inv s'"
      using "1.IH"[OF True ne] qcc_inv_remove[OF "1.prems"(1), of "last (treeSet s)"] "1.prems"(2) ne
      by auto
    ultimately show ?thesis using True ne by (subst checkCacheCapacity.simps) simp
  qed
qed

lemma checkCacheCapacity_noop:
  "int (length (treeSet s)) \<le> capacity s \<Longrightarrow> checkCacheCapacity s = Inr s"
  by (subst checkCacheCapacity.simps) simp

text \<open>With a negative capacity the loop empties the set and then throws.\<close>

lemma checkCacheCapacity_negative: "capacity s < 0 \<Longrightarrow> checkCacheCapacity s = Inl TypeError"
proof (induction s rule: checkCacheCapacity.induct)
  case (1 s)
  then show ?case by (subst checkCacheCapacity.simps) auto
qed

section \<open>Refinement of a value-level cache\<close>

text \<open>
  The abstract cache has no references: a map from id to element and a map from priority to
  the id that owns the priority. \<open>spec_merge\<close> states the merge policy: for a known id the
  most recent element wins, and an equally recent one only if it changes the priority; an
  unknown id takes over the slot of the owner of its priority.
\<close>

type_synonym acache = "(int \<rightharpoonup> qce) \<times> (int \<rightharpoonup> int)"

definition spec_remove :: "qce \<Rightarrow> acache \<Rightarrow> acache" where
  "spec_remove q c = ((fst c)(qid q := None), (snd c)(qpriority q := None))"

definition spec_add :: "qce \<Rightarrow> acache \<Rightarrow> acache" where
  "spec_add q c = ((fst c)(qid q \<mapsto> q), (snd c)(qpriority q \<mapsto> qid q))"

definition spec_merge :: "qce \<Rightarrow> acache \<Rightarrow> acache" where
  "spec_merge n c =
     (case fst c (qid n) of
        Some q \<Rightarrow>
          (if qtimestamp q < qtimestamp n \<and> qpriority q = qpriority n then
             ((fst c)(qid n \<mapsto> n), snd c)
           else if qtimestamp q < qtimestamp n \<or>
                   (qtimestamp q = qtimestamp n \<and> qpriority q \<noteq> qpriority n) then
             spec_add n (spec_remove q c)
           else c)
      | None \<Rightarrow>
          (case Option.bind (snd c (qpriority n)) (fst c) of
             Some q \<Rightarrow> spec_add n (spec_remove q c)
           | None \<Rightarrow> spec_add n c))"

definition abs_qcc :: "qcc \<Rightarrow> acache" where
  "abs_qcc s = (\<lambda>i. map_option (heap s) (idMap s i),
                \<lambda>p. map_option (\<lambda>r. qid (heap s r)) (priorityMap s p))"

lemma abs_remove [simp]: "abs_qcc (removeQCE r s) = spec_remove (heap s r) (abs_qcc s)"
  by (auto simp: abs_qcc_def spec_remove_def fun_eq_iff)

lemma abs_add [simp]: "abs_qcc (addQCE r s) = spec_add (heap s r) (abs_qcc s)"
  by (auto simp: abs_qcc_def spec_add_def fun_eq_iff)

lemma abs_overwrite:
  assumes "qcc_inv s" "idMap s (qid (heap s new)) = Some old"
    "qpriority (heap s old) = qpriority (heap s new)"
  shows "abs_qcc (overwriteQCE old new s) =
    ((fst (abs_qcc s))(qid (heap s new) \<mapsto> heap s new), snd (abs_qcc s))"
proof -
  have o: "qid (heap s old) = qid (heap s new)" using qcc_invD(4)[OF assms(1)] assms(2) by simp
  have e: "(heap s old)\<lparr>qtimestamp := qtimestamp (heap s new), qcontext := qcontext (heap s new)\<rparr>
      = heap s new"
    using o assms(3) by (cases "heap s old"; cases "heap s new") simp
  have u: "idMap s i = Some old \<Longrightarrow> i = qid (heap s new)" for i
    using qcc_invD(4)[OF assms(1), of i old] o by simp
  have "fst (abs_qcc (overwriteQCE old new s)) i
      = ((fst (abs_qcc s))(qid (heap s new) \<mapsto> heap s new)) i" for i
    using assms(2) u[of i] by (cases "idMap s i") (auto simp: abs_qcc_def overwriteQCE_def e)
  moreover have "snd (abs_qcc (overwriteQCE old new s)) p = snd (abs_qcc s) p" for p
    by (cases "priorityMap s p") (auto simp: abs_qcc_def overwriteQCE_def)
  ultimately show ?thesis by (simp add: prod_eq_iff fun_eq_iff)
qed

lemma abs_merge:
  assumes "qcc_inv s"
  shows "abs_qcc (merge new s) = spec_merge (heap s new) (abs_qcc s)"
proof (cases "idMap s (qid (heap s new))")
  case (Some old)
  then have "fst (abs_qcc s) (qid (heap s new)) = Some (heap s old)"
    by (simp add: abs_qcc_def)
  then show ?thesis
    using Some abs_overwrite[OF assms Some]
    by (auto simp: merge_def spec_merge_def Let_def replaceQCE_def)
next
  case None
  then have f: "fst (abs_qcc s) (qid (heap s new)) = None" by (simp add: abs_qcc_def)
  show ?thesis
  proof (cases "priorityMap s (qpriority (heap s new))")
    case None
    then have "Option.bind (snd (abs_qcc s) (qpriority (heap s new))) (fst (abs_qcc s)) = None"
      by (simp add: abs_qcc_def)
    with f None \<open>idMap s _ = None\<close> show ?thesis
      by (simp add: merge_def spec_merge_def Let_def)
  next
    case (Some old)
    then have "idMap s (qid (heap s old)) = Some old"
      using qcc_invD(4,5)[OF assms] by blast
    then have "Option.bind (snd (abs_qcc s) (qpriority (heap s new))) (fst (abs_qcc s))
        = Some (heap s old)"
      using Some by (simp add: abs_qcc_def)
    with f None Some show ?thesis
      by (simp add: merge_def spec_merge_def Let_def replaceQCE_def)
  qed
qed

section \<open>The contract the session relies on\<close>

text \<open>
  \<open>lib/services/sf.js\<close> feeds every response to \<open>deserializeQueryContext\<close> and calls
  \<open>clearCache\<close> when the session is destroyed. The locale is that interface; a run of
  events is the life of one session.
\<close>

datatype 'd qc_event = Response 'd | Clear

fun run_events :: "('d \<Rightarrow> 's \<Rightarrow> 's js) \<Rightarrow> ('s \<Rightarrow> 's) \<Rightarrow> 'd qc_event list \<Rightarrow> 's \<Rightarrow> 's js" where
  "run_events des clr [] s = Inr s"
| "run_events des clr (Response d # es) s = js_bind (des d s) (run_events des clr es)"
| "run_events des clr (Clear # es) s = run_events des clr es (clr s)"

locale query_context_store =
  fixes des :: "'d \<Rightarrow> 's \<Rightarrow> 's js" and clr :: "'s \<Rightarrow> 's"
    and size_of :: "'s \<Rightarrow> nat" and cap :: "'s \<Rightarrow> int" and good :: "'s \<Rightarrow> bool"
  assumes des_total: "good s \<Longrightarrow> 0 \<le> cap s \<Longrightarrow>
      \<exists>s'. des d s = Inr s' \<and> good s' \<and> cap s' = cap s \<and> int (size_of s') \<le> cap s"
    and clr_good: "good s \<Longrightarrow> good (clr s)"
    and clr_cap: "cap (clr s) = cap s"
    and clr_size: "size_of (clr s) = 0"
begin

lemma run_total:
  "good s \<Longrightarrow> 0 \<le> cap s \<Longrightarrow> int (size_of s) \<le> cap s \<Longrightarrow>
   \<exists>s'. run_events des clr es s = Inr s' \<and> good s' \<and> cap s' = cap s \<and> int (size_of s') \<le> cap s"
proof (induction es arbitrary: s)
  case (Cons e es)
  show ?case
  proof (cases e)
    case (Response d)
    obtain s1 where "des d s = Inr s1" "good s1" "cap s1 = cap s" "int (size_of s1) \<le> cap s"
      using des_total[OF Cons.prems(1,2)] by blast
    with Cons.IH[of s1] Cons.prems(2) Response show ?thesis by simp
  next
    case Clear
    with Cons.IH[of "clr s"] Cons.prems show ?thesis by (simp add: clr_good clr_cap clr_size)
  qed
qed simp

end

lemma deserialize_total:
  assumes "qcc_inv s" "0 \<le> capacity s"
  shows "\<exists>s'. deserializeQueryContext d s = Inr s' \<and> qcc_inv s' \<and> capacity s' = capacity s \<and>
              int (getSize s') \<le> capacity s"
proof -
  have chk: "\<exists>s'. checkCacheCapacity t = Inr s' \<and> qcc_inv s' \<and> capacity s' = capacity s \<and>
              int (getSize s') \<le> capacity s" if t: "qcc_inv t" "capacity t = capacity s" for t
  proof -
    obtain s' where "checkCacheCapacity t = Inr s'" "capacity s' = capacity t" "qcc_inv s'"
      "treeSet s' = take (nat (capacity t)) (treeSet t)"
      using checkCacheCapacity_take[OF t(1)] assms(2) t(2) by auto
    then show ?thesis using t(2) assms(2) by (simp add: getSize_def)
  qed
  show ?thesis
  proof (cases d)
    case EntriesNotArray
    then show ?thesis using chk[OF assms(1)] by simp
  next
    case (Entries es)
    note i = mergeEntries_inv[OF assms(1), of es]
    show ?thesis
    proof (cases "mergeEntries es s")
      case (LoopDone x)
      then show ?thesis using chk[of x] i Entries by simp
    next
      case (LoopReturned x)
      then show ?thesis using mergeEntries_Returned[OF LoopReturned] i Entries assms(2)
        by (simp add: getSize_def)
    next
      case (LoopThrew x)
      then show ?thesis using chk[of "clearCache x"] i Entries by simp
    qed
  qed (use assms(2) in \<open>simp_all add: getSize_def\<close>)
qed

interpretation qc: query_context_store deserializeQueryContext clearCache getSize capacity qcc_inv
  by unfold_locales (blast intro: deserialize_total, simp_all add: getSize_def)

section \<open>The contents as a list\<close>

lemma getElements_ids_distinct:
  assumes "qcc_inv s"
  shows "distinct (map qid (getElements s))"
  using qcc_invD(1)[OF assms] qcc_inv_ids_unique[OF assms]
  by (auto simp: getElements_def distinct_map inj_on_def comp_def)

lemma getElements_sorted: "qcc_inv s \<Longrightarrow> sorted (map qpriority (getElements s))"
  using qcc_invD(3)[of s] by (simp add: getElements_def comp_def)

lemma idMap_elements:
  assumes "qcc_inv s"
  shows "idMap s i = None \<longleftrightarrow> i \<notin> qid ` set (getElements s)"
proof -
  have "idMap s i \<noteq> None \<longleftrightarrow> (\<exists>r. r \<in> set (treeSet s) \<and> qid (heap s r) = i)"
    using qcc_invD(4)[OF assms, of i] by auto
  then show ?thesis by (auto simp: getElements_def)
qed

lemma priorityMap_elements:
  assumes "qcc_inv s" "p \<notin> qpriority ` set (getElements s)"
  shows "priorityMap s p = None"
proof (rule ccontr)
  assume "priorityMap s p \<noteq> None"
  then obtain r where "r \<in> set (treeSet s)" "qpriority (heap s r) = p"
    using qcc_invD(5)[OF assms(1)] by blast
  then show False using assms(2) by (force simp: getElements_def)
qed

text \<open>A new element whose id is unknown and whose priority number is the largest goes last.\<close>

lemma merge_appends:
  assumes "qcc_inv s" "alloc q s = (r, s')" "qid q \<notin> qid ` set (getElements s)"
    "\<forall>x\<in>set (getElements s). qpriority x < qpriority q"
  shows "getElements (merge r s') = getElements s @ [q]"
proof -
  note a = alloc_props[OF assms(2,1)] and i = qcc_inv_alloc[OF assms(1,2)]
  have "idMap s' (qid (heap s' r)) = None" "priorityMap s' (qpriority (heap s' r)) = None"
    using idMap_elements[OF i] assms(3,4)
    by (auto simp: a(1,6) intro!: priorityMap_elements[OF i])
  then have m: "merge r s' = addQCE r s'" by (simp add: merge_def Let_def)
  have "sorted (map (\<lambda>x. qpriority (heap s' x)) (treeSet s' @ [r]))"
    using qcc_invD(3)[OF i] assms(4)
    by (auto simp: sorted_append a(1,4) getElements_def a(9) intro!: less_imp_le)
  then have "treeSet (addQCE r s') = treeSet s' @ [r]"
    using a(2) by (simp add: addQCE_def sortTreeSet_def set_add_def sort_key_id_if_sorted)
  then show ?thesis using a(1,6) by (simp add: m getElements_def)
qed

definition node_of :: "qce \<Rightarrow> node" where
  "node_of q = Node (qid q) (qtimestamp q) (qpriority q) (serialize_context (qcontext q))"

lemma deserialize_node_of:
  "qcontext q \<noteq> Some [] \<Longrightarrow>
   deserializeQueryContextElement (node_of q) s =
     (case alloc q s of (r, s') \<Rightarrow> Inr (Some r, s'))"
  by (cases q) (auto simp: node_of_def serialize_context_def alloc_def split: option.splits)

text \<open>Merging serialised elements in ascending priority rebuilds their list.\<close>

lemma mergeEntries_rebuild:
  "qcc_inv s \<Longrightarrow> distinct (map qid (getElements s @ qs)) \<Longrightarrow>
   sorted_wrt (<) (map qpriority (getElements s @ qs)) \<Longrightarrow> \<forall>q\<in>set qs. qcontext q \<noteq> Some [] \<Longrightarrow>
   \<exists>t. mergeEntries (map node_of qs) s = LoopDone t \<and> getElements t = getElements s @ qs"
proof (induction qs arbitrary: s)
  case (Cons q qs)
  obtain r s' where al: "alloc q s = (r, s')" by fastforce
  have e: "getElements (merge r s') = getElements s @ [q]"
    by (rule merge_appends[OF Cons.prems(1) al])
       (use Cons.prems(2,3) in \<open>auto simp: sorted_wrt_append\<close>)
  have "qcc_inv (merge r s')"
    using qcc_inv_merge[OF qcc_inv_alloc[OF Cons.prems(1) al]] alloc_props(2,3)[OF al Cons.prems(1)]
    by simp
  from Cons.IH[OF this] Cons.prems(2-4) show ?case
    by (simp add: e al deserialize_node_of)
qed simp

section \<open>Properties\<close>

text \<open>A concrete cache for the witnesses: three elements received in one response, capacity two.\<close>

definition sample_cache :: qcc where
  "sample_cache = end_state (mergeEntries
     [Node 7 100 2 CtxNullish, Node 8 100 1 (CtxString ''x''), Node 9 90 3 (CtxString ''y'')]
     (newQueryContextCache 2))"

definition newer_elem :: qce where
  "newer_elem = \<lparr>qid = 7, qtimestamp = 120, qpriority = 1, qcontext = None\<rparr>"

lemma sample_cache_inv: "qcc_inv sample_cache"
  unfolding sample_cache_def using mergeEntries_inv qcc_inv_new by blast

lemmas qcc_eval =
  mergeEntries.simps merge_def alloc_def addQCE_def removeQCE_def replaceQCE_def sortTreeSet_def
  set_add_def set_delete_def newQueryContextCache_def getElements_def Let_def

lemma sample_cache_cap: "capacity sample_cache = 2"
  and sample_cache_next: "next_ref sample_cache = 3"
  and sample_cache_elems: "getElements sample_cache =
    [\<lparr>qid = 8, qtimestamp = 100, qpriority = 1, qcontext = Some ''x''\<rparr>,
     \<lparr>qid = 7, qtimestamp = 100, qpriority = 2, qcontext = None\<rparr>,
     \<lparr>qid = 9, qtimestamp = 90, qpriority = 3, qcontext = Some ''y''\<rparr>]"
  by (simp_all add: sample_cache_def qcc_eval)

text \<open>
  C6. A session never makes the cache throw: from an empty cache with a non-negative capacity,
  any sequence of server responses (malformed ones included) and cache clearings runs to the
  end, keeps the cross-reference invariant of the three collections, and leaves at most
  \<open>capacity\<close> elements.
\<close>

theorem session_total_and_bounded:
  assumes "0 \<le> cap"
  shows "\<exists>s. run_events deserializeQueryContext clearCache es (newQueryContextCache cap) = Inr s \<and>
             qcc_inv s \<and> int (getSize s) \<le> cap"
  using qc.run_total[of "newQueryContextCache cap" es] assms
  by (auto simp: newQueryContextCache_def[of cap] getSize_def
      qcc_inv_new[unfolded newQueryContextCache_def])

theorem session_total_and_bounded_witness:
  "\<exists>s. run_events deserializeQueryContext clearCache
          [Response (Entries [Node 7 100 2 CtxNullish, Node 8 100 1 (CtxString ''x'')]),
           Response (Entries [NullishNode])] (newQueryContextCache 1) = Inr s \<and>
       qcc_inv s \<and> int (getSize s) \<le> 1"
  by (rule session_total_and_bounded) simp

text \<open>
  C7. Merging one received element refines the value-level policy \<open>spec_merge\<close>: with the
  element objects shared between three collections and updated in place, the cache still
  behaves like two plain maps.
\<close>

theorem merge_refines_spec:
  assumes "qcc_inv s" "alloc q s = (r, s')"
  shows "abs_qcc (merge r s') = spec_merge q (abs_qcc s)"
proof -
  note a = alloc_props(7-9)[OF assms(2,1)]
  have "map_option (heap s') (idMap s i) = map_option (heap s) (idMap s i)" for i
    using a(3) qcc_invD(4)[OF assms(1), of i] by (cases "idMap s i") auto
  moreover have "map_option (\<lambda>r. qid (heap s' r)) (priorityMap s p)
      = map_option (\<lambda>r. qid (heap s r)) (priorityMap s p)" for p
    using a(3) qcc_invD(5)[OF assms(1), of p] by (cases "priorityMap s p") auto
  ultimately have "abs_qcc s' = abs_qcc s" by (simp add: abs_qcc_def a fun_eq_iff)
  then show ?thesis
    using abs_merge[OF qcc_inv_alloc[OF assms], of r] alloc_props(1)[OF assms(2,1)] by simp
qed

theorem merge_refines_spec_witness:
  "abs_qcc (merge 3 (snd (alloc newer_elem sample_cache))) = spec_merge newer_elem (abs_qcc sample_cache)"
  by (rule merge_refines_spec[OF sample_cache_inv])
     (simp add: alloc_def sample_cache_next)

text \<open>
  Eviction is by priority: \<open>checkCacheCapacity\<close> keeps exactly the first \<open>capacity\<close>
  elements of the cache in priority order, unchanged, and drops the rest.
\<close>

theorem eviction_keeps_best:
  assumes "qcc_inv s" "0 \<le> capacity s"
  shows "\<exists>s'. checkCacheCapacity s = Inr s' \<and> qcc_inv s' \<and>
              getElements s' = take (nat (capacity s)) (getElements s) \<and>
              (\<forall>kept\<in>set (getElements s'). \<forall>lost\<in>set (drop (nat (capacity s)) (getElements s)).
                 qpriority kept \<le> qpriority lost)"
proof -
  obtain s' where s': "checkCacheCapacity s = Inr s'" "qcc_inv s'"
    "getElements s' = take (nat (capacity s)) (getElements s)"
    using checkCacheCapacity_take[OF assms] by (auto simp: getElements_def take_map)
  have "sorted (map qpriority (take (nat (capacity s)) (getElements s)) @
                map qpriority (drop (nat (capacity s)) (getElements s)))"
    using getElements_sorted[OF assms(1)] by (metis append_take_drop_id map_append)
  with s' show ?thesis by (auto simp: sorted_append)
qed

theorem eviction_keeps_best_witness:
  "length (getElements sample_cache) = 3 \<and> capacity sample_cache = 2 \<and>
   (\<exists>s'. checkCacheCapacity sample_cache = Inr s' \<and> qcc_inv s' \<and>
         getElements s' = take 2 (getElements sample_cache))"
  using eviction_keeps_best[OF sample_cache_inv] by (auto simp: sample_cache_elems sample_cache_cap)

text \<open>
  Round trip: when the cached priorities are pairwise different, no context is the empty
  string and the cache is within its capacity, what \<open>getSerializeQueryContext\<close> produces, fed to
  \<open>deserializeQueryContext\<close> of an empty cache of the same capacity, rebuilds the same elements.
\<close>

theorem serialize_roundtrip:
  assumes "qcc_inv s" "distinct (map qpriority (getElements s))"
    "\<forall>q\<in>set (getElements s). qcontext q \<noteq> Some []" "int (getSize s) \<le> capacity s"
  shows "\<exists>t. deserializeQueryContext (getSerializeQueryContext s)
               (newQueryContextCache (capacity s)) = Inr t \<and> getElements t = getElements s"
proof -
  let ?e = "newQueryContextCache (capacity s)"
  have e: "getElements ?e = []" "capacity ?e = capacity s"
    by (simp_all add: getElements_def newQueryContextCache_def)
  have "sorted_wrt (<) (map qpriority (getElements s))"
    using getElements_sorted[OF assms(1)] assms(2) by (simp add: strict_sorted_iff)
  then obtain t where t: "mergeEntries (map node_of (getElements s)) ?e = LoopDone t"
    "getElements t = getElements s"
    using mergeEntries_rebuild[of ?e "getElements s"] getElements_ids_distinct[OF assms(1)] assms(3)
    by (auto simp: e)
  have "capacity t = capacity s" using mergeEntries_inv[of ?e] t(1) e(2) by (metis end_state.simps(1) qcc_inv_new)
  moreover have "length (treeSet t) = length (treeSet s)"
    using t(2) by (metis getElements_def length_map)
  ultimately have "checkCacheCapacity t = Inr t"
    using assms(4) by (simp add: checkCacheCapacity_noop getSize_def)
  with t show ?thesis by (simp add: getSerializeQueryContext_def node_of_def[abs_def])
qed

theorem serialize_roundtrip_witness:
  "\<exists>s t. deserializeQueryContext (Entries [Node 7 100 2 CtxNullish, Node 8 100 1 (CtxString ''x'')])
            (newQueryContextCache 2) = Inr s \<and>
         deserializeQueryContext (getSerializeQueryContext s) (newQueryContextCache (capacity s)) = Inr t \<and>
         getElements t = getElements s \<and> getSize s = 2"
proof -
  let ?d = "Entries [Node 7 100 2 CtxNullish, Node 8 100 1 (CtxString ''x'')]"
  have cap: "0 \<le> capacity (newQueryContextCache 2)" by (simp add: newQueryContextCache_def)
  obtain s where s: "deserializeQueryContext ?d (newQueryContextCache 2) = Inr s" "qcc_inv s"
    "capacity s = 2" "int (getSize s) \<le> 2"
    using deserialize_total[OF qcc_inv_new cap, of ?d] by (auto simp: newQueryContextCache_def)
  have e: "getElements s = [\<lparr>qid = 8, qtimestamp = 100, qpriority = 1, qcontext = Some ''x''\<rparr>,
                            \<lparr>qid = 7, qtimestamp = 100, qpriority = 2, qcontext = None\<rparr>]"
    using s(1) by (auto simp: qcc_eval checkCacheCapacity_noop)
  have "getSize s = length (getElements s)" by (simp add: getElements_def getSize_def)
  also have "\<dots> = 2" by (simp add: e)
  finally have "getSize s = 2" .
  moreover have "\<exists>t. deserializeQueryContext (getSerializeQueryContext s)
      (newQueryContextCache (capacity s)) = Inr t \<and> getElements t = getElements s"
    by (rule serialize_roundtrip[OF s(2)]) (use e s(3,4) in auto)
  ultimately show ?thesis using s(1) by blast
qed

text \<open>
  The policy "one element per priority" is not kept when a known id moves to a priority that
  another id holds: \<open>replaceQCE\<close> overwrites the priority map entry and leaves the other element
  in the cache, so two elements share a priority and one of them is no longer in \<open>priorityMap\<close>.
\<close>

theorem priority_collision_keeps_both:
  "\<exists>s. deserializeQueryContext
          (Entries [Node 0 100 0 CtxNullish, Node 1 100 1 CtxNullish, Node 0 200 1 CtxNullish])
          (newQueryContextCache 5) = Inr s \<and>
       map qid (getElements s) = [1, 0] \<and> map qpriority (getElements s) = [1, 1] \<and>
       map_option (\<lambda>r. qid (heap s r)) (priorityMap s 1) = Some 0"
  by (simp add: qcc_eval checkCacheCapacity_noop)

end
