(* ===== verification/ChunkModel.thy ===== *)
theory ChunkModel
  imports Prelude
begin

text \<open>
  Model of \<open>lib/connection/result/chunk.js\<close>: one chunk of a result set. A chunk holds its rows
  in one of three forms, as text received from blob storage (\<open>rowsetAsString\<close>), as a parsed row
  set, or as row objects; \<open>getRows\<close> moves it forward through the three. \<open>JSON.parse\<close> of the
  text is the parameter \<open>parse\<close> (it may throw a SyntaxError). Cell values are the type
  parameter \<open>'v\<close>. The events and callbacks of \<open>load\<close> are in \<open>ResultStreamModel\<close>.
\<close>

record 'v row =
  row_values :: "'v list"
  rowIndex :: int

record 'v chunk =
  compressedSize :: int
  uncompressedSize :: int
  startIndex :: int
  endIndex :: int
  chunk_id :: string
  chunk_url :: "string option"
  rowset :: "'v list list option"
  rowsetAsString :: "string option"
  rows :: "'v row list option"
  isLoading :: bool

record 'v chunk_cfg =
  cfg_compressedSize :: "int option"
  cfg_uncompressedSize :: "int option"
  cfg_rowCount :: int
  cfg_url :: "string option"
  cfg_rowset :: "'v list list option"

text \<open>\<open>Util.format('s=%d, e=%d', startIndex, endIndex)\<close>.\<close>

definition buildId :: "int \<Rightarrow> int \<Rightarrow> string" where
  "buildId s e = ''s='' @ show_int s @ '', e='' @ show_int e"

text \<open>\<open>size || -1\<close>: a missing size and the size 0 both become -1.\<close>

definition size_or_default :: "int option \<Rightarrow> int" where
  "size_or_default x = (case x of None \<Rightarrow> -1 | Some n \<Rightarrow> if n = 0 then -1 else n)"

definition newChunk :: "int \<Rightarrow> 'v chunk_cfg \<Rightarrow> 'v chunk" where
  "newChunk start cfg =
     \<lparr>compressedSize = size_or_default (cfg_compressedSize cfg),
      uncompressedSize = size_or_default (cfg_uncompressedSize cfg),
      startIndex = start,
      endIndex = start + cfg_rowCount cfg - 1,
      chunk_id = buildId start (start + cfg_rowCount cfg - 1),
      chunk_url = cfg_url cfg,
      rowset = cfg_rowset cfg,
      rowsetAsString = None,
      rows = None,
      isLoading = False\<rparr>"

definition overlapsWithWindow :: "int \<Rightarrow> int \<Rightarrow> 'v chunk \<Rightarrow> bool" where
  "overlapsWithWindow start end c \<longleftrightarrow>
     (end \<le> endIndex c \<and> end \<ge> startIndex c) \<or>
     (start \<ge> startIndex c \<and> start \<le> endIndex c) \<or>
     (start \<le> startIndex c \<and> end \<ge> endIndex c)"

fun rowsFrom :: "int \<Rightarrow> 'v list list \<Rightarrow> 'v row list" where
  "rowsFrom i [] = []"
| "rowsFrom i (v # vs) = \<lparr>row_values = v, rowIndex = i\<rparr> # rowsFrom (i + 1) vs"

definition convertRowsetToRows :: "int \<Rightarrow> 'v list list \<Rightarrow> 'v row list" where
  "convertRowsetToRows start rs = rowsFrom start rs"

text \<open>The first step of \<open>getRows\<close>: the text form, when present and non-empty, is parsed.\<close>

definition parseRowset :: "(string \<Rightarrow> 'v list list js) \<Rightarrow> 'v chunk \<Rightarrow> 'v chunk js" where
  "parseRowset parse c =
     (case rowsetAsString c of
        Some s \<Rightarrow>
          (if s = [] then Inr c
           else js_bind (parse (''['' @ s @ '']''))
                  (\<lambda>rs. Inr (c\<lparr>rowset := Some rs, rowsetAsString := None\<rparr>)))
      | None \<Rightarrow> Inr c)"

definition getRows :: "(string \<Rightarrow> 'v list list js) \<Rightarrow> 'v chunk \<Rightarrow> ('v row list option \<times> 'v chunk) js" where
  "getRows parse c =
     (if rows c \<noteq> None then Inr (rows c, c)
      else js_bind (parseRowset parse c) (\<lambda>c.
        case rowset c of
          Some rs \<Rightarrow>
            (let r = Some (convertRowsetToRows (startIndex c) rs)
             in Inr (r, c\<lparr>rows := r, rowset := None\<rparr>))
        | None \<Rightarrow> Inr (rows c, c)))"

definition clearRows :: "bool \<Rightarrow> 'v chunk \<Rightarrow> 'v chunk" where
  "clearRows force c =
     (if nonempty_str (chunk_url c) \<or> force
      then c\<lparr>rowsetAsString := None, rowset := None, rows := None\<rparr> else c)"

definition setUrl :: "string option \<Rightarrow> 'v chunk \<Rightarrow> 'v chunk" where
  "setUrl u c = c\<lparr>chunk_url := u\<rparr>"

definition isLoaded :: "'v chunk \<Rightarrow> bool" where
  "isLoaded c \<longleftrightarrow> nonempty_str (rowsetAsString c) \<or> rowset c \<noteq> None \<or> rows c \<noteq> None"

text \<open>
  \<open>load\<close> marks the chunk as loading and either completes in the next tick or issues a request
  for the url; the response handler stores the body of a successful response. Completion
  clears the flag.
\<close>

datatype load_request = CompleteNextTick | FetchUrl "string option"

definition load :: "'v chunk \<Rightarrow> load_request \<times> 'v chunk" where
  "load c =
     (let c' = c\<lparr>isLoading := True\<rparr>
      in (if isLoaded c' then CompleteNextTick else FetchUrl (chunk_url c'), c'))"

definition receiveBody :: "string option \<Rightarrow> 'v chunk \<Rightarrow> 'v chunk" where
  "receiveBody body c = c\<lparr>rowsetAsString := body\<rparr>"

definition completeLoad :: "'v chunk \<Rightarrow> 'v chunk" where
  "completeLoad c = c\<lparr>isLoading := False\<rparr>"

text \<open>A column identifier is a name, a number, or anything else.\<close>

datatype col_ident = ColName string | ColIndex int | ColOther

definition resolveColumnIdentifierToColumn ::
    "'c list \<Rightarrow> col_ident \<Rightarrow> (string \<rightharpoonup> nat list) \<Rightarrow> 'c option js" where
  "resolveColumnIdentifierToColumn cols ident m =
     (let at = (\<lambda>i::int. if 0 \<le> i \<and> i < int (length cols) then Some (cols ! nat i) else None) in
      case ident of
        ColName n \<Rightarrow>
          (case m n of
             Some (i # _) \<Rightarrow> Inr (at (int i))
           | Some [] \<Rightarrow> Inr None
           | None \<Rightarrow> Inr None)
      | ColIndex i \<Rightarrow> Inr (at i)
      | ColOther \<Rightarrow> Inr None)"

section \<open>Facts\<close>

lemma newChunk_fields [simp]:
  "startIndex (newChunk s cfg) = s" "endIndex (newChunk s cfg) = s + cfg_rowCount cfg - 1"
  "chunk_url (newChunk s cfg) = cfg_url cfg" "rowset (newChunk s cfg) = cfg_rowset cfg"
  "rowsetAsString (newChunk s cfg) = None" "rows (newChunk s cfg) = None"
  "\<not> isLoading (newChunk s cfg)" "chunk_id (newChunk s cfg) = buildId s (s + cfg_rowCount cfg - 1)"
  by (simp_all add: newChunk_def)

text \<open>On a proper window and a non-empty chunk the three-way test is interval intersection.\<close>

lemma overlapsWithWindow_iff:
  "startIndex c \<le> endIndex c \<Longrightarrow> start \<le> end \<Longrightarrow>
   overlapsWithWindow start end c \<longleftrightarrow> start \<le> endIndex c \<and> startIndex c \<le> end"
  by (auto simp: overlapsWithWindow_def)

lemma length_rowsFrom [simp]: "length (rowsFrom i vs) = length vs"
  by (induction i vs rule: rowsFrom.induct) auto

lemma rowsFrom_nth:
  "k < length vs \<Longrightarrow> rowsFrom i vs ! k = \<lparr>row_values = vs ! k, rowIndex = i + int k\<rparr>"
  by (induction i vs arbitrary: k rule: rowsFrom.induct) (auto simp: nth_Cons split: nat.split)

lemma map_rowIndex_rowsFrom: "map rowIndex (rowsFrom i vs) = map (\<lambda>k. i + int k) [0..<length vs]"
  by (rule nth_equalityI) (simp_all add: rowsFrom_nth)

lemma rowsFrom_append: "rowsFrom i (us @ vs) = rowsFrom i us @ rowsFrom (i + int (length us)) vs"
  by (induction i us rule: rowsFrom.induct) (auto simp: algebra_simps)

lemma isLoaded_simps [simp]:
  "isLoaded (c\<lparr>isLoading := b\<rparr>) = isLoaded c"
  by (simp add: isLoaded_def)

text \<open>The id determines the row range: ids of different ranges never collide in the cache.\<close>

lemma comma_not_digit [simp]: "\<not> is_digit CHR '',''"
  by (simp add: is_digit_def)

lemma buildId_inject: "buildId s e = buildId s' e' \<longleftrightarrow> s = s' \<and> e = e'"
proof
  assume a: "buildId s e = buildId s' e'"
  define sg where "sg = (\<lambda>i::int. if i < 0 then ''-'' else '''')"
  define ds where "ds = (\<lambda>i::int. show_nat (nat \<bar>i\<bar>))"
  have si: "show_int i = sg i @ ds i" for i by (simp add: show_int_def sg_def ds_def)
  have dg: "\<forall>c\<in>set (ds i). is_digit c" "ds i \<noteq> []" for i
    using show_nat_digits by (simp_all add: ds_def)
  have "show_int s @ CHR '','' # '' e='' @ show_int e = show_int s' @ CHR '','' # '' e='' @ show_int e'"
    using a by (simp add: buildId_def)
  moreover have "hd (ds i @ xs) \<noteq> CHR ''-''" for i xs
    using dg[of i] minus_not_digit by (metis hd_append2 hd_in_set)
  ultimately have sgs: "sg s = sg s'"
    unfolding si sg_def by (auto split: if_splits simp: append_assoc) (metis list.sel(1))+
  then have "ds s @ CHR '','' # '' e='' @ show_int e = ds s' @ CHR '','' # '' e='' @ show_int e'"
    using \<open>show_int s @ _ = _\<close> unfolding si by simp
  then have "ds s = ds s' \<and> CHR '','' # '' e='' @ show_int e = CHR '','' # '' e='' @ show_int e'"
    by (rule digits_stop[OF dg(1) dg(1) comma_not_digit comma_not_digit])
  then show "s = s' \<and> e = e'" using sgs si[of s] si[of s'] by (metis show_int_inject list.inject append_same_eq same_append_eq)
qed simp

end
