(* ===== verification/DoublyLinkedListModel.thy ===== *)
theory DoublyLinkedListModel
  imports Prelude
begin

text \<open>
  Model of \<open>lib/connection/result/doubly_linked_list.js\<close> with an explicit node heap: \<open>null\<close> is
  \<open>None\<close>, a node is a reference, and the setters write the heap. \<open>dll_rep l ns\<close> says that the
  object \<open>l\<close> represents the node sequence \<open>ns\<close>; every operation is related to its effect on
  that sequence.
\<close>

record 'v dnode =
  nvalue :: 'v
  nprev :: "nat option"
  nnext :: "nat option"

record 'v dll =
  dlength :: int
  dhead :: "nat option"
  dtail :: "nat option"
  dheap :: "nat \<Rightarrow> 'v dnode"
  dfresh :: nat

definition newList :: "'v \<Rightarrow> 'v dll" where
  "newList undef =
     \<lparr>dlength = 0, dhead = None, dtail = None,
      dheap = (\<lambda>_. \<lparr>nvalue = undef, nprev = None, nnext = None\<rparr>), dfresh = 0\<rparr>"

definition setNext :: "nat \<Rightarrow> nat option \<Rightarrow> 'v dll \<Rightarrow> 'v dll" where
  "setNext n x l = l\<lparr>dheap := (dheap l)(n := (dheap l n)\<lparr>nnext := x\<rparr>)\<rparr>"

definition setPrev :: "nat \<Rightarrow> nat option \<Rightarrow> 'v dll \<Rightarrow> 'v dll" where
  "setPrev n x l = l\<lparr>dheap := (dheap l)(n := (dheap l n)\<lparr>nprev := x\<rparr>)\<rparr>"

definition insertEnd :: "'v \<Rightarrow> 'v dll \<Rightarrow> (nat \<times> 'v dll) js" where
  "insertEnd v l =
     (let node = dfresh l;
          l1 = l\<lparr>dheap := (dheap l)(node := \<lparr>nvalue = v, nprev = None, nnext = None\<rparr>),
                 dfresh := Suc node\<rparr>
      in if dlength l1 = 0 then
           Inr (node, l1\<lparr>dhead := Some node, dtail := Some node, dlength := dlength l1 + 1\<rparr>)
         else (case dtail l1 of
                 None \<Rightarrow> Inl TypeError
               | Some t \<Rightarrow>
                   (let l2 = setPrev node (Some t) (setNext t (Some node) l1)
                    in Inr (node, l2\<lparr>dtail := Some node, dlength := dlength l2 + 1\<rparr>))))"

definition unlinkPrev :: "nat \<Rightarrow> 'v dll \<Rightarrow> 'v dll" where
  "unlinkPrev n l =
     (case nprev (dheap l n) of
        None \<Rightarrow> l\<lparr>dhead := nnext (dheap l n)\<rparr>
      | Some p \<Rightarrow> setNext p (nnext (dheap l n)) l)"

definition unlinkNext :: "nat \<Rightarrow> 'v dll \<Rightarrow> 'v dll" where
  "unlinkNext n l =
     (case nnext (dheap l n) of
        None \<Rightarrow> l\<lparr>dtail := nprev (dheap l n)\<rparr>
      | Some x \<Rightarrow> setPrev x (nprev (dheap l n)) l)"

definition remove :: "nat option \<Rightarrow> 'v dll \<Rightarrow> 'v dll" where
  "remove node l =
     (case node of
        None \<Rightarrow> l
      | Some n \<Rightarrow> (let l' = unlinkNext n (unlinkPrev n l) in l'\<lparr>dlength := dlength l' - 1\<rparr>))"

section \<open>Representation\<close>

definition hd_or :: "'a option \<Rightarrow> 'a list \<Rightarrow> 'a option" where
  "hd_or d xs = (if xs = [] then d else Some (hd xs))"

definition last_or :: "'a option \<Rightarrow> 'a list \<Rightarrow> 'a option" where
  "last_or d xs = (if xs = [] then d else Some (last xs))"

lemma hd_or_simps [simp]: "hd_or d [] = d" "hd_or d (x # xs) = Some x"
  and last_or_simps [simp]: "last_or d [] = d" "last_or d (x # xs) = last_or (Some x) xs"
    "last_or d (xs @ [x]) = Some x" "last_or d (xs @ y # ys) = last_or (Some y) ys"
  by (simp_all add: hd_or_def last_or_def)

text \<open>\<open>chain h p xs n\<close>: the nodes \<open>xs\<close> are linked in both directions, between \<open>p\<close> and \<open>n\<close>.\<close>

fun chain :: "(nat \<Rightarrow> 'v dnode) \<Rightarrow> nat option \<Rightarrow> nat list \<Rightarrow> nat option \<Rightarrow> bool" where
  "chain h p [] n \<longleftrightarrow> True"
| "chain h p (x # xs) n \<longleftrightarrow>
     nprev (h x) = p \<and> nnext (h x) = hd_or n xs \<and> chain h (Some x) xs n"

definition dll_rep :: "'v dll \<Rightarrow> nat list \<Rightarrow> bool" where
  "dll_rep l ns \<longleftrightarrow>
     dlength l = int (length ns) \<and> dhead l = hd_or None ns \<and> dtail l = last_or None ns \<and>
     distinct ns \<and> (\<forall>x\<in>set ns. x < dfresh l) \<and> chain (dheap l) None ns None"

lemma chain_append:
  "chain h p (xs @ ys) n \<longleftrightarrow> chain h p xs (hd_or n ys) \<and> chain h (last_or p xs) ys n"
proof (induction xs arbitrary: p)
  case (Cons x xs)
  have "hd_or n (xs @ ys) = hd_or (hd_or n ys) xs" by (simp add: hd_or_def)
  with Cons show ?case by simp
qed simp

lemma chain_frame: "(\<And>x. x \<in> set xs \<Longrightarrow> h' x = h x) \<Longrightarrow> chain h' p xs n \<longleftrightarrow> chain h p xs n"
  by (induction xs arbitrary: p) auto

lemma chain_frame_upd [simp]: "a \<notin> set xs \<Longrightarrow> chain (h(a := v)) p xs n \<longleftrightarrow> chain h p xs n"
  by (rule chain_frame) auto

text \<open>Relinking the right end of a chain, and the left end.\<close>

lemma chain_relink_next:
  "chain h p (xs @ [x]) n \<Longrightarrow> x \<notin> set xs \<Longrightarrow>
   chain (h(x := (h x)\<lparr>nnext := m\<rparr>)) p (xs @ [x]) m"
  by (simp add: chain_append)

lemma chain_relink_prev:
  "chain h p (x # xs) n \<Longrightarrow> x \<notin> set xs \<Longrightarrow>
   chain (h(x := (h x)\<lparr>nprev := q\<rparr>)) q (x # xs) n"
  by simp

lemma dll_rep_new: "dll_rep (newList v) []"
  by (simp add: dll_rep_def newList_def)

lemma dll_rep_insertEnd:
  assumes "dll_rep l ns"
  shows "\<exists>node l'. insertEnd v l = Inr (node, l') \<and> dll_rep l' (ns @ [node]) \<and> node \<notin> set ns \<and>
           nvalue (dheap l' node) = v \<and> (\<forall>x\<in>set ns. nvalue (dheap l' x) = nvalue (dheap l x))"
proof (cases ns rule: rev_cases)
  case Nil
  with assms show ?thesis by (simp add: dll_rep_def insertEnd_def Let_def)
next
  case (snoc bs t)
  let ?n = "dfresh l"
  have r: "dlength l = int (length ns)" "dhead l = hd_or None ns" "dtail l = Some t" "distinct ns"
    "\<forall>x\<in>set ns. x < ?n" "chain (dheap l) None (bs @ [t]) None"
    using assms snoc by (simp_all add: dll_rep_def)
  have n: "?n \<notin> set ns" using r(5) by blast
  define l' where "l' = snd (projr (insertEnd v l))"
  have e: "insertEnd v l = Inr (?n, l')"
    using r(1,3) snoc by (simp add: insertEnd_def Let_def l'_def)
  have h: "dheap l' = (dheap l)(t := (dheap l t)\<lparr>nnext := Some ?n\<rparr>,
      ?n := \<lparr>nvalue = v, nprev = Some t, nnext = None\<rparr>)"
    using r(1,3) snoc n by (auto simp: l'_def insertEnd_def Let_def setNext_def setPrev_def)
  have f: "dlength l' = dlength l + 1" "dhead l' = dhead l" "dtail l' = Some ?n" "dfresh l' = Suc ?n"
    using r(1,3) snoc by (auto simp: l'_def insertEnd_def Let_def setNext_def setPrev_def)
  have "chain ((dheap l)(t := (dheap l t)\<lparr>nnext := Some ?n\<rparr>)) None (bs @ [t]) (Some ?n)"
    using chain_relink_next[OF r(6)] r(4) snoc by simp
  then have "chain (dheap l') None (ns @ [?n]) None"
    using n snoc by (simp add: h chain_append del: fun_upd_apply) (simp add: hd_or_def)
  then have "dll_rep l' (ns @ [?n])"
    using r n snoc by (auto simp: dll_rep_def f hd_or_def less_Suc_eq hd_append)
  then show ?thesis using e n h snoc by auto
qed

lemma remove_split_heap:
  assumes "dll_rep l (as @ x # bs)"
  shows "dll_rep (remove (Some x) l) (as @ bs)"
proof -
  have r: "dlength l = int (length (as @ x # bs))" "dhead l = hd_or None (as @ x # bs)"
    "dtail l = last_or None (as @ x # bs)" "distinct (as @ x # bs)"
    "\<forall>y\<in>set (as @ x # bs). y < dfresh l"
    and c: "chain (dheap l) None as (Some x)" "nprev (dheap l x) = last_or None as"
    "nnext (dheap l x) = hd_or None bs" "chain (dheap l) (Some x) bs None"
    using assms by (simp_all add: dll_rep_def chain_append)
  define m where "m = unlinkPrev x l"
  have m: "chain (dheap m) None as (hd_or None bs)" "chain (dheap m) (Some x) bs None"
    "dheap m x = dheap l x" "dhead m = hd_or None (as @ bs)" "dtail m = dtail l"
    "dlength m = dlength l" "dfresh m = dfresh l"
  proof -
    show "chain (dheap m) None as (hd_or None bs)"
      using c(1,2,3) r(4) chain_relink_next[of "dheap l" None _ _ "Some x" "hd_or None bs"]
      by (cases as rule: rev_cases) (auto simp: m_def unlinkPrev_def setNext_def)
    show "chain (dheap m) (Some x) bs None" "dheap m x = dheap l x"
      using c(2,4) r(4)
      by (cases as rule: rev_cases; auto simp: m_def unlinkPrev_def setNext_def)+
    show "dhead m = hd_or None (as @ bs)"
      using c(2,3) r(2)
      by (cases as rule: rev_cases) (auto simp: m_def unlinkPrev_def setNext_def hd_or_def hd_append)
  qed (simp_all add: m_def unlinkPrev_def setNext_def split: option.splits)
  define k where "k = unlinkNext x m"
  have k: "chain (dheap k) None as (hd_or None bs)" "chain (dheap k) (last_or None as) bs None"
    "dhead k = dhead m" "dtail k = last_or None (as @ bs)" "dlength k = dlength l" "dfresh k = dfresh l"
  proof -
    show "chain (dheap k) None as (hd_or None bs)"
      using m(1,3) c(2,3) r(4) by (cases bs) (auto simp: k_def unlinkNext_def setPrev_def)
    show "chain (dheap k) (last_or None as) bs None"
      using m(2,3) c(2,3) r(4) by (cases bs) (auto simp: k_def unlinkNext_def setPrev_def)
    show "dtail k = last_or None (as @ bs)"
      using m(3,5) c(2,3) r(3) by (cases bs) (auto simp: k_def unlinkNext_def setPrev_def last_or_def)
  qed (use m(6,7) in \<open>simp_all add: k_def unlinkNext_def setPrev_def split: option.splits\<close>)
  have "remove (Some x) l = k\<lparr>dlength := dlength k - 1\<rparr>"
    by (simp add: remove_def Let_def k_def m_def)
  then show ?thesis using k m(4) r by (auto simp: dll_rep_def chain_append)
qed

lemma remove_values: "nvalue (dheap (remove x l) y) = nvalue (dheap l y)"
  by (cases x) (simp_all add: remove_def Let_def unlinkNext_def unlinkPrev_def setNext_def setPrev_def
      split: option.split)

lemma dll_rep_remove:
  assumes "dll_rep l ns" "x \<in> set ns"
  shows "dll_rep (remove (Some x) l) (set_delete x ns)"
proof -
  obtain as bs where ns: "ns = as @ x # bs" using split_list[OF assms(2)] by blast
  have "x \<notin> set as" "x \<notin> set bs" using assms(1) ns by (auto simp: dll_rep_def)
  then have "filter (\<lambda>y. y \<noteq> x) as = as" "filter (\<lambda>y. y \<noteq> x) bs = bs"
    by (auto simp: filter_id_conv)
  then have "set_delete x ns = as @ bs" by (simp add: ns set_delete_def)
  then show ?thesis using remove_split_heap assms(1) ns by simp
qed

lemma dll_rep_fields:
  "dll_rep l ns \<Longrightarrow> dlength l = int (length ns) \<and> dhead l = hd_or None ns \<and> dtail l = last_or None ns \<and> distinct ns"
  by (simp add: dll_rep_def)

section \<open>The contract the chunk cache relies on\<close>

locale node_sequence =
  fixes ins :: "'v \<Rightarrow> 's \<Rightarrow> ('n \<times> 's) js" and rem :: "'n option \<Rightarrow> 's \<Rightarrow> 's"
    and first :: "'s \<Rightarrow> 'n option" and val :: "'s \<Rightarrow> 'n \<Rightarrow> 'v" and len :: "'s \<Rightarrow> int"
    and rep :: "'s \<Rightarrow> 'n list \<Rightarrow> bool"
  assumes ins_ok: "rep s ns \<Longrightarrow>
      \<exists>n s'. ins v s = Inr (n, s') \<and> rep s' (ns @ [n]) \<and> n \<notin> set ns \<and> val s' n = v \<and>
             (\<forall>x\<in>set ns. val s' x = val s x)"
    and rem_ok: "rep s ns \<Longrightarrow> n \<in> set ns \<Longrightarrow> rep (rem (Some n) s) (set_delete n ns)"
    and rem_val: "val (rem no s) x = val s x"
    and first_ok: "rep s ns \<Longrightarrow> first s = hd_or None ns"
    and len_ok: "rep s ns \<Longrightarrow> len s = int (length ns)"
    and rep_distinct: "rep s ns \<Longrightarrow> distinct ns"
begin

lemma move_to_end:
  assumes "rep s ns" "n \<in> set ns"
  shows "\<exists>m s'. ins v (rem (Some n) s) = Inr (m, s') \<and> rep s' (set_delete n ns @ [m]) \<and>
           m \<notin> set (set_delete n ns) \<and> val s' m = v \<and> (\<forall>x\<in>set (set_delete n ns). val s' x = val s x)"
  using ins_ok[OF rem_ok[OF assms], of v] by (simp add: rem_val)

lemma drop_first:
  assumes "rep s (x # ns)"
  shows "first s = Some x \<and> rep (rem (first s) s) ns"
proof -
  have "set_delete x (x # ns) = ns"
    using rep_distinct[OF assms] by (auto simp: set_delete_def filter_id_conv)
  then show ?thesis using first_ok[OF assms] rem_ok[OF assms, of x] by simp
qed

end

interpretation dl: node_sequence insertEnd remove dhead "\<lambda>l n. nvalue (dheap l n)" dlength dll_rep
proof
  show "\<exists>n s'. insertEnd v s = Inr (n, s') \<and> dll_rep s' (ns @ [n]) \<and> n \<notin> set ns \<and>
      nvalue (dheap s' n) = v \<and> (\<forall>x\<in>set ns. nvalue (dheap s' x) = nvalue (dheap s x))"
    if "dll_rep s ns" for s ns and v :: 'a
    by (rule dll_rep_insertEnd[OF that])
qed (simp_all add: dll_rep_remove remove_values dll_rep_fields)

section \<open>Properties\<close>

text \<open>Any run of insertions and removals of listed nodes, started from a new list.\<close>

datatype 'v list_op = InsertEnd 'v | RemoveAt nat

fun run_list :: "'v list_op list \<Rightarrow> nat list \<Rightarrow> 'v dll \<Rightarrow> (nat list \<times> 'v dll) js" where
  "run_list [] ns l = Inr (ns, l)"
| "run_list (InsertEnd v # ops) ns l =
     js_bind (insertEnd v l) (\<lambda>(n, l'). run_list ops (ns @ [n]) l')"
| "run_list (RemoveAt i # ops) ns l =
     (if i < length ns then run_list ops (take i ns @ drop (Suc i) ns) (remove (Some (ns ! i)) l)
      else run_list ops ns l)"

fun run_spec :: "'v list_op list \<Rightarrow> 'v list \<Rightarrow> 'v list" where
  "run_spec [] vs = vs"
| "run_spec (InsertEnd v # ops) vs = run_spec ops (vs @ [v])"
| "run_spec (RemoveAt i # ops) vs =
     run_spec ops (if i < length vs then take i vs @ drop (Suc i) vs else vs)"

lemma run_list_refines:
  "dll_rep l ns \<Longrightarrow>
   \<exists>ns' l'. run_list ops ns l = Inr (ns', l') \<and> dll_rep l' ns' \<and>
     map (\<lambda>n. nvalue (dheap l' n)) ns' = run_spec ops (map (\<lambda>n. nvalue (dheap l n)) ns)"
proof (induction ops ns l rule: run_list.induct)
  case (2 v ops ns l)
  obtain n l' where i: "insertEnd v l = Inr (n, l')" "dll_rep l' (ns @ [n])"
    "nvalue (dheap l' n) = v" "\<forall>x\<in>set ns. nvalue (dheap l' x) = nvalue (dheap l x)"
    using dl.ins_ok[OF "2.prems"] by blast
  then have m: "map (\<lambda>n. nvalue (dheap l' n)) (ns @ [n]) = map (\<lambda>n. nvalue (dheap l n)) ns @ [v]"
    by simp
  from "2.IH"[OF i(1) refl i(2)] show ?case unfolding m by (simp add: i(1))
next
  case (3 i ops ns l)
  show ?case
  proof (cases "i < length ns")
    case True
    have "ns = take i ns @ ns ! i # drop (Suc i) ns" using True by (rule id_take_nth_drop)
    then have "dll_rep (remove (Some (ns ! i)) l) (take i ns @ drop (Suc i) ns)"
      using remove_split_heap "3.prems" by metis
    from "3.IH"(1)[OF True this] True show ?thesis
      by (simp add: remove_values take_map drop_map)
  next
    case False
    with 3 show ?thesis by simp
  qed
qed auto

text \<open>
  C34. The doubly linked list implements a sequence: any run of \<open>insertEnd\<close> and \<open>remove\<close> calls on
  nodes of the list never throws, and the nodes from head to tail carry exactly the values
  the same run produces on a plain list, with both link directions and the length consistent.
\<close>

theorem linked_list_implements_sequence:
  "\<exists>ns l. run_list ops [] (newList undef) = Inr (ns, l) \<and> dll_rep l ns \<and>
     map (\<lambda>n. nvalue (dheap l n)) ns = run_spec ops []"
  using run_list_refines[OF dll_rep_new, of ops undef] by simp

text \<open>
  Removing a node twice is outside the contract: the second call corrupts the length.
\<close>

lemma remove_twice_corrupts_length:
  "\<exists>n l. insertEnd v (newList u) = Inr (n, l) \<and> dlength (remove (Some n) (remove (Some n) l)) = -1"
  by (simp add: insertEnd_def newList_def remove_def Let_def unlinkNext_def unlinkPrev_def)

end
