(* ===== verification/ChunkCacheModel.thy ===== *)
theory ChunkCacheModel
  imports ChunkModel DoublyLinkedListModel
begin

text \<open>
  Model of \<open>lib/connection/result/chunk_cache.js\<close>: an LRU cache of chunks built from an object
  keyed by chunk id and a doubly linked list. Chunks are shared objects, so the cache stores
  references into a chunk store \<open>cs\<close>; evicting a chunk calls its \<open>clearRows\<close>, which updates
  the store.
\<close>

record chunk_cache =
  cc_capacity :: int
  cc_map :: "string \<rightharpoonup> nat"
  cc_list :: "nat dll"

definition newChunkCache :: "int \<Rightarrow> chunk_cache" where
  "newChunkCache cap = \<lparr>cc_capacity = cap, cc_map = Map.empty, cc_list = newList 0\<rparr>"

definition put ::
    "nat \<Rightarrow> chunk_cache \<Rightarrow> (nat \<Rightarrow> 'v chunk) \<Rightarrow> (chunk_cache \<times> (nat \<Rightarrow> 'v chunk)) js" where
  "put c cache cs =
     (let chunkId = chunk_id (cs c);
          list1 = (case cc_map cache chunkId of
                     Some n \<Rightarrow> remove (Some n) (cc_list cache)
                   | None \<Rightarrow> cc_list cache)
      in js_bind (insertEnd c list1) (\<lambda>(node, list2).
           let map2 = (cc_map cache)(chunkId \<mapsto> node)
           in if cc_capacity cache < dlength list2 then
                (let evictedNode = dhead list2;
                     list3 = remove evictedNode list2
                 in case evictedNode of
                      None \<Rightarrow> Inl TypeError
                    | Some e \<Rightarrow>
                        (let ch = nvalue (dheap list3 e)
                         in Inr (cache\<lparr>cc_map := map2(chunk_id (cs ch) := None), cc_list := list3\<rparr>,
                                 cs(ch := clearRows False (cs ch)))))
              else Inr (cache\<lparr>cc_map := map2, cc_list := list2\<rparr>, cs)))"

section \<open>Refinement of an LRU list\<close>

text \<open>The specification: most recently stored last; overflow evicts the first.\<close>

definition lru_put :: "int \<Rightarrow> (nat \<Rightarrow> string) \<Rightarrow> nat \<Rightarrow> nat list \<Rightarrow> nat list \<times> nat option" where
  "lru_put cap ident c xs =
     (let ys = filter (\<lambda>x. ident x \<noteq> ident c) xs @ [c]
      in if cap < int (length ys) then (tl ys, Some (hd ys)) else (ys, None))"

definition cache_nodes :: "chunk_cache \<Rightarrow> (nat \<Rightarrow> string) \<Rightarrow> nat list \<Rightarrow> nat list \<Rightarrow> bool" where
  "cache_nodes cache ident ns xs \<longleftrightarrow>
     dll_rep (cc_list cache) ns \<and> map (\<lambda>n. nvalue (dheap (cc_list cache) n)) ns = xs \<and>
     distinct (map ident xs) \<and>
     (\<forall>i n. cc_map cache i = Some n \<longleftrightarrow> n \<in> set ns \<and> ident (nvalue (dheap (cc_list cache) n)) = i)"

definition cache_rep :: "chunk_cache \<Rightarrow> (nat \<Rightarrow> string) \<Rightarrow> nat list \<Rightarrow> bool" where
  "cache_rep cache ident xs \<longleftrightarrow> (\<exists>ns. cache_nodes cache ident ns xs)"

lemma chunk_id_clearRows [simp]: "chunk_id (clearRows b c) = chunk_id c"
  by (simp add: clearRows_def)

lemma cache_rep_new: "cache_rep (newChunkCache cap) ident []"
  using dll_rep_new[of 0] by (auto simp: cache_rep_def cache_nodes_def newChunkCache_def)

lemma map_set_delete_unique:
  assumes "distinct (map (\<lambda>n. f (v n)) ns)" "n \<in> set ns"
  shows "filter (\<lambda>x. f x \<noteq> f (v n)) (map v ns) = map v (set_delete n ns)"
proof -
  have "filter (\<lambda>x. f (v x) \<noteq> f (v n)) ns = set_delete n ns"
    unfolding set_delete_def
    by (rule filter_cong[OF refl]) (use assms in \<open>auto simp: distinct_map inj_on_def\<close>)
  then show ?thesis by (simp add: filter_map comp_def)
qed

text \<open>The state after the chunk became the most recent one, before the overflow check.\<close>

lemma put_touch:
  fixes c :: nat
  assumes "cache_nodes cache ident ns xs" and old_def: "old = cc_map cache (ident c)"
  shows "\<exists>node list2 ms. insertEnd c (case old of Some n \<Rightarrow> remove (Some n) (cc_list cache)
                                                | None \<Rightarrow> cc_list cache) = Inr (node, list2) \<and>
           cache_nodes (cache\<lparr>cc_map := (cc_map cache)(ident c \<mapsto> node), cc_list := list2\<rparr>) ident
             ms (filter (\<lambda>x. ident x \<noteq> ident c) xs @ [c])"
proof -
  let ?v = "\<lambda>n. nvalue (dheap (cc_list cache) n)"
  have r: "dll_rep (cc_list cache) ns" "map ?v ns = xs" "distinct (map (\<lambda>n. ident (?v n)) ns)"
    and m: "\<And>i n. cc_map cache i = Some n \<longleftrightarrow> n \<in> set ns \<and> ident (?v n) = i"
    using assms(1) by (auto simp: cache_nodes_def comp_def)
  obtain ms node l2 where l2: "insertEnd c (case old of Some n \<Rightarrow> remove (Some n) (cc_list cache)
          | None \<Rightarrow> cc_list cache) = Inr (node, l2)"
      "dll_rep l2 (ms @ [node])" "node \<notin> set ms" "nvalue (dheap l2 node) = c"
      "\<forall>x\<in>set ms. nvalue (dheap l2 x) = ?v x"
    and ms: "map ?v ms = filter (\<lambda>x. ident x \<noteq> ident c) xs"
      "\<And>n. n \<in> set ms \<longleftrightarrow> n \<in> set ns \<and> ident (?v n) \<noteq> ident c"
  proof (cases old)
    case None
    then have no: "n \<in> set ns \<Longrightarrow> ident (?v n) \<noteq> ident c" for n
      using m[of "ident c" n] by (simp add: old_def)
    then have "filter (\<lambda>x. ident x \<noteq> ident c) xs = xs" using r(2) by (auto simp: filter_id_conv)
    moreover obtain node l2 where "insertEnd c (cc_list cache) = Inr (node, l2)"
      "dll_rep l2 (ns @ [node])" "node \<notin> set ns" "nvalue (dheap l2 node) = c"
      "\<forall>x\<in>set ns. nvalue (dheap l2 x) = ?v x"
      using dl.ins_ok[OF r(1), of c] by blast
    moreover have "n \<in> set ns \<longleftrightarrow> n \<in> set ns \<and> ident (?v n) \<noteq> ident c" for n using no by blast
    ultimately show thesis by (intro that[of node l2 ns]) (use None r(2) in simp_all)
  next
    case (Some n)
    then have n: "n \<in> set ns" "ident (?v n) = ident c" using m[of "ident c" n] by (simp_all add: old_def)
    have "map ?v (set_delete n ns) = filter (\<lambda>x. ident x \<noteq> ident c) xs"
      using map_set_delete_unique[where f = ident and v = ?v, OF r(3) n(1)] n(2) r(2) by simp
    moreover have "k \<in> set (set_delete n ns) \<longleftrightarrow> k \<in> set ns \<and> ident (?v k) \<noteq> ident c" for k
      using n r(3) by (auto simp: distinct_map inj_on_def)
    moreover obtain node l2 where "insertEnd c (remove (Some n) (cc_list cache)) = Inr (node, l2)"
      "dll_rep l2 (set_delete n ns @ [node])" "node \<notin> set (set_delete n ns)"
      "nvalue (dheap l2 node) = c" "\<forall>x\<in>set (set_delete n ns). nvalue (dheap l2 x) = ?v x"
      using dl.move_to_end[OF r(1) n(1), of c] by blast
    ultimately show thesis using that[of node l2 "set_delete n ns"] Some by simp
  qed
  let ?c = "cache\<lparr>cc_map := (cc_map cache)(ident c \<mapsto> node), cc_list := l2\<rparr>"
  have val: "map (\<lambda>n. nvalue (dheap l2 n)) (ms @ [node]) = filter (\<lambda>x. ident x \<noteq> ident c) xs @ [c]"
    using l2(4,5) unfolding ms(1)[symmetric] by simp
  have "distinct (map ident (filter (\<lambda>x. ident x \<noteq> ident c) xs @ [c]))"
    using assms(1) by (auto simp: cache_nodes_def distinct_map inj_on_def)
  moreover have "cc_map ?c i = Some k \<longleftrightarrow> k \<in> set (ms @ [node]) \<and> ident (nvalue (dheap l2 k)) = i" for i k
    using m[of i k] ms(2)[of k] l2(3-5) by auto
  ultimately have "cache_nodes ?c ident (ms @ [node]) (filter (\<lambda>x. ident x \<noteq> ident c) xs @ [c])"
    using l2(2) val unfolding cache_nodes_def by simp
  with l2(1) show ?thesis by blast
qed

lemma put_drop:
  assumes "cache_nodes cache ident (n # ns) (x # xs)"
  shows "dhead (cc_list cache) = Some n" "nvalue (dheap (cc_list cache) n) = x"
    "cache_nodes (cache\<lparr>cc_map := (cc_map cache)(ident x := None),
                       cc_list := remove (Some n) (cc_list cache)\<rparr>) ident ns xs"
proof -
  have r: "dll_rep (cc_list cache) (n # ns)" using assms by (simp add: cache_nodes_def)
  then have n: "n \<notin> set ns" using dl.rep_distinct by fastforce
  show h: "dhead (cc_list cache) = Some n" and v: "nvalue (dheap (cc_list cache) n) = x"
    using dl.drop_first[OF r] assms by (auto simp: cache_nodes_def)
  show "cache_nodes (cache\<lparr>cc_map := (cc_map cache)(ident x := None),
                       cc_list := remove (Some n) (cc_list cache)\<rparr>) ident ns xs"
    using dl.drop_first[OF r] h v n assms
    by (auto simp: cache_nodes_def remove_values) (metis imageI)
qed

lemma put_refines_nodes:
  fixes cs :: "nat \<Rightarrow> 'v chunk"
  assumes "cache_nodes cache (\<lambda>x. chunk_id (cs x)) ns xs"
  shows "\<exists>cache' cs' ys ev. put c cache cs = Inr (cache', cs') \<and>
           lru_put (cc_capacity cache) (\<lambda>x. chunk_id (cs x)) c xs = (ys, ev) \<and>
           cache_rep cache' (\<lambda>x. chunk_id (cs' x)) ys \<and> cc_capacity cache' = cc_capacity cache \<and>
           cs' = (case ev of None \<Rightarrow> cs | Some x \<Rightarrow> cs(x := clearRows False (cs x)))"
proof -
  let ?id = "\<lambda>x. chunk_id (cs x)"
  let ?ys = "filter (\<lambda>x. ?id x \<noteq> ?id c) xs @ [c]"
  obtain node l2 ms where t: "insertEnd c (case cc_map cache (?id c) of
        Some n \<Rightarrow> remove (Some n) (cc_list cache) | None \<Rightarrow> cc_list cache) = Inr (node, l2)"
      "cache_nodes (cache\<lparr>cc_map := (cc_map cache)(?id c \<mapsto> node), cc_list := l2\<rparr>) ?id ms ?ys"
    using put_touch[OF assms refl, of c] by blast
  have l2: "dll_rep l2 ms" "map (\<lambda>n. nvalue (dheap l2 n)) ms = ?ys"
    using t(2) by (simp_all add: cache_nodes_def)
  have len: "dlength l2 = int (length ?ys)"
    using dl.len_ok[OF l2(1)] arg_cong[OF l2(2), of length] by (simp only: length_map)
  show ?thesis
  proof (cases "cc_capacity cache < int (length ?ys)")
    case False
    with t len show ?thesis
      by (auto simp: put_def lru_put_def Let_def cache_rep_def simp del: length_append)
  next
    case True
    obtain y ys' where ys: "?ys = y # ys'" by (cases ?ys) auto
    obtain n ns' where ms: "ms = n # ns'" using t(2) ys by (cases ms) (auto simp: cache_nodes_def)
    note d = put_drop[OF t(2)[unfolded ys ms]]
    let ?cs = "cs(y := clearRows False (cs y))"
    have id: "(\<lambda>x. chunk_id (?cs x)) = ?id" by auto
    have "put c cache cs = Inr (cache\<lparr>cc_map := (cc_map cache)(?id c \<mapsto> node, ?id y := None),
        cc_list := remove (Some n) l2\<rparr>, ?cs)"
      using t(1) len True d(1,2)
      by (simp add: put_def Let_def remove_values del: length_append)
    moreover have "lru_put (cc_capacity cache) ?id c xs = (ys', Some y)"
      using True ys by (simp add: lru_put_def Let_def del: length_append)
    moreover have "cache_rep (cache\<lparr>cc_map := (cc_map cache)(?id c \<mapsto> node, ?id y := None),
        cc_list := remove (Some n) l2\<rparr>) (\<lambda>x. chunk_id (?cs x)) ys'"
      using d(3) unfolding id cache_rep_def by auto
    ultimately show ?thesis by force
  qed
qed

section \<open>Properties\<close>

text \<open>
  C33. \<open>put\<close> refines the LRU specification: the stored chunk becomes the most recent entry (an
  entry with the same id moves instead of being duplicated); if that exceeds the capacity, the
  least recent chunk leaves the cache and has its rows cleared when it can be fetched again.
\<close>

theorem chunk_cache_put_is_lru:
  fixes cs :: "nat \<Rightarrow> 'v chunk"
  assumes "cache_rep cache (\<lambda>x. chunk_id (cs x)) xs"
  shows "\<exists>cache' cs' ys ev. put c cache cs = Inr (cache', cs') \<and>
           lru_put (cc_capacity cache) (\<lambda>x. chunk_id (cs x)) c xs = (ys, ev) \<and>
           cache_rep cache' (\<lambda>x. chunk_id (cs' x)) ys \<and> cc_capacity cache' = cc_capacity cache \<and>
           cs' = (case ev of None \<Rightarrow> cs | Some x \<Rightarrow> cs(x := clearRows False (cs x)))"
  using assms put_refines_nodes unfolding cache_rep_def by blast

definition sample_chunks :: "nat \<Rightarrow> nat chunk" where
  "sample_chunks k = newChunk (int k * 10)
     \<lparr>cfg_compressedSize = None, cfg_uncompressedSize = None, cfg_rowCount = 10,
      cfg_url = Some ''u'', cfg_rowset = None\<rparr>"

theorem chunk_cache_put_is_lru_witness:
  "\<exists>cache' cs'. put 1 (newChunkCache 0) sample_chunks = Inr (cache', cs') \<and>
     cache_rep cache' (\<lambda>x. chunk_id (cs' x)) [] \<and>
     cs' = sample_chunks(1 := clearRows False (sample_chunks 1))"
  using chunk_cache_put_is_lru[of "newChunkCache 0" sample_chunks "[]" 1, OF cache_rep_new]
  by (auto simp: lru_put_def newChunkCache_def)

end
