(* ===== verification/ResultModel.thy ===== *)
theory ResultModel
  imports ChunkModel
begin

text \<open>
  Model of the pure part of \<open>lib/connection/result/result.js\<close>: how a response is cut into chunks,
  how the chunks that overlap a row window are found by binary search, how a refreshed
  response replaces the chunk urls, and the column and update-count accessors. The event-driven
  \<open>fetchRows\<close> is in \<open>FetchRowsModel\<close>. Also \<open>statement_type.js\<close> and
  \<open>unique_column_name_creator.js\<close>.
\<close>

section \<open>Chunks of a response\<close>

definition inlineCfg :: "'v list list \<Rightarrow> 'v chunk_cfg" where
  "inlineCfg rs = \<lparr>cfg_compressedSize = None, cfg_uncompressedSize = None,
                   cfg_rowCount = int (length rs), cfg_url = None, cfg_rowset = Some rs\<rparr>"

fun buildChunks :: "int \<Rightarrow> 'v chunk_cfg list \<Rightarrow> 'v chunk list" where
  "buildChunks start [] = []"
| "buildChunks start (cfg # cfgs) =
     newChunk start cfg # buildChunks (start + cfg_rowCount cfg) cfgs"

text \<open>
  \<open>chunkCfgs || []\<close> turns a missing array into an empty one; rows returned inline become a
  fabricated first chunk.
\<close>

definition allCfgs :: "'v chunk_cfg list option \<Rightarrow> 'v list list \<Rightarrow> 'v chunk_cfg list" where
  "allCfgs chunkCfgs inline =
     (let cfgs = (case chunkCfgs of None \<Rightarrow> [] | Some l \<Rightarrow> l)
      in if 0 < length inline then inlineCfg inline # cfgs else cfgs)"

definition createChunks :: "'v chunk_cfg list option \<Rightarrow> 'v list list \<Rightarrow> 'v chunk list" where
  "createChunks chunkCfgs inline = buildChunks 0 (allCfgs chunkCfgs inline)"

text \<open>
  \<open>refresh\<close> assigns urls by index; a missing config (or a missing array) throws after the
  earlier chunks have been updated.
\<close>

fun refreshFrom :: "'v chunk_cfg list option \<Rightarrow> nat \<Rightarrow> 'v chunk list \<Rightarrow> 'v chunk list \<times> js_exn option" where
  "refreshFrom cfgs i [] = ([], None)"
| "refreshFrom cfgs i (c # cs) =
     (case cfgs of
        None \<Rightarrow> (c # cs, Some TypeError)
      | Some l \<Rightarrow>
          (if i < length l
           then (case refreshFrom cfgs (Suc i) cs of
                   (cs', e) \<Rightarrow> (setUrl (cfg_url (l ! i)) c # cs', e))
           else (c # cs, Some TypeError)))"

definition refresh :: "'v chunk_cfg list option \<Rightarrow> 'v chunk list \<Rightarrow> 'v chunk list \<times> js_exn option" where
  "refresh cfgs cs = refreshFrom cfgs 0 cs"

section \<open>Finding the chunks of a window\<close>

function helper :: "'v chunk list \<Rightarrow> int \<Rightarrow> int \<Rightarrow> int \<Rightarrow> int \<Rightarrow> int js" where
  "helper chunks l r ws we =
     (let m = (l + r) div 2 in
      if m = l \<or> m = r then
        (if l = r then
           js_bind (js_at chunks m) (\<lambda>c. Inr (if overlapsWithWindow ws we c then l else -1))
         else
           js_bind (js_at chunks l) (\<lambda>c.
             if overlapsWithWindow ws we c then Inr l
             else js_bind (js_at chunks r) (\<lambda>d.
               Inr (if overlapsWithWindow ws we d then r else -1))))
      else
        js_bind (js_at chunks m) (\<lambda>c.
          if \<not> overlapsWithWindow ws we c then
            (if ws > endIndex c then helper chunks m r ws we else helper chunks l m ws we)
          else if m = 0 then Inr m
          else js_bind (js_at chunks (m - 1)) (\<lambda>p.
            if \<not> overlapsWithWindow ws we p then Inr m else helper chunks l m ws we)))"
  by pat_completeness auto
termination
  by (relation "measure (\<lambda>(chunks, l, r, ws, we). nat \<bar>r - l\<bar>)") (auto simp: Let_def)

declare helper.simps [simp del]

definition findFirstOverlappingChunk :: "'v chunk list \<Rightarrow> int \<Rightarrow> int \<Rightarrow> int js" where
  "findFirstOverlappingChunk chunks ws we = helper chunks 0 (int (length chunks) - 1) ws we"

function collectOverlapping :: "'v chunk list \<Rightarrow> int \<Rightarrow> int \<Rightarrow> int \<Rightarrow> 'v chunk list js" where
  "collectOverlapping chunks i ws we =
     (if i < int (length chunks) then
        js_bind (js_at chunks i) (\<lambda>c.
          if overlapsWithWindow ws we c
          then js_bind (collectOverlapping chunks (i + 1) ws we) (\<lambda>cs. Inr (c # cs))
          else Inr [])
      else Inr [])"
  by pat_completeness auto
termination
  by (relation "measure (\<lambda>(chunks, i, ws, we). nat (int (length chunks) - i))") auto

declare collectOverlapping.simps [simp del]

definition findOverlappingChunks :: "'v chunk list \<Rightarrow> int \<Rightarrow> int \<Rightarrow> 'v chunk list js" where
  "findOverlappingChunks chunks ws we =
     (if length chunks \<noteq> 0
      then js_bind (findFirstOverlappingChunk chunks ws we) (\<lambda>i. collectOverlapping chunks i ws we)
      else Inr [])"

section \<open>Correctness of the binary search\<close>

text \<open>The array \<open>createChunks\<close> builds from non-empty chunks: row ranges ascending and disjoint.\<close>

definition chunks_sorted :: "'v chunk list \<Rightarrow> bool" where
  "chunks_sorted cs \<longleftrightarrow>
     (\<forall>c\<in>set cs. startIndex c \<le> endIndex c) \<and> sorted_wrt (\<lambda>c d. endIndex c < startIndex d) cs"

lemma buildChunks_bounds:
  "\<forall>cfg\<in>set cfgs. 0 < cfg_rowCount cfg \<Longrightarrow>
   (\<forall>c\<in>set (buildChunks s cfgs). s \<le> startIndex c \<and> startIndex c \<le> endIndex c) \<and>
   chunks_sorted (buildChunks s cfgs)"
proof (induction cfgs arbitrary: s)
  case (Cons cfg cfgs)
  from Cons.IH[of "s + cfg_rowCount cfg"] Cons.prems show ?case
    by (force simp: chunks_sorted_def)
qed (simp add: chunks_sorted_def)

lemma chunks_sorted_less:
  "chunks_sorted cs \<Longrightarrow> i < j \<Longrightarrow> j < length cs \<Longrightarrow> endIndex (cs ! i) < startIndex (cs ! j)"
  by (simp add: chunks_sorted_def sorted_wrt_iff_nth_less)

lemma chunks_sorted_nonempty: "chunks_sorted cs \<Longrightarrow> i < length cs \<Longrightarrow> startIndex (cs ! i) \<le> endIndex (cs ! i)"
  by (simp add: chunks_sorted_def)

text \<open>Overlap at the positions of a sorted array: a convex set of indices.\<close>

definition ovl :: "'v chunk list \<Rightarrow> int \<Rightarrow> int \<Rightarrow> int \<Rightarrow> bool" where
  "ovl cs ws we i \<longleftrightarrow> overlapsWithWindow ws we (cs ! nat i)"

lemma ovl_iff:
  "chunks_sorted cs \<Longrightarrow> ws \<le> we \<Longrightarrow> 0 \<le> i \<Longrightarrow> i < int (length cs) \<Longrightarrow>
   ovl cs ws we i \<longleftrightarrow> ws \<le> endIndex (cs ! nat i) \<and> startIndex (cs ! nat i) \<le> we"
  by (simp add: ovl_def overlapsWithWindow_iff chunks_sorted_nonempty)

lemma chunk_order:
  assumes "chunks_sorted cs" "0 \<le> i" "i < j" "j < int (length cs)"
  shows "endIndex (cs ! nat i) < startIndex (cs ! nat j)"
  using assms by (intro chunks_sorted_less) auto

lemma chunk_mono:
  assumes "chunks_sorted cs" "0 \<le> i" "i \<le> j" "j < int (length cs)"
  shows "endIndex (cs ! nat i) \<le> endIndex (cs ! nat j)" "startIndex (cs ! nat i) \<le> startIndex (cs ! nat j)"
proof -
  have "nat i < length cs" "nat j < length cs" using assms by auto
  note n = this[THEN chunks_sorted_nonempty[OF assms(1)]]
  show "endIndex (cs ! nat i) \<le> endIndex (cs ! nat j)" "startIndex (cs ! nat i) \<le> startIndex (cs ! nat j)"
    using n chunk_order[OF assms(1,2), of j] assms(3,4) by (cases "i = j"; force)+
qed

definition first_ovl :: "'v chunk list \<Rightarrow> int \<Rightarrow> int \<Rightarrow> int \<Rightarrow> int \<Rightarrow> int \<Rightarrow> bool" where
  "first_ovl cs ws we l r k \<longleftrightarrow>
     (k = -1 \<and> (\<forall>i. l \<le> i \<and> i \<le> r \<longrightarrow> \<not> ovl cs ws we i)) \<or>
     (l \<le> k \<and> k \<le> r \<and> ovl cs ws we k \<and> (\<forall>i. l \<le> i \<and> i < k \<longrightarrow> \<not> ovl cs ws we i))"

lemma first_ovl_right:
  assumes "first_ovl cs ws we m r k" "l \<le> m" "\<And>i. l \<le> i \<Longrightarrow> i \<le> m \<Longrightarrow> \<not> ovl cs ws we i"
  shows "first_ovl cs ws we l r k"
  using assms unfolding first_ovl_def by (meson linear order_trans less_imp_le)

lemma first_ovl_left:
  assumes "first_ovl cs ws we l m k" "m \<le> r" "\<And>i. m \<le> i \<Longrightarrow> i \<le> r \<Longrightarrow> \<not> ovl cs ws we i"
  shows "first_ovl cs ws we l r k"
  using assms unfolding first_ovl_def by (meson linear order_trans)

lemma first_ovl_extend:
  assumes "first_ovl cs ws we l m k" "m \<le> r" "l \<le> j" "j \<le> m" "ovl cs ws we j"
  shows "first_ovl cs ws we l r k"
  using assms unfolding first_ovl_def by (meson order_trans)

text \<open>One unfolding of the search on an interval with an interior middle.\<close>

lemma helper_step:
  assumes "0 \<le> l" "r < int (length cs)" "l < (l + r) div 2" "(l + r) div 2 < r"
  shows "helper cs l r ws we =
    (let m = (l + r) div 2 in
     if \<not> ovl cs ws we m then
       (if ws > endIndex (cs ! nat m) then helper cs m r ws we else helper cs l m ws we)
     else if \<not> ovl cs ws we (m - 1) then Inr m else helper cs l m ws we)"
  using assms by (subst helper.simps) (simp add: Let_def ovl_def)

lemma helper_small:
  assumes "0 \<le> l" "l \<le> r" "r < int (length cs)" "(l + r) div 2 = l \<or> (l + r) div 2 = r"
  shows "\<exists>k. helper cs l r ws we = Inr k \<and> first_ovl cs ws we l r k"
proof -
  have lr: "r = l \<or> r = l + 1" using assms by auto
  have two: "\<And>i. l \<le> i \<Longrightarrow> i \<le> l + 1 \<Longrightarrow> i = l \<or> i = l + 1" by auto
  from lr assms show ?thesis
    by (subst helper.simps) (auto simp: Let_def ovl_def[symmetric] first_ovl_def dest: two)
qed

text \<open>What a probe of the middle chunk says about the chunks on either side.\<close>

lemma ovl_none_before:
  assumes "chunks_sorted cs" "ws \<le> we" "0 \<le> i" "i \<le> m" "m < int (length cs)"
    "endIndex (cs ! nat m) < ws"
  shows "\<not> ovl cs ws we i"
  using ovl_iff[of cs ws we i] chunk_mono(1)[of cs i m] assms by simp

lemma ovl_none_after:
  assumes "chunks_sorted cs" "ws \<le> we" "0 \<le> m" "m \<le> i" "i < int (length cs)"
    "\<not> ovl cs ws we m" "\<not> endIndex (cs ! nat m) < ws"
  shows "\<not> ovl cs ws we i"
  using ovl_iff[of cs ws we i] ovl_iff[of cs ws we m] chunk_mono(2)[of cs m i] assms by simp

lemma ovl_first_middle:
  assumes "chunks_sorted cs" "ws \<le> we" "0 \<le> i" "i < m" "m < int (length cs)"
    "ovl cs ws we m" "\<not> ovl cs ws we (m - 1)"
  shows "\<not> ovl cs ws we i"
  using ovl_iff[of cs ws we i] ovl_iff[of cs ws we m] ovl_iff[of cs ws we "m - 1"]
    chunk_mono(1)[of cs i "m - 1"] chunk_mono(2)[of cs "m - 1" m] assms by simp

lemma helper_first:
  assumes "chunks_sorted cs" "ws \<le> we"
  shows "0 \<le> l \<Longrightarrow> l \<le> r \<Longrightarrow> r < int (length cs) \<Longrightarrow>
    \<exists>k. helper cs l r ws we = Inr k \<and> first_ovl cs ws we l r k"
proof (induction "nat (r - l)" arbitrary: l r rule: less_induct)
  case less
  define m where "m = (l + r) div 2"
  note sorted = assms
  show ?case
  proof (cases "m = l \<or> m = r")
    case True
    then show ?thesis using helper_small[OF less.prems] by (simp add: m_def)
  next
    case False
    then have lm: "l < m" "m < r" using less.prems by (auto simp: m_def)
    then have "0 \<le> m" "m < int (length cs)" using less.prems by auto
    note step = helper_step[OF less.prems(1,3) lm[unfolded m_def], folded m_def, of ws we]
    obtain k1 where k1: "helper cs m r ws we = Inr k1" "first_ovl cs ws we m r k1"
      using less.hyps[of r m] less.prems lm by auto
    obtain k2 where k2: "helper cs l m ws we = Inr k2" "first_ovl cs ws we l m k2"
      using less.hyps[of m l] less.prems lm by auto
    consider (right) "\<not> ovl cs ws we m" "endIndex (cs ! nat m) < ws"
      | (left) "\<not> ovl cs ws we m" "\<not> endIndex (cs ! nat m) < ws"
      | (mid) "ovl cs ws we m" "\<not> ovl cs ws we (m - 1)"
      | (before) "ovl cs ws we m" "ovl cs ws we (m - 1)" by blast
    then show ?thesis
    proof cases
      case right
      have "first_ovl cs ws we l r k1"
        by (rule first_ovl_right[OF k1(2)])
           (use ovl_none_before[OF sorted _ _ _ right(2)] lm less.prems in auto)
      then show ?thesis using step right k1(1) by (simp add: Let_def)
    next
      case left
      have "first_ovl cs ws we l r k2"
        by (rule first_ovl_left[OF k2(2)])
           (use ovl_none_after[OF sorted _ _ _ left] lm less.prems in auto)
      then show ?thesis using step left k2(1) by (simp add: Let_def)
    next
      case mid
      have "first_ovl cs ws we l r m"
        using ovl_first_middle[OF sorted _ _ _ mid] mid(1) lm less.prems
        by (auto simp: first_ovl_def)
      then show ?thesis using step mid by (simp add: Let_def)
    next
      case before
      have "first_ovl cs ws we l r k2"
        by (rule first_ovl_extend[OF k2(2), of r "m - 1"]) (use before lm in auto)
      then show ?thesis using step before k2(1) by (simp add: Let_def)
    qed
  qed
qed

subsection \<open>The collected chunks\<close>

lemma collectOverlapping_takeWhile:
  "i \<le> length cs \<Longrightarrow>
   collectOverlapping cs (int i) ws we = Inr (takeWhile (overlapsWithWindow ws we) (drop i cs))"
proof (induction "length cs - i" arbitrary: i)
  case 0
  then show ?case by (subst collectOverlapping.simps) simp
next
  case (Suc n)
  then have i: "i < length cs" by simp
  have "collectOverlapping cs (int i + 1) ws we
      = Inr (takeWhile (overlapsWithWindow ws we) (drop (Suc i) cs))"
    using Suc.hyps(1)[of "Suc i"] Suc.hyps(2) i by (simp add: algebra_simps)
  then show ?case
    using i by (subst collectOverlapping.simps) (simp add: Cons_nth_drop_Suc[symmetric])
qed

lemma filter_eq_takeWhile:
  assumes "\<And>i j. i \<le> j \<Longrightarrow> j < length xs \<Longrightarrow> P (xs ! j) \<Longrightarrow> P (xs ! i)"
  shows "filter P xs = takeWhile P xs"
  using assms
proof (induction xs)
  case (Cons x xs)
  have "P (xs ! i)" if "i \<le> j" "j < length xs" "P (xs ! j)" for i j
    using Cons.prems[of "Suc i" "Suc j"] that by simp
  then have IH: "filter P xs = takeWhile P xs" by (rule Cons.IH)
  show ?case
  proof (cases "P x")
    case False
    then have "\<not> P (xs ! j)" if "j < length xs" for j using Cons.prems[of 0 "Suc j"] that by auto
    then show ?thesis using False by (auto simp: filter_empty_conv in_set_conv_nth)
  qed (simp add: IH)
qed simp

lemma ovl_convex:
  assumes "chunks_sorted cs" "ws \<le> we" "i \<le> j" "j \<le> k" "k < length cs"
    "overlapsWithWindow ws we (cs ! i)" "overlapsWithWindow ws we (cs ! k)"
  shows "overlapsWithWindow ws we (cs ! j)"
  using assms ovl_iff[OF assms(1,2), of "int i"] ovl_iff[OF assms(1,2), of "int j"]
    ovl_iff[OF assms(1,2), of "int k"] chunk_mono[OF assms(1), of "int i" "int j"]
    chunk_mono[OF assms(1), of "int j" "int k"]
  by (auto simp: ovl_def)

lemma findOverlappingChunks_found:
  assumes "chunks_sorted cs" "ws \<le> we" "\<exists>c\<in>set cs. overlapsWithWindow ws we c"
  shows "findOverlappingChunks cs ws we = Inr (filter (overlapsWithWindow ws we) cs)"
proof -
  have ne: "cs \<noteq> []" using assms(3) by auto
  obtain k where k: "findFirstOverlappingChunk cs ws we = Inr k"
      "first_ovl cs ws we 0 (int (length cs) - 1) k"
    using helper_first[OF assms(1,2), of 0 "int (length cs) - 1"] ne
    by (auto simp: findFirstOverlappingChunk_def)
  obtain j where j: "j < length cs" "overlapsWithWindow ws we (cs ! j)"
    using assms(3) by (auto simp: in_set_conv_nth)
  then have "ovl cs ws we (int j)" by (simp add: ovl_def)
  then have kk: "0 \<le> k" "k < int (length cs)" "ovl cs ws we k"
      "\<forall>i. 0 \<le> i \<and> i < k \<longrightarrow> \<not> ovl cs ws we i"
    using k(2) j(1) by (auto simp: first_ovl_def)
  then obtain n where n: "k = int n" "n < length cs" by (metis nonneg_int_cases of_nat_less_iff)
  have before: "filter (overlapsWithWindow ws we) (take n cs) = []"
    using kk(4) n by (auto simp: filter_empty_conv in_set_conv_nth ovl_def)
       (metis nat_int of_nat_0_le_iff of_nat_less_iff)
  have "filter (overlapsWithWindow ws we) (drop n cs) = takeWhile (overlapsWithWindow ws we) (drop n cs)"
    by (rule filter_eq_takeWhile)
       (use ovl_convex[OF assms(1,2) le_add1 add_left_mono, of _ _ n] kk(3) n in
         \<open>auto simp: ovl_def less_diff_conv add.commute\<close>)
  then have "filter (overlapsWithWindow ws we) cs = takeWhile (overlapsWithWindow ws we) (drop n cs)"
    using before by (metis append_take_drop_id filter_append append_Nil)
  then show ?thesis
    using k(1) collectOverlapping_takeWhile[of n cs ws we] ne n
    by (simp add: findOverlappingChunks_def)
qed

lemma findOverlappingChunks_none:
  assumes "chunks_sorted cs" "ws \<le> we" "cs \<noteq> []" "\<forall>c\<in>set cs. \<not> overlapsWithWindow ws we c"
  shows "findOverlappingChunks cs ws we = Inl TypeError"
proof -
  obtain k where k: "findFirstOverlappingChunk cs ws we = Inr k"
      "first_ovl cs ws we 0 (int (length cs) - 1) k"
    using helper_first[OF assms(1,2), of 0 "int (length cs) - 1"] assms(3)
    by (auto simp: findFirstOverlappingChunk_def)
  have "\<not> ovl cs ws we i" if "0 \<le> i" "i \<le> int (length cs) - 1" for i
    using assms(4) that by (auto simp: ovl_def)
  then have "k = -1" using k(2) by (auto simp: first_ovl_def)
  then show ?thesis using k(1) assms(3)
    by (simp add: findOverlappingChunks_def) (subst collectOverlapping.simps, simp)
qed

section \<open>Rows of a window\<close>

text \<open>
  The slice both consumers take of a chunk's rows (\<open>processChunk\<close> in \<open>result.js\<close>,
  \<open>onResultStreamData\<close> in \<open>row_stream.js\<close>).
\<close>

definition windowRows :: "int \<Rightarrow> int \<Rightarrow> 'v chunk \<Rightarrow> 'v row list \<Rightarrow> 'v row list" where
  "windowRows start end c rs =
     js_slice rs (max (startIndex c) start - startIndex c) (min (endIndex c) end + 1 - startIndex c)"

definition in_window :: "int \<Rightarrow> int \<Rightarrow> 'v row \<Rightarrow> bool" where
  "in_window start end r \<longleftrightarrow> start \<le> rowIndex r \<and> rowIndex r \<le> end"

lemma rowsFrom_index_ge: "r \<in> set (rowsFrom s vs) \<Longrightarrow> s \<le> rowIndex r \<and> rowIndex r < s + int (length vs)"
  by (auto simp: in_set_conv_nth rowsFrom_nth)

lemma filter_rowsFrom:
  "filter (in_window lo hi) (rowsFrom s vs) =
   take (nat (hi + 1 - s) - nat (lo - s)) (drop (nat (lo - s)) (rowsFrom s vs))"
proof (induction vs arbitrary: s)
  case (Cons v vs)
  note IH = Cons.IH[of "s + 1"]
  consider (before) "s < lo" | (inside) "lo \<le> s" "s \<le> hi" | (after) "lo \<le> s" "hi < s" by linarith
  then show ?case
  proof cases
    case before
    then have "nat (lo - s) = Suc (nat (lo - (s + 1)))" "nat (hi + 1 - s) - nat (lo - s)
        = nat (hi + 1 - (s + 1)) - nat (lo - (s + 1))" by auto
    then show ?thesis using before IH by (simp add: in_window_def)
  next
    case inside
    then have "nat (lo - s) = 0" "nat (lo - (s + 1)) = 0" "nat (hi + 1 - s) = Suc (nat (hi + 1 - (s + 1)))"
      by auto
    then show ?thesis using inside IH by (simp add: in_window_def)
  next
    case after
    then have "nat (hi + 1 - s) = 0" "nat (hi + 1 - (s + 1)) = 0" by auto
    then show ?thesis using after IH by (simp add: in_window_def)
  qed
qed simp

lemma windowRows_eq_filter:
  assumes "overlapsWithWindow ws we c" "ws \<le> we" "startIndex c \<le> endIndex c"
    "int (length vs) = endIndex c - startIndex c + 1"
  shows "windowRows ws we c (rowsFrom (startIndex c) vs) = filter (in_window ws we) (rowsFrom (startIndex c) vs)"
proof -
  let ?s = "startIndex c" and ?e = "endIndex c"
  have o: "ws \<le> ?e" "?s \<le> we" using assms(1-3) by (simp_all add: overlapsWithWindow_iff)
  have "windowRows ws we c (rowsFrom ?s vs) =
      take (nat (min ?e we + 1 - ?s) - nat (max ?s ws - ?s)) (drop (nat (max ?s ws - ?s)) (rowsFrom ?s vs))"
    using o assms(2,3) by (simp add: windowRows_def js_slice_nonneg)
  moreover have "nat (max ?s ws - ?s) = nat (ws - ?s)" by (simp add: max_def)
  moreover have "take (nat (min ?e we + 1 - ?s) - n) (drop n (rowsFrom ?s vs))
      = take (nat (we + 1 - ?s) - n) (drop n (rowsFrom ?s vs))" for n
    using assms(4) by (cases "?e \<le> we") (simp_all add: min_def)
  ultimately show ?thesis by (simp add: filter_rowsFrom)
qed

lemma filter_window_outside:
  assumes "\<not> overlapsWithWindow ws we c" "ws \<le> we" "startIndex c \<le> endIndex c"
    "int (length vs) = endIndex c - startIndex c + 1"
  shows "filter (in_window ws we) (rowsFrom (startIndex c) vs) = []"
proof -
  have "\<not> in_window ws we r" if "r \<in> set (rowsFrom (startIndex c) vs)" for r
    using rowsFrom_index_ge[OF that] assms by (auto simp: in_window_def overlapsWithWindow_iff)
  then show ?thesis by (simp add: filter_empty_conv)
qed

lemma windowRows_concat:
  assumes "ws \<le> we"
  shows "list_all2 (\<lambda>cfg d. d \<noteq> [] \<and> cfg_rowCount cfg = int (length d)) cfgs ds \<Longrightarrow>
    concat (map (\<lambda>(c, d). windowRows ws we c (rowsFrom (startIndex c) d))
                (filter (\<lambda>(c, d). overlapsWithWindow ws we c) (zip (buildChunks s cfgs) ds)))
    = filter (in_window ws we) (rowsFrom s (concat ds))"
proof (induction cfgs ds arbitrary: s rule: list_all2_induct)
  case (Cons cfg cfgs d ds)
  let ?c = "newChunk s cfg"
  have c: "startIndex ?c \<le> endIndex ?c" "int (length d) = endIndex ?c - startIndex ?c + 1"
    using Cons.hyps(1) by (auto simp: Suc_le_eq)
  have "filter (in_window ws we) (rowsFrom s (concat (d # ds))) =
    filter (in_window ws we) (rowsFrom s d) @
    filter (in_window ws we) (rowsFrom (s + cfg_rowCount cfg) (concat ds))"
    using Cons.hyps(1) by (simp add: rowsFrom_append)
  then show ?case
    using Cons.IH[of "s + cfg_rowCount cfg"] windowRows_eq_filter[of ws we ?c d]
      filter_window_outside[of ws we ?c d] c assms
    by (cases "overlapsWithWindow ws we ?c") simp_all
qed simp

section \<open>Refreshing the urls\<close>

lemma length_buildChunks [simp]: "length (buildChunks s cfgs) = length cfgs"
  by (induction s cfgs rule: buildChunks.induct) auto

lemma url_buildChunks: "map chunk_url (buildChunks s cfgs) = map cfg_url cfgs"
  by (induction s cfgs rule: buildChunks.induct) auto

lemma refreshFrom_enough:
  "i + length cs \<le> length l \<Longrightarrow>
   refreshFrom (Some l) i cs = (map2 (\<lambda>g c. setUrl (cfg_url g) c) (drop i l) cs, None)"
proof (induction cs arbitrary: i)
  case (Cons c cs)
  then have "drop i l = l ! i # drop (Suc i) l" by (simp add: Cons_nth_drop_Suc)
  with Cons show ?case by simp
qed simp

lemma refreshFrom_short:
  "length l < i + length cs \<Longrightarrow> i \<le> length l \<Longrightarrow>
   refreshFrom (Some l) i cs =
     (map2 (\<lambda>g c. setUrl (cfg_url g) c) (drop i l) cs @ drop (length l - i) cs, Some TypeError)"
proof (induction cs arbitrary: i)
  case (Cons c cs)
  show ?case
  proof (cases "i < length l")
    case True
    then have "drop i l = l ! i # drop (Suc i) l" "length l - i = Suc (length l - Suc i)"
      by (simp_all add: Cons_nth_drop_Suc)
    with Cons.IH[of "Suc i"] Cons.prems True show ?thesis by simp
  qed (use Cons.prems in simp)
qed simp

section \<open>Properties\<close>

text \<open>
  C32. The binary search for the chunks of a row window agrees with filtering the whole array,
  for every array built from non-empty chunks. When no chunk overlaps the window, the search
  reports index -1 and the collecting loop reads \<open>chunks[-1]\<close>: the call throws.
\<close>

theorem findOverlappingChunks_correct:
  assumes "\<forall>cfg\<in>set (allCfgs cfgs inline). 0 < cfg_rowCount cfg" "start \<le> end"
  shows "findOverlappingChunks (createChunks cfgs inline) start end =
    (let cs = createChunks cfgs inline; hits = filter (overlapsWithWindow start end) cs
     in if cs = [] then Inr [] else if hits = [] then Inl TypeError else Inr hits)"
proof -
  let ?cs = "createChunks cfgs inline"
  have sorted: "chunks_sorted ?cs"
    using buildChunks_bounds[OF assms(1)] by (simp add: createChunks_def)
  consider (empty) "?cs = []" | (none) "?cs \<noteq> []" "filter (overlapsWithWindow start end) ?cs = []"
    | (hit) "?cs \<noteq> []" "filter (overlapsWithWindow start end) ?cs \<noteq> []" by blast
  then show ?thesis
  proof cases
    case none
    then show ?thesis
      using findOverlappingChunks_none[OF sorted assms(2)] by (simp add: Let_def filter_empty_conv)
  next
    case hit
    then have "\<exists>c\<in>set ?cs. overlapsWithWindow start end c" by (auto simp: filter_empty_conv)
    from findOverlappingChunks_found[OF sorted assms(2) this] hit show ?thesis by (simp add: Let_def)
  qed (simp add: findOverlappingChunks_def)
qed

definition remoteCfg :: "int \<Rightarrow> string \<Rightarrow> nat chunk_cfg" where
  "remoteCfg n u = \<lparr>cfg_compressedSize = None, cfg_uncompressedSize = None, cfg_rowCount = n,
                    cfg_url = Some u, cfg_rowset = None\<rparr>"

lemma remoteCfg_sel [simp]:
  "cfg_rowCount (remoteCfg n u) = n" "cfg_url (remoteCfg n u) = Some u" "cfg_rowset (remoteCfg n u) = None"
  by (simp_all add: remoteCfg_def)

lemma inlineCfg_sel [simp]: "cfg_rowCount (inlineCfg rs) = int (length rs)"
  by (simp add: inlineCfg_def)

theorem findOverlappingChunks_correct_witness:
  "findOverlappingChunks (createChunks (Some [remoteCfg 5 ''a'', remoteCfg 4 ''b'', remoteCfg 3 ''c'']) [[1], [2]]) 6 8
     = Inr [newChunk 2 (remoteCfg 5 ''a''), newChunk 7 (remoteCfg 4 ''b'')] \<and>
   findOverlappingChunks (createChunks (Some [remoteCfg 5 ''a'']) []) 9 12 = Inl TypeError"
  using findOverlappingChunks_correct
      [of "Some [remoteCfg 5 ''a'', remoteCfg 4 ''b'', remoteCfg 3 ''c'']" "[[1], [2]]" 6 8]
    findOverlappingChunks_correct[of "Some [remoteCfg 5 ''a'']" "[]" 9 12]
  by (simp add: createChunks_def allCfgs_def overlapsWithWindow_def)

text \<open>
  C31. Window semantics: the slices taken from the overlapping chunks, concatenated, are exactly
  the rows of the whole result whose global index lies between \<open>start\<close> and \<open>end\<close>, in
  order, whatever the chunk boundaries are.
\<close>

theorem window_is_exact:
  assumes "list_all2 (\<lambda>cfg d. d \<noteq> [] \<and> cfg_rowCount cfg = int (length d)) cfgs ds" "start \<le> end"
  shows "concat (map (\<lambda>(c, d). windowRows start end c (convertRowsetToRows (startIndex c) d))
                (filter (\<lambda>(c, d). overlapsWithWindow start end c) (zip (createChunks (Some cfgs) []) ds)))
    = filter (\<lambda>r. start \<le> rowIndex r \<and> rowIndex r \<le> end) (convertRowsetToRows 0 (concat ds))"
  using windowRows_concat[OF assms(2,1), of 0]
  by (simp add: createChunks_def allCfgs_def convertRowsetToRows_def in_window_def[abs_def])

theorem window_is_exact_witness:
  "concat (map (\<lambda>(c, d). windowRows 1 3 c (convertRowsetToRows (startIndex c) d))
      (filter (\<lambda>(c, d). overlapsWithWindow 1 3 c)
         (zip (createChunks (Some [remoteCfg 2 ''a'', remoteCfg 3 ''b'']) []) [[[10], [11]], [[12], [13], [14]]])))
    = [\<lparr>row_values = [11], rowIndex = 1\<rparr>, \<lparr>row_values = [12], rowIndex = 2\<rparr>, \<lparr>row_values = [13 :: nat], rowIndex = 3\<rparr>]"
  by (subst window_is_exact) (simp_all add: remoteCfg_def convertRowsetToRows_def)

text \<open>
  When no rows came inline, \<open>refresh\<close> with the refreshed chunk list gives every chunk the
  new url at its own position.
\<close>

theorem refresh_updates_urls:
  assumes "length new = length cfgs"
  shows "\<exists>cs. refresh (Some new) (createChunks (Some cfgs) []) = (cs, None) \<and>
              map chunk_url cs = map cfg_url new \<and>
              map chunk_id cs = map chunk_id (createChunks (Some cfgs) [])"
proof -
  let ?cs = "createChunks (Some cfgs) []"
  have l: "length ?cs = length new" using assms by (simp add: createChunks_def allCfgs_def)
  have "map chunk_url (map2 (\<lambda>g c. setUrl (cfg_url g) c) new ?cs) = map cfg_url new"
       "map chunk_id (map2 (\<lambda>g c. setUrl (cfg_url g) c) new ?cs) = map chunk_id ?cs"
    using l by (auto simp: list_eq_iff_nth_eq setUrl_def)
  then show ?thesis using refreshFrom_enough[of 0 ?cs new] l by (simp add: refresh_def)
qed

theorem refresh_updates_urls_witness:
  "\<exists>cs. refresh (Some [remoteCfg 5 ''x'']) (createChunks (Some [remoteCfg 5 ''a'']) []) = (cs, None) \<and>
        map chunk_url cs = [Some ''x''] \<and>
        map chunk_id cs = map chunk_id (createChunks (Some [remoteCfg 5 ''a'']) [])"
  using refresh_updates_urls[of "[remoteCfg 5 ''x'']" "[remoteCfg 5 ''a'']"]
  by (simp add: remoteCfg_def[of 5 "''x''"])

text \<open>
  When some rows came inline, the fabricated first chunk shifts the positions: the same
  refreshed list gives the inline chunk the url of the first remote chunk, every remote chunk but
  the last the url of its successor, leaves the last one with its old url, and throws.
\<close>

theorem refresh_shifts_urls_after_inline_rows:
  assumes "inline \<noteq> []" "length new = length cfgs"
  shows "\<exists>cs. refresh (Some new) (createChunks (Some cfgs) inline) = (cs, Some TypeError) \<and>
              map chunk_url (butlast cs) = map cfg_url new \<and>
              chunk_url (last cs) = chunk_url (last (createChunks (Some cfgs) inline))"
proof -
  let ?cs = "createChunks (Some cfgs) inline"
  have l: "length ?cs = Suc (length new)" using assms by (simp add: createChunks_def allCfgs_def)
  let ?r = "map2 (\<lambda>g c. setUrl (cfg_url g) c) new ?cs @ drop (length new) ?cs"
  have d: "drop (length new) ?cs = [last ?cs]"
    using l by (metis Suc_diff_Suc append_eq_conv_conj append_butlast_last_id diff_Suc_1 length_butlast
        length_0_conv nat.distinct(1))
  have "map chunk_url (map2 (\<lambda>g c. setUrl (cfg_url g) c) new ?cs) = map cfg_url new"
    using l by (auto simp: list_eq_iff_nth_eq setUrl_def)
  then have "map chunk_url (butlast ?r) = map cfg_url new" "chunk_url (last ?r) = chunk_url (last ?cs)"
    by (simp_all add: d)
  then show ?thesis using refreshFrom_short[of new 0 ?cs] l by (auto simp: refresh_def)
qed

theorem refresh_shifts_urls_after_inline_rows_witness:
  "\<exists>cs. refresh (Some [remoteCfg 5 ''a2'', remoteCfg 5 ''b2''])
          (createChunks (Some [remoteCfg 5 ''a'', remoteCfg 5 ''b'']) [[7]]) = (cs, Some TypeError) \<and>
        map chunk_url cs = [Some ''a2'', Some ''b2'', Some ''b'']"
proof -
  obtain cs where cs: "refresh (Some [remoteCfg 5 ''a2'', remoteCfg 5 ''b2''])
          (createChunks (Some [remoteCfg 5 ''a'', remoteCfg 5 ''b'']) [[7]]) = (cs, Some TypeError)"
    "map chunk_url (butlast cs) = [Some ''a2'', Some ''b2'']" "chunk_url (last cs) = Some ''b''"
    using refresh_shifts_urls_after_inline_rows[of "[[7]]" "[remoteCfg 5 ''a2'', remoteCfg 5 ''b2'']"
      "[remoteCfg 5 ''a'', remoteCfg 5 ''b'']"]
    by (auto simp: createChunks_def allCfgs_def remoteCfg_def)
  then have "cs = butlast cs @ [last cs]" by (cases cs rule: rev_cases) auto
  then have "map chunk_url cs = map chunk_url (butlast cs) @ [chunk_url (last cs)]" by (metis list.simps(8,9) map_append)
  with cs show ?thesis by simp
qed

end
