(* ===== verification/ColumnNames.thy ===== *)
theory ColumnNames
  imports ChunkModel
begin

text \<open>
  Column names of a result: the renaming of duplicated columns
  (\<open>lib/connection/result/unique_column_name_creator.js\<close>), the inverted index from column name to
  column positions that the \<open>Result\<close> constructor builds, \<open>getColumn\<close>, the statement-type tests of
  \<open>statement_type.js\<close> and \<open>getNumUpdatedRows\<close>.
\<close>

section \<open>Renaming duplicated columns\<close>

text \<open>A missing (falsy) name of the row type is the empty string.\<close>

definition suffixed :: "string \<Rightarrow> nat \<Rightarrow> string" where
  "suffixed n k = n @ ''_'' @ show_nat k"

definition resultContainsDuplicatedColumns :: "string list \<Rightarrow> bool" where
  "resultContainsDuplicatedColumns names \<longleftrightarrow> length names \<noteq> length (remdups names)"

lemma suffixed_inject [simp]: "suffixed n k = suffixed n k' \<longleftrightarrow> k = k'"
  by (simp add: suffixed_def)

lemma finite_suffixes: "finite {k. suffixed n k \<in> set names}"
proof (rule finite_imageD)
  show "finite (suffixed n ` {k. suffixed n k \<in> set names})"
    by (rule finite_subset[of _ "set names"]) auto
qed (simp add: inj_on_def)

text \<open>The inner \<open>while\<close> loop: the first suffix, counting up, that is not a known name.\<close>

function freshSuffix :: "string list \<Rightarrow> string \<Rightarrow> nat \<Rightarrow> nat" where
  "freshSuffix names n tm =
     (if suffixed n tm \<in> set names then freshSuffix names n (tm + 1) else tm)"
  by pat_completeness auto
termination
proof (relation "measure (\<lambda>(names, n, tm). card {k. tm \<le> k \<and> suffixed n k \<in> set names})")
  fix names n tm
  assume a: "suffixed n tm \<in> set names"
  let ?S = "\<lambda>t. {k. t \<le> k \<and> suffixed n k \<in> set names}"
  have "finite (?S tm)" by (rule finite_subset[OF _ finite_suffixes[of n names]]) auto
  moreover have "tm \<in> ?S tm" "tm \<notin> ?S (tm + 1)" "?S (tm + 1) \<subseteq> ?S tm" using a by auto
  then have "?S (tm + 1) \<subset> ?S tm" by blast
  ultimately show "((names, n, tm + 1), names, n, tm)
      \<in> measure (\<lambda>(names, n, tm). card {k. tm \<le> k \<and> suffixed n k \<in> set names})"
    by (simp add: psubset_card_mono)
qed simp

declare freshSuffix.simps [simp del]

lemma freshSuffix_fresh: "suffixed n (freshSuffix names n t) \<notin> set names"
proof (induction names n t rule: freshSuffix.induct)
  case (1 names n tm)
  then show ?case by (subst freshSuffix.simps) auto
qed

lemma freshSuffix_ge: "t \<le> freshSuffix names n t"
proof (induction names n t rule: freshSuffix.induct)
  case (1 names n tm)
  then show ?case by (subst freshSuffix.simps) auto
qed

text \<open>
  The renaming loop: \<open>known\<close> is the set of names in use, \<open>q\<close> the last suffix used per name.
  The result lists the \<open>overriddenName\<close> of each column.
\<close>

fun renameLoop :: "string list \<Rightarrow> string list \<Rightarrow> (string \<rightharpoonup> nat) \<Rightarrow> string option list" where
  "renameLoop [] known q = []"
| "renameLoop (n # ns) known q =
     (if n = [] then None # renameLoop ns known q
      else (case q n of
              Some t \<Rightarrow>
                (let tm = freshSuffix known n (t + 1); new = suffixed n tm
                 in Some new # renameLoop ns (new # known) (q(n \<mapsto> tm)))
            | None \<Rightarrow> None # renameLoop ns known (q(n \<mapsto> 1))))"

definition addOverriddenNamesForDuplicatedColumns :: "string list \<Rightarrow> string option list" where
  "addOverriddenNamesForDuplicatedColumns names =
     (if resultContainsDuplicatedColumns names
      then renameLoop names (remdups names) Map.empty
      else map (\<lambda>_. None) names)"

text \<open>\<open>columnMetadata.overriddenName || columnMetadata.name\<close> in the \<open>Column\<close> constructor.\<close>

definition effectiveName :: "string \<Rightarrow> string option \<Rightarrow> string" where
  "effectiveName n ov = (case ov of Some m \<Rightarrow> if m = [] then n else m | None \<Rightarrow> n)"

definition effectiveNames :: "string list \<Rightarrow> string list" where
  "effectiveNames names = map2 effectiveName names (addOverriddenNamesForDuplicatedColumns names)"

lemma suffixed_nonempty [simp]: "suffixed n k \<noteq> []"
  by (simp add: suffixed_def)

lemma length_renameLoop [simp]: "length (renameLoop ns known q) = length ns"
  by (induction ns arbitrary: known q) (auto simp: Let_def split: option.split)

text \<open>
  Loop invariant: \<open>used\<close> are the names handed out so far; an original name has been handed
  out exactly if it has a counter.
\<close>

lemma renameLoop_distinct:
  assumes "\<forall>n\<in>set ns. n \<noteq> []" "set ns \<subseteq> set known" "set used \<subseteq> set known" "distinct used"
    "\<forall>n\<in>set ns. n \<in> set used \<longleftrightarrow> q n \<noteq> None"
  shows "distinct (used @ map2 effectiveName ns (renameLoop ns known q))"
  using assms
proof (induction ns arbitrary: known q used)
  case (Cons n ns)
  show ?case
  proof (cases "q n")
    case None
    have "distinct ((used @ [n]) @ map2 effectiveName ns (renameLoop ns known (q(n \<mapsto> 1))))"
      by (rule Cons.IH) (use Cons.prems None in auto)
    then show ?thesis using None Cons.prems(1) by (simp add: effectiveName_def)
  next
    case (Some t)
    let ?t = "freshSuffix known n (t + 1)"
    let ?new = "suffixed n ?t"
    have fresh: "?new \<notin> set known" by (rule freshSuffix_fresh)
    have "distinct ((used @ [?new]) @ map2 effectiveName ns (renameLoop ns (?new # known) (q(n \<mapsto> ?t))))"
      by (rule Cons.IH) (use Cons.prems Some fresh in auto)
    then show ?thesis using Some Cons.prems(1) by (simp add: Let_def effectiveName_def)
  qed
qed simp

lemma effectiveNames_keep_first:
  assumes "\<not> resultContainsDuplicatedColumns names"
  shows "effectiveNames names = names"
  using assms
  by (auto simp: effectiveNames_def addOverriddenNamesForDuplicatedColumns_def effectiveName_def
      intro: nth_equalityI)

section \<open>The inverted index of the constructor\<close>

text \<open>
  \<open>mapColumnNameToIndices\<close> is a plain object literal: a read of a name that
  \<open>Object.prototype\<close> defines finds the inherited value, which has no \<open>push\<close>.
\<close>

definition object_prototype_names :: "string list" where
  "object_prototype_names =
     [''constructor'', ''__defineGetter__'', ''__defineSetter__'', ''hasOwnProperty'',
      ''__lookupGetter__'', ''__lookupSetter__'', ''isPrototypeOf'', ''propertyIsEnumerable'',
      ''toString'', ''valueOf'', ''__proto__'', ''toLocaleString'']"

definition addColumnIndex :: "string \<Rightarrow> nat \<Rightarrow> (string \<rightharpoonup> nat list) \<Rightarrow> (string \<rightharpoonup> nat list) js" where
  "addColumnIndex n i m =
     (case m n of
        Some l \<Rightarrow> Inr (m(n \<mapsto> l @ [i]))
      | None \<Rightarrow> if n \<in> set object_prototype_names then Inl TypeError else Inr (m(n \<mapsto> [i])))"

fun buildColumnMap :: "nat \<Rightarrow> string list \<Rightarrow> (string \<rightharpoonup> nat list) \<Rightarrow> (string \<rightharpoonup> nat list) js" where
  "buildColumnMap i [] m = Inr m"
| "buildColumnMap i (n # ns) m = js_bind (addColumnIndex n i m) (buildColumnMap (Suc i) ns)"

text \<open>The positions of a name, counted from \<open>i\<close>: what the index should hold.\<close>

fun positions :: "string \<Rightarrow> string list \<Rightarrow> nat \<Rightarrow> nat list" where
  "positions n [] i = []"
| "positions n (x # xs) i = (if x = n then [i] else []) @ positions n xs (Suc i)"

lemma positions_empty: "n \<notin> set ns \<Longrightarrow> positions n ns i = []"
  by (induction ns arbitrary: i) auto

lemma positions_first: "n \<in> set ns \<Longrightarrow> \<exists>k ks. positions n ns i = (i + k) # ks \<and> k < length ns \<and> ns ! k = n"
proof (induction ns arbitrary: i)
  case (Cons x xs)
  show ?case
  proof (cases "x = n")
    case False
    then obtain k ks where "positions n xs (Suc i) = (Suc i + k) # ks" "k < length xs" "xs ! k = n"
      using Cons by fastforce
    with False show ?thesis by (intro exI[of _ "Suc k"] exI[of _ ks]) simp
  qed auto
qed simp

lemma buildColumnMap_positions:
  "set ns \<inter> set object_prototype_names = {} \<Longrightarrow>
   \<exists>m'. buildColumnMap i ns m = Inr m' \<and>
     (\<forall>n. m' n = (if n \<in> set ns then Some ((case m n of Some l \<Rightarrow> l | None \<Rightarrow> []) @ positions n ns i)
                  else m n))"
proof (induction ns arbitrary: i m)
  case (Cons n ns)
  define m1 where "m1 = m(n \<mapsto> (case m n of Some l \<Rightarrow> l | None \<Rightarrow> []) @ [i])"
  have a: "addColumnIndex n i m = Inr m1"
    using Cons.prems by (auto simp: addColumnIndex_def m1_def split: option.split)
  have "set ns \<inter> set object_prototype_names = {}" using Cons.prems by auto
  then obtain m' where m': "buildColumnMap (Suc i) ns m1 = Inr m'"
    "\<And>k. m' k = (if k \<in> set ns then Some ((case m1 k of Some l \<Rightarrow> l | None \<Rightarrow> []) @ positions k ns (Suc i))
                  else m1 k)"
    using Cons.IH[of "Suc i" m1] by blast
  have "m' k = (if k \<in> set (n # ns) then Some ((case m k of Some l \<Rightarrow> l | None \<Rightarrow> []) @ positions k (n # ns) i)
                else m k)" for k
    using m'(2)[of k] by (auto simp: m1_def positions_empty)
  then show ?case using m'(1) a by simp
qed simp

definition getColumn :: "'c list \<Rightarrow> col_ident \<Rightarrow> (string \<rightharpoonup> nat list) \<Rightarrow> 'c option js" where
  "getColumn cols ident m =
     (let at = (\<lambda>i::int. if 0 \<le> i \<and> i < int (length cols) then Some (cols ! nat i) else None) in
      case ident of
        ColName n \<Rightarrow>
          (case m n of
             Some (i # _) \<Rightarrow> Inr (at (int i))
           | Some [] \<Rightarrow> Inr None
           | None \<Rightarrow> Inr None)
      | ColIndex i \<Rightarrow> Inr (at i)
      | ColOther \<Rightarrow> Inr None)"

section \<open>Statement types and update counts\<close>

definition isDml :: "int \<Rightarrow> bool" where
  "isDml t \<longleftrightarrow> t \<ge> 0x3000 \<and> t < 0x4000"

definition isInsert :: "int \<Rightarrow> bool" where "isInsert t \<longleftrightarrow> t = 0x3100"

definition isUpdate :: "int \<Rightarrow> bool" where "isUpdate t \<longleftrightarrow> t = 0x3200"

definition isDelete :: "int \<Rightarrow> bool" where "isDelete t \<longleftrightarrow> t = 0x3300"

definition isMerge :: "int \<Rightarrow> bool" where "isMerge t \<longleftrightarrow> t = 0x3400"

definition isMultiTableInsert :: "int \<Rightarrow> bool" where "isMultiTableInsert t \<longleftrightarrow> t = 0x3500"

definition isDdl :: "int \<Rightarrow> bool" where "isDdl t \<longleftrightarrow> t \<ge> 0x6000"

text \<open>
  \<open>cell\<close> gives \<open>Number(row.getColumnValue(id))\<close> of a row and a column. The rows of a chunk that
  is not loaded are \<open>undefined\<close>, whose \<open>length\<close> throws.
\<close>

definition getNumUpdatedRows ::
    "(string \<Rightarrow> 'v list list js) \<Rightarrow> ('v row \<Rightarrow> nat \<Rightarrow> int) \<Rightarrow> int \<Rightarrow> 'v chunk list \<Rightarrow> nat \<Rightarrow> int js" where
  "getNumUpdatedRows parse cell typeId chunks numCols =
     (if isDml typeId \<and> (isInsert typeId \<or> isUpdate typeId \<or> isDelete typeId \<or> isMerge typeId \<or>
                         isMultiTableInsert typeId)
      then (if length chunks \<noteq> 1 then Inl AssertionError
            else js_bind (getRows parse (hd chunks)) (\<lambda>(rs, c).
              case rs of
                None \<Rightarrow> Inl TypeError
              | Some rs \<Rightarrow> Inr (\<Sum>r\<leftarrow>rs. \<Sum>i\<leftarrow>[0..<numCols]. cell r i)))
      else Inr (-1))"

section \<open>Properties\<close>

text \<open>
  With the row mode \<open>object_with_renamed_duplicated_columns\<close>, the effective column names of a
  result are pairwise different (so no value of a row object overwrites another), provided no
  column name is empty; and names without duplicates are left alone.
\<close>

theorem effective_names_distinct:
  assumes "\<forall>n\<in>set names. n \<noteq> []"
  shows "distinct (effectiveNames names) \<and> length (effectiveNames names) = length names \<and>
         (distinct names \<longrightarrow> effectiveNames names = names)"
proof (cases "resultContainsDuplicatedColumns names")
  case True
  then have "\<not> distinct names"
    by (auto simp: resultContainsDuplicatedColumns_def distinct_remdups_id)
  moreover have "distinct ([] @ map2 effectiveName names (renameLoop names (remdups names) Map.empty))"
    by (rule renameLoop_distinct) (use assms in auto)
  ultimately show ?thesis
    using True by (simp add: effectiveNames_def addOverriddenNamesForDuplicatedColumns_def)
next
  case False
  then have "distinct names" by (metis resultContainsDuplicatedColumns_def length_remdups_eq remdups_id_iff_distinct)
  then show ?thesis using effectiveNames_keep_first[OF False] by simp
qed

theorem effective_names_distinct_witness:
  "distinct (effectiveNames [''A'', ''A'', ''A_2'', ''A'']) \<and>
   effectiveNames [''A'', ''A'', ''A_2'', ''A''] = [''A'', ''A_3'', ''A_2'', ''A_4'']"
proof
  show "distinct (effectiveNames [''A'', ''A'', ''A_2'', ''A''])"
    using effective_names_distinct[of "[''A'', ''A'', ''A_2'', ''A'']"] by simp
  show "effectiveNames [''A'', ''A'', ''A_2'', ''A''] = [''A'', ''A_3'', ''A_2'', ''A_4'']"
    by code_simp
qed

text \<open>
  Name lookup: when no column is called like a property of \<open>Object.prototype\<close>, the
  constructor builds the index, and \<open>getColumn\<close> by name returns the first column with that name,
  or \<open>undefined\<close> when there is none.
\<close>

theorem getColumn_first_match:
  assumes "set names \<inter> set object_prototype_names = {}"
  shows "\<exists>m. buildColumnMap 0 names Map.empty = Inr m \<and>
             getColumn names (ColName n) m = Inr (find (\<lambda>x. x = n) names) \<and>
             (\<forall>i < length names. getColumn names (ColIndex (int i)) m = Inr (Some (names ! i)))"
proof -
  obtain m where m: "buildColumnMap 0 names Map.empty = Inr m"
    "\<forall>n. m n = (if n \<in> set names then Some (positions n names 0) else None)"
    using buildColumnMap_positions[OF assms, of 0 Map.empty] by auto
  have "getColumn names (ColName n) m = Inr (find (\<lambda>x. x = n) names)"
  proof (cases "n \<in> set names")
    case True
    obtain k ks where "positions n names 0 = k # ks" "k < length names" "names ! k = n"
      using positions_first[OF True, of 0] by auto
    moreover have "find (\<lambda>x. x = n) names = Some n"
      using True by (induction names) auto
    ultimately show ?thesis using m True by (simp add: getColumn_def Let_def)
  next
    case False
    then have "find (\<lambda>x. x = n) names = None" by (auto simp: find_None_iff)
    then show ?thesis using m False by (simp add: getColumn_def Let_def)
  qed
  with m(1) show ?thesis by (auto simp: getColumn_def Let_def)
qed

theorem getColumn_first_match_witness:
  "\<exists>m. buildColumnMap 0 [''ID'', ''NAME'', ''ID''] Map.empty = Inr m \<and>
       getColumn [''ID'', ''NAME'', ''ID''] (ColName ''ID'') m = Inr (Some ''ID'')"
  using getColumn_first_match[of "[''ID'', ''NAME'', ''ID'']" "''ID''"]
  by (auto simp: object_prototype_names_def)

text \<open>
  A column named like a property of \<open>Object.prototype\<close> (for instance \<open>constructor\<close>) makes the
  construction of the result throw, wherever the column stands.
\<close>

theorem prototype_named_column_throws:
  "n \<in> set object_prototype_names \<Longrightarrow> set before \<inter> set object_prototype_names = {} \<Longrightarrow>
   buildColumnMap 0 (before @ n # after) Map.empty = Inl TypeError"
proof -
  assume n: "n \<in> set object_prototype_names" and b: "set before \<inter> set object_prototype_names = {}"
  have "m n = None \<Longrightarrow> buildColumnMap i (before @ n # after) m = Inl TypeError" for i m
    using b
  proof (induction before arbitrary: i m)
    case Nil
    then show ?case using n by (simp add: addColumnIndex_def)
  next
    case (Cons x xs)
    then have "x \<noteq> n" using n by auto
    then show ?case using Cons by (auto simp: addColumnIndex_def js_bind_def split: option.split)
  qed
  then show ?thesis by simp
qed

theorem prototype_named_column_throws_witness:
  "buildColumnMap 0 [''ID'', ''constructor''] Map.empty = Inl TypeError"
  using prototype_named_column_throws[of "''constructor''" "[''ID'']" "[]"]
  by (simp add: object_prototype_names_def)

end
