(* ===== verification/ErrorsModel.thy ===== *)
theory ErrorsModel
  imports Prelude
begin

text \<open>
  Error values of the driver: the code table of \<open>lib/error_code.ts\<close>, the message templates of
  \<open>lib/constants/error_messages.js\<close> and the constructors, tests and externalization of
  \<open>lib/errors.js\<close>.  A property that is \<open>undefined\<close> is \<open>None\<close>; \<open>stack\<close> is left out.
\<close>

section \<open>Codes and message templates\<close>

definition error_codes :: "(string \<times> int) list" where
  "error_codes =
    [(''ERR_INTERNAL_ASSERT_FAILED'', 400001),
     (''ERR_SF_NETWORK_COULD_NOT_CONNECT'', 401001),
     (''ERR_SF_RESPONSE_FAILURE'', 401002),
     (''ERR_SF_RESPONSE_NOT_JSON'', 401003),
     (''ERR_SF_RESPONSE_INVALID_TOKEN'', 401004),
     (''ERR_LARGE_RESULT_SET_NETWORK_COULD_NOT_CONNECT'', 402001),
     (''ERR_LARGE_RESULT_SET_RESPONSE_FAILURE'', 402002),
     (''ERR_GLOBAL_CONFIGURE_INVALID_LOG_LEVEL'', 403001),
     (''ERR_GLOBAL_CONFIGURE_INVALID_DISABLE_OCSP_CHECKS'', 403002),
     (''ERR_GLOBAL_CONFIGURE_INVALID_OCSP_MODE'', 403003),
     (''ERR_GLOBAL_CONFIGURE_INVALID_JSON_PARSER'', 403004),
     (''ERR_GLOBAL_CONFIGURE_INVALID_XML_PARSER'', 403005),
     (''ERR_GLOBAL_CONFIGURE_INVALID_KEEP_ALIVE'', 403006),
     (''ERR_GLOBAL_CONFIGURE_INVALID_CUSTOM_CREDENTIAL_MANAGER'', 403007),
     (''ERR_GLOBAL_CONFIGURE_INVALID_USE_ENV_PROXY'', 403008),
     (''ERR_CONN_CREATE_MISSING_OPTIONS'', 404001),
     (''ERR_CONN_CREATE_INVALID_OPTIONS'', 404002),
     (''ERR_CONN_CREATE_MISSING_USERNAME'', 404003),
     (''ERR_CONN_CREATE_INVALID_USERNAME'', 404004),
     (''ERR_CONN_CREATE_MISSING_PASSWORD'', 404005),
     (''ERR_CONN_CREATE_INVALID_PASSWORD'', 404006),
     (''ERR_CONN_CREATE_MISSING_ACCOUNT'', 404007),
     (''ERR_CONN_CREATE_INVALID_ACCOUNT'', 404008),
     (''ERR_CONN_CREATE_MISSING_ACCESS_URL'', 404009),
     (''ERR_CONN_CREATE_INVALID_ACCESS_URL'', 404010),
     (''ERR_CONN_CREATE_INVALID_WAREHOUSE'', 404011),
     (''ERR_CONN_CREATE_INVALID_DATABASE'', 404012),
     (''ERR_CONN_CREATE_INVALID_SCHEMA'', 404013),
     (''ERR_CONN_CREATE_INVALID_ROLE'', 404014),
     (''ERR_CONN_CREATE_MISSING_PROXY_HOST'', 404015),
     (''ERR_CONN_CREATE_INVALID_PROXY_HOST'', 404016),
     (''ERR_CONN_CREATE_MISSING_PROXY_PORT'', 404017),
     (''ERR_CONN_CREATE_INVALID_PROXY_PORT'', 404018),
     (''ERR_CONN_CREATE_INVALID_STREAM_RESULT'', 404019),
     (''ERR_CONN_CREATE_INVALID_FETCH_AS_STRING'', 404020),
     (''ERR_CONN_CREATE_INVALID_FETCH_AS_STRING_VALUES'', 404021),
     (''ERR_CONN_CREATE_INVALID_REGION'', 404022),
     (''ERR_CONN_CREATE_INVALID_KEEP_ALIVE'', 404023),
     (''ERR_CONN_CREATE_INVALID_KEEP_ALIVE_HEARTBEAT_FREQ'', 404024),
     (''ERR_CONN_CREATE_INVALID_TREAT_INTEGER_AS_BIGINT'', 404025),
     (''ERR_CONN_CREATE_INVALID_PRIVATE_KEY'', 404026),
     (''ERR_CONN_CREATE_INVALID_PRIVATE_KEY_PATH'', 404027),
     (''ERR_CONN_CREATE_INVALID_PRIVATE_KEY_PASS'', 404028),
     (''ERR_CONN_CREATE_INVALID_OAUTH_TOKEN'', 404029),
     (''ERR_CONN_CREATE_INVALID_VALIDATE_DEFAULT_PARAMETERS'', 404030),
     (''ERR_CONN_CREATE_INVALID_APPLICATION'', 404031),
     (''ERR_CONN_CREATE_MISSING_PROXY_USER'', 404032),
     (''ERR_CONN_CREATE_INVALID_PROXY_USER'', 404033),
     (''ERR_CONN_CREATE_MISSING_PROXY_PASS'', 404034),
     (''ERR_CONN_CREATE_INVALID_PROXY_PASS'', 404035),
     (''ERR_CONN_CREATE_INVALID_NO_PROXY'', 404036),
     (''ERR_CONN_CREATE_INVALID_ARRAY_BINDING_THRESHOLD'', 404037),
     (''ERR_CONN_CREATE_INVALID_GCS_USE_DOWNSCOPED_CREDENTIAL'', 404038),
     (''ERR_CONN_CREATE_INVALID_FORCE_STAGE_BIND_ERROR'', 404039),
     (''ERR_CONN_CREATE_INVALID_BROWSER_TIMEOUT'', 404040),
     (''ERR_CONN_CREATE_INVALID_DISABLED_QUERY_CONTEXT_CACHE'', 404041),
     (''ERR_CONN_CREATE_INVALID_INCLUDE_RETRY_REASON'', 404042),
     (''ERR_CONN_CREATE_INVALID_CLIENT_CONFIG_FILE'', 404043),
     (''ERR_CONN_CREATE_INVALID_RETRY_TIMEOUT'', 404044),
     (''ERR_CONN_CREATE_INVALID_ACCOUNT_REGEX'', 404045),
     (''ERR_CONN_CREATE_INVALID_REGION_REGEX'', 404046),
     (''ERR_CONN_CREATE_INVALID_DISABLE_CONSOLE_LOGIN'', 404047),
     (''ERR_CONN_CREATE_INVALID_CLIENT_STORE_TEMPORARY_CREDENTIAL'', 404049),
     (''ERR_CONN_CREATE_INVALID_REPRESENT_NULL_AS_STRING_NULL'', 404050),
     (''ERR_CONN_CREATE_INVALID_DISABLE_SAML_URL_CHECK'', 404051),
     (''ERR_CONN_CREATE_INVALID_CLIENT_REQUEST_MFA_TOKEN'', 404052),
     (''ERR_CONN_CREATE_INVALID_HOST'', 404054),
     (''ERR_CONN_CREATE_INVALID_PASSCODE_IN_PASSWORD'', 404055),
     (''ERR_CONN_CREATE_INVALID_PASSCODE'', 404056),
     (''ERR_CONN_CREATE_MISSING_PASSWORD_AND_TOKEN'', 404057),
     (''ERR_CONN_CREATE_INVALID_OUATH_AUTHORIZATION_URL'', 404058),
     (''ERR_CONN_CREATE_INVALID_OUATH_CLIENT_ID'', 404059),
     (''ERR_CONN_CREATE_INVALID_OUATH_CLIENT_SECRET'', 404060),
     (''ERR_CONN_CREATE_INVALID_OUATH_TOKEN_REQUEST_URL'', 404061),
     (''ERR_CONN_CREATE_INVALID_WORKLOAD_IDENTITY_PARAMETERS'', 404062),
     (''ERR_CONN_CREATE_INVALID_QUERY_TAG'', 404063),
     (''ERR_CONN_CONNECT_INVALID_CALLBACK'', 405001),
     (''ERR_CONN_CONNECT_STATUS_CONNECTING'', 405501),
     (''ERR_CONN_CONNECT_STATUS_CONNECTED'', 405502),
     (''ERR_CONN_CONNECT_STATUS_DISCONNECTED'', 405503),
     (''ERR_CONN_CONNECT_INVALID_CLIENT_CONFIG'', 405505),
     (''ERR_CONN_CREATE_INVALID_AUTH_UNSUPPORTED'', 405506),
     (''ERR_CONN_CREATE_AUTH_NOT_ALLOWED'', 405507),
     (''ERR_CONN_DESTROY_INVALID_CALLBACK'', 406001),
     (''ERR_CONN_DESTROY_STATUS_PRISTINE'', 406501),
     (''ERR_CONN_DESTROY_STATUS_DISCONNECTED'', 406502),
     (''ERR_CONN_REQUEST_STATUS_PRISTINE'', 407001),
     (''ERR_CONN_REQUEST_STATUS_DISCONNECTED'', 407002),
     (''ERR_CONN_DESERIALIZE_MISSING_CONFIG'', 408001),
     (''ERR_CONN_DESERIALIZE_INVALID_CONFIG_TYPE'', 408002),
     (''ERR_CONN_DESERIALIZE_INVALID_CONFIG_FORM'', 408003),
     (''ERR_CONN_EXEC_STMT_MISSING_OPTIONS'', 409001),
     (''ERR_CONN_EXEC_STMT_INVALID_OPTIONS'', 409002),
     (''ERR_CONN_EXEC_STMT_MISSING_SQL_TEXT'', 409003),
     (''ERR_CONN_EXEC_STMT_INVALID_SQL_TEXT'', 409004),
     (''ERR_CONN_EXEC_STMT_INVALID_INTERNAL'', 409005),
     (''ERR_CONN_EXEC_STMT_INVALID_PARAMETERS'', 409006),
     (''ERR_CONN_EXEC_STMT_INVALID_BINDS'', 409007),
     (''ERR_CONN_EXEC_STMT_INVALID_BIND_VALUES'', 409008),
     (''ERR_CONN_EXEC_STMT_INVALID_COMPLETE'', 409009),
     (''ERR_CONN_EXEC_STMT_INVALID_STREAM_RESULT'', 409010),
     (''ERR_CONN_EXEC_STMT_INVALID_FETCH_AS_STRING'', 409011),
     (''ERR_CONN_EXEC_STMT_INVALID_FETCH_AS_STRING_VALUES'', 409012),
     (''ERR_CONN_EXEC_STMT_INVALID_REQUEST_ID'', 409013),
     (''ERR_CONN_EXEC_STMT_INVALID_ASYNC_EXEC'', 409014),
     (''ERR_CONN_EXEC_STMT_INVALID_DESCRIBE_ONLY'', 409015),
     (''ERR_CONN_FETCH_RESULT_MISSING_OPTIONS'', 410001),
     (''ERR_CONN_FETCH_RESULT_INVALID_OPTIONS'', 410002),
     (''ERR_CONN_FETCH_RESULT_MISSING_QUERY_ID'', 410003),
     (''ERR_CONN_FETCH_RESULT_INVALID_QUERY_ID'', 410004),
     (''ERR_CONN_FETCH_RESULT_INVALID_COMPLETE'', 410005),
     (''ERR_CONN_FETCH_RESULT_INVALID_STREAM_RESULT'', 410006),
     (''ERR_CONN_FETCH_RESULT_INVALID_FETCH_AS_STRING'', 410007),
     (''ERR_CONN_FETCH_RESULT_INVALID_FETCH_AS_STRING_VALUES'', 410008),
     (''ERR_CONN_FETCH_RESULT_INVALID_CWD'', 410009),
     (''ERR_STMT_STREAM_ROWS_INVALID_OPTIONS'', 411001),
     (''ERR_STMT_STREAM_ROWS_INVALID_START'', 411002),
     (''ERR_STMT_STREAM_ROWS_INVALID_END'', 411003),
     (''ERR_STMT_STREAM_ROWS_INVALID_FETCH_AS_STRING'', 411004),
     (''ERR_STMT_STREAM_ROWS_INVALID_FETCH_AS_STRING_VALUES'', 411005),
     (''ERR_STMT_STREAM_ROWS_INVALID_ROW_MODE'', 411006),
     (''ERR_OCSP_REVOKED'', 412001),
     (''ERR_OCSP_UNKNOWN'', 412002),
     (''ERR_OCSP_NO_SIGNATURE_ALGORITHM'', 412003),
     (''ERR_OCSP_INVALID_SIGNATURE'', 412004),
     (''ERR_OCSP_NO_RESPONSE'', 412005),
     (''ERR_OCSP_INVALID_VALIDITY'', 412006),
     (''ERR_OCSP_UNKNOWN_STATE'', 412007),
     (''ERR_OCSP_NOT_TWO_ELEMENTS'', 412008),
     (''ERR_OCSP_CACHE_EXPIRED'', 412009),
     (''ERR_OCSP_FAILED_PARSE_RESPONSE'', 412010),
     (''ERR_OCSP_INVALID_CERTIFICATE_VALIDITY'', 412011),
     (''ERR_OCSP_RESPONDER_TIMEOUT'', 412012),
     (''ERR_OCSP_CACHE_SERVER_TIMEOUT'', 412013),
     (''ERR_OCSP_FAILED_OBTAIN_OCSP_RESPONSE'', 412014),
     (''ERR_CRL_ERROR'', 413001),
     (''ERR_STMT_FETCH_ROWS_MISSING_OPTIONS'', 450001),
     (''ERR_STMT_FETCH_ROWS_INVALID_OPTIONS'', 450002),
     (''ERR_STMT_FETCH_ROWS_MISSING_EACH'', 450003),
     (''ERR_STMT_FETCH_ROWS_INVALID_EACH'', 450004),
     (''ERR_STMT_FETCH_ROWS_MISSING_END'', 450005),
     (''ERR_STMT_FETCH_ROWS_INVALID_END'', 450006),
     (''ERR_STMT_FETCH_ROWS_FETCHING_RESULT'', 450007),
     (''ERR_GET_RESPONSE_QUERY_INVALID_UUID'', 460001),
     (''ERR_GET_RESULTS_QUERY_ID_NO_DATA'', 460002),
     (''ERR_GET_RESULTS_QUERY_ID_NOT_SUCCESS_STATUS'', 460003)]"

definition error_messages :: "(int \<times> string) list" where
  "error_messages =
    [(400001, ''An internal error has occurred. Please contact Snowflake support.''),
     (401001, ''Network error. Could not reach Snowflake.''),
     (401002, ''Request to Snowflake failed.''),
     (401003, ''Snowflake responded with non-JSON content.''),
     (401004, ''Request to Snowflake failed.  Invalid token''),
     (402001, ''Network error. Could not reach S3/Blob.''),
     (402002, ''Request to S3/Blob failed.''),
     (403001, ''Invalid logLevel. The specified value must be one of these five levels: error, warn, debug, info and trace.''),
     (403002, ''Invalid disableOCSPChecks option. The specified value must be a boolean.''),
     (403003, ''Invalid OCSP mode. The specified value must be FAIL_CLOSED, FAIL_OPEN, or INSECURE_MODE.''),
     (403004, ''Invalid custom JSON parser. The specified value must be a function.''),
     (403005, ''Invalid custom XML parser. The specified value must be a function.''),
     (403006, ''Invalid keep alive value. The specified value must be a boolean.''),
     (403007, ''Invalid custom credential manager value. The specified value must be an object, and it should have three methods: write, read, remove''),
     (403008, ''Invalid useEnvProxy value. The specified value must be a boolean.''),
     (404001, ''Connection options must be specified.''),
     (404002, ''Invalid connection options. The specified value must be an object.''),
     (404003, ''A user name must be specified.''),
     (404004, ''Invalid user name. The specified value must be a string.''),
     (404005, ''A password must be specified.''),
     (404006, ''Invalid password. The specified value must be a string.''),
     (404007, ''An account must be specified.''),
     (404008, ''Invalid account. The specified value must be a string.''),
     (404009, ''An accessUrl must be specified.''),
     (404010, ''Invalid accessUrl. The specified value must be a string.''),
     (404011, ''Invalid warehouse. The specified value must be a string.''),
     (404012, ''Invalid database. The specified value must be a string.''),
     (404013, ''Invalid schema. The specified value must be a string.''),
     (404014, ''Invalid role. The specified value must be a string.''),
     (404015, ''A proxyHost must be specified''),
     (404016, ''Invalid proxyHost. The specified value must be a string.''),
     (404017, ''A proxyPort must be specified.''),
     (404018, ''Invalid proxyPort. The specified value must be a number.''),
     (404019, ''Invalid streamResult flag. The specified value must be a boolean.''),
     (404020, ''Invalid fetchAsString option. The specified value must be an Array.''),
     (404021, ''Invalid fetchAsString type: %s. The supported types are: String, Boolean, Number, Date, Buffer, and JSON.''),
     (404022, ''Invalid region. The specified value must be a string.''),
     (404023, ''Invalid clientSessionKeepAlive. The specified value must be a boolean.''),
     (404024, ''Invalid clientSessionKeepAliveHeartbeatFrequency. The specified value must be a number.''),
     (404025, ''Invalid jsTreatIntegerAsBigInt. The specified value must be a boolean''),
     (404026, ''Invalid private key. The specified value must be a PEM-formatted private key.''),
     (404027, ''Invalid private key file location. The specified value must be a string''),
     (404028, ''Invalid private key passphrase. The specified value must be a string''),
     (404029, ''Invalid oauth token. The specified value must be a string''),
     (404030, ''Invalid validate default parameters value. The specified value must be a boolean''),
     (404031, ''Invalid application value. The specified value must be a string that starts with a letter and a length between 1-50''),
     (404032, ''A proxyUser must be specified''),
     (404033, ''Invalid proxyUser. The specified value must be a string.''),
     (404034, ''A proxyPassword must be specified.''),
     (404035, ''Invalid proxyPassword. The specified value must be a string.''),
     (404036, ''Invalid noProxy. The specified value must be a string.''),
     (404037, ''Invalid arrayBindingThreshold. The specified value must be a number.''),
     (404038, ''Invalid gcsUseDownscopedCredential. The specified value must be a boolean.''),
     (404039, ''Invalid forceStageBindError. The specified value must be a number.''),
     (404040, ''Invalid browser timeout value. The specified value must be a positive number.''),
     (404041, ''Invalid disableQueryContextCache. The specified value must be a boolean.''),
     (404042, ''Invalid includeRetryReason. The specified value must be a boolean.''),
     (404043, ''Invalid clientConfigFile value. The specified value must be a string.''),
     (404044, ''Invalid retryTimeout value. The specified value must be a number.''),
     (404045, ''Invalid account. The specified value must be a valid subdomain string.''),
     (404046, ''Invalid region. The specified value must be a valid subdomain string.''),
     (404047, ''Invalid disableConsoleLogin. The specified value must be a boolean''),
     (404049, ''Invalid clientStoreTemporaryCredential. The specified value must be a boolean.''),
     (404050, ''Invalid representNullAsStringNull. The specified value must be a boolean''),
     (404051, ''Invalid disableSamlURLCheck. The specified value must be a boolean''),
     (404052, ''Invalid clientRequestMFAToken. The specified value must be a boolean.''),
     (404054, ''Invalid host. The specified value must be a string.''),
     (404055, ''Invalid passcodeInPassword. The specified value must be a boolean''),
     (404056, ''Invalid passcode. The specified value must be a string''),
     (404057, ''A password or token must be specified.''),
     (404058, ''Invalid oauth authorization URL. The specified value must be a valid URL starting with the https or http protocol.''),
     (404059, ''Invalid oauth client id. The specified value must not be an empty string''),
     (404060, ''Invalid oauth client secret. The specified value must not be an empty string''),
     (404061, ''Invalid oauth token request URL. The specified value must be a valid URL starting with the https or http protocol.''),
     (404062, ''Invalid authenticator: WORKLOAD_IDENTITY parameters. %s''),
     (404063, ''Invalid query tag. The specified value must be a string;''),
     (405001, ''Invalid callback. The specified value must be a function.''),
     (405501, ''Connection already in progress.''),
     (405502, ''Already connected.''),
     (405503, ''Connection already terminated. Cannot connect again.''),
     (405505, ''Configuration from client config file failed''),
     (405506, ''Wrong authorization type''),
     (405507, ''Authenticator not allowed''),
     (406001, ''Invalid callback. The specified value must be a function.''),
     (406501, ''Not connected, so nothing to destroy.''),
     (406502, ''Already disconnected.''),
     (407001, ''Unable to perform operation because a connection was never established.''),
     (407002, ''Unable to perform operation using terminated connection.''),
     (408001, ''A serializedConnection must be specified.''),
     (408002, ''Invalid serializedConnection. The specified value must be a string.''),
     (408003, ''Invalid serializedConnection. The value must be a string obtained by calling another connection's serialize() method.''),
     (409001, ''Execute options must be specified.''),
     (409002, ''Invalid execute options. The specified value must be an object.''),
     (409003, ''A sqlText value must be specified.''),
     (409004, ''Invalid sqlText. The specified value must be a string.''),
     (409005, ''Invalid internal flag. The specified value must be a boolean.''),
     (409006, ''Invalid parameters. The specified value must be an object.''),
     (409007, ''Invalid binds. The specified value must be an array.''),
     (409008, ''Invalid bind variable: %s. Only stringifiable values are supported.''),
     (409009, ''Invalid complete callback. The specified value must be a function.''),
     (409010, ''Invalid streamResult flag. The specified value must be a boolean.''),
     (409011, ''Invalid fetchAsString value. The specified value must be an Array.''),
     (409012, ''Invalid fetchAsString type: %s. The supported types are: String, Boolean, Number, Date, Buffer, and JSON.''),
     (409013, ''Invalid requestId. The specified value must be a string.''),
     (409014, ''Invalid asyncExec. The specified value must be a boolean.''),
     (409015, ''Invalid describeOnly. The specified value must be a boolean.''),
     (410001, ''Fetch-result options must be specified.''),
     (410002, ''Invalid options. The specified value must be an object.''),
     (410003, ''A query id/statement id must be specified.''),
     (410004, ''Invalid query id/statement id. The specified value must be a string.''),
     (410005, ''Invalid complete callback. The specified value must be a function.''),
     (410006, ''Invalid streamResult flag. The specified value must be a boolean.''),
     (410007, ''Invalid fetchAsString value. The specified value must be an Array.''),
     (410008, ''Invalid fetchAsString type: %s. The supported types are: String, Boolean, Number, Date, Buffer, and JSON.''),
     (410009, ''Invalid cwd (current working directory) type: %s. The specified value must be a string.''),
     (411001, ''Invalid options. The specified value must be an object.''),
     (411002, ''Invalid start index. The specified value must be a number.''),
     (411003, ''Invalid end index. The specified value must be a number.''),
     (411004, ''Invalid fetchAsString value. The specified value must be an Array.''),
     (411005, ''Invalid fetchAsString type: %s. The supported types are: String, Boolean, Number, Date, Buffer, and JSON.''),
     (411006, ''Invalid row mode value. The specified value should be array or object or object_with_renamed_duplicated_columns''),
     (412001, ''Certificate is REVOKED.''),
     (412002, ''Certificate status is UNKNOWN.''),
     (412003, ''Not recognize signature algorithm.''),
     (412004, ''Invalid signature.''),
     (412005, ''No OCSP response data is attached.''),
     (412006, ''Invalid validity.''),
     (412007, ''Could not verify the certificate revocation status.''),
     (412008, ''Not two elements are in the cache.''),
     (412009, ''Cache entry expired.''),
     (412010, ''Failed to parse OCSP response.''),
     (412011, ''Invalid Signing Certificate validity.''),
     (412012, ''Timeout OCSP responder.''),
     (412013, ''Timeout OCSP Cache server.''),
     (412014, ''Failed to obtain OCSP response: %s''),
     (413001, ''CRL validation failed.''),
     (450001, ''Fetch-row options must be specified.''),
     (450002, ''Invalid options. The specified value must be an object.''),
     (450003, ''An each() callback must be specified.''),
     (450004, ''Invalid each() callback. The specified value must be a function.''),
     (450005, ''An end() callback must be specified.''),
     (450006, ''Invalid end() callback. The specified value must be a function.''),
     (450007, ''Operation failed because the statement is still in progress.''),
     (460001, ''Invalid queryId: %s''),
     (460002, ''Cannot retrieve data. No information returned from server for query %s''),
     (460003, ''Status of query %s is %s, results are unavailable'')]"
text \<open>
  A code is a number of the table above or a string sent by the server; a lookup with it as a
  property key uses its text in both cases.
\<close>

datatype err_code = NoCode | NumCode int | StrCode string

fun code_key :: "err_code \<Rightarrow> string" where
  "code_key NoCode = ''undefined''"
| "code_key (NumCode n) = show_int n"
| "code_key (StrCode s) = s"

definition message_template :: "err_code \<Rightarrow> string option" where
  "message_template c = map_of (map (\<lambda>(n, t). (show_int n, t)) error_messages) (code_key c)"

definition errCodeToSqlState :: "err_code \<Rightarrow> string option" where
  "errCodeToSqlState c =
     map_of [(''405501'', ''08002''), (''405502'', ''08002''), (''405503'', ''08003''),
             (''407001'', ''08003''), (''407002'', ''08003'')] (code_key c)"

text \<open>
  \<open>util.format\<close> of the standard library on string arguments: the templates use \<open>%s\<close> only;
  arguments left over are appended, separated by spaces.
\<close>

definition rest_args :: "string list \<Rightarrow> string" where
  "rest_args as = concat (map (\<lambda>a. CHR '' '' # a) as)"

fun format_go :: "string \<Rightarrow> string list \<Rightarrow> string" where
  "format_go [] as = rest_args as"
| "format_go [c] as = c # rest_args as"
| "format_go (c # d # r) as =
     (if c = CHR ''%'' \<and> d = CHR ''s'' then
        (case as of [] \<Rightarrow> c # d # format_go r [] | a # as' \<Rightarrow> a @ format_go r as')
      else if c = CHR ''%'' \<and> d = CHR ''%'' then c # format_go r as
      else c # format_go (d # r) as)"

definition util_format :: "string option \<Rightarrow> string list \<Rightarrow> string" where
  "util_format t as =
     (case t of
        None \<Rightarrow> ''undefined'' @ rest_args as
      | Some f \<Rightarrow> if as = [] then f else format_go f as)"

section \<open>Error values\<close>

datatype error_type =
    InternalAssertError | MissingParameterError | InvalidParameterError
  | NetworkError | RequestFailedError | UnexpectedContentError | OperationFailedError
  | LargeResultSetError | ClientError | OCSPError | CRLError

record err_cause =
  cause_message :: "string option"
  cause_code :: err_code

record ('d, 'r) error_options =
  opt_code :: err_code
  opt_message :: "string option"
  opt_messageArgs :: "string list option"
  opt_cause :: "err_cause option"
  opt_sqlState :: "string option"
  opt_data :: "'d option"
  opt_response :: "'r option"
  opt_responseBody :: "string option"
  opt_isFatal :: "bool option"
  opt_synchronous :: bool

record ('d, 'r) sf_error =
  err_name :: error_type
  err_code :: err_code
  err_message :: "string option"
  err_sqlState :: "string option"
  err_data :: "'d option"
  err_response :: "'r option"
  err_responseBody :: "string option"
  err_cause :: "err_cause option"
  err_isFatal :: "bool option"
  has_externalize :: bool

definition no_options :: "err_code \<Rightarrow> ('d, 'r) error_options" where
  "no_options c = \<lparr>opt_code = c, opt_message = None, opt_messageArgs = None, opt_cause = None,
     opt_sqlState = None, opt_data = None, opt_response = None, opt_responseBody = None,
     opt_isFatal = None, opt_synchronous = False\<rparr>"

text \<open>\<open>options.message ?? options.cause?.message\<close>, then the template of the code if that is falsy.\<close>

definition error_text :: "('d, 'r) error_options \<Rightarrow> string option" where
  "error_text opts =
     (let m = (case opt_message opts of
                 Some t \<Rightarrow> Some t
               | None \<Rightarrow> (case opt_cause opts of Some c \<Rightarrow> cause_message c | None \<Rightarrow> None));
          t = message_template (opt_code opts)
      in if nonempty_str m then m
         else (case opt_messageArgs opts of
                 Some args \<Rightarrow> Some (util_format t args)
               | None \<Rightarrow> t))"

definition createError :: "error_type \<Rightarrow> ('d, 'r) error_options \<Rightarrow> ('d, 'r) sf_error" where
  "createError nm opts =
     \<lparr>err_name = nm, err_code = opt_code opts, err_message = error_text opts,
      err_sqlState = (if nonempty_str (opt_sqlState opts) then opt_sqlState opts
                      else errCodeToSqlState (opt_code opts)),
      err_data = opt_data opts, err_response = opt_response opts,
      err_responseBody = opt_responseBody opts, err_cause = opt_cause opts,
      err_isFatal = opt_isFatal opts, has_externalize = \<not> opt_synchronous opts\<rparr>"

text \<open>\<open>assertInternal\<close>, \<open>checkArgumentExists\<close> and \<open>checkArgumentValid\<close>: \<open>Inl\<close> is the thrown error.\<close>

definition assertInternal :: "bool \<Rightarrow> string option \<Rightarrow> ('d, 'r) sf_error + unit" where
  "assertInternal b msg =
     (if b then Inr ()
      else Inl (createError InternalAssertError
        ((no_options (NumCode 400001))\<lparr>opt_message := msg, opt_synchronous := True\<rparr>)))"

definition checkArgumentExists :: "bool \<Rightarrow> err_code \<Rightarrow> string list \<Rightarrow> ('d, 'r) sf_error + unit" where
  "checkArgumentExists b c args =
     (if b then Inr ()
      else Inl (createError MissingParameterError
        ((no_options c)\<lparr>opt_messageArgs := Some args, opt_synchronous := True\<rparr>)))"

definition createInvalidParameterError :: "err_code \<Rightarrow> string list \<Rightarrow> ('d, 'r) sf_error" where
  "createInvalidParameterError c args =
     createError InvalidParameterError
       ((no_options c)\<lparr>opt_messageArgs := Some args, opt_synchronous := True\<rparr>)"

definition checkArgumentValid :: "bool \<Rightarrow> err_code \<Rightarrow> string list \<Rightarrow> ('d, 'r) sf_error + unit" where
  "checkArgumentValid b c args =
     (if b then Inr ()
      else Inl (createError InvalidParameterError
        ((no_options c)\<lparr>opt_messageArgs := Some args, opt_synchronous := True\<rparr>)))"

definition createNetworkError :: "err_code \<Rightarrow> err_cause option \<Rightarrow> ('d, 'r) sf_error" where
  "createNetworkError c cause = createError NetworkError ((no_options c)\<lparr>opt_cause := cause\<rparr>)"

definition createRequestFailedError :: "err_code \<Rightarrow> 'r option \<Rightarrow> ('d, 'r) sf_error" where
  "createRequestFailedError c r = createError RequestFailedError ((no_options c)\<lparr>opt_response := r\<rparr>)"

definition createUnexpectedContentError :: "err_code \<Rightarrow> string option \<Rightarrow> ('d, 'r) sf_error" where
  "createUnexpectedContentError c b =
     createError UnexpectedContentError ((no_options c)\<lparr>opt_responseBody := b\<rparr>)"

definition createOperationFailedError ::
  "err_code \<Rightarrow> 'd option \<Rightarrow> string option \<Rightarrow> string option \<Rightarrow> ('d, 'r) sf_error" where
  "createOperationFailedError c d msg st =
     createError OperationFailedError
       ((no_options c)\<lparr>opt_data := d, opt_message := msg, opt_sqlState := st\<rparr>)"

definition createLargeResultSetError :: "err_code \<Rightarrow> 'r option \<Rightarrow> ('d, 'r) sf_error" where
  "createLargeResultSetError c r =
     createError LargeResultSetError ((no_options c)\<lparr>opt_response := r\<rparr>)"

definition createClientError :: "err_code \<Rightarrow> bool option \<Rightarrow> string list \<Rightarrow> ('d, 'r) sf_error" where
  "createClientError c fatal args =
     createError ClientError ((no_options c)\<lparr>opt_isFatal := fatal, opt_messageArgs := Some args\<rparr>)"

definition createOCSPError :: "err_code \<Rightarrow> string list \<Rightarrow> ('d, 'r) sf_error" where
  "createOCSPError c args = createError OCSPError ((no_options c)\<lparr>opt_messageArgs := Some args\<rparr>)"

definition createCrlError :: "err_cause option \<Rightarrow> ('d, 'r) sf_error" where
  "createCrlError cause = createError CRLError ((no_options (NumCode 413001))\<lparr>opt_cause := cause\<rparr>)"

text \<open>\<open>isErrorOfType\<close> and the tests built from it; a missing error is of no type.\<close>

definition isErrorOfType :: "('d, 'r) sf_error option \<Rightarrow> error_type \<Rightarrow> bool" where
  "isErrorOfType e t = (case e of None \<Rightarrow> False | Some x \<Rightarrow> err_name x = t)"

definition isNetworkError :: "('d, 'r) sf_error option \<Rightarrow> bool" where
  "isNetworkError e = isErrorOfType e NetworkError"

definition isRequestFailedError :: "('d, 'r) sf_error option \<Rightarrow> bool" where
  "isRequestFailedError e = isErrorOfType e RequestFailedError"

definition isOperationFailedError :: "('d, 'r) sf_error option \<Rightarrow> bool" where
  "isOperationFailedError e = isErrorOfType e OperationFailedError"

definition isLargeResultSetError :: "('d, 'r) sf_error option \<Rightarrow> bool" where
  "isLargeResultSetError e = isErrorOfType e LargeResultSetError"

text \<open>
  The \<open>externalize()\<close> method copies the existing properties into a plain \<open>Error\<close>: it has no
  \<open>externalize()\<close> itself and its message is the empty string if the error had none.
\<close>

definition externalize_method :: "('d, 'r) sf_error \<Rightarrow> ('d, 'r) sf_error" where
  "externalize_method e =
     e\<lparr>err_message := (case err_message e of None \<Rightarrow> Some [] | Some m \<Rightarrow> Some m),
       has_externalize := False\<rparr>"

definition externalize :: "('d, 'r) sf_error option \<Rightarrow> ('d, 'r) sf_error option" where
  "externalize e =
     (case e of None \<Rightarrow> None
      | Some x \<Rightarrow> if has_externalize x then Some (externalize_method x) else Some x)"

section \<open>Facts\<close>

lemma format_go_nonempty: "f \<noteq> [] \<Longrightarrow> as = [] \<Longrightarrow> format_go f as \<noteq> []"
  by (induction f as rule: format_go.induct) (auto split: if_splits)

lemma createError_fields [simp]:
  "err_name (createError nm opts) = nm"
  "err_code (createError nm opts) = opt_code opts"
  "err_response (createError nm opts) = opt_response opts"
  "err_cause (createError nm opts) = opt_cause opts"
  "err_isFatal (createError nm opts) = opt_isFatal opts"
  "err_data (createError nm opts) = opt_data opts"
  "has_externalize (createError nm opts) = (\<not> opt_synchronous opts)"
  by (simp_all add: createError_def)

lemma no_options_fields [simp]:
  "opt_code (no_options c) = c" "opt_message (no_options c) = None"
  "opt_messageArgs (no_options c) = None" "opt_cause (no_options c) = None"
  "opt_sqlState (no_options c) = None" "opt_data (no_options c) = None"
  "opt_response (no_options c) = None" "opt_responseBody (no_options c) = None"
  "opt_isFatal (no_options c) = None" "\<not> opt_synchronous (no_options c)"
  by (simp_all add: no_options_def)

lemmas error_creators = createNetworkError_def createRequestFailedError_def
  createUnexpectedContentError_def createOperationFailedError_def createLargeResultSetError_def
  createClientError_def createOCSPError_def createCrlError_def createInvalidParameterError_def

lemma isErrorOfType_createError [simp]:
  "isErrorOfType (Some (createError nm opts)) t \<longleftrightarrow> nm = t"
  by (simp add: isErrorOfType_def)

lemma codes_of_messages: "map fst error_messages = map snd error_codes"
  by (simp only: error_messages_def error_codes_def list.map fst_conv snd_conv)

lemma codes_strictly_sorted: "sorted_wrt (<) (map snd error_codes)"
proof -
  have "successively (<) (map snd error_codes)" by code_simp
  then show ?thesis by (simp add: successively_conv_sorted_wrt)
qed

lemma templates_nonempty: "\<forall>t\<in>snd ` set error_messages. t \<noteq> []"
  by (simp only: error_messages_def list.set image_insert image_empty ball_simps snd_conv) simp

lemma message_template_some:
  assumes "c \<in> snd ` set error_codes"
  shows "\<exists>t. (c, t) \<in> set error_messages \<and> message_template (NumCode c) = Some t"
proof -
  let ?m = "map (\<lambda>(n, t). (show_int n, t)) error_messages"
  have "c \<in> fst ` set error_messages" using assms codes_of_messages by (metis list.set_map)
  then obtain t where t: "(c, t) \<in> set error_messages" by auto
  have "distinct (map fst error_messages)"
    using codes_strictly_sorted unfolding codes_of_messages by (simp add: strict_sorted_iff)
  moreover have "map fst ?m = map show_int (map fst error_messages)" by (auto simp: case_prod_beta)
  ultimately have "distinct (map fst ?m)" by (simp add: distinct_map inj_on_def del: map_map)
  moreover have "(show_int c, t) \<in> set ?m" using t by force
  ultimately have "map_of ?m (show_int c) = Some t" by (rule map_of_is_SomeI)
  with t show ?thesis by (auto simp: message_template_def)
qed

lemma error_names_unique:
  assumes "(n, c) \<in> set error_codes" "(n', c) \<in> set error_codes"
  shows "n = n'"
proof -
  have "distinct (map snd error_codes)" using codes_strictly_sorted by (simp add: strict_sorted_iff)
  then have "inj_on snd (set error_codes)" by (simp add: distinct_map)
  from inj_onD[OF this, of "(n, c)" "(n', c)"] assms show ?thesis by simp
qed

lemma disconnected_sqlState: "errCodeToSqlState (NumCode 405503) = Some ''08003''"
  by (simp add: errCodeToSqlState_def show_int_def show_nat.simps digit_char_def char_of_def bit_iff_odd)

section \<open>Properties\<close>

text \<open>
  The code table and the message templates agree: every code of the enumeration belongs to one
  name only, has a non-empty template, and an error created with that code and no message, cause or
  arguments of its own (a client error included) carries that template as its message.
\<close>

theorem every_error_code_has_message:
  assumes "(n, c) \<in> set error_codes"
  shows "\<exists>t. (c, t) \<in> set error_messages \<and> t \<noteq> [] \<and> {m. (m, c) \<in> set error_codes} = {n} \<and>
    err_message (createError ty (no_options (NumCode c)) :: ('d, 'r) sf_error) = Some t \<and>
    err_message (createClientError (NumCode c) fatal [] :: ('d, 'r) sf_error) = Some t"
proof -
  from assms have "c \<in> snd ` set error_codes" by force
  then obtain t where t: "(c, t) \<in> set error_messages" "message_template (NumCode c) = Some t"
    using message_template_some by blast
  moreover have "t \<noteq> []" using t(1) templates_nonempty by force
  moreover have "{m. (m, c) \<in> set error_codes} = {n}" using assms error_names_unique by blast
  ultimately show ?thesis
    by (auto simp: createClientError_def createError_def error_text_def util_format_def)
qed

theorem every_error_code_has_message_witness:
  "\<exists>t. (407002, t) \<in> set error_messages \<and> t \<noteq> [] \<and>
    {m. (m, 407002) \<in> set error_codes} = {''ERR_CONN_REQUEST_STATUS_DISCONNECTED''} \<and>
    err_message (createError ClientError (no_options (NumCode 407002)) :: (unit, unit) sf_error) = Some t \<and>
    err_message (createClientError (NumCode 407002) (Some True) [] :: (unit, unit) sf_error) = Some t"
proof (rule every_error_code_has_message)
  show "(''ERR_CONN_REQUEST_STATUS_DISCONNECTED'', 407002) \<in> set error_codes"
    by (simp only: error_codes_def list.set) simp
qed

text \<open>
  Externalizing an error keeps every property a caller can branch on (its type, code, SQL
  state, data, response, cause and fatal flag) and always leaves a message; doing it twice is the
  same as doing it once, and the errors thrown synchronously are returned as they are.
\<close>

theorem externalize_keeps_error:
  "externalize (externalize e) = externalize e \<and>
   isErrorOfType (externalize e) t = isErrorOfType e t \<and>
   map_option err_code (externalize e) = map_option err_code e \<and>
   map_option err_sqlState (externalize e) = map_option err_sqlState e \<and>
   map_option err_data (externalize e) = map_option err_data e \<and>
   map_option err_response (externalize e) = map_option err_response e \<and>
   map_option err_cause (externalize e) = map_option err_cause e \<and>
   map_option err_isFatal (externalize e) = map_option err_isFatal e \<and>
   externalize (Some (createInvalidParameterError c args)) =
     Some (createInvalidParameterError c args :: ('d, 'r) sf_error)"
  by (cases e)
    (auto simp: externalize_def externalize_method_def isErrorOfType_def
      createInvalidParameterError_def split: option.split)

end
