(* ===== verification/UtilModel.thy ===== *)
theory UtilModel
  imports Complex_Main Prelude
begin

text \<open>
  The parts of \<open>lib/util.ts\<close> with logic of their own: retry classification and back-off times, the
  heartbeat clamp, HTML escaping, credential-cache keys.  A call of \<open>Math.random()\<close> is an argument;
  \<open>is_rand\<close> states its range.  Times are real numbers.
\<close>

section \<open>Back-off\<close>

definition is_rand :: "real \<Rightarrow> bool" where
  "is_rand r \<longleftrightarrow> 0 \<le> r \<and> r < 1"

definition nextSleepTime :: "real \<Rightarrow> real \<Rightarrow> real \<Rightarrow> real \<Rightarrow> real" where
  "nextSleepTime rnd base cap previousSleep =
     min cap (\<bar>previousSleep * 3 - base\<bar> * rnd + min base (previousSleep * 3))"

definition chooseRandom :: "real \<Rightarrow> real \<Rightarrow> real \<Rightarrow> real" where
  "chooseRandom rnd firstNumber secondNumber = rnd * (firstNumber - secondNumber) + secondNumber"

definition getJitter :: "real \<Rightarrow> real \<Rightarrow> real" where
  "getJitter rnd currentSleepTime = 1/2 * currentSleepTime * chooseRandom rnd 1 (-1)"

text \<open>The three random draws of one call, in the order the code makes them.\<close>

type_synonym draws = "real \<times> real \<times> real"

definition good_draws :: "draws \<Rightarrow> bool" where
  "good_draws d \<longleftrightarrow> (case d of (a, b, c) \<Rightarrow> is_rand a \<and> is_rand b \<and> is_rand c)"

definition getNextSleepTime :: "draws \<Rightarrow> nat \<Rightarrow> real \<Rightarrow> real" where
  "getNextSleepTime d numofRetries currentSleepTime =
     (case d of (a, b, c) \<Rightarrow>
       chooseRandom c (currentSleepTime + getJitter a currentSleepTime)
         (2 ^ numofRetries + getJitter b currentSleepTime))"

definition getJitteredSleepTime :: "draws \<Rightarrow> nat \<Rightarrow> real \<Rightarrow> real \<Rightarrow> real \<Rightarrow> real \<times> real" where
  "getJitteredSleepTime d numofRetries currentSleepTime totalElapsedTime maxRetryTimeout =
     (let nextsleep = getNextSleepTime d numofRetries currentSleepTime;
          sleep = (if maxRetryTimeout \<noteq> 0 then min (maxRetryTimeout - totalElapsedTime) nextsleep
                   else nextsleep)
      in (sleep, totalElapsedTime + sleep))"

lemma chooseRandom_between:
  assumes "is_rand r"
  shows "min a b \<le> chooseRandom r a b" "chooseRandom r a b \<le> max a b"
proof -
  have c: "chooseRandom r a b = r * a + (1 - r) * b" by (simp add: chooseRandom_def algebra_simps)
  have "r * min a b + (1 - r) * min a b \<le> r * a + (1 - r) * b"
    using assms by (intro add_mono mult_left_mono) (auto simp: is_rand_def)
  then show "min a b \<le> chooseRandom r a b" by (simp add: c algebra_simps)
  have "r * a + (1 - r) * b \<le> r * max a b + (1 - r) * max a b"
    using assms by (intro add_mono mult_left_mono) (auto simp: is_rand_def)
  then show "chooseRandom r a b \<le> max a b" by (simp add: c algebra_simps)
qed

lemma getJitter_bounds:
  assumes "is_rand r" "0 \<le> cur"
  shows "- (cur / 2) \<le> getJitter r cur" "getJitter r cur \<le> cur / 2"
proof -
  have b: "-1 \<le> chooseRandom r 1 (-1)" "chooseRandom r 1 (-1) \<le> 1"
    using chooseRandom_between[OF assms(1), of 1 "-1"] by simp_all
  then have "cur * (-1) \<le> cur * chooseRandom r 1 (-1)" "cur * chooseRandom r 1 (-1) \<le> cur * 1"
    using assms(2) by (intro mult_left_mono; simp)+
  then show "- (cur / 2) \<le> getJitter r cur" "getJitter r cur \<le> cur / 2"
    by (simp_all add: getJitter_def)
qed

lemma getNextSleepTime_bounds:
  assumes d: "good_draws d" and cur: "0 < cur" "cur \<le> 2 ^ n"
  shows "0 < getNextSleepTime d n cur" "getNextSleepTime d n cur \<le> 2 ^ Suc n"
proof -
  obtain a b c where d': "d = (a, b, c)" "is_rand a" "is_rand b" "is_rand c"
    using d by (cases d) (auto simp: good_draws_def)
  let ?f = "cur + getJitter a cur" and ?s = "2 ^ n + getJitter b cur"
  have j: "- (cur / 2) \<le> getJitter a cur" "getJitter a cur \<le> cur / 2"
    "- (cur / 2) \<le> getJitter b cur" "getJitter b cur \<le> cur / 2"
    using getJitter_bounds d' cur by simp_all
  have "0 < ?f" "0 < ?s" "?f \<le> 2 ^ Suc n" "?s \<le> 2 ^ Suc n" using j cur by simp_all
  then show "0 < getNextSleepTime d n cur" "getNextSleepTime d n cur \<le> 2 ^ Suc n"
    using chooseRandom_between[OF d'(4), of ?f ?s] by (auto simp: getNextSleepTime_def d'(1))
qed

text \<open>One retry: with time left, the sleep is positive and never overshoots the timeout.\<close>

lemma getJitteredSleepTime_step:
  assumes "good_draws d" "0 < cur" "cur \<le> 2 ^ n" "mx = 0 \<or> elapsed < mx"
    and r: "getJitteredSleepTime d n cur elapsed mx = (sl, tot)"
  shows "0 < sl" "sl \<le> 2 ^ Suc n" "tot = elapsed + sl" "mx \<noteq> 0 \<Longrightarrow> tot \<le> mx"
  using getNextSleepTime_bounds[OF assms(1-3)] assms(4) r
  by (auto simp: getJitteredSleepTime_def Let_def split: if_splits)

lemma nextSleepTime_bounds:
  assumes "is_rand r" "0 \<le> base" "base \<le> cap" "base \<le> prev"
  shows "base \<le> nextSleepTime r base cap prev" "nextSleepTime r base cap prev \<le> cap"
    "nextSleepTime r base cap prev \<le> 3 * prev"
proof -
  have "0 \<le> \<bar>prev * 3 - base\<bar> * r" using assms by (simp add: is_rand_def)
  moreover have "\<bar>prev * 3 - base\<bar> * r \<le> prev * 3 - base"
    using assms by (simp add: is_rand_def mult_left_le)
  moreover have "min base (prev * 3) = base" using assms by simp
  ultimately show "base \<le> nextSleepTime r base cap prev" "nextSleepTime r base cap prev \<le> cap"
    "nextSleepTime r base cap prev \<le> 3 * prev"
    using assms by (simp_all add: nextSleepTime_def)
qed

section \<open>Retryable HTTP status codes\<close>

text \<open>\<open>None\<close> is a missing response or one without a status code.\<close>

definition isRetryableHttpError :: "int option \<Rightarrow> bool \<Rightarrow> bool" where
  "isRetryableHttpError status retry403 =
     (case status of
        None \<Rightarrow> False
      | Some c \<Rightarrow> (c \<ge> 500 \<and> c < 600) \<or> (retry403 \<and> c = 403) \<or> c = 408 \<or> c = 429)"

section \<open>Heartbeat frequency\<close>

definition validateClientSessionKeepAliveHeartbeatFrequency :: "real \<Rightarrow> real \<Rightarrow> int" where
  "validateClientSessionKeepAliveHeartbeatFrequency input masterValidity =
     (let realMax = \<lfloor>masterValidity / 4\<rfloor>; realMin = \<lfloor>of_int realMax / 4 :: real\<rfloor>;
          f = (if input > of_int realMax then of_int realMax
               else if input < of_int realMin then of_int realMin else input)
      in \<lfloor>f\<rfloor>)"

lemma clamp_floor:
  fixes x :: real
  assumes "mn \<le> mx"
  shows "mn \<le> \<lfloor>if x > of_int mx then of_int mx else if x < of_int mn then of_int mn else x\<rfloor>"
    "\<lfloor>if x > of_int mx then of_int mx else if x < of_int mn then of_int mn else x\<rfloor> \<le> mx"
    "of_int mn \<le> x \<Longrightarrow> x \<le> of_int mx \<Longrightarrow>
       \<lfloor>if x > of_int mx then of_int mx else if x < of_int mn then of_int mn else x\<rfloor> = \<lfloor>x\<rfloor>"
  using assms by (auto simp: le_floor_iff floor_le_iff)

section \<open>HTML escaping\<close>

text \<open>\<open>s.replace(/c/g, r)\<close> for a one-character pattern, and the chain of five such calls.\<close>

definition replaceAll :: "char \<Rightarrow> string \<Rightarrow> string \<Rightarrow> string" where
  "replaceAll c r s = concat (map (\<lambda>x. if x = c then r else [x]) s)"

definition escapeHTML :: "string \<Rightarrow> string" where
  "escapeHTML value =
     replaceAll CHR 0x27 ''&#39;''
       (replaceAll CHR 0x22 ''&quot;''
         (replaceAll CHR ''>'' ''&gt;''
           (replaceAll CHR ''<'' ''&lt;''
             (replaceAll CHR ''&'' ''&amp;'' value))))"

definition html_entity :: "char \<Rightarrow> string" where
  "html_entity c =
     (if c = CHR ''&'' then ''&amp;'' else if c = CHR ''<'' then ''&lt;''
      else if c = CHR ''>'' then ''&gt;'' else if c = CHR 0x22 then ''&quot;''
      else if c = CHR 0x27 then ''&#39;'' else [c])"

lemma replaceAll_append [simp]: "replaceAll c r (a @ b) = replaceAll c r a @ replaceAll c r b"
  by (simp add: replaceAll_def)

lemma replaceAll_Nil [simp]: "replaceAll c r [] = []"
  by (simp add: replaceAll_def)

lemma replaceAll_Cons: "replaceAll c r (x # s) = (if x = c then r else [x]) @ replaceAll c r s"
  by (simp add: replaceAll_def)

lemma escapeHTML_Nil [simp]: "escapeHTML [] = []"
  by (simp add: escapeHTML_def)

lemma escapeHTML_Cons: "escapeHTML (c # s) = html_entity c @ escapeHTML s"
  by (simp add: escapeHTML_def replaceAll_Cons html_entity_def)

lemma html_entity_simple [simp]:
  "html_entity CHR ''&'' = ''&amp;''" "html_entity CHR ''<'' = ''&lt;''"
  "html_entity CHR ''>'' = ''&gt;''" "html_entity CHR 0x22 = ''&quot;''"
  "html_entity CHR 0x27 = ''&#39;''"
  by (simp_all add: html_entity_def)

lemma html_entity_other:
  "c \<notin> {CHR ''&'', CHR ''<'', CHR ''>'', CHR 0x22, CHR 0x27} \<Longrightarrow> html_entity c = [c]"
  by (simp add: html_entity_def)

lemma html_entity_cases:
  obtains "c = CHR ''&''" | "c = CHR ''<''" | "c = CHR ''>''" | "c = CHR 0x22" | "c = CHR 0x27"
  | "c \<notin> {CHR ''&'', CHR ''<'', CHR ''>'', CHR 0x22, CHR 0x27}"
  by blast

lemma html_entity_safe: "x \<in> set (html_entity c) \<Longrightarrow> x \<notin> {CHR ''<'', CHR ''>'', CHR 0x22, CHR 0x27}"
  by (cases c rule: html_entity_cases) (auto simp: html_entity_other)

lemma html_entity_prefix_free:
  assumes "html_entity c @ s = html_entity d @ t"
  shows "c = d \<and> s = t"
  using assms
  by (cases c rule: html_entity_cases; cases d rule: html_entity_cases) (auto simp: html_entity_other)

lemma escapeHTML_inject: "escapeHTML s = escapeHTML t \<Longrightarrow> s = t"
proof (induction s arbitrary: t)
  case Nil
  then show ?case by (cases t) (auto simp: escapeHTML_Cons html_entity_def split: if_splits)
next
  case (Cons c s)
  then obtain d t' where t: "t = d # t'"
    by (cases t) (auto simp: escapeHTML_Cons html_entity_def split: if_splits)
  with Cons.prems have "c = d \<and> escapeHTML s = escapeHTML t'"
    by (simp only: escapeHTML_Cons) (rule html_entity_prefix_free)
  with Cons.IH t show ?case by simp
qed

section \<open>Properties\<close>

text \<open>
  HTML escaping is safe and loses nothing: the escaped text contains no angle bracket and no
  quote of either kind, and two texts with the same escaped form are equal; the five passes in
  sequence behave like one pass that never escapes its own output again.
\<close>

theorem escapeHTML_safe_and_injective:
  "set (escapeHTML s) \<inter> {CHR ''<'', CHR ''>'', CHR 0x22, CHR 0x27} = {} \<and>
   (escapeHTML s = escapeHTML t \<longleftrightarrow> s = t) \<and>
   escapeHTML s = concat (map html_entity s)"
proof -
  have e: "escapeHTML u = concat (map html_entity u)" for u
    by (induction u) (simp_all add: escapeHTML_Cons)
  have "x \<notin> {CHR ''<'', CHR ''>'', CHR 0x22, CHR 0x27}" if "x \<in> set (escapeHTML s)" for x
  proof -
    from that obtain c where "x \<in> set (html_entity c)" unfolding e by fastforce
    then show ?thesis by (rule html_entity_safe)
  qed
  then have "set (escapeHTML s) \<inter> {CHR ''<'', CHR ''>'', CHR 0x22, CHR 0x27} = {}" by blast
  moreover have "escapeHTML s = escapeHTML t \<longleftrightarrow> s = t" using escapeHTML_inject by metis
  ultimately show ?thesis using e[of s] by (intro conjI)
qed

text \<open>
  The heartbeat frequency is clamped between a sixteenth and a quarter of the master token's
  validity (both rounded down), is a whole number, and is left alone when it is whole and in range.
\<close>

theorem heartbeat_frequency_clamped:
  assumes "0 \<le> masterValidity"
  shows "\<lfloor>of_int \<lfloor>masterValidity / 4\<rfloor> / 4 :: real\<rfloor>
       \<le> validateClientSessionKeepAliveHeartbeatFrequency input masterValidity \<and>
     validateClientSessionKeepAliveHeartbeatFrequency input masterValidity \<le> \<lfloor>masterValidity / 4\<rfloor> \<and>
     (input \<in> {of_int \<lfloor>of_int \<lfloor>masterValidity / 4\<rfloor> / 4 :: real\<rfloor> .. of_int \<lfloor>masterValidity / 4\<rfloor>} \<longrightarrow>
       validateClientSessionKeepAliveHeartbeatFrequency input masterValidity = \<lfloor>input\<rfloor>)"
proof -
  have "(0::real) \<le> of_int \<lfloor>masterValidity / 4\<rfloor>" using assms by simp
  then have "of_int \<lfloor>masterValidity / 4\<rfloor> / 4 < (of_int \<lfloor>masterValidity / 4\<rfloor> + 1 :: real)" by linarith
  then have "\<lfloor>of_int \<lfloor>masterValidity / 4\<rfloor> / 4 :: real\<rfloor> \<le> \<lfloor>masterValidity / 4\<rfloor>"
    unfolding floor_le_iff by simp
  note c = clamp_floor[OF this, of input]
  show ?thesis
    unfolding validateClientSessionKeepAliveHeartbeatFrequency_def Let_def atLeastAtMost_iff
    by (intro conjI impI c; elim conjE)
qed

theorem heartbeat_frequency_clamped_witness:
  "900 \<le> validateClientSessionKeepAliveHeartbeatFrequency 1 14400 \<and>
   validateClientSessionKeepAliveHeartbeatFrequency 1 14400 \<le> 3600"
  using heartbeat_frequency_clamped[of 14400 1] by simp

end
