(* ===== verification/SfService.thy ===== *)
theory SfService
  imports ErrorsModel UtilModel QueryContextCache "HOL-Library.Multiset"
begin

text \<open>
  The Snowflake service state machine (\<open>lib/services/sf.js\<close>): the five states with their
  \<open>connect\<close>, \<open>request\<close>, \<open>requestAsync\<close> and \<open>destroy\<close> operations, the token store, the operation
  queue, the login retry loop and the classification of HTTP responses.

  The environment is explicit.  HTTP requests wait in \<open>inflight\<close> until a response event answers
  them, \<open>setTimeout\<close> callbacks of the login loop in \<open>loginTimers\<close>, and \<open>process.nextTick\<close>
  callbacks in \<open>ticks\<close> in the order they were scheduled.  \<open>issued\<close> and \<open>delivered\<close> record the
  operations handed to the service and the callbacks it invoked.
\<close>

section \<open>Data\<close>

datatype svc_state = Pristine | Connecting | Connected | Renewing | Disconnected

datatype expiry = NoExpiry | ExpiresAt int | NotANumber

record token_info =
  masterToken :: "string option"
  masterTokenExpirationTime :: expiry
  sessionToken :: "string option"
  sessionTokenExpirationTime :: expiry

text \<open>The \<open>data\<close> of a login or renewal response.\<close>

record token_data =
  d_masterToken :: "string option"
  d_token :: "string option"
  d_sessionToken :: "string option"
  d_masterValidityInSeconds :: "int option"
  d_validityInSecondsMT :: "int option"
  d_validityInSeconds :: "int option"
  d_validityInSecondsST :: "int option"
  d_sessionId :: "int option"

text \<open>The error \<open>response\<close> is kept as its status code.\<close>

type_synonym svc_error = "(token_data, int option) sf_error"

record sf_body =
  body_success :: bool
  body_code :: err_code
  body_message :: "string option"
  body_sqlState :: "string option"
  body_data :: "token_data option"

text \<open>What a 401 response carries as raw text: nothing, malformed JSON, or JSON with a code.\<close>

datatype raw_body = NoRawBody | MalformedJson | JsonCode err_code

datatype http_result =
    TransportError err_cause
  | EmptyResponse
  | HttpResponse "int option" raw_body "sf_body option"

datatype auth_kind = AuthIDToken | AuthOauthAuthorizationCode | AuthOkta | AuthKeypair | AuthOther

record op_options =
  op_id :: nat
  op_has_callback :: bool

datatype operation = OperationRequest op_options | OperationDestroy op_options

record login =
  login_op :: op_options
  numRetries :: nat
  sleep_time :: real
  totalElapsedTime :: real

text \<open>Requests in flight; a session request carries the session token it was sent with.\<close>

datatype http =
    HLogin login
  | HRequest op_options "string option"
  | HAsync op_options "string option"
  | HDestroy op_options "string option"
  | HRenew "string option"

text \<open>The argument of a callback; \<open>CbTypeError\<close> is a promise rejected with a TypeError.\<close>

datatype cb_arg = CbOk | CbErr svc_error | CbTypeError | CbMissing

record svc_cfg =
  cfg_maxLoginRetries :: nat
  cfg_retryTimeout :: real
  cfg_startingSleepTime :: real
  cfg_serverSessionKeepAlive :: bool
  cfg_auth :: auth_kind
  cfg_disableQueryContextCache :: bool

record svc =
  currentState :: svc_state
  tokenInfo :: token_info
  operationQueue :: "operation list"
  connectContext :: "op_options option"
  inflight :: "http list"
  loginTimers :: "login list"
  ticks :: "(op_options \<times> cb_arg) list"
  sessionId :: "int option"
  queryContext :: "qcc option"
  handlerThrew :: bool
  issued :: "nat list"
  delivered :: "(nat \<times> cb_arg) list"
  abandoned :: "nat list"

section \<open>Tokens\<close>

definition js_or_str :: "string option \<Rightarrow> string option \<Rightarrow> string option" where
  "js_or_str a b = (if nonempty_str a then a else b)"

definition js_or_num :: "int option \<Rightarrow> int option \<Rightarrow> int option" where
  "js_or_num a b = (case a of Some n \<Rightarrow> if n = 0 then b else Some n | None \<Rightarrow> b)"

definition no_tokens :: token_info where
  "no_tokens = \<lparr>masterToken = None, masterTokenExpirationTime = NoExpiry,
     sessionToken = None, sessionTokenExpirationTime = NoExpiry\<rparr>"

definition isEmpty :: "token_info \<Rightarrow> bool" where
  "isEmpty t \<longleftrightarrow> masterToken t = None \<or> masterTokenExpirationTime t = NoExpiry \<or>
     sessionToken t = None \<or> sessionTokenExpirationTime t = NoExpiry"

definition clearTokens :: "token_info \<Rightarrow> token_info" where
  "clearTokens t = no_tokens"

text \<open>\<open>currentTime + 1000 * undefined\<close> is NaN, which exists.\<close>

definition expiry_after :: "int \<Rightarrow> int option \<Rightarrow> expiry" where
  "expiry_after now v = (case v of Some n \<Rightarrow> ExpiresAt (now + 1000 * n) | None \<Rightarrow> NotANumber)"

definition updateTokens :: "int \<Rightarrow> token_data \<Rightarrow> token_info \<Rightarrow> token_info" where
  "updateTokens now d t =
     t\<lparr>masterToken := d_masterToken d,
       sessionToken := js_or_str (d_token d) (d_sessionToken d),
       masterTokenExpirationTime :=
         expiry_after now (js_or_num (d_masterValidityInSeconds d) (d_validityInSecondsMT d)),
       sessionTokenExpirationTime :=
         expiry_after now (js_or_num (d_validityInSeconds d) (d_validityInSecondsST d))\<rparr>"

text \<open>The constructor's tokens: a given token config, or the session token of the connection config.\<close>

record token_options =
  o_sessionToken :: "string option"
  o_masterToken :: "string option"
  o_sessionTokenExpirationTime :: "int option"
  o_masterTokenExpirationTime :: "int option"

definition initialTokens :: "int \<Rightarrow> token_info option \<Rightarrow> token_options \<Rightarrow> token_info" where
  "initialTokens now config opts =
     (case config of
        Some t \<Rightarrow> t
      | None \<Rightarrow>
          if nonempty_str (o_sessionToken opts) then
            \<lparr>masterToken = js_or_str (o_masterToken opts) (o_sessionToken opts),
             masterTokenExpirationTime =
               ExpiresAt (case js_or_num (o_masterTokenExpirationTime opts) None of
                            Some n \<Rightarrow> n | None \<Rightarrow> now + 1000 * 60 * 60 * 24),
             sessionToken = o_sessionToken opts,
             sessionTokenExpirationTime =
               ExpiresAt (case js_or_num (o_sessionTokenExpirationTime opts) None of
                            Some n \<Rightarrow> n | None \<Rightarrow> now + 1000 * 60 * 60 * 24)\<rparr>
          else no_tokens)"

definition newSnowflakeService :: "token_info \<Rightarrow> svc" where
  "newSnowflakeService t =
     \<lparr>currentState = (if isEmpty t then Pristine else Connected), tokenInfo = t,
      operationQueue = [], connectContext = None, inflight = [], loginTimers = [], ticks = [],
      sessionId = None, queryContext = None, handlerThrew = False,
      issued = [], delivered = [], abandoned = []\<rparr>"

definition isConnected :: "svc \<Rightarrow> bool" where
  "isConnected s \<longleftrightarrow>
     currentState s = Connected \<or> currentState s = Connecting \<or> currentState s = Renewing"

section \<open>Transitions\<close>

text \<open>
  \<open>enter\<close> of each state: \<open>Connecting\<close> starts a login (its first request leaves after the awaited
  platform detection, so it waits as a timer), \<open>Renewing\<close> sends the token request.
\<close>

fun enter :: "svc_cfg \<Rightarrow> svc_state \<Rightarrow> op_options option \<Rightarrow> svc \<Rightarrow> svc" where
  "enter cfg Connecting (Some op) s =
     s\<lparr>connectContext := Some op,
       loginTimers := loginTimers s @
         [\<lparr>login_op = op, numRetries = 0, sleep_time = cfg_startingSleepTime cfg, totalElapsedTime = 0\<rparr>]\<rparr>"
| "enter cfg Renewing _ s = s\<lparr>inflight := inflight s @ [HRenew (masterToken (tokenInfo s))]\<rparr>"
| "enter cfg _ _ s = s"

definition exit_state :: "svc \<Rightarrow> svc" where
  "exit_state s = (if currentState s = Connecting then s\<lparr>connectContext := None\<rparr> else s)"

definition transitionTo :: "svc_cfg \<Rightarrow> svc_state \<Rightarrow> op_options option \<Rightarrow> svc \<Rightarrow> svc" where
  "transitionTo cfg q ctx s =
     (if currentState s = q then s else enter cfg q ctx ((exit_state s)\<lparr>currentState := q\<rparr>))"

definition transitionToConnecting :: "svc_cfg \<Rightarrow> op_options \<Rightarrow> svc \<Rightarrow> svc" where
  "transitionToConnecting cfg op = transitionTo cfg Connecting (Some op)"

definition transitionToConnected :: "svc_cfg \<Rightarrow> svc \<Rightarrow> svc" where
  "transitionToConnected cfg = transitionTo cfg Connected None"

definition transitionToRenewing :: "svc_cfg \<Rightarrow> svc \<Rightarrow> svc" where
  "transitionToRenewing cfg = transitionTo cfg Renewing None"

definition transitionToDisconnected :: "svc_cfg \<Rightarrow> svc \<Rightarrow> svc" where
  "transitionToDisconnected cfg s =
     (let s' = transitionTo cfg Disconnected None s
      in s'\<lparr>tokenInfo := clearTokens (tokenInfo s')\<rparr>)"

section \<open>Operations of the states\<close>

definition nextTick :: "op_options \<Rightarrow> cb_arg \<Rightarrow> svc \<Rightarrow> svc" where
  "nextTick op a s = s\<lparr>ticks := ticks s @ [(op, a)]\<rparr>"

text \<open>Invoke a callback, or note that there is none to invoke.\<close>

definition invoke :: "op_options \<Rightarrow> cb_arg \<Rightarrow> svc \<Rightarrow> svc" where
  "invoke op a s = s\<lparr>delivered := delivered s @ [(op_id op, if op_has_callback op then a else CbMissing)]\<rparr>"

definition send :: "http \<Rightarrow> svc \<Rightarrow> svc" where
  "send h s = s\<lparr>inflight := inflight s @ [h]\<rparr>"

definition enqueue :: "operation \<Rightarrow> svc \<Rightarrow> svc" where
  "enqueue x s = s\<lparr>operationQueue := operationQueue s @ [x]\<rparr>"

definition clientError :: "int \<Rightarrow> bool option \<Rightarrow> cb_arg" where
  "clientError c fatal = CbErr (createClientError (NumCode c) fatal [])"

text \<open>StatePristine.\<close>

definition pristine_connect :: "svc_cfg \<Rightarrow> op_options \<Rightarrow> svc \<Rightarrow> svc" where
  [simp]: "pristine_connect cfg op s = transitionToConnecting cfg op s"

definition pristine_request :: "op_options \<Rightarrow> svc \<Rightarrow> svc" where
  [simp]: "pristine_request op s = nextTick op (clientError 407001 None) s"

definition pristine_destroy :: "op_options \<Rightarrow> svc \<Rightarrow> svc" where
  [simp]: "pristine_destroy op s = nextTick op (clientError 406501 None) s"

text \<open>StateConnecting.\<close>

definition connecting_connect :: "op_options \<Rightarrow> svc \<Rightarrow> svc" where
  [simp]: "connecting_connect op s = nextTick op (clientError 405501 None) s"

definition connecting_request :: "op_options \<Rightarrow> svc \<Rightarrow> svc" where
  [simp]: "connecting_request op s = enqueue (OperationRequest op) s"

definition connecting_destroy :: "op_options \<Rightarrow> svc \<Rightarrow> svc" where
  [simp]: "connecting_destroy op s = enqueue (OperationDestroy op) s"

text \<open>StateConnected; the answers of what it sends are handled further below.\<close>

definition connected_connect :: "op_options \<Rightarrow> svc \<Rightarrow> svc" where
  [simp]: "connected_connect op s = nextTick op (clientError 405502 None) s"

definition connected_requestAsync :: "op_options \<Rightarrow> svc \<Rightarrow> svc" where
  [simp]: "connected_requestAsync op s = send (HAsync op (sessionToken (tokenInfo s))) s"

definition connected_request :: "op_options \<Rightarrow> svc \<Rightarrow> svc" where
  [simp]: "connected_request op s = send (HRequest op (sessionToken (tokenInfo s))) s"

definition connected_destroy :: "svc_cfg \<Rightarrow> op_options \<Rightarrow> svc \<Rightarrow> svc" where
  [simp]: "connected_destroy cfg op s =
     (if cfg_serverSessionKeepAlive cfg
      then invoke op CbOk (transitionToDisconnected cfg s)
      else send (HDestroy op (sessionToken (tokenInfo s))) s)"

text \<open>StateRenewing.\<close>

definition renewing_connect :: "op_options \<Rightarrow> svc \<Rightarrow> svc" where
  [simp]: "renewing_connect op s = nextTick op (clientError 405502 None) s"

definition renewing_request :: "op_options \<Rightarrow> svc \<Rightarrow> svc" where
  [simp]: "renewing_request op s = enqueue (OperationRequest op) s"

definition renewing_destroy :: "op_options \<Rightarrow> svc \<Rightarrow> svc" where
  [simp]: "renewing_destroy op s = enqueue (OperationDestroy op) s"

text \<open>StateDisconnected.\<close>

definition disconnected_connect :: "op_options \<Rightarrow> svc \<Rightarrow> svc" where
  [simp]: "disconnected_connect op s = nextTick op (clientError 405503 None) s"

definition disconnected_request :: "op_options \<Rightarrow> svc \<Rightarrow> svc" where
  [simp]: "disconnected_request op s = nextTick op (clientError 407002 (Some True)) s"

definition disconnected_destroy :: "op_options \<Rightarrow> svc \<Rightarrow> svc" where
  [simp]: "disconnected_destroy op s = nextTick op (clientError 406502 None) s"

text \<open>The calls on \<open>currentState\<close>.  Only \<open>StateConnected\<close> has a \<open>requestAsync\<close>: elsewhere it is a TypeError.\<close>

definition state_connect :: "svc_cfg \<Rightarrow> op_options \<Rightarrow> svc \<Rightarrow> svc" where
  "state_connect cfg op s =
     (case currentState s of
        Pristine \<Rightarrow> pristine_connect cfg op s
      | Connecting \<Rightarrow> connecting_connect op s
      | Connected \<Rightarrow> connected_connect op s
      | Renewing \<Rightarrow> renewing_connect op s
      | Disconnected \<Rightarrow> disconnected_connect op s)"

definition state_request :: "op_options \<Rightarrow> svc \<Rightarrow> svc" where
  "state_request op s =
     (case currentState s of
        Pristine \<Rightarrow> pristine_request op s
      | Connecting \<Rightarrow> connecting_request op s
      | Connected \<Rightarrow> connected_request op s
      | Renewing \<Rightarrow> renewing_request op s
      | Disconnected \<Rightarrow> disconnected_request op s)"

definition state_requestAsync :: "op_options \<Rightarrow> svc \<Rightarrow> svc" where
  "state_requestAsync op s =
     (if currentState s = Connected then connected_requestAsync op s
      else invoke op CbTypeError s)"

definition state_destroy :: "svc_cfg \<Rightarrow> op_options \<Rightarrow> svc \<Rightarrow> svc" where
  "state_destroy cfg op s =
     (case currentState s of
        Pristine \<Rightarrow> pristine_destroy op s
      | Connecting \<Rightarrow> connecting_destroy op s
      | Connected \<Rightarrow> connected_destroy cfg op s
      | Renewing \<Rightarrow> renewing_destroy op s
      | Disconnected \<Rightarrow> disconnected_destroy op s)"

text \<open>\<open>continue()\<close> takes its options from the saved context and restarts the login.\<close>

definition state_continue :: "svc_cfg \<Rightarrow> svc \<Rightarrow> svc" where
  "state_continue cfg s =
     (case (currentState s, connectContext s) of
        (Connecting, Some op) \<Rightarrow> enter cfg Connecting (Some op) s
      | _ \<Rightarrow> s)"

fun execute :: "svc_cfg \<Rightarrow> operation \<Rightarrow> svc \<Rightarrow> svc" where
  "execute cfg (OperationRequest op) s = state_request op s"
| "execute cfg (OperationDestroy op) s = state_destroy cfg op s"

text \<open>The loop runs over the queue as it was on entry; then the whole queue is emptied.\<close>

definition drainOperationQueue :: "svc_cfg \<Rightarrow> svc \<Rightarrow> svc" where
  "drainOperationQueue cfg s = (fold (execute cfg) (operationQueue s) s)\<lparr>operationQueue := []\<rparr>"

definition clearServiceCache :: "svc \<Rightarrow> svc" where
  "clearServiceCache s = s\<lparr>queryContext := map_option clearCache (queryContext s)\<rparr>"

datatype call =
    CallConnect op_options
  | CallContinue
  | CallRequest op_options
  | CallRequestAsync op_options
  | CallDestroy op_options

definition note_issued :: "op_options \<Rightarrow> svc \<Rightarrow> svc" where
  "note_issued op s = s\<lparr>issued := issued s @ [op_id op]\<rparr>"

fun do_call :: "svc_cfg \<Rightarrow> call \<Rightarrow> svc \<Rightarrow> svc" where
  "do_call cfg (CallConnect op) s = state_connect cfg op (note_issued op s)"
| "do_call cfg CallContinue s = state_continue cfg s"
| "do_call cfg (CallRequest op) s = state_request op (note_issued op s)"
| "do_call cfg (CallRequestAsync op) s = state_requestAsync op (note_issued op s)"
| "do_call cfg (CallDestroy op) s = state_destroy cfg op (clearServiceCache (note_issued op s))"

section \<open>Responses\<close>

text \<open>The callback of \<open>sendHttpRequest\<close>: \<open>auth_throws\<close> tells that an awaited call of the authenticator rejects.\<close>

datatype classified =
    Failed svc_error
  | Succeeded "sf_body option"
  | Resend
  | HandlerThrows

definition is_auth_rejection :: "auth_kind \<Rightarrow> err_code \<Rightarrow> bool" where
  "is_auth_rejection auth c \<longleftrightarrow>
     (auth = AuthIDToken \<and> c = StrCode ''390195'') \<or>
     (auth = AuthOauthAuthorizationCode \<and> (c = StrCode ''390318'' \<or> c = StrCode ''390303''))"

fun classify :: "auth_kind \<Rightarrow> bool \<Rightarrow> http_result \<Rightarrow> classified" where
  "classify auth auth_throws (TransportError cause) =
     Failed (createNetworkError (NumCode 401001) (Some cause))"
| "classify auth auth_throws EmptyResponse =
     Failed (createUnexpectedContentError (NumCode 401003) (Some ''(EMPTY)''))"
| "classify auth auth_throws (HttpResponse status raw body) =
     (if status \<noteq> None \<and> status \<noteq> Some 200 then
        (if status = Some 401 \<and> raw = JsonCode (StrCode ''390104'')
         then Failed (createRequestFailedError (NumCode 401004) (Some status))
         else Failed (createRequestFailedError (NumCode 401002) (Some status)))
      else
        (case body of
           None \<Rightarrow> Succeeded None
         | Some b \<Rightarrow>
             if body_success b then Succeeded (Some b)
             else if auth_throws \<and>
                (auth = AuthOauthAuthorizationCode \<or> is_auth_rejection auth (body_code b)) then HandlerThrows
             else if is_auth_rejection auth (body_code b) then Resend
             else Failed (createOperationFailedError (body_code b) (body_data b) (body_message b)
                    (if nonempty_str (body_sqlState b) then body_sqlState b else None))))"

text \<open>\<open>isRetryableError\<close> of the service.\<close>

definition fatal_causes :: "err_code list" where
  "fatal_causes = [NumCode 412001, StrCode ''DEPTH_ZERO_SELF_SIGNED_CERT'', StrCode ''CERT_HAS_EXPIRED'',
     StrCode ''UNABLE_TO_VERIFY_LEAF_SIGNATURE'', StrCode ''SELF_SIGNED_CERT_IN_CHAIN'', NumCode 413001]"

definition isRetryableError :: "svc_error \<Rightarrow> bool" where
  "isRetryableError e =
     (case err_response e of
        Some status \<Rightarrow> isRetryableHttpError status False
      | None \<Rightarrow> (case err_cause e of None \<Rightarrow> True | Some c \<Rightarrow> cause_code c \<notin> set fatal_causes))"

text \<open>
  What the environment supplies to a response handler: the clock, the random draws of a retry,
  whether the authenticator rejects, the retry state Okta hands back, the query-context-cache size
  of the server parameters, and the operations a client issues synchronously from its connect
  callback.
\<close>

record reply_env =
  env_now :: int
  env_draws :: draws
  env_authThrows :: bool
  env_okta :: "nat \<times> real"
  env_qccSize :: int
  env_reentrant :: "call list"

definition abandon :: "op_options \<Rightarrow> svc \<Rightarrow> svc" where
  "abandon op s = s\<lparr>handlerThrew := True, abandoned := abandoned s @ [op_id op]\<rparr>"

text \<open>The end of the login handler: the connect callback, then the queue.\<close>

definition finish_login :: "svc_cfg \<Rightarrow> reply_env \<Rightarrow> op_options \<Rightarrow> cb_arg \<Rightarrow> svc \<Rightarrow> svc" where
  "finish_login cfg env op a s =
     drainOperationQueue cfg (fold (do_call cfg) (env_reentrant env) (invoke op a s))"

definition login_can_retry :: "svc_cfg \<Rightarrow> login \<Rightarrow> svc_error \<Rightarrow> bool" where
  "login_can_retry cfg l e \<longleftrightarrow>
     numRetries l < cfg_maxLoginRetries cfg \<and> isRetryableError e \<and>
     (cfg_retryTimeout cfg = 0 \<or> totalElapsedTime l < cfg_retryTimeout cfg)"

definition retry_login :: "svc_cfg \<Rightarrow> reply_env \<Rightarrow> login \<Rightarrow> svc \<Rightarrow> svc" where
  "retry_login cfg env l s =
     (let n = numRetries l + 1;
          (sl, tot) = getJitteredSleepTime (env_draws env) n (sleep_time l) (totalElapsedTime l)
                        (cfg_retryTimeout cfg);
          s1 = (if sl \<le> 0 then transitionToDisconnected cfg s else s);
          reauth = (cfg_auth cfg = AuthOkta \<or> cfg_auth cfg = AuthKeypair);
          (n', tot') = (if cfg_auth cfg = AuthOkta then env_okta env else (n, tot))
      in if reauth \<and> env_authThrows env then abandon (login_op l) s1
         else s1\<lparr>loginTimers := loginTimers s1 @
                [\<lparr>login_op = login_op l, numRetries = n', sleep_time = sl, totalElapsedTime = tot'\<rparr>]\<rparr>)"

fun login_response :: "svc_cfg \<Rightarrow> reply_env \<Rightarrow> login \<Rightarrow> classified \<Rightarrow> svc \<Rightarrow> svc" where
  "login_response cfg env l (Succeeded (Some b)) s =
     (case body_data b of
        None \<Rightarrow> abandon (login_op l) s
      | Some d \<Rightarrow>
          (let s1 = transitionToConnected cfg
                 (s\<lparr>sessionId := d_sessionId d, tokenInfo := updateTokens (env_now env) d (tokenInfo s)\<rparr>);
               s2 = (if cfg_disableQueryContextCache cfg then s1
                     else s1\<lparr>queryContext := Some (newQueryContextCache (env_qccSize env))\<rparr>)
           in finish_login cfg env (login_op l) CbOk s2))"
| "login_response cfg env l (Failed e) s =
     (if (isNetworkError (Some e) \<or> isRequestFailedError (Some e)) \<and> login_can_retry cfg l e
      then retry_login cfg env l s
      else finish_login cfg env (login_op l) (CbErr e) (transitionToDisconnected cfg s))"
| "login_response cfg env l Resend s = send (HLogin l) s"
| "login_response cfg env l _ s = abandon (login_op l) s"

fun request_response :: "svc_cfg \<Rightarrow> op_options \<Rightarrow> string option \<Rightarrow> classified \<Rightarrow> svc \<Rightarrow> svc" where
  "request_response cfg op tok (Succeeded _) s = invoke op CbOk s"
| "request_response cfg op tok (Failed e) s =
     (if err_code e = StrCode ''390112'' then
        transitionToRenewing cfg (enqueue (OperationRequest op) s)
      else if err_code e = StrCode ''390104'' \<or> err_code e = StrCode ''390111'' then
        drainOperationQueue cfg (transitionToDisconnected cfg (enqueue (OperationRequest op) s))
      else invoke op (CbErr e) s)"
| "request_response cfg op tok Resend s = send (HRequest op tok) s"
| "request_response cfg op tok HandlerThrows s = abandon op s"

fun async_response :: "op_options \<Rightarrow> string option \<Rightarrow> classified \<Rightarrow> svc \<Rightarrow> svc" where
  "async_response op tok (Succeeded _) s = invoke op CbOk s"
| "async_response op tok (Failed e) s = invoke op (CbErr e) s"
| "async_response op tok Resend s = send (HAsync op tok) s"
| "async_response op tok HandlerThrows s = abandon op s"

fun destroy_response :: "svc_cfg \<Rightarrow> op_options \<Rightarrow> string option \<Rightarrow> classified \<Rightarrow> svc \<Rightarrow> svc" where
  "destroy_response cfg op tok (Succeeded _) s = invoke op CbOk (transitionToDisconnected cfg s)"
| "destroy_response cfg op tok (Failed e) s =
     (if err_code e = StrCode ''390111'' \<or> err_code e = StrCode ''390112''
      then invoke op CbOk (transitionToDisconnected cfg s)
      else invoke op (CbErr e) s)"
| "destroy_response cfg op tok Resend s = send (HDestroy op tok) s"
| "destroy_response cfg op tok HandlerThrows s = abandon op s"

text \<open>The callback of the renewal request; \<open>body.data\<close> of a missing body is a TypeError.\<close>

fun renew_response :: "svc_cfg \<Rightarrow> reply_env \<Rightarrow> string option \<Rightarrow> classified \<Rightarrow> svc \<Rightarrow> svc" where
  "renew_response cfg env tok (Succeeded (Some b)) s =
     (case body_data b of
        None \<Rightarrow> s\<lparr>handlerThrew := True\<rparr>
      | Some d \<Rightarrow>
          drainOperationQueue cfg (transitionToConnected cfg
            (s\<lparr>tokenInfo := updateTokens (env_now env) d (tokenInfo s)\<rparr>)))"
| "renew_response cfg env tok (Failed e) s =
     drainOperationQueue cfg
       (if err_code e = StrCode ''390114'' then transitionToDisconnected cfg s
        else if isNetworkError (Some e) then transitionToConnected cfg s
        else transitionToDisconnected cfg s)"
| "renew_response cfg env tok Resend s = send (HRenew tok) s"
| "renew_response cfg env tok _ s = s\<lparr>handlerThrew := True\<rparr>"

fun handle_response :: "svc_cfg \<Rightarrow> reply_env \<Rightarrow> http \<Rightarrow> classified \<Rightarrow> svc \<Rightarrow> svc" where
  "handle_response cfg env (HLogin l) c s = login_response cfg env l c s"
| "handle_response cfg env (HRequest op tok) c s = request_response cfg op tok c s"
| "handle_response cfg env (HAsync op tok) c s = async_response op tok c s"
| "handle_response cfg env (HDestroy op tok) c s = destroy_response cfg op tok c s"
| "handle_response cfg env (HRenew tok) c s = renew_response cfg env tok c s"

section \<open>Login url\<close>

text \<open>The query parameters of the login request, and the suffix of a repeated request.\<close>

definition loginQuery ::
  "bool \<Rightarrow> string \<Rightarrow> string option \<Rightarrow> string option \<Rightarrow> string option \<Rightarrow> string option \<Rightarrow> (string \<times> string) list"
where
  "loginQuery qaMode requestId warehouse database schema role =
     (if qaMode then [] else [(''requestId'', requestId)]) @
     concat (map (\<lambda>(n, v). case v of Some x \<Rightarrow> if x = [] then [] else [(n, x)] | None \<Rightarrow> [])
       [(''warehouse'', warehouse), (''databaseName'', database), (''schemaName'', schema), (''roleName'', role)])"

definition retryUrl :: "string \<Rightarrow> string \<Rightarrow> string \<Rightarrow> nat \<Rightarrow> string" where
  "retryUrl absoluteUrl url startTime retry =
     (if retry > 2
      then absoluteUrl @ (if CHR ''?'' \<in> set url then ''&'' else ''?'') @
        ''clientStartTime='' @ startTime @ ''&'' @ ''retryCount='' @ show_nat (retry - 1)
      else absoluteUrl)"

section \<open>Steps\<close>

definition drop_nth :: "nat \<Rightarrow> 'a list \<Rightarrow> 'a list" where
  "drop_nth i xs = take i xs @ drop (Suc i) xs"

datatype event =
    Call call
  | Respond nat http_result reply_env
  | Tick
  | LoginTimer nat

inductive svc_step :: "svc_cfg \<Rightarrow> svc \<Rightarrow> event \<Rightarrow> svc \<Rightarrow> bool" for cfg where
  step_call: "svc_step cfg s (Call c) (do_call cfg c s)"
| step_respond: "i < length (inflight s) \<Longrightarrow>
    svc_step cfg s (Respond i r env)
      (handle_response cfg env (inflight s ! i) (classify (cfg_auth cfg) (env_authThrows env) r)
        (s\<lparr>inflight := drop_nth i (inflight s)\<rparr>))"
| step_tick: "ticks s = (op, a) # rest \<Longrightarrow> svc_step cfg s Tick (invoke op a (s\<lparr>ticks := rest\<rparr>))"
| step_timer: "i < length (loginTimers s) \<Longrightarrow>
    svc_step cfg s (LoginTimer i)
      (send (HLogin (loginTimers s ! i)) (s\<lparr>loginTimers := drop_nth i (loginTimers s)\<rparr>))"

inductive_cases svc_stepE: "svc_step cfg s e s'"

inductive_simps svc_step_simps [simp]:
  "svc_step cfg s (Call c) s'"
  "svc_step cfg s (Respond i r env) s'"
  "svc_step cfg s Tick s'"
  "svc_step cfg s (LoginTimer i) s'"

text \<open>
  What a run may contain: no code of the driver calls \<open>continue()\<close> on the service, random draws
  are in range, and the Okta authenticator hands back at least the retry count it was given
  (\<open>reauthenticate\<close> in \<open>lib/authentication/auth_okta.js\<close> only increments it).
\<close>

fun okta_ok :: "reply_env \<Rightarrow> http \<Rightarrow> bool" where
  "okta_ok env (HLogin l) \<longleftrightarrow> numRetries l + 1 \<le> fst (env_okta env)"
| "okta_ok env _ \<longleftrightarrow> True"

fun allowed :: "svc \<Rightarrow> event \<Rightarrow> bool" where
  "allowed s (Call c) \<longleftrightarrow> c \<noteq> CallContinue"
| "allowed s (Respond i r env) \<longleftrightarrow>
     CallContinue \<notin> set (env_reentrant env) \<and> good_draws (env_draws env) \<and> okta_ok env (inflight s ! i)"
| "allowed s _ \<longleftrightarrow> True"

inductive reachable :: "svc_cfg \<Rightarrow> token_info \<Rightarrow> svc \<Rightarrow> bool" for cfg t where
  reach_init: "reachable cfg t (newSnowflakeService t)"
| reach_step: "reachable cfg t s \<Longrightarrow> svc_step cfg s e s' \<Longrightarrow> allowed s e \<Longrightarrow> reachable cfg t s'"

end
