(* ===== verification/SfServiceProps.thy ===== *)
theory SfServiceProps
  imports SfService
begin

text \<open>
  Correctness of the Snowflake service state machine.  The first part collects what each
  primitive does to the books: every operation handed to the service is in exactly one place
  (queued, in flight, waiting for a timer or a tick, answered, or abandoned by a handler that
  threw).  The contract of an operation executed outside the transient states is the locale
  \<open>settled_executor\<close>; the queued operations and the client calls are its two interpretations.
\<close>

section \<open>Accounting\<close>

fun operation_id :: "operation \<Rightarrow> nat" where
  "operation_id (OperationRequest op) = op_id op"
| "operation_id (OperationDestroy op) = op_id op"

fun http_ids :: "http \<Rightarrow> nat list" where
  "http_ids (HLogin l) = [op_id (login_op l)]"
| "http_ids (HRequest op tok) = [op_id op]"
| "http_ids (HAsync op tok) = [op_id op]"
| "http_ids (HDestroy op tok) = [op_id op]"
| "http_ids (HRenew tok) = []"


definition accounted :: "svc \<Rightarrow> nat multiset" where
  "accounted s =
     mset (map operation_id (operationQueue s)) + mset (concat (map http_ids (inflight s))) +
     mset (map (\<lambda>l. op_id (login_op l)) (loginTimers s)) + mset (map (\<lambda>t. op_id (fst t)) (ticks s)) +
     mset (map fst (delivered s)) + mset (abandoned s)"

definition settled :: "svc \<Rightarrow> bool" where
  "settled s \<longleftrightarrow> currentState s = Connected \<or> currentState s = Disconnected"

lemmas primitive_defs = nextTick_def invoke_def send_def enqueue_def abandon_def note_issued_def
  clearServiceCache_def

lemmas transition_defs = transitionToConnecting_def transitionToConnected_def
  transitionToRenewing_def transitionToDisconnected_def transitionTo_def exit_state_def Let_def

lemma accounted_primitives [simp]:
  "accounted (nextTick op a s) = accounted s + {#op_id op#}"
  "accounted (invoke op a s) = accounted s + {#op_id op#}"
  "accounted (send h s) = accounted s + mset (http_ids h)"
  "accounted (enqueue x s) = accounted s + {#operation_id x#}"
  "accounted (abandon op s) = accounted s + {#op_id op#}"
  "accounted (note_issued op s) = accounted s"
  "accounted (clearServiceCache s) = accounted s"
  by (simp_all add: accounted_def primitive_defs)

lemma accounted_updates [simp]:
  "accounted (s\<lparr>tokenInfo := t\<rparr>) = accounted s"
  "accounted (s\<lparr>sessionId := i\<rparr>) = accounted s"
  "accounted (s\<lparr>queryContext := c\<rparr>) = accounted s"
  "accounted (s\<lparr>currentState := q\<rparr>) = accounted s"
  "accounted (s\<lparr>connectContext := x\<rparr>) = accounted s"
  "accounted (s\<lparr>handlerThrew := b\<rparr>) = accounted s"
  "accounted (s\<lparr>issued := js\<rparr>) = accounted s"
  by (simp_all add: accounted_def)

lemma accounted_transitions [simp]:
  "accounted (transitionToConnected cfg s) = accounted s"
  "accounted (transitionToRenewing cfg s) = accounted s"
  "accounted (transitionToDisconnected cfg s) = accounted s"
  "currentState s \<noteq> Connecting \<Longrightarrow>
     accounted (transitionToConnecting cfg op s) = accounted s + {#op_id op#}"
  by (auto simp: transition_defs accounted_def)

lemma state_primitives [simp]:
  "currentState (nextTick op a s) = currentState s"
  "currentState (invoke op a s) = currentState s"
  "currentState (send h s) = currentState s"
  "currentState (enqueue x s) = currentState s"
  "currentState (abandon op s) = currentState s"
  "currentState (note_issued op s) = currentState s"
  "currentState (clearServiceCache s) = currentState s"
  by (simp_all add: primitive_defs)

lemma state_transitions [simp]:
  "currentState (transitionToConnected cfg s) = Connected"
  "currentState (transitionToRenewing cfg s) = Renewing"
  "currentState (transitionToDisconnected cfg s) = Disconnected"
  "currentState (transitionToConnecting cfg op s) = Connecting"
  by (auto simp: transition_defs)

lemma queue_primitives [simp]:
  "operationQueue (nextTick op a s) = operationQueue s"
  "operationQueue (invoke op a s) = operationQueue s"
  "operationQueue (send h s) = operationQueue s"
  "operationQueue (enqueue x s) = operationQueue s @ [x]"
  "operationQueue (abandon op s) = operationQueue s"
  "operationQueue (note_issued op s) = operationQueue s"
  "operationQueue (clearServiceCache s) = operationQueue s"
  by (simp_all add: primitive_defs)

lemma queue_transitions [simp]:
  "operationQueue (transitionToConnected cfg s) = operationQueue s"
  "operationQueue (transitionToRenewing cfg s) = operationQueue s"
  "operationQueue (transitionToDisconnected cfg s) = operationQueue s"
  "operationQueue (transitionToConnecting cfg op s) = operationQueue s"
  by (auto simp: transition_defs)

lemma issued_primitives [simp]:
  "issued (nextTick op a s) = issued s"
  "issued (invoke op a s) = issued s"
  "issued (send h s) = issued s"
  "issued (enqueue x s) = issued s"
  "issued (abandon op s) = issued s"
  "issued (note_issued op s) = issued s @ [op_id op]"
  "issued (clearServiceCache s) = issued s"
  by (simp_all add: primitive_defs)

lemma issued_transitions [simp]:
  "issued (transitionToConnected cfg s) = issued s"
  "issued (transitionToRenewing cfg s) = issued s"
  "issued (transitionToDisconnected cfg s) = issued s"
  "issued (transitionToConnecting cfg op s) = issued s"
  by (auto simp: transition_defs)

lemmas state_op_defs = state_connect_def state_request_def state_requestAsync_def state_destroy_def

lemma accounted_state_ops [simp]:
  "accounted (state_connect cfg op s) = accounted s + {#op_id op#}"
  "accounted (state_request op s) = accounted s + {#op_id op#}"
  "accounted (state_requestAsync op s) = accounted s + {#op_id op#}"
  "accounted (state_destroy cfg op s) = accounted s + {#op_id op#}"
  by (simp_all add: state_op_defs split: svc_state.split)

lemma issued_state_ops [simp]:
  "issued (state_connect cfg op s) = issued s"
  "issued (state_request op s) = issued s"
  "issued (state_requestAsync op s) = issued s"
  "issued (state_destroy cfg op s) = issued s"
  by (simp_all add: state_op_defs split: svc_state.split)


section \<open>Executing operations in a settled state\<close>



lemma settled_note [simp]:
  "settled (note_issued op s) = settled s" "settled (clearServiceCache s) = settled s"
  by (simp_all add: settled_def)




section \<open>Invariants\<close>

definition login_set :: "svc \<Rightarrow> login set" where
  "login_set s = {l. HLogin l \<in> set (inflight s)} \<union> set (loginTimers s)"


definition token_inv :: "svc \<Rightarrow> bool" where
  "token_inv s \<longleftrightarrow> (currentState s = Disconnected \<longrightarrow> tokenInfo s = no_tokens)"

definition wake_inv :: "svc \<Rightarrow> bool" where
  "wake_inv s \<longleftrightarrow> handlerThrew s \<or>
     ((currentState s = Renewing \<longrightarrow> (\<exists>t. HRenew t \<in> set (inflight s))) \<and>
      (currentState s = Connecting \<longrightarrow> login_set s \<noteq> {}))"





definition first_login :: "svc_cfg \<Rightarrow> op_options \<Rightarrow> login" where
  "first_login cfg op =
     \<lparr>login_op = op, numRetries = 0, sleep_time = cfg_startingSleepTime cfg, totalElapsedTime = 0\<rparr>"


lemma login_set_primitives [simp]:
  "login_set (nextTick op a s) = login_set s"
  "login_set (invoke op a s) = login_set s"
  "login_set (enqueue x s) = login_set s"
  "login_set (abandon op s) = login_set s"
  "login_set (note_issued op s) = login_set s"
  "login_set (clearServiceCache s) = login_set s"
  "login_set (send (HLogin l) s) = insert l (login_set s)"
  "login_set (send (HRequest op tok) s) = login_set s"
  "login_set (send (HAsync op tok) s) = login_set s"
  "login_set (send (HDestroy op tok) s) = login_set s"
  "login_set (send (HRenew tok) s) = login_set s"
  by (auto simp: login_set_def primitive_defs)

lemma login_set_updates [simp]:
  "login_set (s\<lparr>tokenInfo := t\<rparr>) = login_set s"
  "login_set (s\<lparr>sessionId := i\<rparr>) = login_set s"
  "login_set (s\<lparr>queryContext := c\<rparr>) = login_set s"
  "login_set (s\<lparr>handlerThrew := b\<rparr>) = login_set s"
  "login_set (s\<lparr>operationQueue := q\<rparr>) = login_set s"
  by (simp_all add: login_set_def)

lemma login_set_transitions [simp]:
  "login_set (transitionToConnected cfg s) = login_set s"
  "login_set (transitionToRenewing cfg s) = login_set s"
  "login_set (transitionToDisconnected cfg s) = login_set s"
  "login_set (transitionToConnecting cfg op s) =
     (if currentState s = Connecting then login_set s else insert (first_login cfg op) (login_set s))"
  by (auto simp: transition_defs login_set_def first_login_def)


lemma token_inv_primitives [simp]:
  "token_inv (nextTick op a s) = token_inv s"
  "token_inv (invoke op a s) = token_inv s"
  "token_inv (send h s) = token_inv s"
  "token_inv (enqueue x s) = token_inv s"
  "token_inv (abandon op s) = token_inv s"
  "token_inv (note_issued op s) = token_inv s"
  "token_inv (clearServiceCache s) = token_inv s"
  by (simp_all add: token_inv_def primitive_defs)

lemma token_inv_transitions [simp]:
  "token_inv (transitionToConnected cfg s)"
  "token_inv (transitionToRenewing cfg s)"
  "token_inv (transitionToDisconnected cfg s)"
  "token_inv (transitionToConnecting cfg op s)"
  "token_inv ((transitionToConnected cfg s)\<lparr>queryContext := c\<rparr>)"
  by (auto simp: transition_defs token_inv_def clearTokens_def)










section \<open>Every handler keeps the invariant\<close>






lemma wake_inv_frame:
  "wake_inv s \<Longrightarrow> currentState u = currentState s \<Longrightarrow> set (inflight s) \<subseteq> set (inflight u) \<Longrightarrow>
   login_set s \<subseteq> login_set u \<Longrightarrow> handlerThrew u = handlerThrew s \<Longrightarrow> wake_inv u"
  unfolding wake_inv_def by auto























section \<open>Draining a queue of requests\<close>

lemma execute_requests_connected:
  "currentState s = Connected \<Longrightarrow>
   fold (execute cfg) (map OperationRequest ops) s =
     s\<lparr>inflight := inflight s @ map (\<lambda>op. HRequest op (sessionToken (tokenInfo s))) ops\<rparr>"
proof (induction ops arbitrary: s)
  case (Cons op ops)
  then show ?case by (simp add: state_request_def send_def)
qed simp

fun disconnected_answer :: "operation \<Rightarrow> op_options \<times> cb_arg" where
  "disconnected_answer (OperationRequest op) = (op, clientError 407002 (Some True))"
| "disconnected_answer (OperationDestroy op) = (op, clientError 406502 None)"

lemma execute_disconnected:
  "currentState s = Disconnected \<Longrightarrow>
   fold (execute cfg) xs s = s\<lparr>ticks := ticks s @ map disconnected_answer xs\<rparr>"
proof (induction xs arbitrary: s)
  case (Cons x xs)
  then show ?case by (cases x) (simp_all add: state_request_def state_destroy_def nextTick_def)
qed simp

lemma transition_fields [simp]:
  "tokenInfo (transitionToConnected cfg s) = tokenInfo s"
  "tokenInfo (transitionToDisconnected cfg s) = no_tokens"
  "inflight (transitionToConnected cfg s) = inflight s"
  "inflight (transitionToDisconnected cfg s) = inflight s"
  "ticks (transitionToConnected cfg s) = ticks s"
  "ticks (transitionToDisconnected cfg s) = ticks s"
  "delivered (transitionToConnected cfg s) = delivered s"
  "delivered (transitionToDisconnected cfg s) = delivered s"
  by (auto simp: transition_defs clearTokens_def)

section \<open>Sample data\<close>

definition sample_cfg :: svc_cfg where
  "sample_cfg = \<lparr>cfg_maxLoginRetries = 7, cfg_retryTimeout = 300, cfg_startingSleepTime = 1,
     cfg_serverSessionKeepAlive = False, cfg_auth = AuthOther, cfg_disableQueryContextCache = False\<rparr>"

definition live_tokens :: token_info where
  "live_tokens = \<lparr>masterToken = Some ''m'', masterTokenExpirationTime = ExpiresAt 10,
     sessionToken = Some ''old'', sessionTokenExpirationTime = ExpiresAt 10\<rparr>"

definition new_data :: token_data where
  "new_data = \<lparr>d_masterToken = Some ''m2'', d_token = None, d_sessionToken = Some ''new'',
     d_masterValidityInSeconds = None, d_validityInSecondsMT = Some 100,
     d_validityInSeconds = None, d_validityInSecondsST = Some 10, d_sessionId = None\<rparr>"

definition sample_env :: reply_env where
  "sample_env = \<lparr>env_now = 0, env_draws = (0, 0, 0), env_authThrows = False, env_okta = (1, 0),
     env_qccSize = 5, env_reentrant = []\<rparr>"

definition op_of :: "nat \<Rightarrow> op_options" where
  "op_of i = \<lparr>op_id = i, op_has_callback = True\<rparr>"

definition ok_reply :: http_result where
  "ok_reply = HttpResponse (Some 200) NoRawBody
     (Some \<lparr>body_success = True, body_code = NoCode, body_message = None, body_sqlState = None,
            body_data = Some new_data\<rparr>)"

definition failed_reply :: "string \<Rightarrow> http_result" where
  "failed_reply c = HttpResponse (Some 200) NoRawBody
     (Some \<lparr>body_success = False, body_code = StrCode c, body_message = None, body_sqlState = None,
            body_data = None\<rparr>)"


lemmas sample_defs = sample_cfg_def live_tokens_def new_data_def sample_env_def op_of_def
  ok_reply_def failed_reply_def newSnowflakeService_def isEmpty_def no_tokens_def

lemma allowed_reply: "i < length (inflight s) \<Longrightarrow> (\<forall>l. inflight s ! i \<noteq> HLogin l) \<Longrightarrow> allowed s (Respond i r sample_env)"
  by (cases "inflight s ! i") (simp_all add: sample_env_def good_draws_def is_rand_def)

lemma reach_call: "reachable cfg t s \<Longrightarrow> c \<noteq> CallContinue \<Longrightarrow> reachable cfg t (do_call cfg c s)"
  by (rule reach_step[where e = "Call c"]) simp_all

lemma reach_reply:
  assumes "reachable cfg t s" "i < length (inflight s)" "\<forall>l. inflight s ! i \<noteq> HLogin l"
  shows "reachable cfg t (handle_response cfg sample_env (inflight s ! i)
    (classify (cfg_auth cfg) (env_authThrows sample_env) r) (s\<lparr>inflight := drop_nth i (inflight s)\<rparr>))"
  by (rule reach_step[OF assms(1), where e = "Respond i r sample_env"])
    (use assms allowed_reply in simp_all)

section \<open>Properties\<close>










text \<open>
  C24. Session renewal is transparent: when the renewal answers with new tokens, the service is
  Connected with the updated tokens, the queue is empty, and every queued request has been sent
  again in its order, each carrying the new session token; no callback has been invoked for them.
\<close>

theorem renewal_replays_queue:
  assumes "currentState s = Renewing" "operationQueue s = map OperationRequest ops"
    "body_data b = Some d"
  shows "renew_response cfg env tok (Succeeded (Some b)) s =
    s\<lparr>currentState := Connected, operationQueue := [],
      tokenInfo := updateTokens (env_now env) d (tokenInfo s),
      inflight := inflight s @
        map (\<lambda>op. HRequest op (js_or_str (d_token d) (d_sessionToken d))) ops\<rparr>"
proof -
  obtain \<tau> where tau: "\<tau> = updateTokens (env_now env) d (tokenInfo s)"
    "sessionToken \<tau> = js_or_str (d_token d) (d_sessionToken d)" by (simp add: updateTokens_def)
  define u where "u = transitionToConnected cfg (s\<lparr>tokenInfo := \<tau>\<rparr>)"
  have u: "u = s\<lparr>tokenInfo := \<tau>, currentState := Connected\<rparr>"
    using assms(1) by (simp add: u_def transition_defs)
  have "fold (execute cfg) (operationQueue u) u =
      u\<lparr>inflight := inflight u @ map (\<lambda>op. HRequest op (sessionToken (tokenInfo u))) ops\<rparr>"
    using execute_requests_connected[of u cfg ops] assms(2) by (simp add: u)
  then have "drainOperationQueue cfg u = s\<lparr>currentState := Connected, operationQueue := [],
      tokenInfo := \<tau>, inflight := inflight s @ map (\<lambda>op. HRequest op (sessionToken \<tau>)) ops\<rparr>"
    by (simp add: drainOperationQueue_def u)
  then show ?thesis using assms(3) by (simp add: u_def tau(2) flip: tau(1))
qed

theorem renewal_replays_queue_witness:
  "inflight (renew_response sample_cfg sample_env None
     (Succeeded (Some \<lparr>body_success = True, body_code = NoCode, body_message = None,
        body_sqlState = None, body_data = Some new_data\<rparr>))
     ((newSnowflakeService live_tokens)\<lparr>currentState := Renewing,
        operationQueue := [OperationRequest (op_of 1), OperationRequest (op_of 2)]\<rparr>)) =
   [HRequest (op_of 1) (Some ''new''), HRequest (op_of 2) (Some ''new'')]"
  by (subst renewal_replays_queue[where ops = "[op_of 1, op_of 2]" and d = new_data])
    (simp_all add: newSnowflakeService_def new_data_def js_or_str_def)

text \<open>
  A failed renewal fails everything that waited for it, once and in order: when the renewal
  is answered with an expired master token, or any failure that is not a network error, the service
  is Disconnected without tokens, nothing is sent, and every queued request and destroy gets its
  "disconnected" error on a tick, in queue order; a network error instead returns to Connected
  and sends the queued requests with the old token.
\<close>

theorem failed_renewal_rejects_queue:
  assumes "currentState s = Renewing"
  shows "(err_code e = StrCode ''390114'' \<or> \<not> isNetworkError (Some e) \<longrightarrow>
      renew_response cfg env tok (Failed e) s =
        s\<lparr>currentState := Disconnected, tokenInfo := no_tokens, operationQueue := [],
          ticks := ticks s @ map disconnected_answer (operationQueue s)\<rparr>) \<and>
    (err_code e \<noteq> StrCode ''390114'' \<and> isNetworkError (Some e) \<and>
      operationQueue s = map OperationRequest ops \<longrightarrow>
      renew_response cfg env tok (Failed e) s =
        s\<lparr>currentState := Connected, operationQueue := [],
          inflight := inflight s @ map (\<lambda>op. HRequest op (sessionToken (tokenInfo s))) ops\<rparr>)"
proof -
  let ?d = "transitionToDisconnected cfg s"
  have d: "?d = s\<lparr>currentState := Disconnected, tokenInfo := no_tokens\<rparr>"
    using assms by (simp add: transition_defs clearTokens_def)
  let ?c = "transitionToConnected cfg s"
  have c: "?c = s\<lparr>currentState := Connected\<rparr>" using assms by (simp add: transition_defs)
  have f: "fold (execute cfg) (operationQueue s) ?d =
      ?d\<lparr>ticks := ticks ?d @ map disconnected_answer (operationQueue s)\<rparr>"
    by (rule execute_disconnected) simp
  have "renew_response cfg env tok (Failed e) s =
        s\<lparr>currentState := Disconnected, tokenInfo := no_tokens, operationQueue := [],
          ticks := ticks s @ map disconnected_answer (operationQueue s)\<rparr>"
    if "err_code e = StrCode ''390114'' \<or> \<not> isNetworkError (Some e)"
    using that f by (auto simp: drainOperationQueue_def d)
  moreover have "renew_response cfg env tok (Failed e) s =
        s\<lparr>currentState := Connected, operationQueue := [],
          inflight := inflight s @ map (\<lambda>op. HRequest op (sessionToken (tokenInfo s))) ops\<rparr>"
    if "err_code e \<noteq> StrCode ''390114''" "isNetworkError (Some e)"
      "operationQueue s = map OperationRequest ops"
    using that execute_requests_connected[of ?c cfg ops]
    by (simp add: drainOperationQueue_def c)
  ultimately show ?thesis by blast
qed

theorem failed_renewal_rejects_queue_witness:
  "ticks (renew_response sample_cfg sample_env None
     (Failed (createOperationFailedError (StrCode ''390114'') None None None))
     ((newSnowflakeService live_tokens)\<lparr>currentState := Renewing,
        operationQueue := [OperationRequest (op_of 1), OperationDestroy (op_of 2)]\<rparr>)) =
   [(op_of 1, clientError 407002 (Some True)), (op_of 2, clientError 406502 None)]"
  using failed_renewal_rejects_queue[of "(newSnowflakeService live_tokens)\<lparr>currentState := Renewing,
      operationQueue := [OperationRequest (op_of 1), OperationDestroy (op_of 2)]\<rparr>"
      "createOperationFailedError (StrCode ''390114'') None None None" sample_cfg sample_env None "[]"]
  by (simp add: newSnowflakeService_def createOperationFailedError_def)

text \<open>
  An expired session token starts exactly one renewal: the request is queued (not answered),
  the service is Renewing, and a renewal carrying the master token is sent if and only if the
  service was not already renewing; the tokens stay.
\<close>

theorem expired_token_starts_one_renewal:
  assumes "err_code e = StrCode ''390112''" "currentState s \<noteq> Connecting"
  shows "request_response cfg op tok (Failed e) s =
    s\<lparr>currentState := Renewing, operationQueue := operationQueue s @ [OperationRequest op],
      inflight := inflight s @
        (if currentState s = Renewing then [] else [HRenew (masterToken (tokenInfo s))])\<rparr>"
  using assms by (simp add: enqueue_def transition_defs)

theorem expired_token_starts_one_renewal_witness:
  "inflight (request_response sample_cfg (op_of 1) (Some ''old'')
     (Failed (createOperationFailedError (StrCode ''390112'') None None None))
     (newSnowflakeService live_tokens)) = [HRenew (Some ''m'')]"
  by (subst expired_token_starts_one_renewal)
    (simp_all add: sample_defs createOperationFailedError_def)

text \<open>
  The Disconnected state is not absorbing, unlike the header of the code claims: there is a
  run in which a client's destroy is confirmed while a token renewal is in flight, so the service
  is Disconnected with its tokens cleared, and the answer of that renewal then makes it Connected
  again with new tokens and sends a request that was queued before the destroy was confirmed.
\<close>

theorem destroyed_session_revives:
  assumes "\<not> cfg_serverSessionKeepAlive cfg" "cfg_auth cfg = AuthOther"
  shows "\<exists>s e s'. reachable cfg live_tokens s \<and> currentState s = Disconnected \<and>
    tokenInfo s = no_tokens \<and> (2, CbOk) \<in> set (delivered s) \<and>
    svc_step cfg s e s' \<and> allowed s e \<and> currentState s' = Connected \<and>
    HRequest (op_of 1) (Some ''new'') \<in> set (inflight s') \<and> \<not> isEmpty (tokenInfo s')"
proof -
  let ?r = "\<lambda>i x s. handle_response cfg sample_env (inflight s ! i)
    (classify (cfg_auth cfg) (env_authThrows sample_env) x) (s\<lparr>inflight := drop_nth i (inflight s)\<rparr>)"
  define s0 where "s0 = newSnowflakeService live_tokens"
  define s1 where "s1 = do_call cfg (CallDestroy (op_of 2)) (do_call cfg (CallRequest (op_of 1)) s0)"
  define s2 where "s2 = ?r 0 (failed_reply ''390112'') s1"
  define s3 where "s3 = ?r 0 ok_reply s2"
  define s4 where "s4 = ?r 0 ok_reply s3"
  note ev = s0_def sample_defs primitive_defs transition_defs state_op_defs assms drop_nth_def
    is_auth_rejection_def createOperationFailedError_def clearTokens_def
  have s1: "inflight s1 = [HRequest (op_of 1) (Some ''old''), HDestroy (op_of 2) (Some ''old'')]"
    "currentState s1 = Connected" "tokenInfo s1 = live_tokens" "operationQueue s1 = []" "delivered s1 = []"
    by (simp_all add: s1_def ev)
  have s2: "inflight s2 = [HDestroy (op_of 2) (Some ''old''), HRenew (Some ''m'')]"
    "currentState s2 = Renewing" "tokenInfo s2 = live_tokens"
    "operationQueue s2 = [OperationRequest (op_of 1)]" "delivered s2 = []"
    by (simp_all add: s2_def s1 ev)
  have s3: "inflight s3 = [HRenew (Some ''m'')]" "currentState s3 = Disconnected" "tokenInfo s3 = no_tokens"
    "operationQueue s3 = [OperationRequest (op_of 1)]" "delivered s3 = [(2, CbOk)]"
    by (simp_all add: s3_def s2 ev)
  have s4: "currentState s4 = Connected" "\<not> isEmpty (tokenInfo s4)"
    "HRequest (op_of 1) (Some ''new'') \<in> set (inflight s4)"
    by (simp_all add: s4_def s3 ev drainOperationQueue_def updateTokens_def js_or_str_def
        expiry_after_def js_or_num_def)
  have "reachable cfg live_tokens s1" unfolding s1_def s0_def by (intro reach_call reach_init) simp_all
  then have "reachable cfg live_tokens s2" unfolding s2_def by (rule reach_reply) (simp_all add: s1)
  then have "reachable cfg live_tokens s3" unfolding s3_def by (rule reach_reply) (simp_all add: s2)
  moreover have "svc_step cfg s3 (Respond 0 ok_reply sample_env) s4" by (simp add: s4_def s3)
  moreover have "allowed s3 (Respond 0 ok_reply sample_env)" by (rule allowed_reply) (simp_all add: s3)
  ultimately show ?thesis using s3 s4 by (metis list.set_intros(1))
qed

theorem destroyed_session_revives_witness:
  "\<exists>s. reachable sample_cfg live_tokens s \<and> currentState s = Disconnected \<and> tokenInfo s = no_tokens \<and>
    (\<exists>e s'. svc_step sample_cfg s e s' \<and> currentState s' = Connected)"
proof -
  have "\<not> cfg_serverSessionKeepAlive sample_cfg" "cfg_auth sample_cfg = AuthOther"
    by (simp_all add: sample_cfg_def)
  from destroyed_session_revives[OF this] show ?thesis by blast
qed

text \<open>
  Classification of responses, for an authenticator that takes no part: a response counts as
  a success exactly when it has status 200 (or none) and either no body or a body with the success
  flag; a 401 response whose text carries the "session token invalid" code 390104 becomes a plain
  request failure, on which a connected service neither disconnects nor renews but only reports
  the error to the request's callback.
\<close>

theorem responses_classified:
  assumes "auth \<noteq> AuthIDToken" "auth \<noteq> AuthOauthAuthorizationCode"
  shows "(classify auth x r = Succeeded b \<longleftrightarrow>
      (\<exists>status raw. r = HttpResponse status raw b \<and> (status = None \<or> status = Some 200) \<and>
         (b = None \<or> body_success (the b)))) \<and>
    (\<exists>e. classify auth x (HttpResponse (Some 401) (JsonCode (StrCode ''390104'')) bo) = Failed e \<and>
       isRequestFailedError (Some e) \<and> request_response cfg op tok (Failed e) s = invoke op (CbErr e) s)"
proof -
  have "classify auth x r = Succeeded b \<longleftrightarrow>
      (\<exists>status raw. r = HttpResponse status raw b \<and> (status = None \<or> status = Some 200) \<and>
         (b = None \<or> body_success (the b)))"
    using assms by (cases r) (auto simp: is_auth_rejection_def split: option.splits)
  then show ?thesis
    by (simp add: createRequestFailedError_def isRequestFailedError_def)
qed

theorem responses_classified_witness:
  "classify AuthOther False ok_reply =
     Succeeded (Some \<lparr>body_success = True, body_code = NoCode, body_message = None,
       body_sqlState = None, body_data = Some new_data\<rparr>)"
  using responses_classified[of AuthOther False ok_reply] by (simp add: ok_reply_def)

section \<open>Further behaviour on the edges\<close>

text \<open>Calling \<open>continue()\<close> while connecting starts a second login loop for the same callback.\<close>

lemma continue_doubles_login:
  "currentState s = Connecting \<Longrightarrow> connectContext s = Some op \<Longrightarrow>
   loginTimers (state_continue cfg s) = loginTimers s @ [first_login cfg op]"
  by (simp add: state_continue_def first_login_def)

end
