(* ===== verification/LargeResultSetModel.thy ===== *)
theory LargeResultSetModel
  imports ErrorsModel UtilModel
begin

text \<open>
  The download of result chunks from cloud storage (\<open>lib/services/large_result_set.js\<close>): the
  classification of a response and the retry loop of \<open>getObject\<close>.  One element of the input list
  is the answer of one HTTP request together with the random draw used if it is retried; the loop
  returns the callback's arguments once there is a final answer, and the sleeps it made.
\<close>

section \<open>The service\<close>

text \<open>A response is its status code and content type.\<close>

record http_reply =
  rep_err :: "err_cause option"
  rep_response :: "(int \<times> string) option"
  rep_body :: "string option"

definition isRetryableClientError :: "err_cause option \<Rightarrow> bool" where
  "isRetryableClientError err =
     (case err of None \<Rightarrow> False | Some e \<Rightarrow> cause_code e \<noteq> StrCode ''ERR_CANCELED'')"

definition isRetryable :: "http_reply \<Rightarrow> bool" where
  "isRetryable r \<longleftrightarrow>
     isRetryableHttpError (map_option fst (rep_response r)) True \<or> isRetryableClientError (rep_err r)"

definition isUnsuccessfulResponse :: "http_reply \<Rightarrow> bool" where
  "isUnsuccessfulResponse r =
     (case rep_response r of
        None \<Rightarrow> False
      | Some (status, ctype) \<Rightarrow> status \<noteq> 200 \<or> ctype = ''application/xml'')"

definition reply_failed :: "http_reply \<Rightarrow> bool" where
  "reply_failed r \<longleftrightarrow> rep_err r \<noteq> None \<or> isUnsuccessfulResponse r"

text \<open>The arguments of the callback for an answer that is not retried; the body goes with an error.\<close>

type_synonym download_error = "(unit, int \<times> string) sf_error"

definition final_answer :: "http_reply \<Rightarrow> download_error option \<times> string option" where
  "final_answer r =
     (if reply_failed r then
        ((if isUnsuccessfulResponse r then Some (createLargeResultSetError (NumCode 402002) (rep_response r))
          else Some (createNetworkError (NumCode 402001) (rep_err r))), None)
      else (None, rep_body r))"

text \<open>\<open>options.maxNumRetries\<close>, or the configured number if that is missing.\<close>

definition maxRetries :: "nat option \<Rightarrow> nat \<Rightarrow> nat" where
  "maxRetries opt configured = (case opt of Some n \<Rightarrow> n | None \<Rightarrow> configured)"

fun getObjectLoop ::
  "nat \<Rightarrow> real \<Rightarrow> nat \<Rightarrow> real \<Rightarrow> (http_reply \<times> real) list \<Rightarrow>
   (download_error option \<times> string option) option \<times> real list"
where
  "getObjectLoop maxNumRetries cap tries sleep [] = (None, [])"
| "getObjectLoop maxNumRetries cap tries sleep ((r, rnd) # rest) =
     (if reply_failed r \<and> tries < maxNumRetries \<and> isRetryable r then
        (let s = nextSleepTime rnd 1 cap sleep;
             (ans, ss) = getObjectLoop maxNumRetries cap (Suc tries) s rest
         in (ans, s # ss))
      else (Some (final_answer r), []))"

definition getObject ::
  "nat option \<Rightarrow> nat \<Rightarrow> real \<Rightarrow> (http_reply \<times> real) list \<Rightarrow>
   (download_error option \<times> string option) option \<times> real list"
where
  "getObject opt configured cap replies = getObjectLoop (maxRetries opt configured) cap 0 1 replies"

section \<open>Facts\<close>

lemma getObjectLoop_spec:
  assumes "1 \<le> cap" "1 \<le> sleep" "\<forall>x\<in>set rs. is_rand (snd x)" "mx < length rs + tries" "tries \<le> mx"
  shows "\<exists>ss. getObjectLoop mx cap tries sleep rs = (Some (final_answer (fst (rs ! length ss))), ss) \<and>
    length ss < length rs \<and> tries + length ss \<le> mx \<and> (\<forall>s\<in>set ss. 1 \<le> s \<and> s \<le> cap) \<and>
    (\<forall>k<length ss. reply_failed (fst (rs ! k)) \<and> isRetryable (fst (rs ! k))) \<and>
    (reply_failed (fst (rs ! length ss)) \<and> isRetryable (fst (rs ! length ss)) \<longrightarrow> tries + length ss = mx)"
  using assms
proof (induction rs arbitrary: tries sleep)
  case (Cons x rs)
  obtain r rnd where x: "x = (r, rnd)" by (cases x)
  show ?case
  proof (cases "reply_failed r \<and> tries < mx \<and> isRetryable r")
    case True
    let ?s = "nextSleepTime rnd 1 cap sleep"
    have s: "1 \<le> ?s" "?s \<le> cap"
      using nextSleepTime_bounds[of rnd 1 cap sleep] Cons.prems x by auto
    have "\<exists>ss. getObjectLoop mx cap (Suc tries) ?s rs = (Some (final_answer (fst (rs ! length ss))), ss) \<and>
      length ss < length rs \<and> Suc tries + length ss \<le> mx \<and> (\<forall>s\<in>set ss. 1 \<le> s \<and> s \<le> cap) \<and>
      (\<forall>k<length ss. reply_failed (fst (rs ! k)) \<and> isRetryable (fst (rs ! k))) \<and>
      (reply_failed (fst (rs ! length ss)) \<and> isRetryable (fst (rs ! length ss)) \<longrightarrow> Suc tries + length ss = mx)"
      by (rule Cons.IH) (use Cons.prems s True in auto)
    then obtain ss where ss: "getObjectLoop mx cap (Suc tries) ?s rs = (Some (final_answer (fst (rs ! length ss))), ss)"
      "length ss < length rs" "Suc tries + length ss \<le> mx" "\<forall>s\<in>set ss. 1 \<le> s \<and> s \<le> cap"
      "\<forall>k<length ss. reply_failed (fst (rs ! k)) \<and> isRetryable (fst (rs ! k))"
      "reply_failed (fst (rs ! length ss)) \<and> isRetryable (fst (rs ! length ss)) \<longrightarrow> Suc tries + length ss = mx"
      by blast
    show ?thesis
      by (rule exI[of _ "?s # ss"]) (use ss s True x in \<open>auto simp: Let_def nth_Cons split: nat.split\<close>)
  next
    case False
    then show ?thesis using Cons.prems x by (intro exI[of _ "[]"]) auto
  qed
qed simp

section \<open>Properties\<close>

text \<open>
  C36. A chunk download ends after at most one request more than the allowed number of retries:
  given that many answers there is a final one; every sleep lies between one second and the cap;
  every answer before the final one was a retryable failure, and a retryable failure is reported
  only when the retries are used up; the callback gets the body of a success, or an error of the
  kind that tells a storage response from a network failure, never both.
\<close>

theorem chunk_download_terminates:
  assumes "1 \<le> cap" "\<forall>x\<in>set replies. is_rand (snd x)" "maxRetries opt configured < length replies"
  shows "\<exists>sleeps last. getObject opt configured cap replies = (Some (final_answer last), sleeps) \<and>
    last = fst (replies ! length sleeps) \<and> length sleeps \<le> maxRetries opt configured \<and>
    (\<forall>s\<in>set sleeps. 1 \<le> s \<and> s \<le> cap) \<and>
    (\<forall>k<length sleeps. reply_failed (fst (replies ! k)) \<and> isRetryable (fst (replies ! k))) \<and>
    (reply_failed last \<and> isRetryable last \<longrightarrow> length sleeps = maxRetries opt configured) \<and>
    (fst (final_answer last) = None \<longleftrightarrow> \<not> reply_failed last) \<and>
    (reply_failed last \<longrightarrow> snd (final_answer last) = None \<and>
       (isLargeResultSetError (fst (final_answer last)) \<longleftrightarrow> isUnsuccessfulResponse last) \<and>
       (isNetworkError (fst (final_answer last)) \<longleftrightarrow> \<not> isUnsuccessfulResponse last))"
proof -
  obtain ss where ss: "getObject opt configured cap replies =
      (Some (final_answer (fst (replies ! length ss))), ss)"
    "length ss \<le> maxRetries opt configured" "\<forall>s\<in>set ss. 1 \<le> s \<and> s \<le> cap"
    "\<forall>k<length ss. reply_failed (fst (replies ! k)) \<and> isRetryable (fst (replies ! k))"
    "reply_failed (fst (replies ! length ss)) \<and> isRetryable (fst (replies ! length ss)) \<longrightarrow>
       length ss = maxRetries opt configured"
    using getObjectLoop_spec[of cap 1 replies "maxRetries opt configured" 0] assms
    by (auto simp: getObject_def)
  show ?thesis
    by (intro exI[of _ ss] exI[of _ "fst (replies ! length ss)"])
      (use ss in \<open>auto simp: final_answer_def isLargeResultSetError_def isNetworkError_def
        createLargeResultSetError_def createNetworkError_def\<close>)
qed

theorem chunk_download_terminates_witness:
  "\<exists>sleeps last. getObject (Some 1) 10 16
      [(\<lparr>rep_err = None, rep_response = Some (503, ''''), rep_body = None\<rparr>, 1/2),
       (\<lparr>rep_err = None, rep_response = Some (200, ''''), rep_body = Some ''[1]''\<rparr>, 0)] =
    (Some (final_answer last), sleeps) \<and> length sleeps \<le> 1"
  using chunk_download_terminates[of 16
      "[(\<lparr>rep_err = None, rep_response = Some (503, ''''), rep_body = None\<rparr>, 1/2),
        (\<lparr>rep_err = None, rep_response = Some (200, ''''), rep_body = Some ''[1]''\<rparr>, 0)]" "Some 1" 10]
  by (auto simp: maxRetries_def is_rand_def)

end
