(* ===== verification/FetchRowsModel.thy ===== *)
theory FetchRowsModel
  imports Prelude
begin

text \<open>
  Reading the rows of a result: the chunk stream (\<open>lib/connection/result/result_stream.js\<close>) and the
  row loop of \<open>Result.prototype.fetchRows\<close> (\<open>lib/connection/result/result.js\<close>) as one system on
  the event loop.

  A chunk is reduced to its load state: whether a load is running, whether its contents are there,
  and how many \<open>loadcomplete\<close> listeners the stream has put on it.  \<open>tasks\<close> holds the
  \<open>process.nextTick\<close> callbacks in order and \<open>fetching\<close> the downloads in flight, which may end in
  any order.  Each chunk handed to the row loop gets its own closure, the pair of the chunk and the
  next row index.  Parameters: the window rows of each chunk, \<open>stops\<close> (the \<open>each\<close> callback returns
  \<open>false\<close> on the row) and \<open>late\<close> (the time check after the given number of rows of a chunk).
\<close>

section \<open>The system\<close>

record chunk_load =
  loading :: bool
  loaded :: bool
  listeners :: nat

datatype task =
    TRead            \<comment> \<open>the first \<open>resultStream.read()\<close>\<close>
  | TComplete nat    \<comment> \<open>\<open>completeLoad\<close> of a chunk that was loaded already\<close>
  | TRows nat        \<comment> \<open>\<open>processRows\<close> of a closure\<close>
  | TClose           \<comment> \<open>\<open>close(self)\<close> of \<open>asyncClose\<close>\<close>
  | TEmit bool       \<comment> \<open>the \<open>complete\<close> event, without or with an error\<close>

record 'r fetch_cfg =
  prefetchSize :: nat
  rowsOf :: "'r list list"
  stops :: "'r \<Rightarrow> bool"
  late :: "nat \<Rightarrow> nat \<Rightarrow> bool"
  rowBatchSize :: nat
  maxNumRowsToProcess :: nat

record 'r fetch =
  chunkLoads :: "chunk_load list"
  currChunk :: nat
  tasks :: "task list"
  fetching :: "nat list"
  closures :: "(nat \<times> nat) list"
  numRowsProcessed :: nat
  eachCalls :: "'r list"
  completions :: "bool list"
  canContinue :: bool

subsection \<open>The chunk stream\<close>

definition addTask :: "task \<Rightarrow> 'r fetch \<Rightarrow> 'r fetch" where
  "addTask t s = s\<lparr>tasks := tasks s @ [t]\<rparr>"

definition loadChunk :: "nat \<Rightarrow> 'r fetch \<Rightarrow> 'r fetch" where
  "loadChunk i s =
     (let c = chunkLoads s ! i; s' = s\<lparr>chunkLoads := (chunkLoads s)[i := c\<lparr>loading := True\<rparr>]\<rparr>
      in if loaded c then addTask (TComplete i) s' else s'\<lparr>fetching := fetching s' @ [i]\<rparr>)"

definition loadIfIdle :: "nat \<Rightarrow> 'r fetch \<Rightarrow> 'r fetch" where
  "loadIfIdle i s = (if loading (chunkLoads s ! i) then s else loadChunk i s)"

definition asyncClose :: "'r fetch \<Rightarrow> 'r fetch" where
  "asyncClose s = addTask TClose s"

definition subscribe :: "nat \<Rightarrow> 'r fetch \<Rightarrow> 'r fetch" where
  "subscribe i s =
     s\<lparr>chunkLoads := (chunkLoads s)[i := (chunkLoads s ! i)\<lparr>listeners := listeners (chunkLoads s ! i) + 1\<rparr>]\<rparr>"

definition doLoad :: "'r fetch_cfg \<Rightarrow> 'r fetch \<Rightarrow> 'r fetch" where
  "doLoad cfg s =
     (let c = currChunk s; n = length (chunkLoads s)
      in if c \<ge> n then asyncClose s
         else fold loadIfIdle [c..<min n (c + prefetchSize cfg + 1)] (subscribe c s))"

subsection \<open>The row loop\<close>

datatype loop_exit = RanOut | Stopped | Deferred

text \<open>
  \<open>while (rowIndex < rowsLength)\<close> over the rows that are left: the new index, the rows on which
  \<open>each\<close> was called, and how the loop ended.
\<close>

fun rowLoop :: "'r fetch_cfg \<Rightarrow> nat \<Rightarrow> nat \<Rightarrow> nat \<Rightarrow> 'r list \<Rightarrow> nat \<times> 'r list \<times> loop_exit" where
  "rowLoop cfg c start idx [] = (idx, [], RanOut)"
| "rowLoop cfg c start idx (r # rs) =
     (if stops cfg r then (idx + 1, [r], Stopped)
      else if idx + 1 - start \<ge> rowBatchSize cfg \<and> late cfg c (idx + 1) then (idx + 1, [r], Deferred)
      else (let (j, calls, e) = rowLoop cfg c start (idx + 1) rs in (j, r # calls, e)))"

definition processRows :: "'r fetch_cfg \<Rightarrow> nat \<Rightarrow> 'r fetch \<Rightarrow> 'r fetch" where
  "processRows cfg k s =
     (let (c, idx) = closures s ! k; rws = rowsOf cfg ! c;
          (j, calls, e) = rowLoop cfg c idx idx (drop idx rws);
          s1 = s\<lparr>closures := (closures s)[k := (c, j)],
                 numRowsProcessed := numRowsProcessed s + length calls,
                 eachCalls := eachCalls s @ calls\<rparr>;
          s2 = (if e = Deferred then addTask (TRows k) s1 else s1)
      in if \<not> j < length rws \<or> e = Stopped then
           (if \<not> j < length rws \<and> numRowsProcessed s2 \<noteq> maxNumRowsToProcess cfg then doLoad cfg s2
            else asyncClose s2)
         else s2)"

definition processChunk :: "'r fetch_cfg \<Rightarrow> nat \<Rightarrow> 'r fetch \<Rightarrow> 'r fetch" where
  "processChunk cfg i s =
     processRows cfg (length (closures s)) (s\<lparr>closures := closures s @ [(i, 0)]\<rparr>)"

subsection \<open>Events\<close>

definition onLoadComplete :: "'r fetch_cfg \<Rightarrow> bool \<Rightarrow> nat \<Rightarrow> 'r fetch \<Rightarrow> 'r fetch" where
  "onLoadComplete cfg ok i s =
     (let s1 = s\<lparr>chunkLoads := (chunkLoads s)[i := (chunkLoads s ! i)\<lparr>listeners := listeners (chunkLoads s ! i) - 1\<rparr>]\<rparr>
      in if ok then processChunk cfg i (s1\<lparr>currChunk := currChunk s1 + 1\<rparr>)
         else addTask (TEmit False) s1)"

text \<open>An event is delivered to the listeners there were when it was emitted.\<close>

fun fire :: "'r fetch_cfg \<Rightarrow> bool \<Rightarrow> nat \<Rightarrow> nat \<Rightarrow> 'r fetch \<Rightarrow> 'r fetch" where
  "fire cfg ok i 0 s = s"
| "fire cfg ok i (Suc n) s = fire cfg ok i n (onLoadComplete cfg ok i s)"

definition emitLoadComplete :: "'r fetch_cfg \<Rightarrow> bool \<Rightarrow> nat \<Rightarrow> 'r fetch \<Rightarrow> 'r fetch" where
  "emitLoadComplete cfg ok i s =
     fire cfg ok i (listeners (chunkLoads s ! i))
       (s\<lparr>chunkLoads := (chunkLoads s)[i := (chunkLoads s ! i)\<lparr>loading := False\<rparr>]\<rparr>)"

fun runTask :: "'r fetch_cfg \<Rightarrow> task \<Rightarrow> 'r fetch \<Rightarrow> 'r fetch" where
  "runTask cfg TRead s = doLoad cfg s"
| "runTask cfg (TComplete i) s = emitLoadComplete cfg True i s"
| "runTask cfg (TRows k) s = processRows cfg k s"
| "runTask cfg TClose s = addTask (TEmit True) s"
| "runTask cfg (TEmit ok) s = s\<lparr>completions := completions s @ [ok], canContinue := \<not> ok\<rparr>"

text \<open>The answer of a download; on success the body is stored before the event is emitted.\<close>

definition downloaded :: "'r fetch_cfg \<Rightarrow> bool \<Rightarrow> nat \<Rightarrow> 'r fetch \<Rightarrow> 'r fetch" where
  "downloaded cfg ok i s =
     (let s1 = s\<lparr>fetching := remove1 i (fetching s)\<rparr>;
          s2 = (if ok then s1\<lparr>chunkLoads := (chunkLoads s1)[i := (chunkLoads s1 ! i)\<lparr>loaded := True\<rparr>]\<rparr> else s1)
      in emitLoadComplete cfg ok i s2)"

text \<open>The chunks start out loaded if they carry inline rows.\<close>

definition startFetch :: "bool list \<Rightarrow> bool \<Rightarrow> 'r fetch" where
  "startFetch inline noRows =
     \<lparr>chunkLoads = map (\<lambda>b. \<lparr>loading = False, loaded = b, listeners = 0\<rparr>) inline, currChunk = 0,
      tasks = [if noRows then TEmit True else TRead], fetching = [], closures = [],
      numRowsProcessed = 0, eachCalls = [], completions = [], canContinue = False\<rparr>"

datatype fetch_event = Tick | Downloaded nat bool | Continue

inductive fetch_step :: "'r fetch_cfg \<Rightarrow> 'r fetch \<Rightarrow> fetch_event \<Rightarrow> 'r fetch \<Rightarrow> bool" for cfg where
  fetch_tick: "tasks s = t # ts \<Longrightarrow> fetch_step cfg s Tick (runTask cfg t (s\<lparr>tasks := ts\<rparr>))"
| fetch_downloaded: "i \<in> set (fetching s) \<Longrightarrow> fetch_step cfg s (Downloaded i ok) (downloaded cfg ok i s)"
| fetch_continue: "canContinue s \<Longrightarrow> fetch_step cfg s Continue (doLoad cfg (s\<lparr>canContinue := False\<rparr>))"

inductive_simps fetch_step_simps:
  "fetch_step cfg s Tick s'"
  "fetch_step cfg s (Downloaded i ok) s'"
  "fetch_step cfg s Continue s'"

inductive fetch_reach :: "'r fetch_cfg \<Rightarrow> 'r fetch \<Rightarrow> 'r fetch \<Rightarrow> bool" for cfg s0 where
  fetch_refl: "fetch_reach cfg s0 s0"
| fetch_trans: "fetch_reach cfg s0 s \<Longrightarrow> fetch_step cfg s e s' \<Longrightarrow> fetch_reach cfg s0 s'"

section \<open>What the caller should see\<close>

text \<open>
  The calls of \<open>each\<close>: all rows in order, up to a row on which it returned \<open>false\<close>, where a
  \<open>false\<close> on the last row of a chunk does not count.
\<close>

fun takeUntil :: "('r \<Rightarrow> bool) \<Rightarrow> 'r list \<Rightarrow> 'r list" where
  "takeUntil p [] = []"
| "takeUntil p (x # xs) = (if p x then [x] else x # takeUntil p xs)"

definition passes :: "'r fetch_cfg \<Rightarrow> 'r list \<Rightarrow> bool" where
  "passes cfg rs \<longleftrightarrow> (\<forall>r\<in>set (butlast rs). \<not> stops cfg r)"

fun expectedCalls :: "'r fetch_cfg \<Rightarrow> 'r list list \<Rightarrow> 'r list" where
  "expectedCalls cfg [] = []"
| "expectedCalls cfg (rs # rest) =
     (if passes cfg rs then rs @ expectedCalls cfg rest else takeUntil (stops cfg) rs)"

lemma expectedCalls_append:
  "\<forall>rs\<in>set a. passes cfg rs \<Longrightarrow> expectedCalls cfg (a @ b) = concat a @ expectedCalls cfg b"
  by (induction a) auto

lemma expectedCalls_empty: "concat b = [] \<Longrightarrow> expectedCalls cfg b = []"
  by (induction b) (auto simp: passes_def)

lemma takeUntil_stop:
  "j < length rs \<Longrightarrow> stops cfg (rs ! j) \<Longrightarrow> \<forall>r\<in>set (take j rs). \<not> stops cfg r \<Longrightarrow>
   takeUntil (stops cfg) rs = take (Suc j) rs"
proof (induction rs arbitrary: j)
  case (Cons r rs)
  then show ?case by (cases j) auto
qed simp

section \<open>The row loop\<close>

lemma rowLoop_spec:
  assumes "rowLoop cfg c start idx rs = (j, calls, e)"
  shows "idx \<le> j \<and> j \<le> idx + length rs \<and> calls = take (j - idx) rs \<and>
    (e = RanOut \<longrightarrow> j = idx + length rs \<and> (\<forall>r\<in>set rs. \<not> stops cfg r)) \<and>
    (e = Stopped \<longrightarrow> idx < j \<and> stops cfg (rs ! (j - idx - 1)) \<and>
       (\<forall>r\<in>set (take (j - idx - 1) rs). \<not> stops cfg r)) \<and>
    (e = Deferred \<longrightarrow> idx < j \<and> late cfg c j \<and> (\<forall>r\<in>set (take (j - idx) rs). \<not> stops cfg r))"
  using assms
proof (induction rs arbitrary: idx calls)
  case (Cons r rs)
  show ?case
  proof (cases "stops cfg r \<or> (idx + 1 - start \<ge> rowBatchSize cfg \<and> late cfg c (idx + 1))")
    case True
    then show ?thesis using Cons.prems by (auto split: if_splits)
  next
    case False
    then obtain calls' where l: "rowLoop cfg c start (idx + 1) rs = (j, calls', e)" "calls = r # calls'"
      using Cons.prems by (auto split: if_splits prod.splits)
    have ih: "idx + 1 \<le> j \<and> j \<le> idx + 1 + length rs \<and> calls' = take (j - (idx + 1)) rs \<and>
      (e = RanOut \<longrightarrow> j = idx + 1 + length rs \<and> (\<forall>r\<in>set rs. \<not> stops cfg r)) \<and>
      (e = Stopped \<longrightarrow> idx + 1 < j \<and> stops cfg (rs ! (j - (idx + 1) - 1)) \<and>
         (\<forall>r\<in>set (take (j - (idx + 1) - 1) rs). \<not> stops cfg r)) \<and>
      (e = Deferred \<longrightarrow> idx + 1 < j \<and> late cfg c j \<and> (\<forall>r\<in>set (take (j - (idx + 1)) rs). \<not> stops cfg r))"
      by (rule Cons.IH) (rule l(1))
    then obtain d where d: "j = Suc (idx + d)" by (metis Suc_eq_plus1 add_Suc le_Suc_ex)
    have s: "stops cfg ((r # rs) ! (j - idx - 1)) = stops cfg (rs ! (j - (idx + 1) - 1))"
      if "idx + 1 < j" using that d by (cases d) auto
    have t: "(\<forall>x\<in>set (take (j - idx - 1) (r # rs)). \<not> stops cfg x) =
        (\<forall>x\<in>set (take (j - (idx + 1) - 1) rs). \<not> stops cfg x)" if "idx + 1 < j"
      using that d False by (cases d) auto
    show ?thesis using ih l(2) False s t by (auto simp: d)
  qed
qed auto

section \<open>Load bookkeeping\<close>

definition pending :: "nat \<Rightarrow> 'r fetch \<Rightarrow> bool" where
  "pending i s \<longleftrightarrow> i \<in> set (fetching s) \<or> TComplete i \<in> set (tasks s)"

definition load_inv :: "'r fetch_cfg \<Rightarrow> 'r fetch \<Rightarrow> bool" where
  "load_inv cfg s \<longleftrightarrow> length (chunkLoads s) = length (rowsOf cfg) \<and>
     (\<forall>i. pending i s \<longrightarrow> i < length (rowsOf cfg)) \<and>
     (\<forall>i<length (rowsOf cfg). loading (chunkLoads s ! i) \<longrightarrow> pending i s)"

fun is_complete :: "task \<Rightarrow> bool" where
  "is_complete (TComplete i) \<longleftrightarrow> True"
| "is_complete _ \<longleftrightarrow> False"

definition control :: "'r fetch \<Rightarrow> task list" where
  "control s = filter (\<lambda>t. \<not> is_complete t) (tasks s)"

text \<open>Two states that differ in their load bookkeeping only.\<close>

definition frame :: "'r fetch \<Rightarrow> 'r fetch \<Rightarrow> bool" where
  "frame s s' \<longleftrightarrow> length (chunkLoads s') = length (chunkLoads s) \<and>
     (\<forall>i. listeners (chunkLoads s' ! i) = listeners (chunkLoads s ! i)) \<and>
     currChunk s' = currChunk s \<and> control s' = control s \<and> closures s' = closures s \<and>
     numRowsProcessed s' = numRowsProcessed s \<and> eachCalls s' = eachCalls s \<and>
     completions s' = completions s \<and> canContinue s' = canContinue s"

lemma frame_refl [simp]: "frame s s"
  by (simp add: frame_def)

lemma frame_trans: "frame s t \<Longrightarrow> frame t u \<Longrightarrow> frame s u"
  by (simp add: frame_def)

lemma loadIfIdle_frame: "frame s (loadIfIdle i s)"
  by (auto simp: loadIfIdle_def loadChunk_def Let_def addTask_def frame_def control_def nth_list_update_iff)

lemma loadIfIdle_inv:
  assumes "load_inv cfg s" "i < length (rowsOf cfg)"
  shows "load_inv cfg (loadIfIdle i s)" "pending i (loadIfIdle i s)"
    "pending k s \<Longrightarrow> pending k (loadIfIdle i s)"
  using assms
  by (auto simp: loadIfIdle_def loadChunk_def Let_def addTask_def load_inv_def pending_def nth_list_update)

lemma fold_loadIfIdle:
  assumes "load_inv cfg s" "\<forall>i\<in>set is. i < length (rowsOf cfg)"
  shows "load_inv cfg (fold loadIfIdle is s) \<and> frame s (fold loadIfIdle is s) \<and>
    (\<forall>k. pending k s \<or> k \<in> set is \<longrightarrow> pending k (fold loadIfIdle is s))"
  using assms
proof (induction "is" arbitrary: s)
  case (Cons i "is")
  let ?s = "loadIfIdle i s"
  have "load_inv cfg (fold loadIfIdle is ?s) \<and> frame ?s (fold loadIfIdle is ?s) \<and>
    (\<forall>k. pending k ?s \<or> k \<in> set is \<longrightarrow> pending k (fold loadIfIdle is ?s))"
    by (rule Cons.IH) (use Cons.prems loadIfIdle_inv in auto)
  then show ?case
    using loadIfIdle_inv[of cfg s i] loadIfIdle_frame[of s i] Cons.prems frame_trans by auto
qed simp

section \<open>The invariant\<close>

text \<open>
  Good runs: no time-based break falls on the last row of a chunk, and the number of rows to
  process is the number of rows in the window.
\<close>

definition good_fetch :: "'r fetch_cfg \<Rightarrow> bool" where
  "good_fetch cfg \<longleftrightarrow> maxNumRowsToProcess cfg = length (concat (rowsOf cfg)) \<and>
     (\<forall>i<length (rowsOf cfg). \<not> late cfg i (length (rowsOf cfg ! i)))"

text \<open>The listeners are \<open>n\<close> on chunk \<open>c\<close> and none elsewhere.\<close>

definition listening :: "'r fetch \<Rightarrow> nat option \<Rightarrow> bool" where
  "listening s l \<longleftrightarrow> (\<forall>i<length (chunkLoads s). listeners (chunkLoads s ! i) = (if l = Some i then 1 else 0))"

definition passed :: "'r fetch_cfg \<Rightarrow> nat \<Rightarrow> bool" where
  "passed cfg c \<longleftrightarrow> (\<forall>rs\<in>set (take c (rowsOf cfg)). passes cfg rs)"

text \<open>The common part of all phases: the books, and where the row loop stands.\<close>

definition base :: "'r fetch_cfg \<Rightarrow> 'r fetch \<Rightarrow> bool" where
  "base cfg s \<longleftrightarrow> load_inv cfg s \<and> numRowsProcessed s = length (eachCalls s)"

definition between :: "'r fetch_cfg \<Rightarrow> 'r fetch \<Rightarrow> bool" where
  "between cfg s \<longleftrightarrow> base cfg s \<and> currChunk s \<le> length (rowsOf cfg) \<and> passed cfg (currChunk s) \<and>
     eachCalls s = concat (take (currChunk s) (rowsOf cfg)) \<and> True \<notin> set (completions s)"

definition inside :: "'r fetch_cfg \<Rightarrow> nat \<Rightarrow> nat \<Rightarrow> nat \<Rightarrow> 'r fetch \<Rightarrow> bool" where
  "inside cfg k c j s \<longleftrightarrow> base cfg s \<and> k < length (closures s) \<and> closures s ! k = (c, j) \<and>
     c < length (rowsOf cfg) \<and> currChunk s = Suc c \<and> j \<le> length (rowsOf cfg ! c) \<and> passed cfg c \<and>
     (\<forall>r\<in>set (take j (rowsOf cfg ! c)). \<not> stops cfg r) \<and>
     eachCalls s = concat (take c (rowsOf cfg)) @ take j (rowsOf cfg ! c) \<and> True \<notin> set (completions s)"

definition finished :: "'r fetch_cfg \<Rightarrow> 'r fetch \<Rightarrow> bool" where
  "finished cfg s \<longleftrightarrow> base cfg s \<and> eachCalls s = expectedCalls cfg (rowsOf cfg)"

datatype phase = PStart | PRead | PRows | PClose | PEmit | PError | PFailed | PDone

fun in_phase :: "'r fetch_cfg \<Rightarrow> phase \<Rightarrow> 'r fetch \<Rightarrow> bool" where
  "in_phase cfg PStart s \<longleftrightarrow> control s = [TRead] \<and> listening s None \<and> between cfg s \<and> \<not> canContinue s"
| "in_phase cfg PRead s \<longleftrightarrow> control s = [] \<and> listening s (Some (currChunk s)) \<and> between cfg s \<and>
     currChunk s < length (rowsOf cfg) \<and> pending (currChunk s) s \<and> \<not> canContinue s"
| "in_phase cfg PRows s \<longleftrightarrow> listening s None \<and> \<not> canContinue s \<and>
     (\<exists>k c j. control s = [TRows k] \<and> inside cfg k c j s \<and> 0 < j \<and> j < length (rowsOf cfg ! c))"
| "in_phase cfg PClose s \<longleftrightarrow> control s = [TClose] \<and> listening s None \<and> finished cfg s \<and>
     True \<notin> set (completions s) \<and> \<not> canContinue s"
| "in_phase cfg PEmit s \<longleftrightarrow> control s = [TEmit True] \<and> listening s None \<and> finished cfg s \<and>
     True \<notin> set (completions s) \<and> \<not> canContinue s"
| "in_phase cfg PError s \<longleftrightarrow> control s = [TEmit False] \<and> listening s None \<and> between cfg s \<and>
     currChunk s < length (rowsOf cfg) \<and> \<not> canContinue s"
| "in_phase cfg PFailed s \<longleftrightarrow> control s = [] \<and> listening s None \<and> between cfg s \<and>
     currChunk s < length (rowsOf cfg) \<and> canContinue s"
| "in_phase cfg PDone s \<longleftrightarrow> control s = [] \<and> listening s None \<and> finished cfg s \<and> \<not> canContinue s \<and>
     (\<exists>xs. completions s = xs @ [True] \<and> True \<notin> set xs)"

lemma listening_frame: "frame s s' \<Longrightarrow> listening s' l = listening s l"
  by (simp add: frame_def listening_def)

lemma between_frame: "frame s s' \<Longrightarrow> load_inv cfg s' \<Longrightarrow> between cfg s \<Longrightarrow> between cfg s'"
  by (simp add: frame_def between_def base_def)

lemma addTask_fields [simp]:
  "chunkLoads (addTask t s) = chunkLoads s" "currChunk (addTask t s) = currChunk s"
  "closures (addTask t s) = closures s" "numRowsProcessed (addTask t s) = numRowsProcessed s"
  "eachCalls (addTask t s) = eachCalls s" "completions (addTask t s) = completions s"
  "canContinue (addTask t s) = canContinue s"
  "control (addTask t s) = control s @ (if is_complete t then [] else [t])"
  "listening (addTask t s) l = listening s l"
  by (auto simp: addTask_def control_def listening_def)

lemma load_inv_addTask [simp]: "\<not> is_complete t \<Longrightarrow> load_inv cfg (addTask t s) = load_inv cfg s"
  by (auto simp: load_inv_def addTask_def pending_def)

lemma finished_passed:
  assumes "passed cfg (length (rowsOf cfg))"
  shows "expectedCalls cfg (rowsOf cfg) = concat (rowsOf cfg)"
  using expectedCalls_append[of "rowsOf cfg" cfg "[]"] assms by (simp add: passed_def)

text \<open>A read between two chunks either subscribes to the next one or closes the stream.\<close>

lemma doLoad_phase:
  assumes "control s = []" "listening s None" "between cfg s" "\<not> canContinue s"
  shows "in_phase cfg PRead (doLoad cfg s) \<or> in_phase cfg PClose (doLoad cfg s)"
proof (cases "currChunk s \<ge> length (chunkLoads s)")
  case True
  then have d: "doLoad cfg s = addTask TClose s" by (simp add: doLoad_def asyncClose_def Let_def)
  have c: "currChunk s = length (rowsOf cfg)"
    using True assms(3) by (simp add: between_def base_def load_inv_def)
  have "finished cfg (addTask TClose s)"
    using assms(3) c by (simp add: finished_def between_def base_def finished_passed)
  then show ?thesis using assms d by (simp add: between_def)
next
  case False
  let ?n = "length (rowsOf cfg)" and ?c = "currChunk s"
  have n: "length (chunkLoads s) = ?n" "?c < ?n"
    using False assms(3) by (auto simp: between_def base_def load_inv_def)
  let ?u = "subscribe ?c s"
  let ?is = "[?c..<min ?n (?c + prefetchSize cfg + 1)]"
  have d: "doLoad cfg s = fold loadIfIdle ?is ?u" using n by (simp add: doLoad_def Let_def)
  have u: "load_inv cfg ?u" "control ?u = []" "listening ?u (Some ?c)" "currChunk ?u = ?c"
    "canContinue ?u = canContinue s"
    using assms n by (auto simp: subscribe_def load_inv_def pending_def control_def listening_def
        nth_list_update between_def base_def)
  then have bu: "between cfg ?u" using assms(3) by (simp add: between_def base_def subscribe_def)
  have f: "load_inv cfg (fold loadIfIdle ?is ?u)" "frame ?u (fold loadIfIdle ?is ?u)"
    "pending ?c (fold loadIfIdle ?is ?u)"
    using fold_loadIfIdle[OF u(1), of ?is] n by auto
  then have "between cfg (doLoad cfg s)" using bu d between_frame by metis
  moreover have "control (doLoad cfg s) = []" "listening (doLoad cfg s) (Some ?c)"
    "currChunk (doLoad cfg s) = ?c" "\<not> canContinue (doLoad cfg s)"
    using f(2) u assms(4) listening_frame[OF f(2)] unfolding d by (simp_all add: frame_def)
  ultimately show ?thesis using f(3) n d by simp
qed

text \<open>The end of a chunk: read on, or close if all the rows have been processed.\<close>

lemma chunk_end_phase:
  assumes "control s = []" "listening s None" "\<not> canContinue s" "between cfg s" "good_fetch cfg"
  shows "\<exists>ph. in_phase cfg ph
    (if numRowsProcessed s \<noteq> maxNumRowsToProcess cfg then doLoad cfg s else asyncClose s)"
proof (cases "numRowsProcessed s \<noteq> maxNumRowsToProcess cfg")
  case True
  have "\<exists>ph. in_phase cfg ph (doLoad cfg s)" using doLoad_phase[OF assms(1,2,4,3)] by blast
  with True show ?thesis by (simp del: in_phase.simps)
next
  case False
  let ?c = "currChunk s"
  have "length (concat (take ?c (rowsOf cfg))) = length (concat (rowsOf cfg))"
    using False assms(4,5) by (simp add: between_def base_def good_fetch_def)
  also have "\<dots> = length (concat (take ?c (rowsOf cfg))) + length (concat (drop ?c (rowsOf cfg)))"
    by (metis append_take_drop_id concat_append length_append)
  finally have "concat (drop ?c (rowsOf cfg)) = []" by simp
  then have "expectedCalls cfg (drop ?c (rowsOf cfg)) = []" by (rule expectedCalls_empty)
  then have "expectedCalls cfg (take ?c (rowsOf cfg) @ drop ?c (rowsOf cfg)) = concat (take ?c (rowsOf cfg))"
    using expectedCalls_append[of "take ?c (rowsOf cfg)" cfg "drop ?c (rowsOf cfg)"] assms(4)
    unfolding between_def passed_def by (metis append_Nil2)
  then have "finished cfg (asyncClose s)"
    using assms(4) by (simp add: finished_def between_def base_def asyncClose_def)
  then have "in_phase cfg PClose (asyncClose s)"
    using assms by (simp add: between_def asyncClose_def)
  with False show ?thesis by (auto simp del: in_phase.simps)
qed

lemma stopped_calls:
  assumes "passed cfg c" "c < length (rowsOf cfg)" "j < length (rowsOf cfg ! c)"
    "stops cfg (rowsOf cfg ! c ! (j - 1))" "0 < j" "\<forall>r\<in>set (take (j - 1) (rowsOf cfg ! c)). \<not> stops cfg r"
  shows "expectedCalls cfg (rowsOf cfg) = concat (take c (rowsOf cfg)) @ take j (rowsOf cfg ! c)"
proof -
  let ?rs = "rowsOf cfg ! c"
  have "?rs ! (j - 1) \<in> set (butlast ?rs)"
    using assms(3,5) by (metis (no_types, lifting) One_nat_def Suc_pred diff_Suc_1 length_butlast
        less_diff_conv nth_butlast nth_mem plus_1_eq_Suc add.commute)
  then have "\<not> passes cfg ?rs" using assms(4) by (auto simp: passes_def)
  moreover have "takeUntil (stops cfg) ?rs = take j ?rs"
    using takeUntil_stop[of "j - 1" ?rs cfg] assms by simp
  ultimately have "expectedCalls cfg (take c (rowsOf cfg) @ drop c (rowsOf cfg)) =
      concat (take c (rowsOf cfg)) @ take j ?rs"
    using expectedCalls_append[of "take c (rowsOf cfg)" cfg "drop c (rowsOf cfg)"] assms(1,2)
    by (simp add: passed_def Cons_nth_drop_Suc[symmetric])
  then show ?thesis by simp
qed

lemma processRows_phase:
  assumes i: "inside cfg k c idx s" and s: "control s = []" "listening s None" "\<not> canContinue s"
    and g: "good_fetch cfg"
  shows "\<exists>ph. in_phase cfg ph (processRows cfg k s)"
proof -
  let ?rs = "rowsOf cfg ! c"
  obtain j calls e where l: "rowLoop cfg c idx idx (drop idx ?rs) = (j, calls, e)" by (metis prod_cases3)
  have idx: "idx \<le> length ?rs" "c < length (rowsOf cfg)" using i by (simp_all add: inside_def)
  note sp = rowLoop_spec[OF l]
  have j: "idx \<le> j" "j \<le> length ?rs" "calls = take (j - idx) (drop idx ?rs)" using sp idx by auto
  have tj: "take j ?rs = take idx ?rs @ calls"
    using j(1,3) by (metis le_add_diff_inverse take_add)
  define u where "u = s\<lparr>closures := (closures s)[k := (c, j)],
     numRowsProcessed := numRowsProcessed s + length calls, eachCalls := eachCalls s @ calls\<rparr>"
  have ub: "base cfg u" "control u = []" "listening u None" "\<not> canContinue u" "currChunk u = Suc c"
    "eachCalls u = concat (take c (rowsOf cfg)) @ take j ?rs" "True \<notin> set (completions u)"
    "k < length (closures u)" "closures u ! k = (c, j)"
    using i s by (auto simp: u_def inside_def base_def load_inv_def pending_def control_def listening_def tj)
  have pr: "processRows cfg k s =
      (let s2 = if e = Deferred then addTask (TRows k) u else u
       in if \<not> j < length ?rs \<or> e = Stopped then
           (if \<not> j < length ?rs \<and> numRowsProcessed s2 \<noteq> maxNumRowsToProcess cfg then doLoad cfg s2
            else asyncClose s2)
         else s2)"
    using i l by (simp add: processRows_def inside_def u_def Let_def)
  have nd: "\<not> (e = Deferred \<and> j = length ?rs)"
    using sp g idx(2) by (auto simp: good_fetch_def)
  have before: "\<forall>r\<in>set (take idx ?rs). \<not> stops cfg r" using i by (simp add: inside_def)
  have fresh: "\<forall>r\<in>set (butlast (take j ?rs)). \<not> stops cfg r" (is ?fresh)
  proof -
    have "set (butlast (take j ?rs)) \<subseteq> set (take idx ?rs) \<union> set (butlast calls)"
      unfolding tj by (auto simp: butlast_append dest: in_set_butlastD)
    moreover have "\<forall>r\<in>set (butlast calls). \<not> stops cfg r"
    proof (cases e)
      case Stopped
      then have "butlast calls = take (j - idx - 1) (drop idx ?rs)"
        using j(2,3) by (simp add: butlast_take)
      with sp Stopped show ?thesis by auto
    qed (use sp j in \<open>auto dest: in_set_butlastD\<close>)
    ultimately show ?thesis using before by blast
  qed
  show ?thesis
  proof (cases "j = length ?rs")
    case True
    then have "passes cfg ?rs" using fresh by (simp add: passes_def)
    then have "passed cfg (Suc c)" using i idx(2) by (auto simp: inside_def passed_def take_Suc_conv_app_nth)
    then have bt: "between cfg u"
      using ub True idx(2) by (simp add: between_def take_Suc_conv_app_nth)
    from chunk_end_phase[OF ub(2,3,4) bt g] nd True show ?thesis by (simp add: pr Let_def)
  next
    case False
    then have lt: "j < length ?rs" using j(2) by simp
    show ?thesis
    proof (cases e)
      case RanOut
      then show ?thesis using sp lt idx(1) by auto
    next
      case Stopped
      have "expectedCalls cfg (rowsOf cfg) = concat (take c (rowsOf cfg)) @ take j ?rs"
      proof (rule stopped_calls)
        show "stops cfg (?rs ! (j - 1))" "0 < j" using sp Stopped lt by (auto simp: idx(1))
        show "\<forall>r\<in>set (take (j - 1) ?rs). \<not> stops cfg r"
          using fresh lt by (simp add: butlast_take)
      qed (use i lt idx in \<open>simp_all add: inside_def\<close>)
      then have "in_phase cfg PClose (asyncClose u)"
        using ub by (simp add: finished_def base_def asyncClose_def)
      then have "in_phase cfg PClose (processRows cfg k s)" using lt Stopped by (simp add: pr Let_def)
      then show ?thesis ..
    next
      case Deferred
      have "0 < j" using sp Deferred by auto
      moreover have "\<forall>r\<in>set (take j ?rs). \<not> stops cfg r"
        using before sp Deferred j(3) unfolding tj by auto
      moreover have "passed cfg c" using i by (simp add: inside_def)
      ultimately have "inside cfg k c j (addTask (TRows k) u)"
        using ub lt idx by (simp add: inside_def base_def)
      with \<open>0 < j\<close> lt ub have "in_phase cfg PRows (addTask (TRows k) u)" by auto
      then have "in_phase cfg PRows (processRows cfg k s)" using lt Deferred by (simp add: pr Let_def)
      then show ?thesis ..
    qed
  qed
qed

lemma in_phase_frame:
  assumes "frame s s'" "load_inv cfg s'" "in_phase cfg ph s"
    "ph = PRead \<Longrightarrow> pending (currChunk s) s'"
  shows "in_phase cfg ph s'"
  using assms listening_frame[OF assms(1)] between_frame[OF assms(1,2)]
  by (cases ph) (auto simp: frame_def inside_def base_def finished_def)

text \<open>A load of chunk \<open>i\<close> has ended and its books are closed; the event itself is still to come.\<close>

lemma emit_phase:
  assumes ph: "in_phase cfg ph s" and f: "frame s u" and li: "load_inv cfg u"
    and p: "\<And>k. k \<noteq> i \<Longrightarrow> pending k s \<Longrightarrow> pending k u" and i: "i < length (rowsOf cfg)"
    and g: "good_fetch cfg"
  shows "\<exists>ph'. in_phase cfg ph' (fire cfg ok i (listeners (chunkLoads u ! i)) u)"
proof (cases "ph = PRead \<and> i = currChunk s")
  case False
  have n: "i < length (chunkLoads s)"
    using ph i by (cases ph) (auto simp: between_def base_def inside_def finished_def load_inv_def)
  have "listeners (chunkLoads u ! i) = listeners (chunkLoads s ! i)" using f by (simp add: frame_def)
  also have "\<dots> = 0" using ph n False by (cases ph) (auto simp: listening_def)
  finally have "fire cfg ok i (listeners (chunkLoads u ! i)) u = u" by simp
  moreover have "in_phase cfg ph u"
    by (rule in_phase_frame[OF f li ph]) (use False ph p in auto)
  ultimately show ?thesis by (auto simp del: in_phase.simps)
next
  case True
  have r: "control u = []" "listening u (Some i)" "between cfg u" "currChunk u = i" "\<not> canContinue u"
    using ph True f listening_frame[OF f] between_frame[OF f li] by (auto simp: frame_def)
  have n: "length (chunkLoads u) = length (rowsOf cfg)" using li by (simp add: load_inv_def)
  have one: "listeners (chunkLoads u ! i) = 1" using r(2) n i by (simp add: listening_def)
  define v where "v = u\<lparr>chunkLoads := (chunkLoads u)[i := (chunkLoads u ! i)\<lparr>listeners := 0\<rparr>]\<rparr>"
  have v: "control v = []" "listening v None" "load_inv cfg v" "currChunk v = i" "\<not> canContinue v"
    "closures v = closures u" "eachCalls v = eachCalls u" "numRowsProcessed v = numRowsProcessed u"
    "completions v = completions u"
    using r n i li by (auto simp: v_def control_def listening_def load_inv_def pending_def nth_list_update_iff)
  have bv: "between cfg v" using r(3,4) v by (simp add: between_def base_def)
  show ?thesis
  proof (cases ok)
    case False
    have "in_phase cfg PError (addTask (TEmit False) v)"
      using v bv i by (simp add: between_def base_def)
    moreover have "fire cfg ok i (listeners (chunkLoads u ! i)) u = addTask (TEmit False) v"
      using False one by (simp add: onLoadComplete_def v_def)
    ultimately show ?thesis by (auto simp del: in_phase.simps)
  next
    case True
    define w where "w = v\<lparr>currChunk := i + 1, closures := closures v @ [(i, 0)]\<rparr>"
    have w: "inside cfg (length (closures v)) i 0 w" "control w = []" "listening w None" "\<not> canContinue w"
      using v bv i by (auto simp: w_def inside_def between_def base_def load_inv_def pending_def
          control_def listening_def)
    have "fire cfg ok i (listeners (chunkLoads u ! i)) u = processRows cfg (length (closures v)) w"
      using True one v(4) by (simp add: onLoadComplete_def processChunk_def v_def w_def Let_def)
    with processRows_phase[OF w g] show ?thesis by (simp del: in_phase.simps)
  qed
qed

lemma step_phase:
  assumes st: "fetch_step cfg s e s'" and ph: "in_phase cfg ph s" and g: "good_fetch cfg"
  shows "\<exists>ph'. in_phase cfg ph' s'"
  using st
proof (cases rule: fetch_step.cases)
  case (fetch_tick t ts)
  have li: "load_inv cfg s"
    using ph by (cases ph) (auto simp: between_def base_def inside_def finished_def)
  let ?s = "s\<lparr>tasks := ts\<rparr>"
  show ?thesis
  proof (cases t)
    case (TComplete i)
    have i: "i < length (rowsOf cfg)" using li fetch_tick TComplete by (auto simp: load_inv_def pending_def)
    define u where "u = ?s\<lparr>chunkLoads := (chunkLoads s)[i := (chunkLoads s ! i)\<lparr>loading := False\<rparr>]\<rparr>"
    have "frame s u"
      using fetch_tick TComplete by (auto simp: u_def frame_def control_def nth_list_update_iff)
    moreover have "pending k u" if "k \<noteq> i" "pending k s" for k
      using that fetch_tick TComplete by (auto simp: u_def pending_def)
    moreover from this have "load_inv cfg u"
      using li fetch_tick TComplete by (auto simp: load_inv_def u_def nth_list_update_iff pending_def)
    moreover have "s' = fire cfg True i (listeners (chunkLoads u ! i)) u"
      using fetch_tick TComplete i li by (simp add: emitLoadComplete_def u_def load_inv_def)
    ultimately show ?thesis using emit_phase[OF ph _ _ _ i g] by metis
  next
    case TRead
    then have "control ?s = []" "listening ?s None" "between cfg ?s" "\<not> canContinue ?s"
      using ph fetch_tick
      by (cases ph; auto simp: control_def listening_def between_def base_def load_inv_def pending_def)+
    from doLoad_phase[OF this] show ?thesis using fetch_tick TRead by (auto simp del: in_phase.simps)
  next
    case (TRows k)
    then have "ph = PRows" using ph fetch_tick by (cases ph) (auto simp: control_def)
    then obtain c j where "inside cfg k c j s" "control s = [TRows k]" "listening s None" "\<not> canContinue s"
      using ph fetch_tick TRows by (auto simp: control_def)
    then have "inside cfg k c j ?s" "control ?s = []" "listening ?s None" "\<not> canContinue ?s"
      using fetch_tick TRows by (auto simp: inside_def base_def load_inv_def pending_def control_def listening_def)
    from processRows_phase[OF this g] show ?thesis using fetch_tick TRows by simp
  next
    case TClose
    then have "control ?s = [] \<and> listening ?s None \<and> finished cfg ?s \<and> True \<notin> set (completions ?s) \<and>
        \<not> canContinue ?s"
      using ph fetch_tick
      by (cases ph) (auto simp: control_def listening_def finished_def base_def load_inv_def pending_def)
    then have "in_phase cfg PEmit (addTask (TEmit True) ?s)" by (simp add: finished_def base_def)
    then show ?thesis using fetch_tick TClose by (auto simp del: in_phase.simps)
  next
    case (TEmit ok)
    show ?thesis
    proof (cases ok)
      case True
      have "in_phase cfg PDone s'"
        using ph fetch_tick TEmit True
        by (cases ph) (auto simp: control_def listening_def finished_def base_def load_inv_def pending_def)
      then show ?thesis ..
    next
      case False
      have "in_phase cfg PFailed s'"
        using ph fetch_tick TEmit False
        by (cases ph) (auto simp: control_def listening_def between_def base_def load_inv_def pending_def)
      then show ?thesis ..
    qed
  qed
next
  case (fetch_downloaded i ok)
  have li: "load_inv cfg s"
    using ph by (cases ph) (auto simp: between_def base_def inside_def finished_def)
  have i: "i < length (rowsOf cfg)" using li fetch_downloaded by (auto simp: load_inv_def pending_def)
  define u where "u = (let s2 = (if ok then (s\<lparr>fetching := remove1 i (fetching s)\<rparr>)\<lparr>chunkLoads :=
      (chunkLoads s)[i := (chunkLoads s ! i)\<lparr>loaded := True\<rparr>]\<rparr> else s\<lparr>fetching := remove1 i (fetching s)\<rparr>)
    in s2\<lparr>chunkLoads := (chunkLoads s2)[i := (chunkLoads s2 ! i)\<lparr>loading := False\<rparr>]\<rparr>)"
  have "frame s u" by (auto simp: u_def Let_def frame_def control_def nth_list_update_iff)
  moreover have "pending k u" if "k \<noteq> i" "pending k s" for k
    using that by (auto simp: u_def Let_def pending_def)
  moreover from this have "load_inv cfg u"
    using li by (auto simp: load_inv_def u_def Let_def nth_list_update_iff pending_def dest: notin_set_remove1)
  moreover have "s' = fire cfg ok i (listeners (chunkLoads u ! i)) u"
    using fetch_downloaded i li
    by (simp add: downloaded_def emitLoadComplete_def u_def load_inv_def Let_def nth_list_update_iff)
  ultimately show ?thesis using emit_phase[OF ph _ _ _ i g] by metis
next
  case fetch_continue
  let ?s = "s\<lparr>canContinue := False\<rparr>"
  have "control ?s = []" "listening ?s None" "between cfg ?s" "\<not> canContinue ?s"
    using ph fetch_continue
    by (cases ph; auto simp: control_def listening_def between_def base_def load_inv_def pending_def)+
  from doLoad_phase[OF this] show ?thesis using fetch_continue by (auto simp del: in_phase.simps)
qed

lemma start_phase:
  assumes "length inline = length (rowsOf cfg)"
  shows "in_phase cfg PStart (startFetch inline False)"
  using assms
  by (auto simp: startFetch_def control_def listening_def between_def base_def load_inv_def pending_def passed_def)

lemma reach_phase:
  assumes "fetch_reach cfg (startFetch inline False) s" "length inline = length (rowsOf cfg)" "good_fetch cfg"
  shows "\<exists>ph. in_phase cfg ph s"
  using assms(1)
  by induction (use start_phase[OF assms(2)] step_phase[OF _ _ assms(3)] in blast)+


section \<open>Running a schedule\<close>

fun exec :: "'r fetch_cfg \<Rightarrow> fetch_event list \<Rightarrow> 'r fetch \<Rightarrow> 'r fetch option" where
  "exec cfg [] s = Some s"
| "exec cfg (Tick # es) s =
     (case tasks s of [] \<Rightarrow> None | t # ts \<Rightarrow> exec cfg es (runTask cfg t (s\<lparr>tasks := ts\<rparr>)))"
| "exec cfg (Downloaded i ok # es) s =
     (if i \<in> set (fetching s) then exec cfg es (downloaded cfg ok i s) else None)"
| "exec cfg (Continue # es) s =
     (if canContinue s then exec cfg es (doLoad cfg (s\<lparr>canContinue := False\<rparr>)) else None)"

lemma exec_reach:
  "exec cfg es s = Some s' \<Longrightarrow> fetch_reach cfg s0 s \<Longrightarrow> fetch_reach cfg s0 s'"
proof (induction es arbitrary: s)
  case (Cons e es)
  show ?case
  proof (cases e)
    case Tick
    then obtain t ts where "tasks s = t # ts" "exec cfg es (runTask cfg t (s\<lparr>tasks := ts\<rparr>)) = Some s'"
      using Cons.prems by (auto split: list.splits)
    with Cons show ?thesis using fetch_trans[OF _ fetch_tick] by blast
  next
    case (Downloaded i ok)
    then have "i \<in> set (fetching s)" "exec cfg es (downloaded cfg ok i s) = Some s'"
      using Cons.prems by (auto split: if_splits)
    with Cons show ?thesis using fetch_trans[OF _ fetch_downloaded] by blast
  next
    case Continue
    then have "canContinue s" "exec cfg es (doLoad cfg (s\<lparr>canContinue := False\<rparr>)) = Some s'"
      using Cons.prems by (auto split: if_splits)
    with Cons show ?thesis using fetch_trans[OF _ fetch_continue] by blast
  qed
qed simp

definition sampleFetch :: "(nat \<Rightarrow> bool) \<Rightarrow> (nat \<Rightarrow> nat \<Rightarrow> bool) \<Rightarrow> nat fetch_cfg" where
  "sampleFetch st lt = \<lparr>prefetchSize = 2, rowsOf = [[1], [2]], stops = st, late = lt,
     rowBatchSize = 1, maxNumRowsToProcess = 2\<rparr>"

lemmas run_defs = sampleFetch_def startFetch_def doLoad_def subscribe_def loadIfIdle_def loadChunk_def
  addTask_def asyncClose_def emitLoadComplete_def onLoadComplete_def processChunk_def processRows_def
  downloaded_def Let_def

section \<open>Properties\<close>



text \<open>
  C20. No stall: while the operation has not completed and is not waiting for its caller to continue
  after an error, a callback is queued or a download is in flight; an error leaves it where it was,
  and continuing asks for the same chunk again.
\<close>

theorem fetchRows_progress:
  assumes "fetch_reach cfg (startFetch inline False) s" "length inline = length (rowsOf cfg)" "good_fetch cfg"
  shows "True \<in> set (completions s) \<or> canContinue s \<or> tasks s \<noteq> [] \<or> fetching s \<noteq> []"
proof -
  obtain ph where ph: "in_phase cfg ph s" using reach_phase[OF assms] ..
  have "tasks s \<noteq> []" if "control s \<noteq> []" using that by (auto simp: control_def)
  then show ?thesis using ph by (cases ph) (auto simp: pending_def)
qed

theorem fetchRows_progress_witness:
  "\<exists>s. fetch_reach (sampleFetch (\<lambda>r. False) (\<lambda>c j. False)) (startFetch [False, False] False) s \<and>
     completions s = [False] \<and> (canContinue s \<or> tasks s \<noteq> [] \<or> fetching s \<noteq> [])"
proof -
  let ?cfg = "sampleFetch (\<lambda>r. False) (\<lambda>c j. False)"
  have "\<exists>s. exec ?cfg [Tick, Downloaded 0 False, Tick] (startFetch [False, False] False) = Some s \<and>
      completions s = [False]"
    by (simp add: run_defs numeral_2_eq_2)
  then obtain s where s: "fetch_reach ?cfg (startFetch [False, False] False) s" "completions s = [False]"
    using exec_reach[OF _ fetch_refl] by blast
  have "good_fetch ?cfg" by (simp add: good_fetch_def sampleFetch_def)
  moreover have "length [False, False] = length (rowsOf ?cfg)" by (simp add: sampleFetch_def)
  ultimately have "True \<in> set (completions s) \<or> canContinue s \<or> tasks s \<noteq> [] \<or> fetching s \<noteq> []"
    using fetchRows_progress[OF s(1)] by blast
  with s show ?thesis by (intro exI[of _ s]) auto
qed

text \<open>
  A time-based break on the last row of a chunk breaks both guarantees: the deferred callback
  asks the stream for a second read, so there is a run over two one-row chunks in which \<open>each\<close>
  gets the second row twice and the operation completes twice.
\<close>

theorem deferred_break_duplicates_rows:
  "\<exists>s. fetch_reach (sampleFetch (\<lambda>r. False) (\<lambda>c j. c = 0)) (startFetch [True, False] False) s \<and>
     eachCalls s = [1, 2, 2] \<and> completions s = [True, True]"
proof -
  have "\<exists>s. exec (sampleFetch (\<lambda>r. False) (\<lambda>c j. c = 0))
      [Tick, Tick, Tick, Downloaded 1 True, Tick, Tick, Tick, Tick] (startFetch [True, False] False) = Some s \<and>
      eachCalls s = [1, 2, 2] \<and> completions s = [True, True]"
    by (simp add: run_defs numeral_2_eq_2)
  then show ?thesis using exec_reach[OF _ fetch_refl] by blast
qed

text \<open>
  Returning \<open>false\<close> from \<open>each\<close> on the last row of a chunk does not stop the fetch: there is a
  run, without any time-based break, in which \<open>each\<close> returns \<open>false\<close> on the first row and is called
  on the second one all the same.
\<close>

theorem stop_on_last_row_ignored:
  "\<exists>s. fetch_reach (sampleFetch (\<lambda>r. r = 1) (\<lambda>c j. False)) (startFetch [True, True] False) s \<and>
     eachCalls s = [1, 2] \<and> completions s = [True]"
proof -
  have "\<exists>s. exec (sampleFetch (\<lambda>r. r = 1) (\<lambda>c j. False))
      [Tick, Tick, Tick, Tick, Tick] (startFetch [True, True] False) = Some s \<and>
      eachCalls s = [1, 2] \<and> completions s = [True]"
    by (simp add: run_defs numeral_2_eq_2)
  then show ?thesis using exec_reach[OF _ fetch_refl] by blast
qed

end
