(* ===== verification/RowStreamModel.thy ===== *)
theory RowStreamModel
  imports Complex_Main LargeResultSetModel ResultModel
begin

text \<open>
  The row stream of a statement (\<open>lib/connection/result/row_stream.js\<close>): the window of rows, the row
  buffer with its high-water-mark loop, and the handling of interrupted chunk streams.

  The chunks come from the chunk stream one at a time and in order (\<open>FetchRowsModel\<close> is about that
  part); here \<open>remaining\<close> lists the row windows of the chunks still to come.  The environment is Node's
  \<open>Readable\<close>: it calls \<open>_read\<close> again only after a \<open>push\<close>, and \<open>push\<close> answers whether more is
  wanted; the answer to the push number n is \<open>accept n\<close>.
\<close>

section \<open>The window of rows\<close>

text \<open>An option that is not a number is \<open>None\<close>.\<close>

definition windowStart :: "real option \<Rightarrow> int" where
  "windowStart start = (case start of None \<Rightarrow> 0 | Some x \<Rightarrow> if x < 0 then 0 else \<lfloor>x\<rfloor>)"

definition windowEnd :: "int \<Rightarrow> real option \<Rightarrow> int" where
  "windowEnd returnedRows end =
     (case end of None \<Rightarrow> returnedRows - 1
      | Some x \<Rightarrow> if x \<ge> of_int returnedRows then returnedRows - 1 else \<lfloor>x\<rfloor>)"

text \<open>
  \<open>init()\<close> with a result: the chunks to stream, or none to close at once; the search for the chunks
  comes before the test for an empty window and may throw.
\<close>

definition initStream :: "'v chunk list \<Rightarrow> int \<Rightarrow> real option \<Rightarrow> real option \<Rightarrow> 'v chunk list js" where
  "initStream chunks returnedRows start end =
     (let s = windowStart start; e = windowEnd returnedRows end
      in js_bind (findOverlappingChunks chunks s e)
           (\<lambda>cs. Inr (if cs = [] \<or> s > e then [] else cs)))"

section \<open>The stream\<close>

record 'r rstream =
  rowBuffer :: "'r option list option"
  rowPos :: nat
  scheduled :: "'r option option"   \<comment> \<open>the \<open>row\<close> captured by the pending \<open>nextTick\<close> callback\<close>
  waiting :: bool                   \<comment> \<open>subscribed to the chunk stream\<close>
  reading :: bool                   \<comment> \<open>\<open>_read\<close> was called and nothing pushed since\<close>
  remaining :: "'r list list"
  interrupts :: nat
  pushed :: "'r option list"
  closed :: bool
  streamError :: "(unit, int \<times> string) sf_error option"

definition newRowStream :: "'r list list \<Rightarrow> 'r rstream" where
  "newRowStream cs = \<lparr>rowBuffer = None, rowPos = 0, scheduled = None, waiting = False, reading = False,
     remaining = cs, interrupts = 0, pushed = [], closed = False, streamError = None\<rparr>"

text \<open>
  \<open>processRowBuffer\<close>: a read past the end of the buffer gives \<open>undefined\<close>, here \<open>None\<close> like the
  \<open>null\<close> that overwrites a pushed row.
\<close>

definition processRowBuffer :: "'r option list \<Rightarrow> 'r rstream \<Rightarrow> 'r rstream" where
  "processRowBuffer buf s =
     (let row = (if rowPos s < length buf then buf ! rowPos s else None); i = rowPos s + 1
      in if i = length buf
         then s\<lparr>rowBuffer := None, rowPos := 0, scheduled := Some row\<rparr>
         else s\<lparr>rowBuffer := Some buf, rowPos := i, scheduled := Some row\<rparr>)"

definition readNextRow :: "'r rstream \<Rightarrow> 'r rstream" where
  "readNextRow s =
     (case rowBuffer s of
        Some buf \<Rightarrow> processRowBuffer buf s
      | None \<Rightarrow> s\<lparr>waiting := True\<rparr>)"

function pushLoop ::
  "(nat \<Rightarrow> bool) \<Rightarrow> 'r option list \<Rightarrow> nat \<Rightarrow> 'r option list \<Rightarrow> 'r option list \<times> nat \<times> 'r option list"
where
  "pushLoop accept buf i out =
     (if i < length buf then
        (let out' = out @ [buf ! i]; buf' = buf[i := None]
         in if accept (length out) then pushLoop accept buf' (i + 1) out' else (buf', i + 1, out'))
      else (buf, i, out))"
  by pat_completeness auto
termination by (relation "measure (\<lambda>(_, buf, i, _). length buf - i)") auto

declare pushLoop.simps [simp del]

text \<open>The callback scheduled by \<open>processRowBuffer\<close>; a push ends the pending read.\<close>

definition pushRows :: "(nat \<Rightarrow> bool) \<Rightarrow> 'r option \<Rightarrow> 'r rstream \<Rightarrow> 'r rstream" where
  "pushRows accept row s =
     (case rowBuffer s of
        Some buf \<Rightarrow>
          if rowPos s > 0 then
            (let (buf', i, out) = pushLoop accept buf (rowPos s - 1) (pushed s);
                 s' = s\<lparr>pushed := out, reading := reading s \<and> length out = length (pushed s)\<rparr>
             in if i = length buf' then s'\<lparr>rowBuffer := None, rowPos := 0\<rparr>
                else s'\<lparr>rowBuffer := Some buf', rowPos := i\<rparr>)
          else s\<lparr>pushed := pushed s @ [row], reading := False\<rparr>
      | None \<Rightarrow> s\<lparr>pushed := pushed s @ [row], reading := False\<rparr>)"

definition closeStream :: "(unit, int \<times> string) sf_error option \<Rightarrow> 'r rstream \<Rightarrow> 'r rstream" where
  "closeStream err s = s\<lparr>rowBuffer := None, rowPos := 0, waiting := False, interrupts := 0,
     closed := True, streamError := err\<rparr>"

text \<open>The next chunk of the stream, or its regular end.\<close>

definition onResultStreamData :: "'r list \<Rightarrow> 'r rstream \<Rightarrow> 'r rstream" where
  "onResultStreamData rws s = processRowBuffer (map Some rws) (s\<lparr>waiting := False, rowPos := 0\<rparr>)"

definition isResultStreamErrorRetryable :: "(unit, int \<times> string) sf_error option \<Rightarrow> bool" where
  "isResultStreamErrorRetryable e =
     (case e of None \<Rightarrow> False
      | Some x \<Rightarrow> (isLargeResultSetError e \<and> (\<exists>t. err_response x = Some (403, t))) \<or>
          err_code x = StrCode ''ECONNRESET'' \<or> err_code x = StrCode ''ETIMEDOUT'')"

text \<open>
  An interrupted chunk stream: retryable errors refresh the result and continue, at most
  \<open>maxInterrupts\<close> times; \<open>refreshError\<close> is the outcome of the refresh.  Continuing leaves the stream
  subscribed, waiting for the same chunk.
\<close>

definition onResultStreamClose ::
  "nat \<Rightarrow> (unit, int \<times> string) sf_error option \<Rightarrow> (unit, int \<times> string) sf_error option \<Rightarrow> 'r rstream \<Rightarrow> 'r rstream"
where
  "onResultStreamClose maxInterrupts refreshError err s =
     (if isResultStreamErrorRetryable err \<and> interrupts s < maxInterrupts then
        (let s' = s\<lparr>interrupts := interrupts s + 1\<rparr>
         in case refreshError of Some e \<Rightarrow> closeStream (Some e) s' | None \<Rightarrow> s')
      else closeStream err s)"

datatype stream_event =
    Read
  | ChunkData
  | ChunkError "(unit, int \<times> string) sf_error" "(unit, int \<times> string) sf_error option"
  | PushTick

inductive rs_step :: "nat \<Rightarrow> (nat \<Rightarrow> bool) \<Rightarrow> 'r rstream \<Rightarrow> stream_event \<Rightarrow> 'r rstream \<Rightarrow> bool"
  for mx accept where
  rs_read: "\<not> reading s \<Longrightarrow> \<not> closed s \<Longrightarrow> rs_step mx accept s Read (readNextRow (s\<lparr>reading := True\<rparr>))"
| rs_data: "waiting s \<Longrightarrow> remaining s = c # cs \<Longrightarrow>
    rs_step mx accept s ChunkData (onResultStreamData c (s\<lparr>remaining := cs\<rparr>))"
| rs_end: "waiting s \<Longrightarrow> remaining s = [] \<Longrightarrow>
    rs_step mx accept s ChunkData (onResultStreamClose mx None None s)"
| rs_error: "waiting s \<Longrightarrow> rs_step mx accept s (ChunkError e r) (onResultStreamClose mx r (Some e) s)"
| rs_push: "scheduled s = Some row \<Longrightarrow>
    rs_step mx accept s PushTick (pushRows accept row (s\<lparr>scheduled := None\<rparr>))"

inductive_cases rs_stepE: "rs_step mx accept s e s'"

inductive rs_reach :: "nat \<Rightarrow> (nat \<Rightarrow> bool) \<Rightarrow> 'r rstream \<Rightarrow> 'r rstream \<Rightarrow> bool" for mx accept s0 where
  rs_refl: "rs_reach mx accept s0 s0"
| rs_trans: "rs_reach mx accept s0 s \<Longrightarrow> rs_step mx accept s e s' \<Longrightarrow> rs_reach mx accept s0 s'"

section \<open>The push loop\<close>

lemma pushLoop_spec:
  assumes "i \<le> length buf"
  shows "\<exists>j. i \<le> j \<and> j \<le> length buf \<and> (i < length buf \<longrightarrow> i < j) \<and>
    fst (snd (pushLoop accept buf i out)) = j \<and>
    snd (snd (pushLoop accept buf i out)) = out @ take (j - i) (drop i buf) \<and>
    length (fst (pushLoop accept buf i out)) = length buf \<and>
    drop j (fst (pushLoop accept buf i out)) = drop j buf"
  using assms
proof (induction accept buf i out rule: pushLoop.induct)
  case (1 accept buf i out)
  show ?case
  proof (cases "i < length buf \<and> accept (length out)")
    case True
    let ?r = "pushLoop accept (buf[i := None]) (i + 1) (out @ [buf ! i])"
    obtain j where j: "i + 1 \<le> j" "j \<le> length buf" "fst (snd ?r) = j"
      "snd (snd ?r) = (out @ [buf ! i]) @ take (j - (i + 1)) (drop (i + 1) (buf[i := None]))"
      "length (fst ?r) = length buf" "drop j (fst ?r) = drop j (buf[i := None])"
      using 1(1)[OF _ refl refl] True by auto
    have "pushLoop accept buf i out = ?r"
      using True by (subst pushLoop.simps) (simp add: Let_def)
    moreover have "[buf ! i] @ take (j - (i + 1)) (drop (i + 1) (buf[i := None])) = take (j - i) (drop i buf)"
      using True j(1) by (simp add: Cons_nth_drop_Suc[symmetric] Suc_diff_le take_Cons' Suc_le_eq)
    ultimately show ?thesis using j True by (intro exI[of _ j]) simp
  next
    case False
    then show ?thesis
      using 1(2) by (subst (1 2 3 4) pushLoop.simps)
        (auto simp: Let_def Cons_nth_drop_Suc[symmetric] intro: exI[of _ "Suc i"])
  qed
qed

section \<open>Invariant\<close>

definition rows_upto :: "'r list list \<Rightarrow> nat \<Rightarrow> 'r option list" where
  "rows_upto cs k = map Some (concat (take k cs))"

definition at_buffer :: "'r list list \<Rightarrow> nat \<Rightarrow> nat \<Rightarrow> 'r rstream \<Rightarrow> bool" where
  "at_buffer cs k i s \<longleftrightarrow> k < length cs \<and> i < length (cs ! k) \<and> remaining s = drop (Suc k) cs \<and>
     pushed s = rows_upto cs k @ map Some (take i (cs ! k))"

definition buffer_ok :: "'r list \<Rightarrow> nat \<Rightarrow> 'r option list \<Rightarrow> bool" where
  "buffer_ok c i b \<longleftrightarrow> length b = length c \<and> drop i b = map Some (drop i c)"

definition idle :: "'r list list \<Rightarrow> 'r rstream \<Rightarrow> bool" where
  "idle cs s \<longleftrightarrow> scheduled s = None \<and> rowBuffer s = None \<and>
     (\<exists>k\<le>length cs. remaining s = drop k cs \<and> pushed s = rows_upto cs k)"

definition stream_inv :: "'r list list \<Rightarrow> 'r rstream \<Rightarrow> bool" where
  "stream_inv cs s \<longleftrightarrow>
     (closed s \<and> \<not> waiting s \<and> idle cs s \<and> (streamError s = None \<longrightarrow> pushed s = map Some (concat cs))) \<or>
     (\<not> closed s \<and> waiting s = reading s \<and> idle cs s) \<or>
     (\<not> closed s \<and> \<not> waiting s \<and> \<not> reading s \<and> scheduled s = None \<and>
       (\<exists>k b. at_buffer cs k (rowPos s) s \<and> rowBuffer s = Some b \<and> buffer_ok (cs ! k) (rowPos s) b)) \<or>
     (\<not> closed s \<and> \<not> waiting s \<and> reading s \<and>
       (\<exists>k i row. at_buffer cs k i s \<and> scheduled s = Some row \<and> row = Some (cs ! k ! i) \<and>
         (if Suc i = length (cs ! k) then rowBuffer s = None
          else rowPos s = Suc i \<and> (\<exists>b. rowBuffer s = Some b \<and> buffer_ok (cs ! k) i b))))"

lemma buffer_ok_nth: "buffer_ok c i b \<Longrightarrow> i < length c \<Longrightarrow> b ! i = Some (c ! i)"
  unfolding buffer_ok_def by (metis Cons_nth_drop_Suc length_map list.inject list.simps(9))

lemma processRowBuffer_inv:
  assumes "at_buffer cs k (rowPos s) s" "buffer_ok (cs ! k) (rowPos s) b" "reading s" "\<not> waiting s" "\<not> closed s"
  shows "stream_inv cs (processRowBuffer b s)"
proof -
  have i: "rowPos s < length b" "rowPos s < length (cs ! k)" "length b = length (cs ! k)"
    using assms by (auto simp: at_buffer_def buffer_ok_def)
  have row: "b ! rowPos s = Some (cs ! k ! rowPos s)" using buffer_ok_nth assms(2) i by blast
  have "at_buffer cs k (rowPos s) (processRowBuffer b s)"
    using assms(1) by (simp add: at_buffer_def processRowBuffer_def Let_def)
  moreover have "scheduled (processRowBuffer b s) = Some (Some (cs ! k ! rowPos s))"
    "if Suc (rowPos s) = length (cs ! k) then rowBuffer (processRowBuffer b s) = None
     else rowPos (processRowBuffer b s) = Suc (rowPos s) \<and> rowBuffer (processRowBuffer b s) = Some b"
    "reading (processRowBuffer b s)" "\<not> waiting (processRowBuffer b s)" "\<not> closed (processRowBuffer b s)"
    using i row assms(3-5) by (auto simp: processRowBuffer_def Let_def)
  ultimately show ?thesis using assms(2) unfolding stream_inv_def by (metis (no_types))
qed

lemma rows_upto_Suc: "k < length cs \<Longrightarrow> rows_upto cs (Suc k) = rows_upto cs k @ map Some (cs ! k)"
  by (simp add: rows_upto_def take_Suc_conv_app_nth)

lemma after_chunk:
  assumes "k < length cs" "remaining s = drop (Suc k) cs" "pushed s = rows_upto cs k @ map Some (cs ! k)"
    "rowBuffer s = None" "scheduled s = None"
  shows "idle cs s"
  unfolding idle_def using assms rows_upto_Suc[OF assms(1)] by (intro conjI exI[of _ "Suc k"]) simp_all

lemma pushRows_inv:
  assumes "at_buffer cs k i s" "reading s" "\<not> waiting s" "\<not> closed s" "scheduled s = None"
    "if Suc i = length (cs ! k) then rowBuffer s = None
     else rowPos s = Suc i \<and> (\<exists>b. rowBuffer s = Some b \<and> buffer_ok (cs ! k) i b)"
  shows "stream_inv cs (pushRows accept (Some (cs ! k ! i)) s)"
proof (cases "Suc i = length (cs ! k)")
  case True
  then have "rowBuffer s = None" using assms(6) by simp
  then have u: "pushRows accept (Some (cs ! k ! i)) s =
      s\<lparr>pushed := pushed s @ [Some (cs ! k ! i)], reading := False\<rparr>" by (simp add: pushRows_def)
  have "map Some (take i (cs ! k)) @ [Some (cs ! k ! i)] = map Some (cs ! k)"
    using True by (metis lessI list.simps(8,9) map_append take_Suc_conv_app_nth take_all order_refl)
  then have "idle cs (s\<lparr>pushed := pushed s @ [Some (cs ! k ! i)], reading := False\<rparr>)"
    using assms(1,5) \<open>rowBuffer s = None\<close> by (intro after_chunk) (auto simp: at_buffer_def)
  then show ?thesis using assms(3,4) by (simp add: u stream_inv_def)
next
  case False
  then obtain b where b: "rowPos s = Suc i" "rowBuffer s = Some b" "buffer_ok (cs ! k) i b"
    using assms(6) by auto
  let ?c = "cs ! k"
  have len: "i < length ?c" "length b = length ?c" "k < length cs"
    using assms(1) b(3) by (auto simp: at_buffer_def buffer_ok_def)
  let ?r = "pushLoop accept b i (pushed s)"
  obtain j where j: "i < j" "j \<le> length b" "fst (snd ?r) = j"
    "snd (snd ?r) = pushed s @ take (j - i) (drop i b)" "length (fst ?r) = length b"
    "drop j (fst ?r) = drop j b"
    using pushLoop_spec[of i b accept "pushed s"] len by auto
  obtain b' where r: "?r = (b', j, pushed s @ take (j - i) (drop i b))"
    using j(3,4) by (metis prod.collapse)
  have "take (j - i) (drop i b) = map Some (take (j - i) (drop i ?c))"
    using b(3) by (simp add: buffer_ok_def take_map)
  moreover have "take j ?c = take i ?c @ take (j - i) (drop i ?c)"
    using j(1) by (metis le_add_diff_inverse less_imp_le take_add)
  ultimately have out: "pushed s @ take (j - i) (drop i b) = rows_upto cs k @ map Some (take j ?c)"
    using assms(1) by (simp add: at_buffer_def)
  have dj: "drop j b = map Some (drop j ?c)"
    using b(3) j(1) unfolding buffer_ok_def
    by (metis drop_drop drop_map le_add_diff_inverse2 less_imp_le)
  have "length (pushed s @ take (j - i) (drop i b)) \<noteq> length (pushed s)" using j(1,2) by auto
  then have nr: "length (rows_upto cs k @ map Some (take j ?c)) \<noteq> length (pushed s)" using out by simp
  have u: "pushRows accept (Some (?c ! i)) s =
      (if j = length b' then s\<lparr>pushed := rows_upto cs k @ map Some (take j ?c), reading := False,
            rowBuffer := None, rowPos := 0\<rparr>
       else s\<lparr>pushed := rows_upto cs k @ map Some (take j ?c), reading := False,
            rowBuffer := Some b', rowPos := j\<rparr>)"
    using b(1,2) r nr out by (auto simp: pushRows_def Let_def)
  show ?thesis
  proof (cases "j = length b'")
    case True
    then have "take j ?c = ?c" using j(5) r len by simp
    then have "idle cs (pushRows accept (Some (?c ! i)) s)"
      unfolding u using True assms(1,5) len by (intro after_chunk) (auto simp: at_buffer_def)
    then show ?thesis using True assms(3,4) unfolding stream_inv_def u by simp
  next
    case False
    then have "j < length ?c" using j(2,5) r len by simp
    then have "at_buffer cs k j (pushRows accept (Some (?c ! i)) s)"
      using False assms(1) by (simp add: u at_buffer_def)
    moreover have "buffer_ok ?c j b'" using j(5,6) r len dj by (simp add: buffer_ok_def)
    ultimately show ?thesis using False assms(3,4,5) unfolding stream_inv_def u by auto
  qed
qed

lemma rs_step_inv:
  assumes "rs_step mx accept s e s'" "stream_inv cs s" "\<forall>c\<in>set cs. c \<noteq> []"
  shows "stream_inv cs s'"
  using assms(1)
proof (cases rule: rs_step.cases)
  case rs_read
  from assms(2) rs_read consider (a) "waiting s = reading s" "idle cs s"
    | (b) k b where "\<not> waiting s" "scheduled s = None" "at_buffer cs k (rowPos s) s" "rowBuffer s = Some b"
        "buffer_ok (cs ! k) (rowPos s) b"
    unfolding stream_inv_def by blast
  then show ?thesis
  proof cases
    case a
    then show ?thesis using rs_read by (simp add: readNextRow_def idle_def stream_inv_def)
  next
    case b
    have "stream_inv cs (processRowBuffer b (s\<lparr>reading := True\<rparr>))"
      by (rule processRowBuffer_inv[of _ k]) (use b rs_read in \<open>auto simp: at_buffer_def\<close>)
    then show ?thesis using b rs_read by (simp add: readNextRow_def)
  qed
next
  case (rs_data c cs')
  then have w: "\<not> closed s" "reading s" "idle cs s" using assms(2) by (auto simp: stream_inv_def idle_def)
  then obtain k where k: "k \<le> length cs" "remaining s = drop k cs" "pushed s = rows_upto cs k"
    by (auto simp: idle_def)
  then have kl: "k < length cs" "c = cs ! k" "cs' = drop (Suc k) cs"
    using rs_data by (auto simp: Cons_nth_drop_Suc[symmetric] dest!: Cons_eq_append_conv[THEN iffD1])
      (metis drop_all leI list.distinct(1), metis nth_via_drop, metis drop_Suc tl_drop list.sel(3))
  have "c \<noteq> []" using kl assms(3) by auto
  then have "stream_inv cs (processRowBuffer (map Some c) (s\<lparr>remaining := cs', waiting := False, rowPos := 0\<rparr>))"
    by (intro processRowBuffer_inv[of _ k])
      (use kl k w in \<open>simp_all add: at_buffer_def buffer_ok_def\<close>)
  then show ?thesis using rs_data by (simp add: onResultStreamData_def)
next
  case rs_end
  then have "idle cs s" "\<not> closed s" using assms(2) by (auto simp: stream_inv_def idle_def)
  moreover from this rs_end have "pushed s = map Some (concat cs)" by (auto simp: idle_def rows_upto_def)
  ultimately show ?thesis
    using rs_end
    by (auto simp: onResultStreamClose_def isResultStreamErrorRetryable_def closeStream_def stream_inv_def idle_def)
next
  case (rs_error e r)
  then have "idle cs s" "\<not> closed s" "reading s" using assms(2) by (auto simp: stream_inv_def idle_def)
  then show ?thesis
    using rs_error
    by (auto simp: onResultStreamClose_def closeStream_def stream_inv_def idle_def Let_def split: option.split)
next
  case (rs_push row)
  then obtain k i where "at_buffer cs k i s" "reading s" "\<not> waiting s" "\<not> closed s" "row = Some (cs ! k ! i)"
    "if Suc i = length (cs ! k) then rowBuffer s = None
     else rowPos s = Suc i \<and> (\<exists>b. rowBuffer s = Some b \<and> buffer_ok (cs ! k) i b)"
    using assms(2) by (auto simp: stream_inv_def idle_def)
  then show ?thesis
    using rs_push by (auto simp: at_buffer_def intro!: pushRows_inv split: if_splits)
qed

lemma initial_stream_inv: "stream_inv cs (newRowStream cs)"
  by (auto simp: stream_inv_def idle_def newRowStream_def rows_upto_def intro: exI[of _ 0])

lemma reach_stream_inv:
  assumes "rs_reach mx accept (newRowStream cs) s" "\<forall>c\<in>set cs. c \<noteq> []"
  shows "stream_inv cs s"
  using assms(1) by induction (use initial_stream_inv rs_step_inv assms(2) in blast)+

lemma rows_upto_prefix: "\<exists>xs. map Some (concat cs) = rows_upto cs k @ xs"
  by (metis append_take_drop_id concat_append map_append rows_upto_def)

lemma at_buffer_prefix:
  assumes "at_buffer cs k i s"
  shows "\<exists>xs. map Some (concat cs) = pushed s @ xs"
proof -
  have "concat cs = concat (take k cs) @ cs ! k @ concat (drop (Suc k) cs)"
    using assms by (metis at_buffer_def concat.simps(2) concat_append id_take_nth_drop)
  then have "map Some (concat cs) =
      pushed s @ map Some (drop i (cs ! k) @ concat (drop (Suc k) cs))"
    using assms by (simp add: at_buffer_def rows_upto_def) (simp flip: map_append append_assoc)
  then show ?thesis by blast
qed

section \<open>Properties\<close>

text \<open>
  C3. The row stream delivers the rows of its chunks in order and exactly once, whatever answers
  \<open>push\<close> gives and however often the chunk stream is interrupted: what has been pushed is always
  an initial part of all the rows, never a cleared buffer slot; when the stream has closed without
  an error it is all of them; and a stream that has not closed is waiting for Node to read, for a
  chunk, or for its scheduled callback, provided no chunk of the window is empty.
\<close>

theorem row_stream_in_order:
  assumes "rs_reach mx accept (newRowStream cs) s" "\<forall>c\<in>set cs. c \<noteq> []"
  shows "(\<exists>xs. map Some (concat cs) = pushed s @ xs) \<and>
    (closed s \<and> streamError s = None \<longrightarrow> pushed s = map Some (concat cs)) \<and>
    (closed s \<or> \<not> reading s \<or> waiting s \<or> scheduled s \<noteq> None)"
proof -
  have inv: "stream_inv cs s" by (rule reach_stream_inv[OF assms])
  have "\<exists>xs. map Some (concat cs) = pushed s @ xs" if "idle cs s"
    using that rows_upto_prefix by (metis idle_def)
  then have "\<exists>xs. map Some (concat cs) = pushed s @ xs"
    using inv at_buffer_prefix unfolding stream_inv_def by metis
  then show ?thesis using inv by (auto simp: stream_inv_def)
qed

lemma sample_stream_run:
  "\<exists>s. rs_reach 3 (\<lambda>n. False) (newRowStream [[1::nat]]) s \<and> pushed s = [Some 1] \<and> closed s \<and> streamError s = None"
proof -
  let ?s0 = "newRowStream [[1::nat]]"
  define s1 where "s1 = readNextRow (?s0\<lparr>reading := True\<rparr>)"
  define s2 where "s2 = onResultStreamData [1] (s1\<lparr>remaining := []\<rparr>)"
  define s3 where "s3 = pushRows (\<lambda>n. False) (Some 1) (s2\<lparr>scheduled := None\<rparr>)"
  define s4 where "s4 = readNextRow (s3\<lparr>reading := True\<rparr>)"
  define s5 where "s5 = onResultStreamClose 3 None None s4"
  note ev = newRowStream_def readNextRow_def onResultStreamData_def processRowBuffer_def pushRows_def
    onResultStreamClose_def isResultStreamErrorRetryable_def closeStream_def
  have "rs_step 3 (\<lambda>n. False) ?s0 Read s1" unfolding s1_def by (rule rs_read) (simp_all add: ev)
  moreover have "rs_step 3 (\<lambda>n. False) s1 ChunkData s2" unfolding s2_def by (rule rs_data) (simp_all add: s1_def ev)
  moreover have "rs_step 3 (\<lambda>n. False) s2 PushTick s3" unfolding s3_def by (rule rs_push) (simp add: s2_def s1_def ev)
  moreover have "rs_step 3 (\<lambda>n. False) s3 Read s4" unfolding s4_def
    by (rule rs_read) (simp_all add: s3_def s2_def s1_def ev)
  moreover have "rs_step 3 (\<lambda>n. False) s4 ChunkData s5" unfolding s5_def
    by (rule rs_end) (simp_all add: s4_def s3_def s2_def s1_def ev)
  ultimately have "rs_reach 3 (\<lambda>n. False) ?s0 s5" by (meson rs_refl rs_trans)
  moreover have "pushed s5 = [Some 1]" "closed s5" "streamError s5 = None"
    by (simp_all add: s5_def s4_def s3_def s2_def s1_def ev)
  ultimately show ?thesis by blast
qed

theorem row_stream_in_order_witness:
  "\<exists>s. rs_reach 3 (\<lambda>n. False) (newRowStream [[1::nat]]) s \<and> closed s \<and> pushed s = map Some (concat [[1]])"
proof -
  obtain s where "rs_reach 3 (\<lambda>n. False) (newRowStream [[1::nat]]) s" "closed s" "streamError s = None"
    using sample_stream_run by blast
  with row_stream_in_order[OF this(1)] show ?thesis by (intro exI[of _ s]) simp
qed

text \<open>
  An empty chunk stalls the row stream: once it has arrived, nothing is pushed, the stream is
  neither closed nor waiting for anything, and Node will not read again.
\<close>

theorem empty_chunk_stalls_stream:
  "\<exists>s. rs_reach mx accept (newRowStream ([] # cs)) s \<and> pushed s = [] \<and> \<not> closed s \<and>
     reading s \<and> \<not> waiting s \<and> scheduled s = None \<and> remaining s = cs \<and>
     (\<forall>e s'. \<not> rs_step mx accept s e s')"
proof -
  let ?s0 = "newRowStream ([] # cs)"
  define s1 where "s1 = readNextRow (?s0\<lparr>reading := True\<rparr>)"
  define s2 where "s2 = onResultStreamData [] (s1\<lparr>remaining := cs\<rparr>)"
  define s3 where "s3 = pushRows accept None (s2\<lparr>scheduled := None\<rparr>)"
  note ev = newRowStream_def readNextRow_def onResultStreamData_def processRowBuffer_def
  have "rs_step mx accept ?s0 Read s1" unfolding s1_def by (rule rs_read) (simp_all add: ev)
  moreover have "rs_step mx accept s1 ChunkData s2" unfolding s2_def by (rule rs_data) (simp_all add: s1_def ev)
  moreover have "rs_step mx accept s2 PushTick s3" unfolding s3_def by (rule rs_push) (simp add: s2_def s1_def ev)
  ultimately have "rs_reach mx accept ?s0 s3" by (meson rs_refl rs_trans)
  moreover have f: "pushed s3 = []" "\<not> closed s3" "reading s3" "\<not> waiting s3" "scheduled s3 = None"
    "remaining s3 = cs"
    by (simp_all add: s3_def s2_def s1_def ev pushRows_def pushLoop.simps[of _ "[]"])
  moreover have "\<not> rs_step mx accept s3 e s'" for e s'
    using f by (auto elim: rs_stepE)
  ultimately show ?thesis by blast
qed

text \<open>
  Which interruptions are retried: of the errors a chunk download can end with, the row
  stream retries exactly those whose response had status 403; a connection reset or timeout is
  wrapped into a network error with a code of its own, so the test for \<open>ECONNRESET\<close> and
  \<open>ETIMEDOUT\<close> never holds for a download.
\<close>

theorem only_forbidden_downloads_are_retried:
  "isResultStreamErrorRetryable (fst (final_answer r)) \<longleftrightarrow> (\<exists>t. rep_response r = Some (403, t))"
  by (auto simp: isResultStreamErrorRetryable_def final_answer_def reply_failed_def
      isUnsuccessfulResponse_def isLargeResultSetError_def createLargeResultSetError_def
      createNetworkError_def split: option.splits)

end
