(* ===== verification/TimestampModel.thy ===== *)
theory TimestampModel
  imports Complex_Main Prelude "HOL-Library.Sublist"
begin

text \<open>
  Dates, times and timestamps: the SQL output formats (\<open>lib/connection/result/datetime_format_converter.js\<close>),
  the timestamp object (\<open>lib/connection/result/sf_timestamp.js\<close>) and the conversion of raw column
  values to it (\<open>convertRawDate\<close>, \<open>convertRawTime\<close>, \<open>convertRawTimestamp*\<close> of \<open>column.js\<close>).

  A raw value is the rational number its decimal text denotes (the code reads it with the bignumber.js
  package, exactly); the seconds handed to the timestamp are an integer.  The moment library is the
  parameter \<open>momentFormat\<close>: the text of an instant, in a zone, for a moment format.
\<close>

section \<open>Output formats\<close>

definition formatTagsMap :: "(string \<times> string) list" where
  "formatTagsMap =
     [(''YYYY'', ''YYYY''), (''YY'', ''YY''), (''MM'', ''MM''), (''MON'', ''MMM''), (''DD'', ''DD''),
      (''DY'', ''ddd''), (''HH24'', ''HH''), (''HH12'', ''hh''), (''HH'', ''HH''), (''AM'', ''A''),
      (''PM'', ''A''), (''MI'', ''mm''), (''SS'', ''ss''), (''TZH:TZM'', ''Z''), (''TZHTZM'', ''ZZ''),
      (''TZH'', ''''), (''TZM'', ''''), (''FF'', '''')]"

text \<open>\<open>toUpperCase\<close> on the ASCII letters.\<close>

definition upperChar :: "char \<Rightarrow> char" where
  "upperChar c =
     (let n = of_char c :: nat in if 97 \<le> n \<and> n \<le> 122 then char_of (n - 32) else c)"

definition findTag :: "string \<Rightarrow> (string \<times> string) option" where
  "findTag s = find (\<lambda>(tag, out). prefix tag (map upperChar s)) formatTagsMap"

text \<open>The last n characters, \<open>substr(-n)\<close>, for positive n.\<close>

definition lastChars :: "nat \<Rightarrow> string \<Rightarrow> string" where
  "lastChars n s = drop (length s - n) s"

definition fractionDigits :: "rat \<Rightarrow> nat \<Rightarrow> string" where
  "fractionDigits nano scale =
     lastChars scale (replicate 8 CHR ''0'' @ show_int \<lfloor>nano / power_int 10 (9 - int scale)\<rfloor>)"

text \<open>The digit after \<open>FF\<close>, if there is one, replaces the scale for the rest of the format.\<close>

fun ffScale :: "nat \<Rightarrow> string \<Rightarrow> nat \<times> string" where
  "ffScale scale [] = (scale, [])"
| "ffScale scale (d # ds) = (if is_digit d then (char_digit d, ds) else (scale, d # ds))"

lemma find_set: "find P xs = Some x \<Longrightarrow> x \<in> set xs \<and> P x"
  by (induction xs) (auto split: if_splits)

lemma findTag_nonempty:
  assumes "findTag s = Some (tag, out)"
  shows "0 < length tag"
proof -
  have "(tag, out) \<in> set formatTagsMap" using find_set assms unfolding findTag_def by fast
  then show ?thesis by (auto simp: formatTagsMap_def)
qed

lemma length_ffScale: "length (snd (ffScale scale s)) \<le> length s"
  by (cases s) auto

text \<open>The loop of \<open>toString\<close>; \<open>zz\<close> is what \<open>moment.format('ZZ')\<close> gives.\<close>

function formatLoop :: "string \<Rightarrow> rat \<Rightarrow> nat \<Rightarrow> string \<Rightarrow> string" where
  "formatLoop zz nano scale [] = []"
| "formatLoop zz nano scale (c # cs) =
     (case findTag (c # cs) of
        None \<Rightarrow> CHR ''['' # c # CHR '']'' # formatLoop zz nano scale cs
      | Some (tag, out) \<Rightarrow>
          (let rest = drop (length tag) (c # cs)
           in if out \<noteq> [] then out @ formatLoop zz nano scale rest
              else if tag = ''TZH'' then take 3 zz @ formatLoop zz nano scale rest
              else if tag = ''TZM'' then drop 3 zz @ formatLoop zz nano scale rest
              else (let (sc, rest') = ffScale scale rest
                    in (if sc > 0 then fractionDigits nano sc else []) @ formatLoop zz nano sc rest')))"
  by pat_completeness auto
termination
proof (relation "measure (\<lambda>(_, _, _, s). length s)", goal_cases)
  case (6 zz nano scale c cs x2 tag out rest sr sc rest')
  then show ?case
    using findTag_nonempty[of "c # cs" tag out] length_ffScale[of scale "drop (length tag) (c # cs)"]
    by (cases "ffScale scale (drop (length tag) (c # cs))") (auto simp del: drop_Cons' length_greater_0_conv)
qed (auto dest: findTag_nonempty)

text \<open>
  \<open>convertSnowflakeFormatToMomentFormat\<close>, for reading: characters stay as they are, \<open>TZH\<close> reads a
  zone, \<open>TZM\<close> nothing, and \<open>FF\<close> (whose digit is skipped) as many digits as the scale, at most eight.
\<close>

function convertSnowflakeFormatToMomentFormat :: "nat \<Rightarrow> string \<Rightarrow> string" where
  "convertSnowflakeFormatToMomentFormat scale [] = []"
| "convertSnowflakeFormatToMomentFormat scale (c # cs) =
     (case findTag (c # cs) of
        None \<Rightarrow> c # convertSnowflakeFormatToMomentFormat scale cs
      | Some (tag, out) \<Rightarrow>
          (let rest = drop (length tag) (c # cs)
           in if out \<noteq> [] then out @ convertSnowflakeFormatToMomentFormat scale rest
              else if tag = ''TZH'' then CHR ''Z'' # convertSnowflakeFormatToMomentFormat scale rest
              else if tag = ''FF'' then
                (if scale > 0 then lastChars scale (replicate 8 CHR ''S'') else []) @
                  convertSnowflakeFormatToMomentFormat scale (snd (ffScale scale rest))
              else convertSnowflakeFormatToMomentFormat scale rest))"
  by pat_completeness auto
termination
proof (relation "measure (\<lambda>(_, s). length s)", goal_cases)
  case (5 scale c cs x2 tag out rest)
  then show ?case
    using findTag_nonempty[of "c # cs" tag out] length_ffScale[of scale "drop (length tag) (c # cs)"]
    by (cases "ffScale scale (drop (length tag) (c # cs))") (auto simp del: drop_Cons' length_greater_0_conv)
qed (auto dest: findTag_nonempty)

section \<open>The timestamp object\<close>

text \<open>A timezone argument: a name, an offset in minutes, or a zone object of the moment library.\<close>

datatype timezone = TzUndefined | TzName string | TzOffset rat | TzZone string

datatype moment_zone = LocalZone | NamedZone string | OffsetZone rat

record sf_timestamp =
  epochSeconds :: int
  nanoSeconds :: rat
  ts_scale :: nat
  ts_timezone :: timezone
  ts_format :: string
  momentMillis :: int
  momentZone :: moment_zone
  valueAsString :: "string option"

definition trunc :: "rat \<Rightarrow> int" where
  "trunc x = (if x < 0 then \<lceil>x\<rceil> else \<lfloor>x\<rfloor>)"

definition newSfTimestamp ::
  "int option \<Rightarrow> rat option \<Rightarrow> nat option \<Rightarrow> timezone \<Rightarrow> string option \<Rightarrow> sf_timestamp"
where
  "newSfTimestamp secs nanos scale tz format =
     (let s = (case secs of None \<Rightarrow> 0 | Some x \<Rightarrow> x); n = (case nanos of None \<Rightarrow> 0 | Some x \<Rightarrow> x)
      in \<lparr>epochSeconds = s, nanoSeconds = n,
          ts_scale = (case scale of None \<Rightarrow> 0 | Some x \<Rightarrow> x), ts_timezone = tz,
          ts_format = (case format of None \<Rightarrow> [] | Some x \<Rightarrow> x),
          momentMillis = s * 1000 + trunc (n / 1000000),
          momentZone = (case tz of TzName z \<Rightarrow> NamedZone z | TzOffset o' \<Rightarrow> OffsetZone o' | _ \<Rightarrow> LocalZone),
          valueAsString = None\<rparr>)"

text \<open>\<open>this.timezone.name || this.timezone\<close> as the zone to format in, and \<open>None\<close> if it is falsy.\<close>

definition formatZone :: "timezone \<Rightarrow> moment_zone option js" where
  "formatZone tz =
     (case tz of
        TzUndefined \<Rightarrow> Inl TypeError
      | TzName z \<Rightarrow> Inr (if z = [] then None else Some (NamedZone z))
      | TzOffset m \<Rightarrow> Inr (if m = 0 then None else Some (OffsetZone m))
      | TzZone z \<Rightarrow> Inr (Some (NamedZone z)))"

text \<open>An empty text is not taken from the cache.\<close>

definition toString ::
  "(int \<Rightarrow> moment_zone \<Rightarrow> string \<Rightarrow> string) \<Rightarrow> sf_timestamp \<Rightarrow> (string \<times> sf_timestamp) js"
where
  "toString momentFormat ts =
     (case valueAsString ts of
        Some (c # cs) \<Rightarrow> Inr (c # cs, ts)
      | _ \<Rightarrow>
          (let zz = momentFormat (momentMillis ts) (momentZone ts) ''ZZ'';
               formatMoment = formatLoop zz (nanoSeconds ts) (ts_scale ts) (ts_format ts)
           in js_bind (formatZone (ts_timezone ts)) (\<lambda>z.
                let z' = (case z of None \<Rightarrow> momentZone ts | Some z' \<Rightarrow> z');
                    text = momentFormat (momentMillis ts) z' formatMoment
                in Inr (text, ts\<lparr>valueAsString := Some text, momentZone := z'\<rparr>))))"

section \<open>Conversion of raw values\<close>

definition convertRawTimestampHelper :: "rat \<Rightarrow> nat \<Rightarrow> timezone \<Rightarrow> string option \<Rightarrow> sf_timestamp" where
  "convertRawTimestampHelper epochFracSecs scale tz format =
     (let scaleFactor = 10 ^ scale;
          valSec = \<lfloor>epochFracSecs / scaleFactor\<rfloor>;
          fractions = epochFracSecs - of_int valSec * scaleFactor;
          valSecNano = fractions * power_int 10 (9 - int scale)
      in newSfTimestamp (Some valSec) (Some valSecNano) (Some scale) tz format)"

definition convertRawDate :: "string option \<Rightarrow> int \<Rightarrow> sf_timestamp" where
  "convertRawDate format days = newSfTimestamp (Some (days * 86400)) (Some 0) (Some 0) (TzName ''UTC'') format"

text \<open>\<open>TIME\<close> and \<open>TIMESTAMP_NTZ\<close> are read in UTC, \<open>TIMESTAMP_LTZ\<close> in the session's zone.\<close>

definition convertRawTime :: "nat \<Rightarrow> string option \<Rightarrow> rat \<Rightarrow> sf_timestamp" where
  "convertRawTime scale format x = convertRawTimestampHelper (x * 10 ^ scale) scale (TzName ''UTC'') format"

definition convertRawTimestampNtz :: "nat \<Rightarrow> string option \<Rightarrow> rat \<Rightarrow> sf_timestamp" where
  "convertRawTimestampNtz scale format x =
     convertRawTimestampHelper (x * 10 ^ scale) scale (TzName ''UTC'') format"

definition convertRawTimestampLtz :: "nat \<Rightarrow> timezone \<Rightarrow> string option \<Rightarrow> rat \<Rightarrow> sf_timestamp" where
  "convertRawTimestampLtz scale tz format x =
     convertRawTimestampHelper (x * 10 ^ scale) scale tz format"

text \<open>The remainder with the sign of the dividend, as \<open>BigNumber.modulo\<close> computes it.\<close>

definition bigModulo :: "rat \<Rightarrow> rat \<Rightarrow> rat" where
  "bigModulo x y = x - y * of_int (trunc (x / y))"

text \<open>
  A \<open>TIMESTAMP_TZ\<close> value: one number with the zone index in its lowest 14 bits (result version 0 or
  none), or the number and the zone index as two words, the second of which may be no number.
\<close>

datatype raw_tz = OneNumber rat | TwoNumbers rat "rat option"

definition splitTz :: "nat \<Rightarrow> raw_tz \<Rightarrow> rat \<times> rat option" where
  "splitTz scale raw =
     (case raw of
        OneNumber x \<Rightarrow>
          (let v = x * 10 ^ scale
           in (of_int \<lfloor>v / 16384\<rfloor>,
              Some (if v \<ge> 0 then bigModulo v 16384 else bigModulo v 16384 + 16384)))
      | TwoNumbers x z \<Rightarrow> (x * 10 ^ scale, z))"

definition convertRawTimestampTz :: "nat \<Rightarrow> string option \<Rightarrow> raw_tz \<Rightarrow> sf_timestamp js" where
  "convertRawTimestampTz scale format raw =
     (let (fracSecs, z) = splitTz scale raw
      in case z of
           None \<Rightarrow> Inl AssertionError
         | Some m \<Rightarrow>
             if 0 \<le> m \<and> m \<le> 2880
             then Inr (convertRawTimestampHelper fracSecs scale (TzOffset (m - 1440)) format)
             else Inl AssertionError)"

section \<open>Facts about digits\<close>



section \<open>Facts about conversions\<close>

lemma trunc_nonneg: "0 \<le> x \<Longrightarrow> trunc x = \<lfloor>x\<rfloor>"
  by (simp add: trunc_def)



lemma bigModulo_int:
  "0 \<le> w \<Longrightarrow> bigModulo (of_int w) 16384 = of_int (w mod 16384)"
  "w < 0 \<Longrightarrow> bigModulo (of_int w) 16384 = of_int (- ((- w) mod 16384))"
proof -
  assume "0 \<le> w"
  then have "trunc (of_int w / 16384) = w div 16384"
    using floor_divide_of_int_eq[of w 16384, where ?'a = rat] by (subst trunc_nonneg) simp_all
  moreover have "(of_int w :: rat) = of_int (w mod 16384 + 16384 * (w div 16384))" by simp
  ultimately show "bigModulo (of_int w) 16384 = of_int (w mod 16384)"
    unfolding bigModulo_def by (metis (no_types, lifting) add_diff_cancel_right' of_int_add of_int_mult of_int_numeral)
next
  assume "w < 0"
  then have "trunc (of_int w / 16384) = - ((- w) div 16384)"
    using floor_divide_of_int_eq[of "- w" 16384, where ?'a = rat] by (simp add: trunc_def ceiling_def)
  moreover have "w = - ((- w) mod 16384) + 16384 * (- ((- w) div 16384))"
    using mult_div_mod_eq[of 16384 "- w"] by linarith
  then have "(of_int w :: rat) = of_int (- ((- w) mod 16384)) + 16384 * of_int (- ((- w) div 16384))"
    by (metis of_int_add of_int_mult of_int_numeral)
  ultimately show "bigModulo (of_int w) 16384 = of_int (- ((- w) mod 16384))"
    unfolding bigModulo_def by simp
qed

lemma splitTz_packed:
  assumes "0 \<le> z" "z < 16384"
  shows "splitTz scale (OneNumber (of_int (v * 16384 + z) / 10 ^ scale)) =
    (of_int v, Some (if v < 0 \<and> z = 0 then 16384 else of_int z))"
proof -
  let ?w = "v * 16384 + z"
  have w: "of_int ?w / 10 ^ scale * 10 ^ scale = (of_int ?w :: rat)" by simp
  have f: "\<lfloor>(of_int ?w :: rat) / 16384\<rfloor> = v"
    using floor_divide_of_int_eq[of ?w 16384, where ?'a = rat] assms by simp
  have s: "?w \<ge> 0 \<longleftrightarrow> v \<ge> 0" using assms by auto
  have m: "?w mod 16384 = z" using assms by simp
  have n: "(- ?w) mod 16384 = (if z = 0 then 0 else 16384 - z)"
    using assms by (subst zmod_zminus1_eq_if) simp
  show ?thesis
    using bigModulo_int[of ?w] s
    unfolding splitTz_def raw_tz.case Let_def w f of_int_0_le_iff m n by auto
qed

lemma find_first:
  assumes "find P xs = Some x" "sorted_wrt R xs" "y \<in> set xs" "P y"
  shows "y = x \<or> R x y"
  using assms by (induction xs) (auto split: if_splits)

section \<open>Properties\<close>



text \<open>
  The two encodings of a timestamp with zone agree: a number whose lowest 14 bits hold the zone
  index z (at most 2880 minutes) decodes to the same timestamp as the two words, with an offset of
  z - 1440 minutes, for negative numbers too; any other index fails the assertion, and so does index
  0 of a negative number, where the remainder is 0 and the correction turns it into 16384.
\<close>

theorem timestamp_tz_encodings_agree:
  assumes "0 \<le> z" "z < 16384"
  shows "convertRawTimestampTz scale format (TwoNumbers (of_int v / 10 ^ scale) (Some (of_int z))) =
      (if z \<le> 2880 then Inr (convertRawTimestampHelper (of_int v) scale (TzOffset (of_int z - 1440)) format)
       else Inl AssertionError) \<and>
    convertRawTimestampTz scale format (OneNumber (of_int (v * 16384 + z) / 10 ^ scale)) =
      (if v < 0 \<and> z = 0 then Inl AssertionError
       else convertRawTimestampTz scale format (TwoNumbers (of_int v / 10 ^ scale) (Some (of_int z))))"
proof -
  have "(of_int z :: rat) \<le> 2880 \<longleftrightarrow> z \<le> 2880" by (metis of_int_le_iff of_int_numeral)
  then show ?thesis
    using splitTz_packed[OF assms, of scale v] assms(1)
    by (simp add: convertRawTimestampTz_def splitTz_def del: of_int_add of_int_mult)
qed

theorem timestamp_tz_encodings_agree_witness:
  "convertRawTimestampTz 0 None (OneNumber (of_int (- 5 * 16384 + 1440))) =
   Inr (convertRawTimestampHelper (of_int (- 5)) 0 (TzOffset (of_int 1440 - 1440)) None)"
  using timestamp_tz_encodings_agree[of 1440 0 None "- 5"] by simp

text \<open>
  A format is read longest tag first: the tag found at a position is the longest one that
  starts there, in any letter case, although the table is searched in order; nothing is found only
  where no tag starts.
\<close>

theorem longest_tag_found:
  "case findTag s of
     None \<Rightarrow> (\<forall>(tag, out)\<in>set formatTagsMap. \<not> prefix tag (map upperChar s))
   | Some (tag, out) \<Rightarrow> (tag, out) \<in> set formatTagsMap \<and> prefix tag (map upperChar s) \<and>
       (\<forall>(tag', out')\<in>set formatTagsMap. prefix tag' (map upperChar s) \<longrightarrow> length tag' \<le> length tag)"
proof (cases "findTag s")
  case None
  moreover from this have "\<not> (\<exists>q. q \<in> set formatTagsMap \<and> (\<lambda>(tag, out). prefix tag (map upperChar s)) q)"
    unfolding findTag_def find_None_iff .
  ultimately show ?thesis by auto
next
  case (Some p)
  then have f: "find (\<lambda>(tag, out). prefix tag (map upperChar s)) formatTagsMap = Some p"
    by (simp add: findTag_def)
  have "sorted_wrt (\<lambda>a b. \<not> strict_prefix (fst a) (fst b)) formatTagsMap"
    by (simp add: formatTagsMap_def strict_prefix_def)
  note longer_first = find_first[OF f this]
  have "length (fst q) \<le> length (fst p)"
    if "q \<in> set formatTagsMap" "prefix (fst q) (map upperChar s)" for q
  proof (rule ccontr)
    assume less: "\<not> length (fst q) \<le> length (fst p)"
    then have "q \<noteq> p" by auto
    then have "\<not> strict_prefix (fst p) (fst q)"
      using longer_first[OF that(1)] that(2) by (simp add: case_prod_beta)
    moreover have "prefix (fst p) (map upperChar s)" using find_set[OF f] by (simp add: case_prod_beta)
    then have "prefix (fst p) (fst q)" by (rule prefix_length_prefix[OF _ that(2)]) (use less in simp)
    ultimately show False using less by (auto simp: strict_prefix_def)
  qed
  then show ?thesis using find_set[OF f] Some by (simp add: case_prod_beta)
qed

end
