(* ===== verification/ColumnModel.thy ===== *)
theory ColumnModel
  imports TimestampModel "HOL-Library.Log_Nat"
begin

text \<open>
  Columns: the SQL and native types (\<open>lib/connection/result/data_types.js\<close>), the choice of the
  conversions of a column, the conversion of numbers, booleans and structured types, and the reading
  of a column value from a row with its cache (\<open>lib/connection/result/column.js\<close>), and the rows
  handed out by the row stream (\<open>lib/connection/result/row_stream.js\<close>).
\<close>

section \<open>Types\<close>

definition sqlTypeValues :: "string list" where
  "sqlTypeValues = [''text'', ''binary'', ''boolean'', ''fixed'', ''real'', ''date'', ''time'', ''timestamp_ltz'',
     ''timestamp_ntz'', ''timestamp_tz'', ''variant'', ''object'', ''array'', ''map'']"

definition isNumberType :: "string \<Rightarrow> bool" where
  "isNumberType t \<longleftrightarrow> t = ''fixed'' \<or> t = ''real''"

definition isTimestampType :: "string \<Rightarrow> bool" where
  "isTimestampType t \<longleftrightarrow> t = ''timestamp_ltz'' \<or> t = ''timestamp_ntz'' \<or> t = ''timestamp_tz''"

definition isVariant :: "string \<Rightarrow> 'f option \<Rightarrow> bool" where
  "isVariant t metaFields \<longleftrightarrow> t = ''variant'' \<or> (t = ''object'' \<and> metaFields = None) \<or>
     (t = ''array'' \<and> metaFields = None) \<or> (t = ''map'' \<and> metaFields = None)"

definition isStructured :: "string \<Rightarrow> string \<Rightarrow> 'f option \<Rightarrow> bool" where
  "isStructured kind t metaFields \<longleftrightarrow> t = kind \<and> metaFields \<noteq> None"

definition nativeTypeValues :: "string list" where
  "nativeTypeValues = [''STRING'', ''BOOLEAN'', ''NUMBER'', ''DATE'', ''JSON'', ''BUFFER'', ''OBJECT'', ''ARRAY'', ''MAP'']"

definition isValidValue :: "string \<Rightarrow> bool" where
  "isValidValue v \<longleftrightarrow> map upperChar v \<in> set nativeTypeValues"

definition toNativeType :: "string \<Rightarrow> string option" where
  "toNativeType = map_of [(''text'', ''STRING''), (''binary'', ''BUFFER''), (''boolean'', ''BOOLEAN''),
     (''fixed'', ''NUMBER''), (''real'', ''NUMBER''), (''date'', ''DATE''), (''time'', ''STRING''),
     (''timestamp_ltz'', ''DATE''), (''timestamp_ntz'', ''DATE''), (''timestamp_tz'', ''DATE''),
     (''variant'', ''JSON''), (''object'', ''OBJECT''), (''array'', ''ARRAY''), (''map'', ''MAP'')]"

section \<open>The conversions of a column\<close>

datatype convert_fn = convertRawNumberFn | convertRawBigIntFn | convertRawTimeFn | convertRawBooleanFn
  | convertRawDateFn | convertRawTimestampLtzFn | convertRawTimestampNtzFn | convertRawTimestampTzFn
  | convertRawBinaryFn | convertRawVariantFn | convertJsonObjectFn | convertJsonArrayFn | convertJsonMapFn
  | noopFn

datatype string_fn = toStringFromNumberFn | toStringFromTimeFn | toStringFromBooleanFn | toStringFromDateFn
  | toStringFromTimestampFn | toStringFromBinaryFn | toStringFromRawValueFn | toStringFromStringFn

datatype value_fn = toValueFromNumberFn | toValueFromTimeFn | noopValueFn

record column_context =
  ctx_convert :: convert_fn
  ctx_toString :: string_fn
  ctx_toValue :: value_fn
  ctx_format :: "string option"

text \<open>\<open>params\<close> gives the output formats among the statement parameters.\<close>

definition columnContext ::
  "string \<Rightarrow> nat \<Rightarrow> 'f option \<Rightarrow> bool \<Rightarrow> (string \<Rightarrow> string option) \<Rightarrow> column_context"
where
  "columnContext t scale metaFields integerAsBigInt params =
     (let ctx = (\<lambda>c s v f. \<lparr>ctx_convert = c, ctx_toString = s, ctx_toValue = v, ctx_format = f\<rparr>);
          stamp = (\<lambda>f. if nonempty_str (params f) then params f else params ''TIMESTAMP_OUTPUT_FORMAT'')
      in if isNumberType t then
           ctx (if \<not> integerAsBigInt then convertRawNumberFn
                else if scale > 0 \<or> t = ''real'' then convertRawNumberFn else convertRawBigIntFn)
             toStringFromNumberFn toValueFromNumberFn None
         else if t = ''time'' then
           ctx convertRawTimeFn toStringFromTimeFn toValueFromTimeFn (params ''TIME_OUTPUT_FORMAT'')
         else if t = ''boolean'' then ctx convertRawBooleanFn toStringFromBooleanFn noopValueFn None
         else if t = ''date'' then
           ctx convertRawDateFn toStringFromDateFn noopValueFn (params ''DATE_OUTPUT_FORMAT'')
         else if t = ''timestamp_ltz'' then
           ctx convertRawTimestampLtzFn toStringFromTimestampFn noopValueFn (stamp ''TIMESTAMP_LTZ_OUTPUT_FORMAT'')
         else if t = ''timestamp_ntz'' then
           ctx convertRawTimestampNtzFn toStringFromTimestampFn noopValueFn (stamp ''TIMESTAMP_NTZ_OUTPUT_FORMAT'')
         else if t = ''timestamp_tz'' then
           ctx convertRawTimestampTzFn toStringFromTimestampFn noopValueFn (stamp ''TIMESTAMP_TZ_OUTPUT_FORMAT'')
         else if t = ''binary'' then
           ctx convertRawBinaryFn toStringFromBinaryFn noopValueFn (params ''BINARY_OUTPUT_FORMAT'')
         else if isVariant t metaFields then ctx convertRawVariantFn toStringFromRawValueFn noopValueFn None
         else if isStructured ''object'' t metaFields then
           ctx convertJsonObjectFn toStringFromRawValueFn noopValueFn None
         else if isStructured ''array'' t metaFields then
           ctx convertJsonArrayFn toStringFromRawValueFn noopValueFn None
         else if isStructured ''map'' t metaFields then
           ctx convertJsonMapFn toStringFromRawValueFn noopValueFn None
         else ctx noopFn toStringFromStringFn noopValueFn None)"

section \<open>Integers read as numbers\<close>

text \<open>
  \<open>Number(text)\<close> of an integer: the nearest double, ties to the even significand, and infinity
  (\<open>None\<close>) from 2^1024 on.
\<close>

definition roundSignificand :: "nat \<Rightarrow> nat" where
  "roundSignificand n =
     (if n < 2 ^ 53 then n
      else let u = 2 ^ (floorlog 2 n - 53); q = n div u; r = n mod u
           in (if 2 * r > u \<or> (2 * r = u \<and> odd q) then q + 1 else q) * u)"

definition numberOfInteger :: "int \<Rightarrow> int option" where
  "numberOfInteger n =
     (let m = roundSignificand (nat \<bar>n\<bar>)
      in if m < 2 ^ 1024 then Some (sgn n * int m) else None)"

definition isSafeInteger :: "int \<Rightarrow> bool" where
  "isSafeInteger n \<longleftrightarrow> \<bar>n\<bar> \<le> 2 ^ 53 - 1"

text \<open>The value and whether \<open>onPrecisionLoss\<close> was called.\<close>

definition convertRawNumber :: "int \<Rightarrow> int option \<times> bool" where
  "convertRawNumber raw =
     (let v = numberOfInteger raw
      in (v, case v of None \<Rightarrow> False | Some m \<Rightarrow> \<not> isSafeInteger m))"

section \<open>Booleans\<close>

text \<open>A parsed JSON value; numbers are the rationals their doubles denote.\<close>

datatype json =
  JNull | JBool bool | JNum rat | JStr string | JArr "json list" | JObj "(string \<times> json) list"

text \<open>\<open>toUpperCase\<close> exists on strings only.\<close>

definition json_upper :: "json \<Rightarrow> string js" where
  "json_upper v = (case v of JStr s \<Rightarrow> Inr (map upperChar s) | _ \<Rightarrow> Inl TypeError)"

definition js_or :: "bool js \<Rightarrow> bool js \<Rightarrow> bool js" where
  "js_or a b = js_bind a (\<lambda>x. if x then Inr True else b)"

definition convertRawBoolean :: "json \<Rightarrow> bool js" where
  "convertRawBoolean v =
     js_bind (js_or (Inr (v = JBool True)) (js_or (Inr (v = JStr ''1''))
               (js_bind (json_upper v) (\<lambda>s. Inr (s = ''TRUE'')))))
       (\<lambda>t. if t then Inr True
            else js_bind (js_or (Inr (v = JBool False)) (js_or (Inr (v = JStr ''0''))
                   (js_bind (json_upper v) (\<lambda>s. Inr (s = ''FALSE'')))))
              (\<lambda>f. if f then Inr False else Inl PlainError))"

section \<open>Structured types\<close>

datatype field_meta =
  Field (fm_name: string) (fm_type: string) (fm_scale: "nat option") (fm_fields: "field_meta list option")

text \<open>
  \<open>context.fieldsMetadata\<close>: absent, the array the server sent, or the object by field name that
  \<open>convertJsonObject\<close> puts in its place.
\<close>

datatype fields_ctx = NoFields | FieldsArray "field_meta list" | FieldsMap "string \<rightharpoonup> field_meta"

definition ctx_of :: "field_meta list option \<Rightarrow> fields_ctx" where
  "ctx_of fs = (case fs of None \<Rightarrow> NoFields | Some l \<Rightarrow> FieldsArray l)"

text \<open>
  The converted value of a structured type: a value left as parsed, a number (\<open>None\<close> is NaN), a
  boolean, a date or time with the text the code keeps, or an object, array or \<open>Map\<close>.
\<close>

datatype 't sval =
    SJson json
  | SNumber "rat option"
  | SBool bool
  | STime 't
  | SObject "(string \<times> 't sval) list"
  | SArray "'t sval list"
  | SMap "('t sval \<times> 't sval) list"

text \<open>\<open>Number(x)\<close>; the reading of a text is the standard library's, \<open>parseNumber\<close>.\<close>

definition jsNumber :: "(string \<Rightarrow> rat option) \<Rightarrow> json \<Rightarrow> rat option" where
  "jsNumber parseNumber v =
     (case v of
        JNull \<Rightarrow> Some 0
      | JBool b \<Rightarrow> Some (if b then 1 else 0)
      | JNum r \<Rightarrow> Some r
      | JStr s \<Rightarrow> parseNumber s
      | JArr [] \<Rightarrow> Some 0
      | _ \<Rightarrow> None)"

text \<open>
  The scalar cases of \<open>mapStructuredTypeValue\<close>.  \<open>readTime\<close> is the reading of the date and time
  types other than \<open>date\<close> by the moment library and of \<open>binary\<close>; \<open>convertDateString\<close> names a
  variable \<open>context\<close> that does not exist in its scope.
\<close>

definition scalarTypes :: "string list" where
  "scalarTypes = [''text'', ''real'', ''fixed'', ''boolean'', ''timestamp_ltz'', ''timestamp_ntz'', ''timestamp_tz'',
     ''date'', ''time'', ''binary'']"

definition mapScalarValue ::
  "(string \<Rightarrow> rat option) \<Rightarrow> (field_meta \<Rightarrow> json \<Rightarrow> 't js) \<Rightarrow> field_meta \<Rightarrow> json \<Rightarrow> 't sval js"
where
  "mapScalarValue parseNumber readTime m v =
     (if fm_type m = ''text'' then Inr (SJson v)
      else if fm_type m = ''real'' \<or> fm_type m = ''fixed'' then Inr (SNumber (jsNumber parseNumber v))
      else if fm_type m = ''boolean'' then js_bind (convertRawBoolean v) (\<lambda>b. Inr (SBool b))
      else if fm_type m = ''date'' then Inl ReferenceError
      else js_bind (readTime m v) (\<lambda>t. Inr (STime t)))"

fun js_map :: "('a \<Rightarrow> 'b js) \<Rightarrow> 'a list \<Rightarrow> 'b list js" where
  "js_map f [] = Inr []"
| "js_map f (x # xs) = js_bind (f x) (\<lambda>y. js_bind (js_map f xs) (\<lambda>ys. Inr (y # ys)))"

lemma js_map_cong [fundef_cong]:
  "xs = ys \<Longrightarrow> (\<And>x. x \<in> set ys \<Longrightarrow> f x = g x) \<Longrightarrow> js_map f xs = js_map g ys"
  by (induction xs arbitrary: ys) (auto intro!: js_bind_cong)

text \<open>\<open>reduce\<close> into an object: a later field of the same name wins.\<close>

definition fieldsByName :: "field_meta list \<Rightarrow> string \<rightharpoonup> field_meta" where
  "fieldsByName fs = map_of (rev (map (\<lambda>m. (fm_name m, m)) fs))"

text \<open>\<open>Object.keys\<close> with the values; the keys of a text or array are its indices.\<close>

definition js_entries :: "json \<Rightarrow> (string \<times> json) list js" where
  "js_entries v =
     (case v of
        JNull \<Rightarrow> Inl TypeError
      | JObj kvs \<Rightarrow> Inr kvs
      | JArr xs \<Rightarrow> Inr (map (\<lambda>i. (show_nat i, xs ! i)) [0..<length xs])
      | JStr s \<Rightarrow> Inr (map (\<lambda>i. (show_nat i, JStr [s ! i])) [0..<length s])
      | _ \<Rightarrow> Inr [])"

lemma member_size: "f \<in> set fs \<Longrightarrow> fm_fields m = Some fs \<Longrightarrow> size f < size m"
  by (cases m) (auto dest: size_list_estimation'[of f fs _ size])

lemma fieldsByName_member: "fieldsByName fs k = Some f \<Longrightarrow> f \<in> set fs"
  unfolding fieldsByName_def by (auto dest!: map_of_SomeD)

lemma field_meta_size: "0 < size (m :: field_meta)"
  by (cases m) simp

lemma fieldsByName_size: "fm_fields m = Some fs \<Longrightarrow> size_option size (fieldsByName fs k) < Suc (size m)"
  by (cases "fieldsByName fs k")
    (auto dest!: fieldsByName_member member_size[of _ _ m] intro: less_SucI field_meta_size)

text \<open>
  The conversion of a value along its metadata.  Every nested object, array or map gets a context of
  its own, so only the context of the column itself survives from one row to the next.
\<close>

function mapStructuredTypeValue ::
  "(string \<Rightarrow> rat option) \<Rightarrow> (field_meta \<Rightarrow> json \<Rightarrow> 't js) \<Rightarrow> field_meta option \<Rightarrow> json \<Rightarrow> 't sval js"
where
  "mapStructuredTypeValue num tm None v = Inl TypeError"
| "mapStructuredTypeValue num tm (Some m) v =
     (if fm_type m \<in> set scalarTypes then mapScalarValue num tm m v
      else if fm_type m = ''object'' then
        (case fm_fields m of
           None \<Rightarrow> Inr (SJson v)
         | Some fs \<Rightarrow>
             js_bind (js_entries v) (\<lambda>kvs.
               js_bind (js_map (\<lambda>(k, x). js_bind (mapStructuredTypeValue num tm (fieldsByName fs k) x)
                                  (\<lambda>y. Inr (k, y))) kvs) (\<lambda>ys. Inr (SObject ys))))
      else if fm_type m = ''array'' then
        (case fm_fields m of
           None \<Rightarrow> Inr (SJson v)
         | Some fs \<Rightarrow>
             (case v of
                JArr xs \<Rightarrow>
                  js_bind (js_map (mapStructuredTypeValue num tm (if fs = [] then None else Some (hd fs))) xs)
                    (\<lambda>ys. Inr (SArray ys))
              | _ \<Rightarrow> Inl TypeError))
      else if fm_type m = ''map'' then
        (case fm_fields m of
           Some [km, vm] \<Rightarrow>
             js_bind (js_entries v) (\<lambda>kvs.
               js_bind (js_map (\<lambda>(k, x).
                   js_bind (mapStructuredTypeValue num tm (Some km) (JStr k)) (\<lambda>k'.
                     js_bind (mapStructuredTypeValue num tm (Some vm) x) (\<lambda>x'. Inr (k', x')))) kvs)
                 (\<lambda>ys. Inr (SMap ys)))
         | _ \<Rightarrow> Inr (SJson v))
      else Inl PlainError)"
  by pat_completeness auto

termination
  by (relation "measure (\<lambda>(_, _, m, v). size_option size m)")
    (auto intro: fieldsByName_size field_meta_size member_size[OF hd_in_set]
      member_size[of _ "[_, _]"])

text \<open>\<open>convertJsonObject\<close> on the context of the column, with the context it leaves behind.\<close>

definition convertJsonObject ::
  "(string \<Rightarrow> rat option) \<Rightarrow> (field_meta \<Rightarrow> json \<Rightarrow> 't js) \<Rightarrow> json \<Rightarrow> fields_ctx \<Rightarrow> 't sval js \<times> fields_ctx"
where
  "convertJsonObject num tm v ctx =
     (case ctx of
        NoFields \<Rightarrow> (Inr (SJson v), ctx)
      | FieldsMap _ \<Rightarrow> (Inl TypeError, ctx)
      | FieldsArray fs \<Rightarrow>
          (js_bind (js_entries v) (\<lambda>kvs.
             js_bind (js_map (\<lambda>(k, x). js_bind (mapStructuredTypeValue num tm (fieldsByName fs k) x)
                                (\<lambda>y. Inr (k, y))) kvs) (\<lambda>ys. Inr (SObject ys))),
           FieldsMap (fieldsByName fs)))"

text \<open>
  \<open>convertRawStructuredType(convertJsonObject)\<close>; \<open>parseJson\<close> is \<open>JSON.parse\<close>.
\<close>

definition convertRawObject ::
  "(string \<Rightarrow> json js) \<Rightarrow> (string \<Rightarrow> rat option) \<Rightarrow> (field_meta \<Rightarrow> json \<Rightarrow> 't js) \<Rightarrow> string \<Rightarrow> fields_ctx \<Rightarrow>
   't sval js \<times> fields_ctx"
where
  "convertRawObject parseJson num tm raw ctx =
     (if raw = [] then (Inl PlainError, ctx)
      else case parseJson raw of
             Inl e \<Rightarrow> (Inl PlainError, ctx)
           | Inr v \<Rightarrow>
               (let (r, ctx') = convertJsonObject num tm v ctx
                in (case r of Inl e \<Rightarrow> Inl PlainError | Inr x \<Rightarrow> Inr x, ctx')))"

section \<open>Reading a value from a row\<close>






section \<open>Rows of the row stream\<close>

definition extractAsString :: "string list option \<Rightarrow> string \<Rightarrow> bool" where
  "extractAsString fetchAsString t =
     (case fetchAsString of
        None \<Rightarrow> False
      | Some ts \<Rightarrow> (case toNativeType t of None \<Rightarrow> False | Some n \<Rightarrow> n \<in> set (map (map upperChar) ts)))"

definition buildMapColumnExtractFnNames :: "string list \<Rightarrow> string list option \<Rightarrow> bool list" where
  "buildMapColumnExtractFnNames types fetchAsString = map (extractAsString fetchAsString) types"

datatype 'v out_row = ArrayRow "'v list" | ObjectRow "string \<rightharpoonup> 'v"

text \<open>The row of the outside world from the values of its columns; assigning a name twice overwrites.\<close>

definition externalizeRow :: "string \<Rightarrow> string list \<Rightarrow> 'v list \<Rightarrow> 'v out_row" where
  "externalizeRow rowMode names vals =
     (if rowMode = ''array'' then ArrayRow vals
      else ObjectRow (fold (\<lambda>(n, v) m. m(n \<mapsto> v)) (zip names vals) (\<lambda>_. None)))"

section \<open>Facts about rounding\<close>

lemma roundSignificand_0: "roundSignificand 0 = 0"
  unfolding roundSignificand_def by simp

lemma half_even_error:
  fixes q r u :: nat
  assumes "r < u"
  shows "2 * \<bar>int ((if 2 * r > u \<or> (2 * r = u \<and> odd q) then q + 1 else q) * u) - int (q * u + r)\<bar> \<le> int u"
proof (cases "2 * r > u \<or> (2 * r = u \<and> odd q)")
  case True
  have "int ((q + 1) * u) - int (q * u + r) = int u - int r" by (simp add: algebra_simps)
  then show ?thesis using True assms by auto
next
  case False
  show ?thesis unfolding if_not_P[OF False] using False by simp
qed

lemma significand_unit:
  assumes "2 ^ 53 \<le> n"
  shows "2 ^ 52 * 2 ^ (floorlog 2 n - 53) \<le> n \<and> 0 < floorlog 2 n - 53"
proof -
  have "0 < (2 :: nat) ^ 53" by simp
  then have n0: "0 < n" using assms by (rule order.strict_trans2)
  have b: "2 ^ (floorlog 2 n - 1) \<le> n" "n < 2 ^ floorlog 2 n" using floorlog_bounds[OF n0, of 2] by auto
  have "(2 :: nat) ^ 53 < 2 ^ floorlog 2 n" using assms b(2) by (rule order.strict_trans1)
  then have f: "53 < floorlog 2 n" by (rule power_less_imp_less_exp[rotated]) simp
  then have "floorlog 2 n - 1 = 52 + (floorlog 2 n - 53)" by simp
  then have "(2 :: nat) ^ (floorlog 2 n - 1) = 2 ^ 52 * 2 ^ (floorlog 2 n - 53)"
    by (simp only: power_add)
  then show ?thesis using b(1) f by simp
qed

lemma roundSignificand_large:
  assumes "2 ^ 53 \<le> n"
  shows "2 ^ 53 \<le> roundSignificand n" "\<bar>int (roundSignificand n) - int n\<bar> * 2 ^ 53 \<le> int n"
proof -
  obtain e where e: "e = floorlog 2 n - 53" by simp
  obtain u :: nat where u: "u = 2 ^ e" by simp
  have q_u: "2 ^ 52 * u \<le> n" and "0 < e" using significand_unit[OF assms] unfolding e u by blast+
  then have u2: "2 \<le> u" using self_le_power[of 2 e] unfolding u by simp
  then have q: "2 ^ 52 \<le> n div u" using q_u by (simp add: less_eq_div_iff_mult_less_eq)
  have r: "n mod u < u" using u2 by simp
  obtain q' where q': "q' = (if 2 * (n mod u) > u \<or> (2 * (n mod u) = u \<and> odd (n div u)) then n div u + 1 else n div u)"
    by simp
  have rs: "roundSignificand n = q' * u"
    using assms unfolding roundSignificand_def q' u e Let_def by simp
  have "2 ^ 52 \<le> q'" using q unfolding q' by simp
  then have "2 ^ 52 * 2 \<le> q' * u" using u2 by (rule mult_le_mono)
  then show "2 ^ 53 \<le> roundSignificand n" using rs by simp
  have "2 * \<bar>int (q' * u) - int n\<bar> \<le> int u"
    using half_even_error[OF r, of "n div u"] unfolding q' div_mult_mod_eq .
  then have "2 * \<bar>int (q' * u) - int n\<bar> * 2 ^ 52 \<le> int u * 2 ^ 52" by (rule mult_right_mono) simp
  also have "int u * 2 ^ 52 = int (2 ^ 52 * u)" by simp
  also have "\<dots> \<le> int n" using q_u unfolding of_nat_le_iff .
  finally show "\<bar>int (roundSignificand n) - int n\<bar> * 2 ^ 53 \<le> int n" unfolding rs by simp
qed

section \<open>Properties\<close>

text \<open>
  No silent loss of precision: an integer below 2^1023 read as a JavaScript number is reported to
  \<open>onPrecisionLoss\<close> exactly if its absolute value is 2^53 or more; a value that is not reported is
  exact, and one that is reported is off by at most one part in 2^53.
\<close>

theorem precision_loss_reported:
  assumes "\<bar>n\<bar> < 2 ^ 1023"
  shows "\<exists>m. convertRawNumber n = (Some m, 2 ^ 53 \<le> \<bar>n\<bar>) \<and>
    (\<bar>n\<bar> < 2 ^ 53 \<longrightarrow> m = n) \<and> \<bar>m - n\<bar> * 2 ^ 53 \<le> \<bar>n\<bar>"
proof (cases "\<bar>n\<bar> < 2 ^ 53")
  case True
  then have s: "roundSignificand (nat \<bar>n\<bar>) = nat \<bar>n\<bar>" by (simp add: roundSignificand_def nat_less_iff)
  have "nat \<bar>n\<bar> < 2 ^ 1024"
  proof -
    have "nat \<bar>n\<bar> < 2 ^ 53" using True by (simp add: nat_less_iff)
    also have "\<dots> \<le> 2 ^ 1024" by (rule power_increasing) simp_all
    finally show ?thesis .
  qed
  moreover have "sgn n * int (nat \<bar>n\<bar>) = n" by (simp add: sgn_mult_abs)
  ultimately have "numberOfInteger n = Some n" unfolding numberOfInteger_def Let_def s by simp
  then show ?thesis using True by (simp add: convertRawNumber_def isSafeInteger_def Let_def)
next
  case False
  let ?m = "roundSignificand (nat \<bar>n\<bar>)"
  have n: "2 ^ 53 \<le> nat \<bar>n\<bar>" using False by (simp add: le_nat_iff)
  note r = roundSignificand_large[OF n]
  have err: "\<bar>int ?m - \<bar>n\<bar>\<bar> * 2 ^ 53 \<le> \<bar>n\<bar>" using r(2) by simp
  have "\<bar>int ?m - \<bar>n\<bar>\<bar> * 1 \<le> \<bar>int ?m - \<bar>n\<bar>\<bar> * 2 ^ 53" by (rule mult_left_mono) simp_all
  then have "\<bar>int ?m - \<bar>n\<bar>\<bar> \<le> \<bar>n\<bar>" using err by (metis mult.right_neutral order_trans)
  then have "int ?m \<le> 2 * \<bar>n\<bar>" by (simp add: abs_le_iff)
  also have "2 * \<bar>n\<bar> < 2 * 2 ^ 1023" using assms by simp
  finally have "int ?m < int (2 ^ 1024)" by simp
  then have "?m < 2 ^ 1024" unfolding of_nat_less_iff .
  moreover have "\<bar>sgn n * int ?m - n\<bar> = \<bar>int ?m - \<bar>n\<bar>\<bar>"
    by (cases "n < 0") (auto simp: sgn_if abs_if roundSignificand_0)
  moreover have "\<bar>sgn n * int ?m\<bar> = int ?m" using False by (auto simp: abs_mult sgn_if)
  moreover have "int (2 ^ 53) \<le> int ?m" using r(1) unfolding of_nat_le_iff .
  ultimately show ?thesis
    using False err
    by (simp add: convertRawNumber_def numberOfInteger_def isSafeInteger_def Let_def)
qed

theorem precision_loss_reported_witness:
  "\<exists>m. convertRawNumber 9007199254740993 = (Some m, True) \<and> \<bar>m - 9007199254740993\<bar> \<le> 1"
proof -
  have "\<bar>9007199254740993 :: int\<bar> < 2 ^ 53 * 2 ^ 970" by simp
  also have "(2 :: int) ^ 53 * 2 ^ 970 = 2 ^ 1023" by (simp add: power_add[symmetric])
  finally show ?thesis using precision_loss_reported[of 9007199254740993] by auto
qed

text \<open>
  Only the first row of a structured OBJECT column can be read: converting it puts the metadata
  in the place of the array it came from, so every later row fails, whatever its text.
\<close>

theorem structured_object_first_row_only:
  assumes "first \<noteq> []" "parseJson first = Inr v"
  shows "let (x, ctx) = convertRawObject parseJson num tm first (ctx_of (Some fs))
         in ctx = FieldsMap (fieldsByName fs) \<and>
            convertRawObject parseJson num tm second ctx = (Inl PlainError, ctx)"
  using assms
  by (auto simp: convertRawObject_def convertJsonObject_def ctx_of_def Let_def split: sum.splits)

theorem structured_object_first_row_only_witness:
  "let (x, ctx) = convertRawObject (\<lambda>s. Inr (JObj [(''a'', JStr s)])) (\<lambda>s. None) (\<lambda>m v. Inr ())
                    ''x'' (ctx_of (Some [Field ''a'' ''text'' None None]))
   in x = Inr (SObject [(''a'', SJson (JStr ''x''))]) \<and>
      convertRawObject (\<lambda>s. Inr (JObj [(''a'', JStr s)])) (\<lambda>s. None) (\<lambda>m v. Inr ()) ''x'' ctx = (Inl PlainError, ctx)"
  using structured_object_first_row_only[of "''x''" "\<lambda>s. Inr (JObj [(''a'', JStr s)])" "JObj [(''a'', JStr ''x'')]"
      "\<lambda>s. None" "\<lambda>m v. Inr ()" "[Field ''a'' ''text'' None None]" "''x''"]
  by (auto simp: convertRawObject_def convertJsonObject_def ctx_of_def js_entries_def fieldsByName_def
      scalarTypes_def mapScalarValue_def)

text \<open>
  Scalars inside a structured value: \<open>true\<close> is read, \<open>false\<close> makes the whole value fail with a
  TypeError (the test for \<open>TRUE\<close> calls a string method on it), a null number is read as 0, and any date
  fails on an undefined name.
\<close>

theorem structured_scalars:
  "mapStructuredTypeValue num tm (Some (Field n ''boolean'' sc sub)) (JBool True) = Inr (SBool True) \<and>
   mapStructuredTypeValue num tm (Some (Field n ''boolean'' sc sub)) (JBool False) = Inl TypeError \<and>
   mapStructuredTypeValue num tm (Some (Field n ''fixed'' sc sub)) JNull = Inr (SNumber (Some 0)) \<and>
   mapStructuredTypeValue num tm (Some (Field n ''date'' sc sub)) v = Inl ReferenceError"
  by (simp add: scalarTypes_def mapScalarValue_def convertRawBoolean_def js_or_def json_upper_def jsNumber_def)

section \<open>Cached reads\<close>













end
