(* ===== verification/JsValue.thy ===== *)
theory JsValue
  imports Complex_Main ErrorsModel TimestampModel
begin

text \<open>
  Values of unknown type, as the options of the public API arrive, with the type tests of
  \<open>lib/util.ts\<close>, and checks that throw the driver's errors.  Numbers are the rationals doubles
  denote; \<open>JNonFinite\<close> is NaN or an infinity.
\<close>

section \<open>Values\<close>

datatype jsv =
    JUndefined
  | JNullV
  | JBoolean bool
  | JNumber rat
  | JNonFinite
  | JString string
  | JArray "jsv list"
  | JObject "(string \<times> jsv) list"
  | JFunction
  | JDate "string option"   \<comment> \<open>with the text of \<open>toJSON\<close>; \<open>None\<close> for an invalid date\<close>

text \<open>A property that is absent is undefined.\<close>

definition getProp :: "(string \<times> jsv) list \<Rightarrow> string \<Rightarrow> jsv" where
  "getProp ps k = (case map_of ps k of None \<Rightarrow> JUndefined | Some v \<Rightarrow> v)"

definition jsExists :: "jsv \<Rightarrow> bool" where
  "jsExists v \<longleftrightarrow> v \<noteq> JUndefined \<and> v \<noteq> JNullV"

fun truthy :: "jsv \<Rightarrow> bool" where
  "truthy JUndefined = False"
| "truthy JNullV = False"
| "truthy (JBoolean b) = b"
| "truthy (JNumber r) = (r \<noteq> 0)"
| "truthy (JString s) = (s \<noteq> [])"
| "truthy _ = True"

fun isString :: "jsv \<Rightarrow> bool" where
  "isString (JString s) = True" | "isString _ = False"

fun isNumber :: "jsv \<Rightarrow> bool" where
  "isNumber (JNumber r) = True" | "isNumber _ = False"

fun isBoolean :: "jsv \<Rightarrow> bool" where
  "isBoolean (JBoolean b) = True" | "isBoolean _ = False"

fun isArray :: "jsv \<Rightarrow> bool" where
  "isArray (JArray vs) = True" | "isArray _ = False"

fun isObject :: "jsv \<Rightarrow> bool" where
  "isObject (JObject ps) = True" | "isObject _ = False"

fun isFunction :: "jsv \<Rightarrow> bool" where
  "isFunction JFunction = True" | "isFunction _ = False"

fun isNonNegative :: "jsv \<Rightarrow> bool" where
  "isNonNegative (JNumber r) = (r \<ge> 0)" | "isNonNegative _ = False"

fun isInteger :: "jsv \<Rightarrow> bool" where
  "isInteger (JNumber r) = (of_int \<lfloor>r\<rfloor> = r)" | "isInteger _ = False"

fun isPositiveInteger :: "jsv \<Rightarrow> bool" where
  "isPositiveInteger (JNumber r) = (of_int \<lfloor>r\<rfloor> = r \<and> r > 0)" | "isPositiveInteger _ = False"

fun isNonNegativeInteger :: "jsv \<Rightarrow> bool" where
  "isNonNegativeInteger (JNumber r) = (of_int \<lfloor>r\<rfloor> = r \<and> r \<ge> 0)" | "isNonNegativeInteger _ = False"

fun the_string :: "jsv \<Rightarrow> string" where
  "the_string (JString s) = s" | "the_string _ = []"

lemma isString_iff: "isString v \<longleftrightarrow> (\<exists>s. v = JString s)"
  by (cases v) auto

lemma isNumber_iff: "isNumber v \<longleftrightarrow> (\<exists>r. v = JNumber r)"
  by (cases v) auto

lemma isBoolean_iff: "isBoolean v \<longleftrightarrow> (\<exists>b. v = JBoolean b)"
  by (cases v) auto

lemma jsExists_simps [simp]:
  "\<not> jsExists JUndefined" "\<not> jsExists JNullV" "jsExists (JBoolean b)" "jsExists (JNumber r)"
  "jsExists (JString s)" "jsExists (JArray vs)" "jsExists (JObject ps)" "jsExists JFunction"
  "jsExists JNonFinite" "jsExists (JDate d)"
  by (simp_all add: jsExists_def)

lemma truthy_exists: "truthy v \<Longrightarrow> jsExists v"
  by (cases v) auto

section \<open>Checks\<close>

type_synonym plain_error = "(unit, unit) sf_error"

datatype thrown = ThrownSf plain_error | ThrownJs js_exn

type_synonym 'a checked = "thrown + 'a"

definition chk_bind :: "'a checked \<Rightarrow> ('a \<Rightarrow> 'b checked) \<Rightarrow> 'b checked" where
  "chk_bind m f = (case m of Inl e \<Rightarrow> Inl e | Inr x \<Rightarrow> f x)"

lemma chk_bind_simps [simp]:
  "chk_bind (Inl e) f = Inl e"
  "chk_bind (Inr x) f = f x"
  by (simp_all add: chk_bind_def)

lemma chk_bind_eq_Inr: "chk_bind m f = Inr y \<longleftrightarrow> (\<exists>x. m = Inr x \<and> f x = Inr y)"
  by (cases m) simp_all

lemma chk_bind_eq_Inl: "chk_bind m f = Inl e \<longleftrightarrow> m = Inl e \<or> (\<exists>x. m = Inr x \<and> f x = Inl e)"
  by (cases m) simp_all

definition mustExist :: "bool \<Rightarrow> err_code \<Rightarrow> unit checked" where
  "mustExist b c = (case checkArgumentExists b c [] of Inl e \<Rightarrow> Inl (ThrownSf e) | Inr u \<Rightarrow> Inr u)"

definition mustBeValid :: "bool \<Rightarrow> err_code \<Rightarrow> string list \<Rightarrow> unit checked" where
  "mustBeValid b c args = (case checkArgumentValid b c args of Inl e \<Rightarrow> Inl (ThrownSf e) | Inr u \<Rightarrow> Inr u)"

text \<open>Checks one after the other: the first that throws ends the sequence.\<close>

fun checks :: "unit checked list \<Rightarrow> unit checked" where
  "checks [] = Inr ()"
| "checks (c # cs) = chk_bind c (\<lambda>_. checks cs)"

text \<open>\<open>if (Util.exists(v)) checkArgumentValid(p(v), c)\<close>\<close>

definition validIfExists :: "jsv \<Rightarrow> (jsv \<Rightarrow> bool) \<Rightarrow> int \<Rightarrow> unit checked" where
  "validIfExists v p c = (if jsExists v then mustBeValid (p v) (NumCode c) [] else Inr ())"

lemma checks_Inr: "checks cs = Inr () \<longleftrightarrow> (\<forall>c\<in>set cs. c = Inr ())"
  by (induction cs) (auto simp: chk_bind_eq_Inr)

lemma checks_Inl: "checks cs = Inl e \<Longrightarrow> Inl e \<in> set cs"
  by (induction cs) (auto simp: chk_bind_eq_Inl)

definition coded :: "error_type \<Rightarrow> err_code \<Rightarrow> string list \<Rightarrow> thrown" where
  "coded t c args =
     ThrownSf (createError t ((no_options c)\<lparr>opt_messageArgs := Some args, opt_synchronous := True\<rparr>))"

lemma mustExist_Inr [simp]: "mustExist b c = Inr u \<longleftrightarrow> b"
  by (simp add: mustExist_def checkArgumentExists_def)

lemma mustBeValid_Inr [simp]: "mustBeValid b c args = Inr u \<longleftrightarrow> b"
  by (simp add: mustBeValid_def checkArgumentValid_def)

lemma passed_checks [simp]: "mustExist True c = Inr ()" "mustBeValid True c args = Inr ()"
  by simp_all

lemma failed_checks:
  "mustExist False c = Inl (coded MissingParameterError c [])"
  "mustBeValid False c args = Inl (coded InvalidParameterError c args)"
  by (simp_all add: mustExist_def mustBeValid_def checkArgumentExists_def checkArgumentValid_def coded_def)

lemma validIfExists_Inr [simp]: "validIfExists v p c = Inr u \<longleftrightarrow> (jsExists v \<longrightarrow> p v)"
  by (simp add: validIfExists_def)

lemma mustExist_Inl: "mustExist b c = Inl e \<longleftrightarrow> \<not> b \<and> e = coded MissingParameterError c []"
  by (auto simp: mustExist_def checkArgumentExists_def coded_def)

lemma mustBeValid_Inl: "mustBeValid b c args = Inl e \<longleftrightarrow> \<not> b \<and> e = coded InvalidParameterError c args"
  by (auto simp: mustBeValid_def checkArgumentValid_def coded_def)

lemma validIfExists_Inl:
  "validIfExists v p c = Inl e \<longleftrightarrow> jsExists v \<and> \<not> p v \<and> e = coded InvalidParameterError (NumCode c) []"
  by (auto simp: validIfExists_def mustBeValid_Inl)

text \<open>An error of the parameter kinds with a code in a range.\<close>

definition coded_in :: "int \<Rightarrow> int \<Rightarrow> thrown \<Rightarrow> bool" where
  "coded_in lo hi e \<longleftrightarrow> (\<exists>c args. lo \<le> c \<and> c \<le> hi \<and>
     (e = coded MissingParameterError (NumCode c) args \<or> e = coded InvalidParameterError (NumCode c) args))"

lemma coded_in_intros [simp]:
  "lo \<le> c \<Longrightarrow> c \<le> hi \<Longrightarrow> coded_in lo hi (coded MissingParameterError (NumCode c) args)"
  "lo \<le> c \<Longrightarrow> c \<le> hi \<Longrightarrow> coded_in lo hi (coded InvalidParameterError (NumCode c) args)"
  by (auto simp: coded_in_def)

lemma coded_in_mono:
  assumes "coded_in a b e" "c \<le> a" "b \<le> d"
  shows "coded_in c d e"
proof -
  obtain n args where "a \<le> n" "n \<le> b"
    "e = coded MissingParameterError (NumCode n) args \<or> e = coded InvalidParameterError (NumCode n) args"
    using assms(1) unfolding coded_in_def by blast
  then show ?thesis using assms(2,3) by (elim disjE) simp_all
qed

lemmas check_errors = mustExist_Inl mustBeValid_Inl validIfExists_Inl
  mustExist_Inl[unfolded eq_commute[of "mustExist _ _"]]
  mustBeValid_Inl[unfolded eq_commute[of "mustBeValid _ _ _"]]
  validIfExists_Inl[unfolded eq_commute[of "validIfExists _ _ _"]]

end
