(* ===== verification/ProxyModel.thy ===== *)
theory ProxyModel
  imports JsValue
begin

text \<open>
  Proxies (\<open>lib/proxy_util.js\<close>): the validation of a proxy object, the proxy of the environment, the
  list of hosts that bypass the proxy, and the hiding of the proxy variables while a client of the
  Azure library is created.
\<close>

section \<open>Validation\<close>

text \<open>A proxy object as its properties; deleting a property makes it undefined.\<close>

record proxy =
  px_host :: jsv
  px_port :: jsv
  px_user :: jsv
  px_password :: jsv
  px_protocol :: jsv
  px_noProxy :: jsv
  px_useForOCSP :: jsv

definition proxyChecks :: "proxy \<Rightarrow> unit checked list" where
  "proxyChecks p =
       [mustExist (jsExists (px_host p)) (NumCode 404015),
         mustBeValid (isString (px_host p)) (NumCode 404016) [],
         mustExist (jsExists (px_port p)) (NumCode 404017),
         mustBeValid (isNumber (px_port p)) (NumCode 404018) [],
         validIfExists (px_noProxy p) isString 404036] @
        (if jsExists (px_user p) \<or> jsExists (px_password p) then
           [mustExist (jsExists (px_user p)) (NumCode 404032),
            mustBeValid (isString (px_user p)) (NumCode 404033) [],
            mustExist (jsExists (px_password p)) (NumCode 404034),
            mustBeValid (isString (px_password p)) (NumCode 404035) []]
         else [])"

definition validateProxy :: "proxy \<Rightarrow> proxy checked" where
  "validateProxy p =
     chk_bind (checks (proxyChecks p))
       (\<lambda>_. Inr (if jsExists (px_user p) \<or> jsExists (px_password p) then p
                 else p\<lparr>px_user := JUndefined, px_password := JUndefined\<rparr>))"

section \<open>The proxy of the environment\<close>

type_synonym environment = "string \<rightharpoonup> string"

text \<open>The lower-case variable, or the upper-case one if that is missing or empty.\<close>

definition getEnvVar :: "environment \<Rightarrow> string \<Rightarrow> string option" where
  "getEnvVar env v = (if nonempty_str (env v) then env v else env (map upperChar v))"

text \<open>\<open>s.split(c)\<close> for a one-character separator, and \<open>join\<close>.\<close>

fun splitOn :: "char \<Rightarrow> string \<Rightarrow> string list" where
  "splitOn c [] = [[]]"
| "splitOn c (x # xs) =
     (if x = c then [] # splitOn c xs
      else (case splitOn c xs of [] \<Rightarrow> [[x]] | w # ws \<Rightarrow> (x # w) # ws))"

fun joinWith :: "char \<Rightarrow> string list \<Rightarrow> string" where
  "joinWith c [] = []"
| "joinWith c [w] = w"
| "joinWith c (w # ws) = w @ c # joinWith c ws"

definition getNoProxyEnv :: "environment \<Rightarrow> string option" where
  "getNoProxyEnv env =
     (case getEnvVar env ''no_proxy'' of
        None \<Rightarrow> None
      | Some s \<Rightarrow> if s = [] then None else Some (joinWith CHR ''|'' (splitOn CHR '','' s)))"

text \<open>What \<open>new URL(s)\<close> gives: host name, port, user name, password and protocol.\<close>

record parsed_url =
  url_hostname :: string
  url_port :: string
  url_username :: string
  url_password :: string
  url_protocol :: string

definition validateEmptyString :: "string \<Rightarrow> jsv" where
  "validateEmptyString s = (if s = [] then JUndefined else JString s)"

definition has_scheme :: "string \<Rightarrow> bool" where
  "has_scheme s \<longleftrightarrow> (\<exists>i<length s. take 3 (drop i s) = ''://'')"

text \<open>
  \<open>parseUrl\<close> is \<open>new URL\<close>, \<open>None\<close> where it throws, and the port of a URL is a decimal number.
  \<open>Inr None\<close> stands for \<open>null\<close>.
\<close>

definition getProxyFromEnv :: "(string \<Rightarrow> parsed_url option) \<Rightarrow> environment \<Rightarrow> bool \<Rightarrow> proxy option checked" where
  "getProxyFromEnv parseUrl env isHttps =
     (case getEnvVar env ((if isHttps then ''https'' else ''http'') @ ''_proxy'') of
        None \<Rightarrow> Inr None
      | Some s \<Rightarrow>
          if s = [] then Inr None
          else (case parseUrl (if has_scheme s then s else ''http://'' @ s) of
                  None \<Rightarrow> Inl (ThrownJs TypeError)
                | Some u \<Rightarrow>
                    chk_bind (validateProxy
                      \<lparr>px_host = validateEmptyString (url_hostname u),
                       px_port = JNumber (of_nat (if url_port u = [] then (if url_protocol u = ''https:'' then 443 else 80)
                                                  else read_nat (url_port u))),
                       px_user = validateEmptyString (url_username u),
                       px_password = validateEmptyString (url_password u),
                       px_protocol = validateEmptyString (url_protocol u),
                       px_noProxy = (case getNoProxyEnv env of None \<Rightarrow> JUndefined | Some x \<Rightarrow> JString x),
                       px_useForOCSP = JBoolean (\<not> isHttps)\<rparr>)
                      (\<lambda>p. Inr (Some p))))"

text \<open>\<open>getProxy\<close>: an explicit proxy, otherwise the environment's if that is enabled.\<close>

definition getProxy ::
  "(string \<Rightarrow> parsed_url option) \<Rightarrow> environment \<Rightarrow> bool \<Rightarrow> bool \<Rightarrow> proxy option \<Rightarrow> proxy option checked"
where
  "getProxy parseUrl env envProxyActive isHttps p =
     (if p = None \<and> envProxyActive then getProxyFromEnv parseUrl env isHttps else Inr p)"

section \<open>Hosts that bypass the proxy\<close>

text \<open>
  An entry of the list is turned into a regular expression: \<open>*\<close>, and a dot at the beginning, become
  \<open>.*\<close>, every other character is matched literally; the expression has to match the whole host.
\<close>

datatype pat = AnyText | Literal char

definition entryPattern :: "string \<Rightarrow> pat list" where
  "entryPattern host =
     map (\<lambda>i. if host ! i = CHR ''*'' \<or> (host ! i = CHR ''.'' \<and> i = 0) then AnyText else Literal (host ! i))
       [0..<length host]"

text \<open>The dot of a regular expression does not match a line terminator.\<close>

definition is_newline :: "char \<Rightarrow> bool" where
  "is_newline c \<longleftrightarrow> of_char c = (10 :: nat) \<or> of_char c = (13 :: nat)"

fun matches :: "pat list \<Rightarrow> string \<Rightarrow> bool" where
  "matches [] s = (s = [])"
| "matches (Literal c # ps) [] = False"
| "matches (Literal c # ps) (x # xs) = (x = c \<and> matches ps xs)"
| "matches (AnyText # ps) [] = matches ps []"
| "matches (AnyText # ps) (x # xs) = (matches ps (x # xs) \<or> (\<not> is_newline x \<and> matches (AnyText # ps) xs))"

definition is_space :: "char \<Rightarrow> bool" where
  "is_space c \<longleftrightarrow> of_char c \<in> {9, 10, 11, 12, 13, 32, 160 :: nat}"

definition trim :: "string \<Rightarrow> string" where
  "trim s = rev (dropWhile is_space (rev (dropWhile is_space s)))"

text \<open>The entry that lets a host bypass the proxy, if there is one.\<close>

definition bypassEntry :: "string \<Rightarrow> string \<Rightarrow> string option" where
  "bypassEntry noProxy destination =
     find (\<lambda>e. matches (entryPattern (trim e)) destination) (splitOn CHR ''|'' noProxy)"

text \<open>The callers use the truth value of what \<open>find\<close> returns, so an empty entry counts as none.\<close>

definition isByPassProxy :: "proxy option \<Rightarrow> string \<Rightarrow> bool" where
  "isByPassProxy p destination =
     (case p of None \<Rightarrow> False
      | Some x \<Rightarrow> truthy (px_noProxy x) \<and>
          (case bypassEntry (the_string (px_noProxy x)) destination of None \<Rightarrow> False | Some e \<Rightarrow> e \<noteq> []))"

section \<open>Hiding the proxy variables\<close>

definition proxyEnvList :: "string list" where
  "proxyEnvList = [''http_proxy'', ''https_proxy'', ''no_proxy'']"

text \<open>
  The process environment and the list \<open>hideEnvironmentProxy\<close> saves the values in, one entry per
  variable, and per upper-case variable where names are case-sensitive.
\<close>

record env_state =
  process_env :: environment
  envProxyList :: "string option list"

definition saveProxyInfoInList :: "string \<Rightarrow> env_state \<Rightarrow> env_state" where
  "saveProxyInfoInList v s =
     s\<lparr>envProxyList := envProxyList s @ [process_env s v], process_env := (process_env s)(v := None)\<rparr>"

definition hidden_names :: "bool \<Rightarrow> string list" where
  "hidden_names windows =
     concat (map (\<lambda>v. if windows then [v] else [v, map upperChar v]) proxyEnvList)"

definition hideEnvironmentProxy :: "bool \<Rightarrow> bool \<Rightarrow> env_state \<Rightarrow> env_state" where
  "hideEnvironmentProxy envProxyActive windows s =
     (if envProxyActive then s
      else fold saveProxyInfoInList (hidden_names windows) (s\<lparr>envProxyList := []\<rparr>))"

fun restoreValues :: "string list \<Rightarrow> string option list \<Rightarrow> environment \<Rightarrow> environment" where
  "restoreValues (v # vs) (Some x # xs) env = restoreValues vs xs (env(v \<mapsto> x))"
| "restoreValues (v # vs) (None # xs) env = restoreValues vs xs env"
| "restoreValues _ _ env = env"

definition restoreEnvironmentProxy :: "bool \<Rightarrow> bool \<Rightarrow> env_state \<Rightarrow> env_state" where
  "restoreEnvironmentProxy envProxyActive windows s =
     (if envProxyActive then s
      else s\<lparr>process_env := restoreValues (hidden_names windows) (envProxyList s) (process_env s)\<rparr>)"

section \<open>Facts\<close>

lemma joinWith_splitOn: "joinWith c (splitOn c s) = s"
proof (induction s)
  case (Cons x xs)
  then show ?case by (cases "splitOn c xs"; cases "tl (splitOn c xs)") (auto split: list.splits)
qed simp

lemma saveAll:
  "distinct vs \<Longrightarrow> fold saveProxyInfoInList vs s =
    s\<lparr>envProxyList := envProxyList s @ map (process_env s) vs,
      process_env := (\<lambda>v. if v \<in> set vs then None else process_env s v)\<rparr>"
proof (induction vs arbitrary: s)
  case (Cons v vs)
  have "map (process_env (saveProxyInfoInList v s)) vs = map (process_env s) vs"
    using Cons.prems by (auto simp: saveProxyInfoInList_def)
  moreover have "(\<lambda>u. if u \<in> set vs then None else process_env (saveProxyInfoInList v s) u) =
      (\<lambda>u. if u \<in> set (v # vs) then None else process_env s u)"
    by (auto simp: saveProxyInfoInList_def)
  moreover have "(saveProxyInfoInList v s)\<lparr>envProxyList := a, process_env := b\<rparr> = s\<lparr>envProxyList := a, process_env := b\<rparr>"
    "envProxyList (saveProxyInfoInList v s) = envProxyList s @ [process_env s v]" for a b
    by (simp_all add: saveProxyInfoInList_def)
  ultimately show ?case using Cons.IH[of "saveProxyInfoInList v s"] Cons.prems by simp
qed simp

lemma restoreAll:
  "distinct vs \<Longrightarrow> restoreValues vs (map f vs) g = (\<lambda>v. if v \<in> set vs \<and> f v \<noteq> None then f v else g v)"
proof (induction vs arbitrary: g)
  case (Cons v vs)
  then show ?case by (cases "f v") (auto simp: fun_eq_iff)
qed simp

lemma hidden_names_distinct: "distinct (hidden_names windows)"
proof -
  have "distinct (hidden_names True) \<and> distinct (hidden_names False)" by code_simp
  then show ?thesis by (cases windows) simp_all
qed

lemma entryPattern_literals:
  assumes "\<forall>c\<in>set d. c \<noteq> CHR ''*''" "d \<noteq> []" "hd d \<noteq> CHR ''.''"
  shows "entryPattern d = map Literal d"
proof -
  have "entryPattern d = map (\<lambda>i. Literal (d ! i)) [0..<length d]"
    unfolding entryPattern_def
  proof (rule map_cong[OF refl])
    fix i assume "i \<in> set [0..<length d]"
    then have "d ! i \<noteq> CHR ''*''" "i = 0 \<longrightarrow> d ! i \<noteq> CHR ''.''" using assms by (simp_all add: hd_conv_nth)
    then show "(if d ! i = CHR ''*'' \<or> d ! i = CHR ''.'' \<and> i = 0 then AnyText else Literal (d ! i)) = Literal (d ! i)"
      by metis
  qed
  also have "\<dots> = map Literal (map ((!) d) [0..<length d])" by simp
  finally show ?thesis by (simp only: map_nth)
qed

lemma entryPattern_wildcard:
  assumes "\<forall>c\<in>set d. c \<noteq> CHR ''*''" "c = CHR ''.'' \<or> c = CHR ''*''"
  shows "entryPattern (c # d) = AnyText # map Literal d"
proof -
  have e: "[0..<length (c # d)] = 0 # map Suc [0..<length d]" 
    by (metis length_Cons map_Suc_upt upt_conv_Cons zero_less_Suc)
  have "entryPattern (c # d) = AnyText # map (\<lambda>i. Literal (d ! i)) [0..<length d]"
    unfolding entryPattern_def e list.map map_map o_def nth_Cons_0 nth_Cons_Suc using assms by auto
  also have "map (\<lambda>i. Literal (d ! i)) [0..<length d] = map Literal (map ((!) d) [0..<length d])" by simp
  finally show ?thesis by (simp only: map_nth)
qed

lemma matches_any: "\<forall>c\<in>set a. \<not> is_newline c \<Longrightarrow> matches ps b \<Longrightarrow> matches (AnyText # ps) (a @ b)"
proof (induction a)
  case Nil
  then show ?case by (cases b) auto
qed auto

lemma matches_literals: "matches (map Literal s) t \<longleftrightarrow> s = t"
proof (induction s arbitrary: t)
  case (Cons x xs)
  then show ?case by (cases t) auto
qed auto

lemma matches_any_iff:
  "matches (AnyText # ps) s \<longleftrightarrow> (\<exists>a b. s = a @ b \<and> (\<forall>c\<in>set a. \<not> is_newline c) \<and> matches ps b)"
proof
  assume "matches (AnyText # ps) s"
  then show "\<exists>a b. s = a @ b \<and> (\<forall>c\<in>set a. \<not> is_newline c) \<and> matches ps b"
  proof (induction s)
    case (Cons x xs)
    show ?case
    proof (cases "matches ps (x # xs)")
      case True
      then show ?thesis by (intro exI[of _ "[]"] exI[of _ "x # xs"]) simp
    next
      case False
      then have "\<not> is_newline x" "matches (AnyText # ps) xs" using Cons.prems by auto
      then obtain a b where "xs = a @ b" "\<forall>c\<in>set a. \<not> is_newline c" "matches ps b" using Cons.IH by blast
      then show ?thesis using \<open>\<not> is_newline x\<close> by (intro exI[of _ "x # a"] exI[of _ b]) simp
    qed
  qed simp
qed (auto intro: matches_any)

lemma validateProxy_Inr:
  assumes "validateProxy p = Inr q"
  shows "isString (px_host q) \<and> isNumber (px_port q) \<and> (isString (px_noProxy q) \<or> px_noProxy q \<in> {JUndefined, JNullV}) \<and>
       (isString (px_user q) \<and> isString (px_password q) \<or> px_user q = JUndefined \<and> px_password q = JUndefined) \<and>
       px_host q = px_host p \<and> px_port q = px_port p \<and> px_noProxy q = px_noProxy p"
proof -
  have c: "\<forall>c\<in>set (proxyChecks p). c = Inr ()"
    and q: "q = (if jsExists (px_user p) \<or> jsExists (px_password p) then p
                 else p\<lparr>px_user := JUndefined, px_password := JUndefined\<rparr>)"
    using assms unfolding validateProxy_def chk_bind_eq_Inr by (auto simp: checks_Inr[symmetric])
  show ?thesis
  proof (cases "jsExists (px_user p) \<or> jsExists (px_password p)")
    case True
    then show ?thesis using c q by (auto simp: proxyChecks_def jsExists_def)
  next
    case False
    then show ?thesis using c q by (auto simp: proxyChecks_def jsExists_def)
  qed
qed

section \<open>Properties\<close>

text \<open>
  A validated proxy is well-formed: validation succeeds exactly if host and port are a text and a
  finite number, the list of exceptions is a text or absent, and user and password are both texts or
  both absent, in which case they are removed; otherwise it throws a coded error naming what is missing
  or invalid, never a TypeError.
\<close>

theorem validated_proxy_well_formed:
  "case validateProxy p of
     Inr q \<Rightarrow> isString (px_host q) \<and> isNumber (px_port q) \<and> (isString (px_noProxy q) \<or> px_noProxy q \<in> {JUndefined, JNullV}) \<and>
       (isString (px_user q) \<and> isString (px_password q) \<or> px_user q = JUndefined \<and> px_password q = JUndefined) \<and>
       px_host q = px_host p \<and> px_port q = px_port p \<and> px_noProxy q = px_noProxy p
   | Inl e \<Rightarrow> coded_in 404015 404036 e"
proof (cases "validateProxy p")
  case (Inl e)
  then have "Inl e \<in> set (proxyChecks p)" by (auto simp: validateProxy_def chk_bind_eq_Inl dest: checks_Inl)
  then have "coded_in 404015 404036 e"
    by (auto simp: proxyChecks_def check_errors split: if_splits)
  then show ?thesis using Inl by simp
next
  case (Inr q)
  then show ?thesis using validateProxy_Inr[OF Inr] by auto
qed

text \<open>
  Bypassing the proxy: an entry without wildcards, blanks around it aside, lets exactly the host of
  that name bypass the proxy; an entry that starts with a dot or a star lets every one-line host through
  whose name ends in the rest, and an exact name is found wherever it stands in the list.
\<close>

theorem bypass_entries:
  assumes "\<forall>c\<in>set d. c \<noteq> CHR ''*''" "d \<noteq> []" "hd d \<noteq> CHR ''.''"
  shows "(matches (entryPattern d) host \<longleftrightarrow> host = d) \<and>
    (matches (entryPattern (CHR ''.'' # d)) host \<longleftrightarrow>
       (\<exists>a. host = a @ d \<and> (\<forall>c\<in>set a. \<not> is_newline c))) \<and>
    entryPattern (CHR ''*'' # d) = entryPattern (CHR ''.'' # d)"
  by (simp only: entryPattern_literals[OF assms] entryPattern_wildcard[OF assms(1)] simp_thms
      matches_literals matches_any_iff) blast

theorem bypass_entries_witness:
  "matches (entryPattern ''.corp.net'') ''db.corp.net'' \<and> \<not> matches (entryPattern ''corp.net'') ''db.corp.net''"
  using bypass_entries[of "''corp.net''" "''db.corp.net''"] by (auto intro: exI[of _ "''db.''"] simp: is_newline_def)

text \<open>
  Hiding and restoring the proxy variables leaves the environment as it was, on systems with and
  without case-sensitive names, and while hidden none of the variables is visible.
\<close>

theorem hide_restore_roundtrip:
  "process_env (restoreEnvironmentProxy active windows (hideEnvironmentProxy active windows s)) = process_env s \<and>
   (\<not> active \<longrightarrow> (\<forall>v\<in>set (hidden_names windows).
      process_env (hideEnvironmentProxy active windows s) v = None))"
  using saveAll[OF hidden_names_distinct, of windows "s\<lparr>envProxyList := []\<rparr>"]
    restoreAll[OF hidden_names_distinct, of windows "process_env s"]
  by (auto simp: restoreEnvironmentProxy_def hideEnvironmentProxy_def fun_eq_iff)

theorem hide_restore_roundtrip_witness:
  "process_env (hideEnvironmentProxy False True \<lparr>process_env = [''no_proxy'' \<mapsto> ''a''], envProxyList = []\<rparr>) ''no_proxy'' = None"
  using hide_restore_roundtrip[of False True "\<lparr>process_env = [''no_proxy'' \<mapsto> ''a''], envProxyList = []\<rparr>"]
  by (simp add: hidden_names_def proxyEnvList_def)

end
