(* ===== verification/ConfigModel.thy ===== *)
theory ConfigModel
  imports ProxyModel ColumnModel UtilModel
begin

text \<open>
  The connection configuration (\<open>lib/connection/connection_config.js\<close>): the derivation of account,
  region, host and URL, the validation of every option in the order of the code, the defaults, and
  the parameters.

  The environment of the constructor is the record \<open>config_env\<close>: the URL parser of the standard
  library, the file system and the text of a value.  The client information the driver passes itself
  is left out.
\<close>

section \<open>Environment and small tests\<close>

record config_env =
  env_parseUrl :: "jsv \<Rightarrow> parsed_url option"
  env_readToken :: "string \<Rightarrow> string option"     \<comment> \<open>\<open>None\<close> if the file cannot be read\<close>
  env_resolve :: "string \<Rightarrow> string"
  env_isDirectory :: "string \<Rightarrow> bool"
  env_text :: "jsv \<Rightarrow> string"                     \<comment> \<open>\<open>util.format('%s', v)\<close>\<close>
  env_json :: "jsv \<Rightarrow> string"                     \<comment> \<open>\<open>JSON.stringify\<close>\<close>

definition is_word :: "char \<Rightarrow> bool" where
  "is_word c \<longleftrightarrow> is_digit c \<or> of_char c = (95 :: nat) \<or> (65 \<le> (of_char c :: nat) \<and> (of_char c :: nat) \<le> 90) \<or>
     (97 \<le> (of_char c :: nat) \<and> (of_char c :: nat) \<le> 122)"

text \<open>Words separated by single dots or dashes: \<open>after_word\<close> tells whether a separator may follow.\<close>

fun subdomainFrom :: "bool \<Rightarrow> string \<Rightarrow> bool" where
  "subdomainFrom after_word [] = after_word"
| "subdomainFrom after_word (c # cs) =
     (if is_word c then subdomainFrom True cs
      else (c = CHR ''.'' \<or> c = CHR ''-'') \<and> after_word \<and> subdomainFrom False cs)"

definition isCorrectSubdomain :: "string \<Rightarrow> bool" where
  "isCorrectSubdomain s = subdomainFrom False s"

definition is_letter :: "char \<Rightarrow> bool" where
  "is_letter c \<longleftrightarrow> is_word c \<and> \<not> is_digit c \<and> c \<noteq> CHR ''_''"

definition applicationPattern :: "string \<Rightarrow> bool" where
  "applicationPattern s =
     (case s of [] \<Rightarrow> False
      | c # cs \<Rightarrow> is_letter c \<and> 1 \<le> length cs \<and> length cs \<le> 50 \<and>
          (\<forall>x\<in>set cs. is_word x \<or> x = CHR ''.'' \<or> x = CHR ''-''))"

fun contains :: "string \<Rightarrow> string \<Rightarrow> bool" where
  "contains sub [] = (sub = [])"
| "contains sub (c # cs) = (prefix sub (c # cs) \<or> contains sub cs)"

text \<open>The expression is not anchored at its end.\<close>

definition isSnowflakeHost :: "string \<Rightarrow> bool" where
  "isSnowflakeHost url \<longleftrightarrow>
     prefix ''snowflakecomputing.com'' url \<or> prefix ''snowflakecomputing.cn'' url \<or>
     contains ''.snowflakecomputing.com'' url \<or> contains ''.snowflakecomputing.cn'' url"

definition pemHeaders :: "string list" where
  "pemHeaders = [''PRIVATE KEY'', ''ENCRYPTED PRIVATE KEY'', ''RSA PRIVATE KEY'']"

definition isPrivateKey :: "string \<Rightarrow> bool" where
  "isPrivateKey v =
     list_ex (\<lambda>h. prefix (''-----BEGIN '' @ h @ ''-----'') (trim v) \<and>
                  suffix (char_of (10 :: nat) # ''-----END '' @ h @ ''-----'') (trim v)) pemHeaders"

definition indexOf :: "char \<Rightarrow> string \<Rightarrow> int" where
  "indexOf c s = (let k = length (takeWhile (\<lambda>x. x \<noteq> c) s) in if k < length s then int k else - 1)"

definition constructHostname :: "string option \<Rightarrow> string \<Rightarrow> string" where
  "constructHostname region account =
     (case region of
        None \<Rightarrow> account @ ''.snowflakecomputing.com''
      | Some r \<Rightarrow>
          if r = ''us-west-2'' then account @ ''.snowflakecomputing.com''
          else (let a = (if indexOf CHR ''.'' account > 0 then take (nat (indexOf CHR ''.'' account)) account
                         else account)
                in if prefix ''cn-'' r \<or> prefix ''CN-'' r then a @ ''.'' @ r @ ''.snowflakecomputing.cn''
                   else a @ ''.'' @ r @ ''.snowflakecomputing.com''))"

section \<open>Account, region, host and URL\<close>

record site =
  st_account :: jsv
  st_region :: jsv
  st_host :: jsv
  st_accessUrl :: jsv

text \<open>The part of a host name before its first dot, if there is a part before a dot.\<close>

definition hostAccount :: "string \<Rightarrow> string option" where
  "hostAccount h = (if indexOf CHR ''.'' h > 0 then Some (take (nat (indexOf CHR ''.'' h)) h) else None)"

definition splitAccount :: "string \<Rightarrow> jsv \<Rightarrow> jsv \<times> jsv" where
  "splitAccount a region =
     (let d = indexOf CHR ''.'' a
      in if d > 0 then (JString (take (nat d) a), JString (drop (nat d + 1) a)) else (JString a, region))"

text \<open>The global URL: the account ends at its first dash.\<close>

definition globalAccount :: "jsv \<Rightarrow> jsv \<Rightarrow> jsv checked" where
  "globalAccount account accessUrl =
     (if jsExists account then
        (case accessUrl of
           JString u \<Rightarrow>
             if contains ''.global.snowflakecomputing.'' u then
               (case account of
                  JString a \<Rightarrow>
                    Inr (if indexOf CHR ''-'' a > 0 then JString (take (nat (indexOf CHR ''-'' a)) a) else account)
                | _ \<Rightarrow> Inr account)
             else Inr account
         | _ \<Rightarrow> Inl (ThrownJs TypeError))
      else Inr account)"

definition consolidateHostAndAccount :: "config_env \<Rightarrow> (string \<Rightarrow> jsv) \<Rightarrow> site checked" where
  "consolidateHostAndAccount env opt =
     (let protocol = (if truthy (opt ''protocol'') then env_text env (opt ''protocol'') else ''https'');
          port = (if jsExists (opt ''port'') then CHR '':'' # env_text env (opt ''port'') else []);
          url = (\<lambda>h. JString (protocol @ ''://'' @ h @ port))
      in chk_bind (checks
           [if jsExists (opt ''region'') then
              mustBeValid (isCorrectSubdomain (env_text env (opt ''region''))) (NumCode 404046) [] else Inr (),
            if jsExists (opt ''account'') then mustBeValid (isString (opt ''account'')) (NumCode 404008) [] else Inr (),
            if jsExists (opt ''account'') then
              mustBeValid (isCorrectSubdomain (the_string (opt ''account''))) (NumCode 404045) [] else Inr ()])
         (\<lambda>_.
           let region0 = (if jsExists (opt ''region'') then opt ''region'' else JUndefined);
               (account, region) = (if jsExists (opt ''account'')
                                    then splitAccount (the_string (opt ''account'')) region0 else (JUndefined, region0));
               derived = (\<lambda>h. if jsExists (opt ''account'') then account
                              else (case hostAccount h of None \<Rightarrow> account | Some a \<Rightarrow> JString a))
           in chk_bind
             (if jsExists (opt ''accessUrl'') then
                (case env_parseUrl env (opt ''accessUrl'') of
                   None \<Rightarrow> Inl (coded InvalidParameterError (NumCode 404010) [])
                 | Some u \<Rightarrow>
                     Inr \<lparr>st_account = derived (url_hostname u), st_region = region,
                          st_host = (if jsExists (opt ''host'') then opt ''host'' else JString (url_hostname u)),
                          st_accessUrl = opt ''accessUrl''\<rparr>)
              else if jsExists (opt ''host'') then
                (case opt ''host'' of
                   JString h \<Rightarrow> Inr \<lparr>st_account = derived h, st_region = region, st_host = JString h, st_accessUrl = url h\<rparr>
                 | _ \<Rightarrow> Inl (ThrownJs TypeError))
              else if jsExists (opt ''account'') then
                (if jsExists region \<and> \<not> isString region then Inl (ThrownJs TypeError)
                 else let h = constructHostname (if jsExists region then Some (the_string region) else None) (the_string account)
                      in Inr \<lparr>st_account = account, st_region = region, st_host = JString h, st_accessUrl = url h\<rparr>)
              else Inr \<lparr>st_account = account, st_region = region, st_host = opt ''host'', st_accessUrl = opt ''accessUrl''\<rparr>)
             (\<lambda>st. chk_bind (globalAccount (st_account st) (st_accessUrl st))
                     (\<lambda>a. Inr (st\<lparr>st_account := a\<rparr>)))))"

section \<open>Credentials\<close>

definition tokenBasedAuthenticators :: "string list" where
  "tokenBasedAuthenticators = [''OAUTH'', ''PROGRAMMATIC_ACCESS_TOKEN'', ''WORKLOAD_IDENTITY'']"

definition noUsernameRequiredFor :: "string list" where
  "noUsernameRequiredFor = [''OAUTH'', ''EXTERNALBROWSER'', ''PROGRAMMATIC_ACCESS_TOKEN'',
     ''OAUTH_CLIENT_CREDENTIALS'', ''OAUTH_AUTHORIZATION_CODE'', ''WORKLOAD_IDENTITY'']"

text \<open>\<open>v.toUpperCase()\<close>\<close>

definition upperOf :: "jsv \<Rightarrow> string checked" where
  "upperOf v = (case v of JString s \<Rightarrow> Inr (map upperChar s) | _ \<Rightarrow> Inl (ThrownJs TypeError))"

definition shouldReadTokenFromFile :: "(string \<Rightarrow> jsv) \<Rightarrow> bool checked" where
  "shouldReadTokenFromFile opt =
     (if truthy (opt ''authenticator'') then
        chk_bind (upperOf (opt ''authenticator'')) (\<lambda>a.
          Inr (a \<in> set tokenBasedAuthenticators \<and> \<not> (isString (opt ''token'') \<and> truthy (opt ''token''))))
      else Inr False)"

text \<open>A missing token, an unreadable file and a path that is no text all end in a plain error.\<close>

definition readToken :: "config_env \<Rightarrow> (string \<Rightarrow> jsv) \<Rightarrow> (string \<Rightarrow> jsv) checked" where
  "readToken env opt =
     chk_bind (shouldReadTokenFromFile opt) (\<lambda>b.
       if b \<and> truthy (opt ''tokenFilePath'') then
         (case opt ''tokenFilePath'' of
            JString p \<Rightarrow>
              (case env_readToken env p of
                 Some (c # cs) \<Rightarrow> Inr (opt(''token'' := JString (c # cs)))
               | _ \<Rightarrow> Inl (ThrownJs PlainError))
          | _ \<Rightarrow> Inl (ThrownJs PlainError))
       else Inr opt)"

definition httpUrl :: "config_env \<Rightarrow> jsv \<Rightarrow> bool" where
  "httpUrl env v =
     (case env_parseUrl env v of None \<Rightarrow> False
      | Some u \<Rightarrow> url_protocol u = ''https:'' \<or> url_protocol u = ''http:'')"

definition foreignUrl :: "config_env \<Rightarrow> jsv \<Rightarrow> bool" where
  "foreignUrl env v \<longleftrightarrow> truthy v \<and> \<not> isSnowflakeHost (env_text env v)"

definition credentialChecks :: "config_env \<Rightarrow> (string \<Rightarrow> jsv) \<Rightarrow> unit checked list" where
  "credentialChecks env opt =
     (let auth = opt ''authenticator''; is = (\<lambda>s. auth = JString s)
      in (if \<not> truthy auth \<or> map upperChar (the_string auth) \<notin> set noUsernameRequiredFor
          then [mustExist (jsExists (opt ''username'')) (NumCode 404003)] else []) @
         [validIfExists (opt ''username'') isString 404004] @
         (if \<not> jsExists auth \<or> is ''SNOWFLAKE'' then
            [mustExist (jsExists (opt ''password'')) (NumCode 404005),
             mustBeValid (isString (opt ''password'')) (NumCode 404006) []] else []) @
         (if \<not> jsExists auth \<or> is ''PROGRAMMATIC_ACCESS_TOKEN'' then
            [mustExist (jsExists (opt ''password'') \<or> jsExists (opt ''token'')) (NumCode 404005),
             validIfExists (opt ''password'') isString 404006,
             validIfExists (opt ''token'') isString 404029] else []) @
         (if is ''OAUTH_AUTHORIZATION_CODE'' then
            [validIfExists (opt ''oauthAuthorizationUrl'') (httpUrl env) 404058] @
            (if foreignUrl env (opt ''oauthAuthorizationUrl'') \<or> foreignUrl env (opt ''oauthTokenRequestUrl'') then
               [mustBeValid (isString (opt ''oauthClientId'')) (NumCode 404059) [],
                mustBeValid (isString (opt ''oauthClientSecret'')) (NumCode 404060) []] else []) else []) @
         (if is ''OAUTH_CLIENT_CREDENTIALS'' then
            [validIfExists (opt ''oauthTokenRequestUrl'') (httpUrl env) 404061,
             mustBeValid (isString (opt ''oauthClientId'')) (NumCode 404059) [],
             mustBeValid (isString (opt ''oauthClientSecret'')) (NumCode 404060) []] else []))"

section \<open>The other options\<close>

text \<open>The index of the first element that is no native type, or -1; elements are texts.\<close>

fun firstIndex :: "('a \<Rightarrow> bool) \<Rightarrow> int \<Rightarrow> 'a list \<Rightarrow> int" where
  "firstIndex p i [] = - 1"
| "firstIndex p i (x # xs) = (if p x then i else firstIndex p (i + 1) xs)"

definition isNativeType :: "jsv \<Rightarrow> bool" where
  "isNativeType v = (case v of JString s \<Rightarrow> isValidValue s | _ \<Rightarrow> False)"

definition findInvalidValue :: "jsv list \<Rightarrow> int" where
  "findInvalidValue vs = firstIndex (\<lambda>v. \<not> isNativeType v) 0 vs"

definition fetchAsStringChecks :: "config_env \<Rightarrow> jsv \<Rightarrow> unit checked list" where
  "fetchAsStringChecks env v =
     (if jsExists v then
        [mustBeValid (isArray v) (NumCode 404020) [],
         (case v of
            JArray vs \<Rightarrow>
              (let i = findInvalidValue vs
               in mustBeValid (i = - 1) (NumCode 404021)
                    [env_json env (if 0 \<le> i \<and> i < int (length vs) then vs ! nat i else JUndefined)])
          | _ \<Rightarrow> Inr ())]
      else [])"

definition rowModes :: "string list" where
  "rowModes = [''array'', ''object'', ''object_with_renamed_duplicated_columns'']"

definition isValidRowMode :: "jsv \<Rightarrow> bool" where
  "isValidRowMode v = (case v of JString s \<Rightarrow> s \<in> set rowModes | _ \<Rightarrow> False)"

definition validQueryTag :: "jsv \<Rightarrow> bool" where
  "validQueryTag v = (case v of JString s \<Rightarrow> length s \<le> 2000 | _ \<Rightarrow> False)"

text \<open>
  The checks of the options after the account, in order.  The codes of \<open>retryTimeout\<close> and
  \<open>credentialCacheDir\<close> are names the table of codes does not have, so they are undefined.
\<close>

definition optionChecks :: "config_env \<Rightarrow> (string \<Rightarrow> jsv) \<Rightarrow> unit checked list" where
  "optionChecks env opt =
     [validIfExists (opt ''browserActionTimeout'') isPositiveInteger 404040,
      validIfExists (opt ''privateKey'') (\<lambda>v. isString v \<and> isPrivateKey (the_string v)) 404026,
      validIfExists (opt ''privateKeyPath'') isString 404027,
      validIfExists (opt ''privateKeyPass'') isString 404028,
      validIfExists (opt ''token'') isString 404029,
      validIfExists (opt ''warehouse'') isString 404011,
      validIfExists (opt ''database'') isString 404012,
      validIfExists (opt ''schema'') isString 404013,
      validIfExists (opt ''role'') isString 404014,
      validIfExists (opt ''streamResult'') isBoolean 404019] @
     fetchAsStringChecks env (opt ''fetchAsString'') @
     [if jsExists (opt ''rowMode'') then
        mustBeValid (isValidRowMode (opt ''rowMode'')) (NumCode 411006) [env_json env (opt ''rowMode'')] else Inr (),
      validIfExists (opt ''clientSessionKeepAlive'') isBoolean 404023,
      validIfExists (opt ''clientSessionKeepAliveHeartbeatFrequency'') isNumber 404024,
      validIfExists (opt ''jsTreatIntegerAsBigInt'') isBoolean 404025,
      validIfExists (opt ''gcsUseDownscopedCredential'') isBoolean 404038,
      validIfExists (opt ''clientConfigFile'') isString 404043,
      validIfExists (opt ''application'') isString 404031,
      validIfExists (opt ''application'') (\<lambda>v. applicationPattern (the_string v)) 404031,
      validIfExists (opt ''validateDefaultParameters'') isBoolean 404030,
      validIfExists (opt ''arrayBindingThreshold'') isNumber 404037,
      validIfExists (opt ''forceStageBindError'') isNumber 404039,
      validIfExists (opt ''disableQueryContextCache'') isBoolean 404041,
      if jsExists (opt ''retryTimeout'') then mustBeValid (isNumber (opt ''retryTimeout'')) NoCode [] else Inr (),
      validIfExists (opt ''includeRetryReason'') isBoolean 404042,
      validIfExists (opt ''clientRequestMFAToken'') isBoolean 404052,
      validIfExists (opt ''disableConsoleLogin'') isBoolean 404047,
      validIfExists (opt ''representNullAsStringNull'') isBoolean 404050,
      validIfExists (opt ''disableSamlURLCheck'') isBoolean 404051,
      validIfExists (opt ''clientStoreTemporaryCredential'') isBoolean 404049,
      if jsExists (opt ''credentialCacheDir'') then
        (if isString (opt ''credentialCacheDir'')
         then mustBeValid (env_isDirectory env (env_resolve env (the_string (opt ''credentialCacheDir'')))) NoCode []
         else Inl (ThrownJs TypeError)) else Inr (),
      validIfExists (opt ''passcodeInPassword'') isBoolean 404055,
      validIfExists (opt ''passcode'') isString 404056,
      if truthy (opt ''queryTag'') then mustBeValid (validQueryTag (opt ''queryTag'')) (NumCode 404063) [] else Inr ()]"

section \<open>Parameters\<close>

record parameter =
  pm_name :: string
  pm_default :: rat
  pm_external :: bool
  pm_validate :: "jsv \<Rightarrow> bool"

definition createParameters :: "parameter list" where
  "createParameters =
     [\<lparr>pm_name = ''timeout'', pm_default = 90000, pm_external = True, pm_validate = isPositiveInteger\<rparr>,
      \<lparr>pm_name = ''resultPrefetch'', pm_default = 2, pm_external = True, pm_validate = isPositiveInteger\<rparr>,
      \<lparr>pm_name = ''resultStreamInterrupts'', pm_default = 3, pm_external = False, pm_validate = isPositiveInteger\<rparr>,
      \<lparr>pm_name = ''resultChunkCacheSize'', pm_default = 1, pm_external = False, pm_validate = isPositiveInteger\<rparr>,
      \<lparr>pm_name = ''resultProcessingBatchSize'', pm_default = 1000, pm_external = False,
       pm_validate = isPositiveInteger\<rparr>,
      \<lparr>pm_name = ''resultProcessingBatchDuration'', pm_default = 100, pm_external = False,
       pm_validate = isPositiveInteger\<rparr>,
      \<lparr>pm_name = ''largeResultSetRetryMaxNumRetries'', pm_default = 10, pm_external = False,
       pm_validate = isNonNegativeInteger\<rparr>,
      \<lparr>pm_name = ''largeResultSetRetryMaxSleepTime'', pm_default = 16, pm_external = False,
       pm_validate = isNonNegativeInteger\<rparr>,
      \<lparr>pm_name = ''sfRetryMaxLoginRetries'', pm_default = 7, pm_external = True, pm_validate = isNonNegativeInteger\<rparr>,
      \<lparr>pm_name = ''sfRetryMaxNumRetries'', pm_default = 1000, pm_external = False,
       pm_validate = isNonNegativeInteger\<rparr>,
      \<lparr>pm_name = ''sfRetryStartingSleepTime'', pm_default = 1, pm_external = False, pm_validate = isNonNegative\<rparr>,
      \<lparr>pm_name = ''sfRetryMaxSleepTime'', pm_default = 16, pm_external = False, pm_validate = isNonNegative\<rparr>]"

definition parameterValue :: "(string \<Rightarrow> jsv) \<Rightarrow> parameter \<Rightarrow> jsv" where
  "parameterValue opt p =
     (if pm_external p \<and> pm_validate p (opt (pm_name p)) then opt (pm_name p) else JNumber (pm_default p))"

text \<open>\<open>_getParameterValue\<close>; the getters \<open>getTimeout\<close> to \<open>getRetrySfMaxSleepTime\<close> apply it to their names.\<close>

definition getParameterValue :: "(string \<Rightarrow> jsv) \<Rightarrow> string \<Rightarrow> jsv" where
  "getParameterValue opt name =
     (case find (\<lambda>p. pm_name p = name) createParameters of None \<Rightarrow> JUndefined | Some p \<Rightarrow> parameterValue opt p)"

section \<open>The configuration\<close>

text \<open>The settings that are derived; the remaining getters return the option itself (\<open>cf_options\<close>).\<close>

record conn_config =
  cf_options :: "string \<Rightarrow> jsv"
  cf_site :: site
  cf_proxy :: "proxy option"
  cf_authenticator :: string
  cf_browserActionTimeout :: jsv
  cf_heartbeatFrequency :: "int option"
  cf_bindThreshold :: jsv
  cf_forceStageBindError :: jsv
  cf_disableQueryContextCache :: jsv
  cf_retryTimeout :: rat
  cf_includeRetryReason :: jsv
  cf_clientRequestMFAToken :: jsv
  cf_disableConsoleLogin :: jsv
  cf_disableSamlURLCheck :: jsv
  cf_clientStoreTemporaryCredential :: jsv
  cf_credentialCacheDir :: "string option"
  cf_passcodeInPassword :: jsv
  cf_passcode :: jsv
  cf_queryTag :: jsv
  cf_parameters :: "string \<Rightarrow> jsv"

definition orDefault :: "jsv \<Rightarrow> jsv \<Rightarrow> jsv" where
  "orDefault v d = (if jsExists v then v else d)"

fun the_number :: "jsv \<Rightarrow> rat" where
  "the_number (JNumber r) = r" | "the_number _ = 0"

definition effectiveRetryTimeout :: "jsv \<Rightarrow> rat" where
  "effectiveRetryTimeout v =
     (if jsExists v then (if the_number v \<noteq> 0 then max 300 (the_number v) else 0) else 300)"

definition configProxy :: "(string \<Rightarrow> jsv) \<Rightarrow> proxy option" where
  "configProxy opt =
     (if jsExists (opt ''proxyHost'') \<or> jsExists (opt ''proxyPort'') then
        Some \<lparr>px_host = opt ''proxyHost'', px_port = opt ''proxyPort'', px_user = opt ''proxyUser'',
              px_password = opt ''proxyPassword'',
              px_protocol = (if truthy (opt ''proxyProtocol'') then opt ''proxyProtocol'' else JString ''http''),
              px_noProxy = opt ''noProxy'',
              px_useForOCSP = orDefault (opt ''useConnectionConfigProxyForOCSP'') (JBoolean False)\<rparr>
      else None)"

definition buildConfig :: "config_env \<Rightarrow> (string \<Rightarrow> jsv) \<Rightarrow> site \<Rightarrow> proxy option \<Rightarrow> string \<Rightarrow> conn_config" where
  "buildConfig env opt st px auth =
     (let falseDefault = (\<lambda>k. orDefault (opt k) (JBoolean False)); trueDefault = (\<lambda>k. orDefault (opt k) (JBoolean True))
      in \<lparr>cf_options = opt, cf_site = st, cf_proxy = px, cf_authenticator = auth,
          cf_browserActionTimeout = orDefault (opt ''browserActionTimeout'') (JNumber 120000),
          cf_heartbeatFrequency =
            (if jsExists (opt ''clientSessionKeepAliveHeartbeatFrequency'') then
               Some (validateClientSessionKeepAliveHeartbeatFrequency
                 (of_rat (the_number (opt ''clientSessionKeepAliveHeartbeatFrequency''))) 14400)
             else None),
          cf_bindThreshold = orDefault (opt ''arrayBindingThreshold'') JNullV,
          cf_forceStageBindError = orDefault (opt ''forceStageBindError'') JNullV,
          cf_disableQueryContextCache = falseDefault ''disableQueryContextCache'',
          cf_retryTimeout = effectiveRetryTimeout (opt ''retryTimeout''),
          cf_includeRetryReason = trueDefault ''includeRetryReason'',
          cf_clientRequestMFAToken = falseDefault ''clientRequestMFAToken'',
          cf_disableConsoleLogin = trueDefault ''disableConsoleLogin'',
          cf_disableSamlURLCheck = falseDefault ''disableSamlURLCheck'',
          cf_clientStoreTemporaryCredential = falseDefault ''clientStoreTemporaryCredential'',
          cf_credentialCacheDir =
            (if jsExists (opt ''credentialCacheDir'')
             then Some (env_resolve env (the_string (opt ''credentialCacheDir''))) else None),
          cf_passcodeInPassword = falseDefault ''passcodeInPassword'',
          cf_passcode = orDefault (opt ''passcode'') JNullV,
          cf_queryTag = (if truthy (opt ''queryTag'') then opt ''queryTag'' else JUndefined),
          cf_parameters = getParameterValue opt\<rparr>)"

definition ConnectionConfig :: "config_env \<Rightarrow> jsv \<Rightarrow> jsv \<Rightarrow> conn_config checked" where
  "ConnectionConfig env options validateCredentials =
     chk_bind (checks [mustExist (jsExists options) (NumCode 404001), mustBeValid (isObject options) (NumCode 404002) []])
       (\<lambda>_. case options of
          JObject ps \<Rightarrow>
            chk_bind (readToken env (getProp ps)) (\<lambda>opt.
            chk_bind (if truthy (orDefault validateCredentials (JBoolean True))
                      then checks (credentialChecks env opt) else Inr ()) (\<lambda>_.
            chk_bind (consolidateHostAndAccount env opt) (\<lambda>st.
            chk_bind (checks [mustExist (jsExists (st_account st)) (NumCode 404007),
                              mustExist (jsExists (st_accessUrl st)) (NumCode 404009),
                              mustBeValid (isString (st_accessUrl st)) (NumCode 404010) []]) (\<lambda>_.
            chk_bind (case configProxy opt of None \<Rightarrow> Inr None
                      | Some p \<Rightarrow> chk_bind (validateProxy p) (\<lambda>q. Inr (Some q))) (\<lambda>px.
            chk_bind (if jsExists (opt ''authenticator'') then upperOf (opt ''authenticator'')
                      else Inr ''SNOWFLAKE'') (\<lambda>auth.
            chk_bind (checks (optionChecks env opt)) (\<lambda>_. Inr (buildConfig env opt st px auth))))))))
        | _ \<Rightarrow> Inl (ThrownJs TypeError))"

text \<open>The OAuth client id and secret default to the local application for Snowflake's own endpoints.\<close>

definition getOauthUrl :: "config_env \<Rightarrow> conn_config \<Rightarrow> string \<Rightarrow> string \<Rightarrow> string" where
  "getOauthUrl env c option endpoint =
     (if jsExists (cf_options c option) then env_text env (cf_options c option)
      else the_string (st_accessUrl (cf_site c)) @ endpoint)"

definition localApplication :: "config_env \<Rightarrow> conn_config \<Rightarrow> bool" where
  "localApplication env c \<longleftrightarrow>
     cf_authenticator c = ''OAUTH_AUTHORIZATION_CODE'' \<and>
     isSnowflakeHost (getOauthUrl env c ''oauthAuthorizationUrl'' ''/oauth/authorize'') \<and>
     isSnowflakeHost (getOauthUrl env c ''oauthTokenRequestUrl'' ''/oauth/token-request'')"

definition getOauthClientId :: "config_env \<Rightarrow> conn_config \<Rightarrow> jsv" where
  "getOauthClientId env c =
     (let empty = (\<lambda>v. \<not> jsExists v \<or> v = JString [])
      in if empty (cf_options c ''oauthClientId'') \<and> empty (cf_options c ''oauthClientSecret'') \<and> localApplication env c
         then JString ''LOCAL_APPLICATION'' else cf_options c ''oauthClientId'')"

definition getOauthClientSecret :: "config_env \<Rightarrow> conn_config \<Rightarrow> jsv" where
  "getOauthClientSecret env c =
     (if \<not> truthy (cf_options c ''oauthClientId'') \<and> \<not> truthy (cf_options c ''oauthClientSecret'') \<and> localApplication env c
      then JString ''LOCAL_APPLICATION'' else cf_options c ''oauthClientSecret'')"

section \<open>Facts\<close>

lemma subdomainFrom_sep:
  "c = CHR ''.'' \<or> c = CHR ''-'' \<Longrightarrow>
   subdomainFrom b (a @ c # r) \<longleftrightarrow> subdomainFrom b a \<and> subdomainFrom False r"
  by (induction a arbitrary: b) (auto simp: is_word_def is_digit_def)

lemma indexOf_first: "c \<notin> set a \<Longrightarrow> indexOf c (a @ c # r) = int (length a)"
proof -
  assume "c \<notin> set a"
  then have "takeWhile (\<lambda>x. x \<noteq> c) (a @ c # r) = a" by (subst takeWhile_append2) auto
  then show ?thesis by (simp add: indexOf_def Let_def)
qed

lemma indexOf_none: "c \<notin> set a \<Longrightarrow> indexOf c a = - 1"
proof -
  assume "c \<notin> set a"
  then have e: "takeWhile (\<lambda>x. x \<noteq> c) a = a" unfolding takeWhile_eq_all_conv by blast
  show ?thesis unfolding indexOf_def Let_def e by simp
qed

lemma splitAccount_dot:
  "CHR ''.'' \<notin> set a \<Longrightarrow> a \<noteq> [] \<Longrightarrow> splitAccount (a @ CHR ''.'' # r) region = (JString a, JString r)"
  by (simp add: splitAccount_def indexOf_first Let_def nat_add_distrib)

lemma splitAccount_plain: "CHR ''.'' \<notin> set a \<Longrightarrow> splitAccount a region = (JString a, region)"
  by (simp add: splitAccount_def indexOf_none)

lemma checks_site:
  "checks [if True then mustBeValid b1 c1 [] else Inr (), if True then mustBeValid b2 c2 [] else Inr ()] =
   checks [mustBeValid b1 c1 [], mustBeValid b2 c2 []]"
  by simp

lemma ConnectionConfig_Inr:
  assumes "ConnectionConfig env options vc = Inr c"
  obtains ps opt st px auth where "options = JObject ps" "readToken env (getProp ps) = Inr opt"
    "truthy (orDefault vc (JBoolean True)) \<Longrightarrow> \<forall>k\<in>set (credentialChecks env opt). k = Inr ()"
    "jsExists (st_account st)" "isString (st_accessUrl st)"
    "px = None \<or> (\<exists>p q. px = Some q \<and> validateProxy p = Inr q)"
    "\<forall>k\<in>set (optionChecks env opt). k = Inr ()" "c = buildConfig env opt st px auth"
proof (cases options)
  case (JObject ps)
  show ?thesis
    using assms unfolding ConnectionConfig_def JObject jsv.case chk_bind_eq_Inr
  proof (elim exE conjE)
    fix u opt v st w px auth z
    assume t: "readToken env (getProp ps) = Inr opt"
      and k: "(if truthy (orDefault vc (JBoolean True)) then checks (credentialChecks env opt) else Inr ()) = Inr v"
      and s: "checks [mustExist (jsExists (st_account st)) (NumCode 404007),
          mustExist (jsExists (st_accessUrl st)) (NumCode 404009),
          mustBeValid (isString (st_accessUrl st)) (NumCode 404010) []] = Inr w"
      and p: "(case configProxy opt of None \<Rightarrow> Inr None
         | Some p \<Rightarrow> chk_bind (validateProxy p) (\<lambda>q. Inr (Some q))) = Inr px"
      and o: "checks (optionChecks env opt) = Inr z" and c: "Inr (buildConfig env opt st px auth) = Inr c"
    have "px = None \<or> (\<exists>p q. px = Some q \<and> validateProxy p = Inr q)"
      using p by (cases "configProxy opt") (auto simp: chk_bind_eq_Inr)
    moreover have "\<forall>k\<in>set (credentialChecks env opt). k = Inr ()" if "truthy (orDefault vc (JBoolean True))"
      using k that by (simp add: checks_Inr[symmetric])
    moreover have "jsExists (st_account st)" "isString (st_accessUrl st)"
      using s by (simp_all add: chk_bind_eq_Inr)
    moreover have "\<forall>k\<in>set (optionChecks env opt). k = Inr ()" using o by (simp add: checks_Inr[symmetric])
    ultimately show ?thesis using that[OF JObject t] c by blast
  qed
qed (use assms in \<open>auto simp: ConnectionConfig_def chk_bind_eq_Inr\<close>)

text \<open>A parameter has the default or a value its test accepts.\<close>

lemma getParameterValue_valid:
  "pm_validate p (JNumber (pm_default p)) \<Longrightarrow> pm_validate p (parameterValue opt p)"
  by (simp add: parameterValue_def)

lemma heartbeat_in_range:
  "900 \<le> validateClientSessionKeepAliveHeartbeatFrequency x 14400 \<and>
   validateClientSessionKeepAliveHeartbeatFrequency x 14400 \<le> 3600"
  by (auto simp: validateClientSessionKeepAliveHeartbeatFrequency_def Let_def le_floor_iff floor_le_iff)

section \<open>Properties\<close>

text \<open>
  C29. A configuration that was accepted is well-typed: the URL is a text and an account is there; the
  proxy has a host, a port and complete credentials or none; the flags are booleans; the retry timeout
  is 0 (no limit) or at least 300 seconds; the heartbeat lies between 900 and 3600 seconds; prefetch,
  timeout and login retries are numbers of the required range whatever was passed; and with
  credentials to validate the user name is there unless the authenticator does not need one.
\<close>

theorem config_well_typed:
  assumes "ConnectionConfig env options vc = Inr c"
  shows "isString (st_accessUrl (cf_site c)) \<and> jsExists (st_account (cf_site c)) \<and>
    (case cf_proxy c of None \<Rightarrow> True | Some q \<Rightarrow> isString (px_host q) \<and> isNumber (px_port q) \<and>
       (isString (px_user q) \<and> isString (px_password q) \<or> px_user q = JUndefined \<and> px_password q = JUndefined)) \<and>
    isPositiveInteger (cf_browserActionTimeout c) \<and>
    list_all isBoolean [cf_disableQueryContextCache c, cf_includeRetryReason c, cf_clientRequestMFAToken c,
      cf_disableConsoleLogin c, cf_disableSamlURLCheck c, cf_clientStoreTemporaryCredential c,
      cf_passcodeInPassword c] \<and>
    (cf_retryTimeout c = 0 \<or> 300 \<le> cf_retryTimeout c) \<and>
    (case cf_heartbeatFrequency c of None \<Rightarrow> True | Some f \<Rightarrow> 900 \<le> f \<and> f \<le> 3600) \<and>
    (cf_queryTag c = JUndefined \<or> validQueryTag (cf_queryTag c)) \<and>
    isPositiveInteger (cf_parameters c ''timeout'') \<and> isPositiveInteger (cf_parameters c ''resultPrefetch'') \<and>
    isNonNegativeInteger (cf_parameters c ''sfRetryMaxLoginRetries'') \<and>
    (truthy (orDefault vc (JBoolean True)) \<longrightarrow>
       isString (cf_options c ''username'') \<or>
       map upperChar (the_string (cf_options c ''authenticator'')) \<in> set noUsernameRequiredFor)"
proof -
  obtain ps opt st px auth where cfg: "c = buildConfig env opt st px auth"
    and cred: "truthy (orDefault vc (JBoolean True)) \<Longrightarrow> \<forall>k\<in>set (credentialChecks env opt). k = Inr ()"
    and site: "jsExists (st_account st)" "isString (st_accessUrl st)"
    and px: "px = None \<or> (\<exists>p q. px = Some q \<and> validateProxy p = Inr q)"
    and opts: "\<forall>k\<in>set (optionChecks env opt). k = Inr ()"
    using ConnectionConfig_Inr[OF assms] by metis
  have proxy: "case px of None \<Rightarrow> True | Some q \<Rightarrow> isString (px_host q) \<and> isNumber (px_port q) \<and>
       (isString (px_user q) \<and> isString (px_password q) \<or> px_user q = JUndefined \<and> px_password q = JUndefined)"
    using px by (auto dest: validateProxy_Inr)
  have flags: "\<forall>k\<in>{''disableQueryContextCache'', ''includeRetryReason'', ''clientRequestMFAToken'',
      ''disableConsoleLogin'', ''disableSamlURLCheck'', ''clientStoreTemporaryCredential'', ''passcodeInPassword''}.
      jsExists (opt k) \<longrightarrow> isBoolean (opt k)"
    using opts by (simp add: optionChecks_def)
  have tag: "truthy (opt ''queryTag'') \<longrightarrow> validQueryTag (opt ''queryTag'')"
    and browser: "jsExists (opt ''browserActionTimeout'') \<longrightarrow> isPositiveInteger (opt ''browserActionTimeout'')"
    using opts by (simp_all add: optionChecks_def split: if_splits)
  have user: "isString (opt ''username'') \<or> map upperChar (the_string (opt ''authenticator'')) \<in> set noUsernameRequiredFor"
    if "truthy (orDefault vc (JBoolean True))"
    using cred[OF that] by (auto simp: credentialChecks_def Let_def split: if_splits)
  show ?thesis
    using site proxy flags tag browser user heartbeat_in_range
    by (auto simp: cfg buildConfig_def Let_def orDefault_def effectiveRetryTimeout_def getParameterValue_def
        createParameters_def parameterValue_def)
qed

definition sampleEnv :: config_env where
  "sampleEnv = \<lparr>env_parseUrl = \<lambda>_. None, env_readToken = \<lambda>_. None, env_resolve = id, env_isDirectory = \<lambda>_. False,
     env_text = the_string, env_json = the_string\<rparr>"

definition sampleOptions :: "(string \<times> jsv) list" where
  "sampleOptions = [(''account'', JString ''acme''), (''username'', JString ''u''), (''password'', JString ''p'')]"

lemmas eval_config = ConnectionConfig_def sampleEnv_def readToken_def shouldReadTokenFromFile_def
  credentialChecks_def noUsernameRequiredFor_def consolidateHostAndAccount_def isCorrectSubdomain_def
  is_word_def is_digit_def splitAccount_def indexOf_def constructHostname_def globalAccount_def
  configProxy_def optionChecks_def fetchAsStringChecks_def orDefault_def validIfExists_def
  isValidRowMode_def rowModes_def Let_def

lemma sample_accepted:
  "\<exists>c. ConnectionConfig env (JObject sampleOptions) JUndefined = Inr c" if "env = sampleEnv"
  using that by (simp add: eval_config sampleOptions_def getProp_def failed_checks)

theorem config_well_typed_witness:
  "\<exists>c. ConnectionConfig sampleEnv (JObject sampleOptions) JUndefined = Inr c \<and> isString (st_accessUrl (cf_site c))"
  using sample_accepted[OF refl] config_well_typed by meson

text \<open>
  The two ways to give an account with its region are equivalent: \<open>account.region\<close> in one option
  gives the same account, region, host and URL as the two options apart, whatever URL, host, port and
  protocol are given beside them.
\<close>

theorem dotted_account_equals_region:
  assumes "CHR ''.'' \<notin> set a" "a \<noteq> []" "isCorrectSubdomain a" "isCorrectSubdomain r"
    "env_text env (JString r) = r"
  shows "consolidateHostAndAccount env (opt(''account'' := JString (a @ CHR ''.'' # r), ''region'' := JUndefined)) =
    consolidateHostAndAccount env (opt(''account'' := JString a, ''region'' := JString r))"
proof -
  have "isCorrectSubdomain (a @ CHR ''.'' # r)"
    using assms(3,4) by (simp add: isCorrectSubdomain_def subdomainFrom_sep)
  then show ?thesis
    using assms
    by (cases "env_parseUrl env (opt ''accessUrl'')"; cases "opt ''host''")
      (simp_all add: consolidateHostAndAccount_def splitAccount_dot splitAccount_plain Let_def)
qed

theorem dotted_account_equals_region_witness:
  "consolidateHostAndAccount sampleEnv ((\<lambda>_. JUndefined)(''account'' := JString ''acme.eu-1'', ''region'' := JUndefined)) =
   consolidateHostAndAccount sampleEnv ((\<lambda>_. JUndefined)(''account'' := JString ''acme'', ''region'' := JString ''eu-1''))"
  using dotted_account_equals_region[of "''acme''" "''eu-1''" sampleEnv "\<lambda>_. JUndefined"]
  by (simp add: isCorrectSubdomain_def is_word_def is_digit_def sampleEnv_def)

lemma no_template_without_code: "message_template NoCode = None"
proof -
  have "show_int n \<noteq> ''undefined''" for n
  proof
    assume e: "show_int n = ''undefined''"
    then have "show_nat (nat n) = ''undefined''" by (simp add: show_int_def split: if_splits)
    then have "is_digit CHR ''u''" using show_nat_digits[of "nat n"] by simp
    then show False by (simp add: is_digit_def)
  qed
  then have "''undefined'' \<noteq> fst ((\<lambda>(n, t). (show_int n, t)) e)" for e :: "int \<times> string"
    by (cases e) (simp only: prod.case fst_conv, metis)
  then have u: "''undefined'' \<notin> fst ` (\<lambda>(n, t). (show_int n, t)) ` set error_messages"
    unfolding image_image by (rule_tac notI, erule_tac imageE, blast)
  then show ?thesis
    by (simp only: message_template_def code_key.simps map_of_eq_None_iff set_map simp_thms)
qed

text \<open>
  Two invalid options are rejected without an error code: the names used for \<open>retryTimeout\<close> and
  \<open>credentialCacheDir\<close> are missing from the table, so the error has neither a code nor a message of
  its own, whereas an invalid \<open>rowMode\<close> gets both.
\<close>

theorem uncoded_option_errors:
  "ConnectionConfig sampleEnv (JObject (sampleOptions @ [(''retryTimeout'', JString ''5'')])) JUndefined =
     Inl (coded InvalidParameterError NoCode []) \<and>
   ConnectionConfig sampleEnv (JObject (sampleOptions @ [(''credentialCacheDir'', JString ''x'')])) JUndefined =
     Inl (coded InvalidParameterError NoCode []) \<and>
   ConnectionConfig sampleEnv (JObject (sampleOptions @ [(''rowMode'', JString ''x'')])) JUndefined =
     Inl (coded InvalidParameterError (NumCode 411006) [''x'']) \<and>
   message_template NoCode = None"
  by (simp add: no_template_without_code eval_config sampleOptions_def getProp_def failed_checks)

end
