(* ===== verification/StatementModel.thy ===== *)
theory StatementModel
  imports ConfigModel
begin

text \<open>
  Creating statements (\<open>lib/connection/statement.js\<close>): the validation of the options of
  \<open>execute\<close> and \<open>fetchResult\<close>, the choice of the kind of statement, the bind variables, and the
  requests that execute, poll and cancel a statement.  The session parameters (\<open>lib/parameters.js\<close>) are
  a map from names to values.

  \<open>text v\<close> is the text of a value in a message (\<open>util.format\<close>), \<open>numText\<close> the shortest decimal text of a
  number that is no small integer.
\<close>

section \<open>Session parameters\<close>

type_synonym param_store = "string \<rightharpoonup> jsv"

definition defaultParameters :: param_store where
  "defaultParameters =
     [''JS_DRIVER_DISABLE_OCSP_FOR_NON_SF_ENDPOINTS'' \<mapsto> JBoolean False,
      ''SERVICE_NAME'' \<mapsto> JString [],
      ''CLIENT_SESSION_KEEP_ALIVE'' \<mapsto> JBoolean False,
      ''CLIENT_SESSION_KEEP_ALIVE_HEARTBEAT_FREQUENCY'' \<mapsto> JNumber 3600,
      ''JS_TREAT_INTEGER_AS_BIGINT'' \<mapsto> JBoolean False,
      ''CLIENT_STAGE_ARRAY_BINDING_THRESHOLD'' \<mapsto> JNumber 100000,
      ''MULTI_STATEMENT_COUNT'' \<mapsto> JNumber 1,
      ''QUERY_CONTEXT_CACHE_SIZE'' \<mapsto> JNumber 5]"

definition getValue :: "param_store \<Rightarrow> string \<Rightarrow> jsv js" where
  "getValue ps name = (case ps name of None \<Rightarrow> Inl AssertionError | Some v \<Rightarrow> Inr v)"

definition updateParameter :: "string \<times> jsv \<Rightarrow> param_store \<Rightarrow> param_store" where
  "updateParameter p ps = (if fst p \<in> dom ps then ps(fst p \<mapsto> snd p) else ps)"

definition updateParameters :: "(string \<times> jsv) list \<Rightarrow> param_store \<Rightarrow> param_store" where
  "updateParameters config ps = fold updateParameter config ps"

section \<open>JSON texts\<close>

definition hex_digit :: "nat \<Rightarrow> char" where
  "hex_digit n = (if n < 10 then char_of (48 + n) else char_of (87 + n))"

definition json_char :: "char \<Rightarrow> string" where
  "json_char c =
     (let n = of_char c :: nat
      in if n = 34 then [char_of (92 :: nat), char_of (34 :: nat)]
         else if n = 92 then [char_of (92 :: nat), char_of (92 :: nat)]
         else if n = 8 then char_of (92 :: nat) # ''b''
         else if n = 9 then char_of (92 :: nat) # ''t''
         else if n = 10 then char_of (92 :: nat) # ''n''
         else if n = 12 then char_of (92 :: nat) # ''f''
         else if n = 13 then char_of (92 :: nat) # ''r''
         else if n < 32 then char_of (92 :: nat) # ''u00'' @ [hex_digit (n div 16), hex_digit (n mod 16)]
         else [c])"

definition json_string :: "string \<Rightarrow> string" where
  "json_string s = char_of (34 :: nat) # concat (map json_char s) @ [char_of (34 :: nat)]"

definition number_text :: "(rat \<Rightarrow> string) \<Rightarrow> rat \<Rightarrow> string" where
  "number_text numText r =
     (if of_int \<lfloor>r\<rfloor> = r \<and> \<bar>r\<bar> < 10 ^ 21 then show_int \<lfloor>r\<rfloor> else numText r)"

text \<open>\<open>JSON.stringify\<close>; \<open>None\<close> is \<open>undefined\<close>, which is left out of objects and \<open>null\<close> in arrays.\<close>

fun stringify :: "(rat \<Rightarrow> string) \<Rightarrow> jsv \<Rightarrow> string option" where
  "stringify nt JUndefined = None"
| "stringify nt JFunction = None"
| "stringify nt JNullV = Some ''null''"
| "stringify nt JNonFinite = Some ''null''"
| "stringify nt (JBoolean b) = Some (if b then ''true'' else ''false'')"
| "stringify nt (JNumber r) = Some (number_text nt r)"
| "stringify nt (JString s) = Some (json_string s)"
| "stringify nt (JDate d) = Some (case d of None \<Rightarrow> ''null'' | Some s \<Rightarrow> json_string s)"
| "stringify nt (JArray vs) =
     Some (''['' @ joinWith CHR '','' (map (\<lambda>v. case stringify nt v of None \<Rightarrow> ''null'' | Some t \<Rightarrow> t) vs) @ '']'')"
| "stringify nt (JObject ps) =
     Some (''{'' @ joinWith CHR '',''
       (concat (map (\<lambda>(k, v). case stringify nt v of None \<Rightarrow> [] | Some t \<Rightarrow> [json_string k @ '':'' @ t]) ps))
       @ ''}'')"

section \<open>Bind variables\<close>

datatype bind_value = BindNull | BindUndefined | BindText string

datatype bind_data = Single bind_value | Column "bind_value list"

record bind =
  bd_type :: string
  bd_value :: bind_data

definition bindType :: "jsv \<Rightarrow> string" where
  "bindType v =
     (if isBoolean v then ''BOOLEAN''
      else if isObject v \<or> isArray v then ''VARIANT''
      else if isNumber v then (if isInteger v then ''FIXED'' else ''REAL'')
      else ''TEXT'')"

text \<open>Null stays null; a date becomes its JSON form, anything else but a text its JSON text.\<close>

definition bindValue :: "(rat \<Rightarrow> string) \<Rightarrow> jsv \<Rightarrow> bind_value" where
  "bindValue nt v =
     (case v of
        JNullV \<Rightarrow> BindNull
      | JString s \<Rightarrow> BindText s
      | JDate d \<Rightarrow> (case d of None \<Rightarrow> BindNull | Some s \<Rightarrow> BindText s)
      | _ \<Rightarrow> (case stringify nt v of None \<Rightarrow> BindUndefined | Some s \<Rightarrow> BindText s))"

text \<open>\<open>row[index]\<close>: a text is read by characters, an object by its property of that name.\<close>

definition elementAt :: "jsv \<Rightarrow> nat \<Rightarrow> jsv js" where
  "elementAt row i =
     (case row of
        JUndefined \<Rightarrow> Inl TypeError
      | JNullV \<Rightarrow> Inl TypeError
      | JArray vs \<Rightarrow> Inr (if i < length vs then vs ! i else JUndefined)
      | JString s \<Rightarrow> Inr (if i < length s then JString [s ! i] else JUndefined)
      | JObject ps \<Rightarrow> Inr (getProp ps (show_nat i))
      | _ \<Rightarrow> Inr JUndefined)"

definition bindColumn :: "(rat \<Rightarrow> string) \<Rightarrow> jsv list \<Rightarrow> nat \<Rightarrow> bind_value list js" where
  "bindColumn nt rows i = js_map (\<lambda>row. js_bind (elementAt row i) (\<lambda>v. Inr (bindValue nt v))) rows"

text \<open>The map of the binds: the type of a column is the type of its first row.\<close>

definition buildBindsMap :: "(rat \<Rightarrow> string) \<Rightarrow> jsv list \<Rightarrow> (nat \<times> bind) list js" where
  "buildBindsMap nt binds =
     (case binds of
        JArray first # _ \<Rightarrow>
          js_map (\<lambda>i. js_bind (bindColumn nt binds i) (\<lambda>vs.
            Inr (i + 1, \<lparr>bd_type = bindType (first ! i), bd_value = Column vs\<rparr>))) [0..<length first]
      | _ \<Rightarrow>
          Inr (map (\<lambda>i. (i + 1, \<lparr>bd_type = bindType (binds ! i), bd_value = Single (bindValue nt (binds ! i))\<rparr>))
            [0..<length binds]))"

definition countBinding :: "jsv list option \<Rightarrow> nat" where
  "countBinding binds =
     (case binds of None \<Rightarrow> 0
      | Some rows \<Rightarrow> sum_list (map (\<lambda>row. case row of JArray vs \<Rightarrow> length vs | _ \<Rightarrow> 0) rows))"

section \<open>Options\<close>

definition fetchAsStringOption :: "(rat \<Rightarrow> string) \<Rightarrow> jsv \<Rightarrow> int \<Rightarrow> int \<Rightarrow> unit checked list" where
  "fetchAsStringOption nt v notArray invalid =
     (if jsExists v then
        [mustBeValid (isArray v) (NumCode notArray) [],
         (case v of
            JArray vs \<Rightarrow>
              (let i = findInvalidValue vs
               in mustBeValid (i = - 1) (NumCode invalid)
                    [case stringify nt (if 0 \<le> i \<and> i < int (length vs) then vs ! nat i else JUndefined) of
                       None \<Rightarrow> ''undefined'' | Some t \<Rightarrow> t])
          | _ \<Rightarrow> Inr ())]
      else [])"

definition rowModeOption :: "(rat \<Rightarrow> string) \<Rightarrow> jsv \<Rightarrow> unit checked" where
  "rowModeOption nt v =
     (if jsExists v then
        mustBeValid (isValidRowMode v) (NumCode 411006)
          [case stringify nt v of None \<Rightarrow> ''undefined'' | Some t \<Rightarrow> t]
      else Inr ())"

definition bindOptions :: "(jsv \<Rightarrow> string) \<Rightarrow> (rat \<Rightarrow> string) \<Rightarrow> jsv \<Rightarrow> unit checked list" where
  "bindOptions text nt v =
     (if jsExists v then
        mustBeValid (isArray v) (NumCode 409007) [] #
        (case v of
           JArray vs \<Rightarrow> map (\<lambda>b. mustBeValid (stringify nt b \<noteq> None) (NumCode 409008) [text b]) vs
         | _ \<Rightarrow> [])
      else [])"

definition executeChecks :: "(jsv \<Rightarrow> string) \<Rightarrow> (rat \<Rightarrow> string) \<Rightarrow> (string \<Rightarrow> jsv) \<Rightarrow> unit checked list" where
  "executeChecks text nt opt =
     (if \<not> jsExists (opt ''requestId'') then
        [mustExist (jsExists (opt ''sqlText'')) (NumCode 409003),
         mustBeValid (isString (opt ''sqlText'')) (NumCode 409004) []] else []) @
     [validIfExists (opt ''complete'') isFunction 409009,
      validIfExists (opt ''streamResult'') isBoolean 409010] @
     fetchAsStringOption nt (opt ''fetchAsString'') 409011 409012 @
     [validIfExists (opt ''requestId'') isString 409013,
      validIfExists (opt ''parameters'') isObject 409006] @
     bindOptions text nt (opt ''binds'') @
     [validIfExists (opt ''internal'') isBoolean 409005,
      rowModeOption nt (opt ''rowMode''),
      validIfExists (opt ''asyncExec'') isBoolean 409014,
      validIfExists (opt ''describeOnly'') isBoolean 409015]"

definition fetchResultChecks :: "(rat \<Rightarrow> string) \<Rightarrow> (string \<Rightarrow> jsv) \<Rightarrow> unit checked list" where
  "fetchResultChecks nt opt =
     [mustExist (jsExists (opt ''queryId'')) (NumCode 410003),
      mustBeValid (isString (opt ''queryId'')) (NumCode 410004) [],
      validIfExists (opt ''complete'') isFunction 410005,
      validIfExists (opt ''streamResult'') isBoolean 410006] @
     fetchAsStringOption nt (opt ''fetchAsString'') 410007 410008 @
     [rowModeOption nt (opt ''rowMode''), validIfExists (opt ''cwd'') isString 410009]"

definition fetchRowsChecks :: "(rat \<Rightarrow> string) \<Rightarrow> (string \<Rightarrow> jsv) \<Rightarrow> unit checked list" where
  "fetchRowsChecks nt opt =
     [mustExist (jsExists (opt ''each'')) (NumCode 450003),
      mustBeValid (isFunction (opt ''each'')) (NumCode 450004) [],
      mustExist (jsExists (opt ''end'')) (NumCode 450005),
      mustBeValid (isFunction (opt ''end'')) (NumCode 450006) [],
      rowModeOption nt (opt ''rowMode'')]"

text \<open>The row mode tested is the one of the statement, not the one of the call.\<close>

definition streamRowsChecks :: "(rat \<Rightarrow> string) \<Rightarrow> jsv \<Rightarrow> (string \<Rightarrow> jsv) \<Rightarrow> unit checked list" where
  "streamRowsChecks nt statementRowMode opt =
     [validIfExists (opt ''start'') isNumber 411002, validIfExists (opt ''end'') isNumber 411003] @
     fetchAsStringOption nt (opt ''fetchAsString'') 411004 411005 @
     [rowModeOption nt statementRowMode]"

text \<open>The option object itself is tested first.\<close>

definition withOptions :: "jsv \<Rightarrow> int \<Rightarrow> int \<Rightarrow> ((string \<Rightarrow> jsv) \<Rightarrow> 'a checked) \<Rightarrow> 'a checked" where
  "withOptions options missing invalid f =
     chk_bind (checks [mustExist (jsExists options) (NumCode missing), mustBeValid (isObject options) (NumCode invalid) []])
       (\<lambda>_. case options of JObject ps \<Rightarrow> f (getProp ps) | _ \<Rightarrow> Inl (ThrownJs TypeError))"

section \<open>Statement contexts\<close>

datatype statement_kind = FilePreExec | StagePreExec | RowPreExec | PostExec

record stmt_context =
  cx_sqlText :: jsv
  cx_complete :: jsv
  cx_streamResult :: jsv
  cx_fetchAsString :: jsv
  cx_rowMode :: jsv
  cx_asyncExec :: jsv
  cx_binds :: "jsv list option"
  cx_parameters :: jsv
  cx_internal :: jsv
  cx_cwd :: jsv
  cx_describeOnly :: jsv
  cx_requestId :: "string option"
  cx_resubmitRequest :: bool
  cx_queryId :: "string option"
  cx_multiResultIds :: jsv
  cx_multiSqlTexts :: jsv
  cx_multiCurId :: jsv

text \<open>Assignment to a property of an object.\<close>

definition setProp :: "string \<Rightarrow> jsv \<Rightarrow> (string \<times> jsv) list \<Rightarrow> (string \<times> jsv) list" where
  "setProp k v ps =
     (if k \<in> fst ` set ps then map (\<lambda>(k', v'). (k', if k' = k then v else v')) ps else ps @ [(k, v)])"

text \<open>
  The query tag of the connection goes into the parameters the caller passed.  Without parameters a
  new object is made for the options, which the context does not see.
\<close>

definition taggedParameters :: "jsv \<Rightarrow> jsv \<Rightarrow> jsv" where
  "taggedParameters queryTag v =
     (case v of
        JObject ps \<Rightarrow> if truthy queryTag then JObject (setProp ''QUERY_TAG'' queryTag ps) else v
      | _ \<Rightarrow> JUndefined)"

definition createContextPreExec ::
  "(jsv \<Rightarrow> string) \<Rightarrow> (rat \<Rightarrow> string) \<Rightarrow> string \<Rightarrow> jsv \<Rightarrow> jsv \<Rightarrow> stmt_context checked"
where
  "createContextPreExec text nt randomUUID queryTag options =
     withOptions options 409001 409002 (\<lambda>opt.
       chk_bind (checks (executeChecks text nt opt)) (\<lambda>_. Inr
         \<lparr>cx_sqlText = opt ''sqlText'', cx_complete = opt ''complete'', cx_streamResult = opt ''streamResult'',
          cx_fetchAsString = opt ''fetchAsString'', cx_rowMode = opt ''rowMode'', cx_asyncExec = opt ''asyncExec'',
          cx_binds = (case opt ''binds'' of JArray vs \<Rightarrow> Some vs | _ \<Rightarrow> None),
          cx_parameters = taggedParameters queryTag (opt ''parameters''),
          cx_internal = (if jsExists (opt ''internal'') then opt ''internal'' else JUndefined),
          cx_cwd = (if jsExists (opt ''cwd'') then opt ''cwd'' else JUndefined),
          cx_describeOnly = (if jsExists (opt ''describeOnly'') then opt ''describeOnly'' else JUndefined),
          cx_requestId = Some (if truthy (opt ''requestId'') then the_string (opt ''requestId'') else randomUUID),
          cx_resubmitRequest = truthy (opt ''requestId''), cx_queryId = None,
          cx_multiResultIds = opt ''multiResultIds'', cx_multiSqlTexts = JUndefined,
          cx_multiCurId = opt ''multiCurId''\<rparr>))"

definition postExecContext :: "(rat \<Rightarrow> string) \<Rightarrow> (string \<Rightarrow> jsv) \<Rightarrow> stmt_context checked" where
  "postExecContext nt opt =
       chk_bind (checks (fetchResultChecks nt opt)) (\<lambda>_. Inr
         \<lparr>cx_sqlText = opt ''sqlText'', cx_complete = opt ''complete'', cx_streamResult = opt ''streamResult'',
          cx_fetchAsString = opt ''fetchAsString'', cx_rowMode = opt ''rowMode'', cx_asyncExec = JUndefined,
          cx_binds = None, cx_parameters = JUndefined, cx_internal = JUndefined, cx_cwd = opt ''cwd'',
          cx_describeOnly = JUndefined, cx_requestId = None, cx_resubmitRequest = False,
          cx_queryId = Some (the_string (opt ''queryId'')), cx_multiResultIds = opt ''multiResultIds'',
          cx_multiSqlTexts = opt ''multiSqlTexts'', cx_multiCurId = opt ''multiCurId''\<rparr>)"

definition createStatementPostExec :: "(rat \<Rightarrow> string) \<Rightarrow> jsv \<Rightarrow> stmt_context checked" where
  "createStatementPostExec nt options = withOptions options 410001 410002 (postExecContext nt)"

text \<open>\<open>isPutCommand\<close> and \<open>isGetCommand\<close>.\<close>

definition isCommand :: "string \<Rightarrow> string \<Rightarrow> bool" where
  "isCommand name sqlText \<longleftrightarrow> map upperChar (take 3 (trim sqlText)) = name"

text \<open>The kind of a new statement; a threshold that is no number is never exceeded.\<close>

definition bindThreshold :: "param_store \<Rightarrow> jsv \<Rightarrow> jsv js" where
  "bindThreshold ps configured =
     js_bind (getValue ps ''CLIENT_STAGE_ARRAY_BINDING_THRESHOLD'') (\<lambda>v.
       Inr (if truthy configured then configured else v))"

definition statementKind :: "param_store \<Rightarrow> jsv \<Rightarrow> stmt_context \<Rightarrow> statement_kind js" where
  "statementKind ps configured cx =
     (if truthy (cx_sqlText cx) \<and> \<not> isString (cx_sqlText cx) then Inl TypeError
      else if truthy (cx_sqlText cx) \<and>
         (isCommand ''PUT'' (the_string (cx_sqlText cx)) \<or> isCommand ''GET'' (the_string (cx_sqlText cx)))
      then Inr FilePreExec
      else js_bind (bindThreshold ps configured) (\<lambda>threshold.
        Inr (case threshold of
               JNumber t \<Rightarrow> if of_nat (countBinding (cx_binds cx)) > t then StagePreExec else RowPreExec
             | _ \<Rightarrow> RowPreExec)))"

section \<open>Requests\<close>

text \<open>\<open>querystring.stringify\<close> of one parameter.\<close>

definition query_char :: "char \<Rightarrow> string" where
  "query_char c =
     (if is_word c \<or> c \<in> set ''-.!~*()'' \<or> (of_char c :: nat) = 39 then [c]
      else CHR ''%'' # map upperChar [hex_digit (of_char c div 16), hex_digit (of_char c mod 16)])"

definition query_param :: "string \<Rightarrow> string \<Rightarrow> string" where
  "query_param name v = name @ ''='' @ concat (map query_char v)"

record 'd query_body =
  qb_sqlText :: jsv
  qb_bindStage :: "string option"
  qb_bindings :: "(nat \<times> bind) list option"
  qb_parameters :: "jsv option"
  qb_isInternal :: "jsv option"
  qb_queryContextDTO :: "'d option"
  qb_asyncExec :: "jsv option"
  qb_describeOnly :: "jsv option"

datatype 'd request_body = NoBody | QueryBody "'d query_body" | CancelBody "string option"

record 'd sf_request =
  rq_method :: string
  rq_url :: string
  rq_body :: "'d request_body"

definition given :: "jsv \<Rightarrow> jsv option" where
  "given v = (if jsExists v then Some v else None)"

text \<open>A statement resubmitted by its request id alone runs a query that only reports an error.\<close>

definition resubmitText :: "string \<Rightarrow> string" where
  "resubmitText requestId =
     ''SELECT '' @ [char_of (39 :: nat)] @ ''Error retrieving query results for request id: '' @ requestId @
     '', please use RESULT_SCAN instead'' @ [char_of (39 :: nat)] @ '' AS ErrorMessage;''"

definition buildQueryBody ::
  "(rat \<Rightarrow> string) \<Rightarrow> 'd option \<Rightarrow> string option \<Rightarrow> stmt_context \<Rightarrow> 'd query_body js"
where
  "buildQueryBody nt dto bindStage cx =
     js_bind (case (bindStage, cx_binds cx) of
                (None, Some vs) \<Rightarrow> js_bind (buildBindsMap nt vs) (\<lambda>m. Inr (Some m))
              | _ \<Rightarrow> Inr None) (\<lambda>bindings. Inr
       \<lparr>qb_sqlText = (if cx_resubmitRequest cx \<and> \<not> truthy (cx_sqlText cx)
                      then JString (resubmitText (case cx_requestId cx of None \<Rightarrow> [] | Some r \<Rightarrow> r))
                      else cx_sqlText cx),
        qb_bindStage = bindStage, qb_bindings = bindings, qb_parameters = given (cx_parameters cx),
        qb_isInternal = given (cx_internal cx), qb_queryContextDTO = dto,
        qb_asyncExec = given (cx_asyncExec cx), qb_describeOnly = given (cx_describeOnly cx)\<rparr>)"

definition sendRequestPreExec ::
  "(rat \<Rightarrow> string) \<Rightarrow> 'd option \<Rightarrow> string option \<Rightarrow> stmt_context \<Rightarrow> 'd sf_request js"
where
  "sendRequestPreExec nt dto bindStage cx =
     js_bind (buildQueryBody nt dto bindStage cx) (\<lambda>b. Inr
       \<lparr>rq_method = ''POST'',
        rq_url = ''/queries/v1/query-request?'' @
          query_param ''requestId'' (case cx_requestId cx of None \<Rightarrow> [] | Some r \<Rightarrow> r),
        rq_body = QueryBody b\<rparr>)"

definition sendRequestPostExec :: "string option \<Rightarrow> 'd sf_request" where
  "sendRequestPostExec queryId =
     \<lparr>rq_method = ''GET'',
      rq_url = ''/queries/'' @ (case queryId of None \<Rightarrow> ''undefined'' | Some q \<Rightarrow> q) @
        ''/result?disableOfflineChunks=false'',
      rq_body = NoBody\<rparr>"

definition pollRequest :: "string \<Rightarrow> 'd sf_request" where
  "pollRequest url = \<lparr>rq_method = ''GET'', rq_url = url, rq_body = NoBody\<rparr>"

definition sendCancelStatement :: "string option \<Rightarrow> string option \<Rightarrow> 'd sf_request" where
  "sendCancelStatement queryId requestId =
     (case queryId of
        Some (c # cs) \<Rightarrow> \<lparr>rq_method = ''POST'', rq_url = ''/queries/'' @ (c # cs) @ ''/abort-request'', rq_body = NoBody\<rparr>
      | _ \<Rightarrow> \<lparr>rq_method = ''POST'', rq_url = ''/queries/v1/abort-request'', rq_body = CancelBody requestId\<rparr>)"

section \<open>Facts on binds\<close>

lemma js_map_all: "(\<And>x. x \<in> set xs \<Longrightarrow> f x = Inr (g x)) \<Longrightarrow> js_map f xs = Inr (map g xs)"
  by (induction xs) auto

lemma bindColumn_rows:
  "\<forall>r\<in>set bs. i < length r \<Longrightarrow>
   bindColumn nt (map JArray bs) i = Inr (map (\<lambda>r. bindValue nt (r ! i)) bs)"
  by (induction bs) (auto simp: bindColumn_def elementAt_def)

lemma bindValue_present: "stringify nt v \<noteq> None \<Longrightarrow> bindValue nt v \<noteq> BindUndefined"
  by (cases v) (auto simp: bindValue_def split: option.split)

lemma buildBindsMap_rows:
  assumes "bs \<noteq> []" "\<forall>r\<in>set bs. length r = n"
  shows "buildBindsMap nt (map JArray bs) = Inr (map (\<lambda>i. (i + 1, \<lparr>bd_type = bindType (hd bs ! i),
    bd_value = Column (map (\<lambda>r. bindValue nt (r ! i)) bs)\<rparr>)) [0..<n])"
proof -
  obtain r rs where bs: "bs = r # rs" using assms(1) by (cases bs) auto
  have n: "length r = n" using assms(2) bs by simp
  show ?thesis
    unfolding buildBindsMap_def bs list.map list.case jsv.case n list.sel
    by (rule js_map_all) (use assms(2) bindColumn_rows[of "r # rs" _ nt] in \<open>simp add: bs\<close>)
qed

end
