(* ===== verification/StatementRun.thy ===== *)
theory StatementRun
  imports StatementModel ResultModel ColumnNames QueryContextCache
begin

text \<open>
  The life of a row statement (\<open>lib/connection/statement.js\<close>): polling until the result is there, the
  one call of the \<open>complete\<close> callback, refreshing the result, statements with several results, and how
  \<open>fetchRows\<close> starts, is interrupted by expired download links and ends.

  The handling of one response is one step: the code awaits only functions that return at once.  The
  service is reduced to what a statement uses, its query context cache and the session parameters.
\<close>

section \<open>Responses and results\<close>

record 'v response_data =
  rd_queryId :: string
  rd_getResultUrl :: string
  rd_resultIds :: "string option"
  rd_rowtype :: "string list option"     \<comment> \<open>column names; missing while a query is in progress\<close>
  rd_rowset :: "'v list list"
  rd_chunks :: "'v chunk_cfg list option"
  rd_returned :: int
  rd_parameters :: "(string \<times> jsv) list"
  rd_queryContext :: qc_data

record 'v response =
  rs_code :: string
  rs_data :: "'v response_data"

record failure_data =
  fd_queryId :: string
  fd_queryContext :: "qc_data option"

type_synonym stmt_error = "(failure_data, int \<times> string) sf_error"

record 'v result =
  rt_queryId :: string
  rt_columns :: "string list"
  rt_columnIndex :: "string \<rightharpoonup> nat list"
  rt_chunks :: "'v chunk list"
  rt_returned :: int
  rt_parameters :: "(string \<times> jsv) list"
  rt_queryContext :: qc_data

definition newResult :: "jsv \<Rightarrow> 'v response_data \<Rightarrow> 'v result js" where
  "newResult rowMode d =
     (case rd_rowtype d of
        None \<Rightarrow> Inl TypeError
      | Some names \<Rightarrow>
          (let columns = (if rowMode = JString ''object_with_renamed_duplicated_columns''
                          then effectiveNames names else names)
           in js_bind (buildColumnMap 0 columns Map.empty) (\<lambda>m. Inr
                \<lparr>rt_queryId = rd_queryId d, rt_columns = columns, rt_columnIndex = m,
                 rt_chunks = createChunks (rd_chunks d) (rd_rowset d), rt_returned = rd_returned d,
                 rt_parameters = rd_parameters d, rt_queryContext = rd_queryContext d\<rparr>)))"

section \<open>State\<close>

text \<open>The result of an asynchronous execution is only its query id.\<close>

datatype 'v outcome = ResultOf "'v result" | AsyncHandle string

datatype result_error = SfError stmt_error | JsError js_exn | ThrownError thrown

text \<open>How \<open>invokeStatementComplete\<close> answers: at once, or after reading all rows in the next tick.\<close>

datatype completion = CompletedWith "result_error option" | CompletedAsync string | CollectRows

record 'v stmt =
  ss_context :: stmt_context
  ss_isFetchingResult :: bool
  ss_result :: "'v outcome option"
  ss_resultError :: "result_error option"
  ss_isMulti :: bool
  ss_emitted :: "stmt_error option list"
  ss_completions :: "completion list"

record world =
  w_qcc :: "qcc option"
  w_parameters :: param_store
  w_created :: "stmt_context list"

text \<open>\<open>BaseStatement\<close>: \<open>rowMode || getRowMode()\<close>.\<close>

definition newStatement :: "jsv \<Rightarrow> stmt_context \<Rightarrow> 'v stmt" where
  "newStatement configRowMode cx =
     \<lparr>ss_context = cx\<lparr>cx_rowMode := if truthy (cx_rowMode cx) then cx_rowMode cx else configRowMode\<rparr>,
      ss_isFetchingResult = True, ss_result = None, ss_resultError = None, ss_isMulti = False,
      ss_emitted = [], ss_completions = []\<rparr>"

definition externalizeError :: "result_error option \<Rightarrow> result_error option" where
  "externalizeError e =
     (case e of Some (SfError x) \<Rightarrow> map_option SfError (externalize (Some x)) | _ \<Rightarrow> e)"

definition useQueryContext :: "qc_data \<Rightarrow> world \<Rightarrow> world js" where
  "useQueryContext d w =
     (case w_qcc w of
        None \<Rightarrow> Inr w
      | Some q \<Rightarrow> js_bind (deserializeQueryContext d q) (\<lambda>q'. Inr (w\<lparr>w_qcc := Some q'\<rparr>)))"

section \<open>Polling\<close>

datatype poll = PollAgain string | Deliver

definition inProgress :: "'v response \<Rightarrow> bool" where
  "inProgress r \<longleftrightarrow> rs_code r = ''333333'' \<or> rs_code r = ''333334''"

definition resultRequestCallback :: "stmt_context \<Rightarrow> stmt_error + 'v response \<Rightarrow> stmt_context \<times> poll" where
  "resultRequestCallback cx reply =
     (case reply of
        Inl err \<Rightarrow> (cx, Deliver)
      | Inr r \<Rightarrow>
          (cx\<lparr>cx_queryId := Some (rd_queryId (rs_data r))\<rparr>,
           if inProgress r \<and> \<not> truthy (cx_asyncExec cx) then PollAgain (rd_getResultUrl (rs_data r)) else Deliver))"

text \<open>The requests sent for a list of answers, and the answer that ends the polling, if it is there.\<close>

fun pollResult ::
  "stmt_context \<Rightarrow> (stmt_error + 'v response) list \<Rightarrow>
   stmt_context \<times> 'd sf_request list \<times> (stmt_error + 'v response) option"
where
  "pollResult cx [] = (cx, [], None)"
| "pollResult cx (reply # replies) =
     (case resultRequestCallback cx reply of
        (cx', Deliver) \<Rightarrow> (cx', [], Some reply)
      | (cx', PollAgain url) \<Rightarrow>
          (case pollResult cx' replies of (cx'', sent, final) \<Rightarrow> (cx'', pollRequest url # sent, final)))"

section \<open>Statements with several results\<close>

text \<open>A context as the options of the next statement.\<close>

definition contextOptions :: "stmt_context \<Rightarrow> string \<Rightarrow> jsv" where
  "contextOptions cx k =
     (if k = ''queryId'' then (case cx_queryId cx of None \<Rightarrow> JUndefined | Some q \<Rightarrow> JString q)
      else if k = ''complete'' then cx_complete cx
      else if k = ''streamResult'' then cx_streamResult cx
      else if k = ''fetchAsString'' then cx_fetchAsString cx
      else if k = ''rowMode'' then cx_rowMode cx
      else if k = ''cwd'' then cx_cwd cx
      else if k = ''sqlText'' then cx_sqlText cx
      else if k = ''multiResultIds'' then cx_multiResultIds cx
      else if k = ''multiSqlTexts'' then cx_multiSqlTexts cx
      else if k = ''multiCurId'' then cx_multiCurId cx
      else JUndefined)"

definition arrayElement :: "jsv \<Rightarrow> jsv \<Rightarrow> jsv js" where
  "arrayElement a i =
     (case a of
        JUndefined \<Rightarrow> Inl TypeError
      | JNullV \<Rightarrow> Inl TypeError
      | JArray vs \<Rightarrow>
          (case i of
             JNumber r \<Rightarrow> Inr (if of_int \<lfloor>r\<rfloor> = r \<and> 0 \<le> r \<and> r < of_nat (length vs) then vs ! nat \<lfloor>r\<rfloor> else JUndefined)
           | _ \<Rightarrow> Inr JUndefined)
      | _ \<Rightarrow> Inr JUndefined)"

definition hasNextResult :: "stmt_context \<Rightarrow> bool" where
  "hasNextResult cx =
     (case (cx_multiResultIds cx, cx_multiCurId cx) of
        (JArray ids, JNumber i) \<Rightarrow> i + 1 < of_nat (length ids)
      | _ \<Rightarrow> False)"

definition nextNumber :: "jsv \<Rightarrow> jsv" where
  "nextNumber v = (case v of JNumber r \<Rightarrow> JNumber (r + 1) | _ \<Rightarrow> JNonFinite)"

definition idText :: "jsv \<Rightarrow> string option" where
  "idText v = (case v of JString s \<Rightarrow> Some s | _ \<Rightarrow> None)"

text \<open>
  \<open>NextResult\<close>: the test of the code is a function object, so it always holds.  The new
  statement is created from the updated context, or its creation throws.
\<close>

definition NextResult :: "(rat \<Rightarrow> string) \<Rightarrow> stmt_context \<Rightarrow> stmt_context \<times> stmt_context checked" where
  "NextResult nt cx =
     (let cx1 = cx\<lparr>cx_multiCurId := nextNumber (cx_multiCurId cx)\<rparr>
      in case arrayElement (cx_multiResultIds cx1) (cx_multiCurId cx1) of
           Inl e \<Rightarrow> (cx1, Inl (ThrownJs e))
         | Inr q \<Rightarrow>
             (let cx2 = cx1\<lparr>cx_queryId := idText q\<rparr>
              in case arrayElement (cx_multiSqlTexts cx2) (cx_multiCurId cx2) of
                   Inl e \<Rightarrow> (cx2, Inl (ThrownJs e))
                 | Inr t \<Rightarrow>
                     (let cx3 = cx2\<lparr>cx_sqlText := t\<rparr> in (cx3, postExecContext nt (contextOptions cx3)))))"

text \<open>The first of several results: ids and texts are split at commas and semicolons.\<close>

definition startMulti :: "(rat \<Rightarrow> string) \<Rightarrow> string \<Rightarrow> stmt_context \<Rightarrow> stmt_context \<times> stmt_context checked" where
  "startMulti nt resultIds cx =
     (case cx_sqlText cx of
        JString sql \<Rightarrow>
          (let ids = splitOn CHR '','' resultIds; texts = splitOn CHR '';'' sql;
               cx1 = cx\<lparr>cx_multiResultIds := JArray (map JString ids), cx_multiSqlTexts := JArray (map JString texts),
                        cx_multiCurId := JNumber 0, cx_sqlText := JString (hd texts), cx_queryId := Some (hd ids)\<rparr>
           in (cx1, postExecContext nt (contextOptions cx1)))
      | _ \<Rightarrow> (cx\<lparr>cx_multiResultIds := JArray (map JString (splitOn CHR '','' resultIds))\<rparr>, Inl (ThrownJs TypeError)))"

section \<open>Handling a response\<close>

definition updateWorld :: "(string \<times> jsv) list \<Rightarrow> world \<Rightarrow> world" where
  "updateWorld config w = w\<lparr>w_parameters := updateParameters config (w_parameters w)\<rparr>"

text \<open>
  \<open>onStatementRequestSucc\<close> of row statements: the statement and the service it leaves, and what it
  threw.  The test of the statement type before the parameter update is always true.
\<close>

definition onStatementRequestSucc ::
  "(rat \<Rightarrow> string) \<Rightarrow> 'v response \<Rightarrow> 'v stmt \<Rightarrow> world \<Rightarrow> result_error option \<times> 'v stmt \<times> world"
where
  "onStatementRequestSucc nt r s w =
     (case ss_result s of
        None \<Rightarrow>
          if rs_code r = ''333334'' then (None, s\<lparr>ss_result := Some (AsyncHandle (rd_queryId (rs_data r)))\<rparr>, w)
          else (case rd_resultIds (rs_data r) of
                  Some (c # cs) \<Rightarrow>
                    (case startMulti nt (c # cs) (ss_context s) of
                       (cx, Inl e) \<Rightarrow> (Some (ThrownError e), s\<lparr>ss_context := cx, ss_isMulti := True\<rparr>, w)
                     | (cx, Inr child) \<Rightarrow>
                         (None, s\<lparr>ss_context := cx, ss_isMulti := True\<rparr>, w\<lparr>w_created := w_created w @ [child]\<rparr>))
                | _ \<Rightarrow>
                    (case newResult (cx_rowMode (ss_context s)) (rs_data r) of
                       Inl e \<Rightarrow> (Some (JsError e), s, w)
                     | Inr res \<Rightarrow>
                         (let s' = s\<lparr>ss_result := Some (ResultOf res),
                                     ss_context := (ss_context s)\<lparr>cx_queryId := Some (rt_queryId res)\<rparr>\<rparr>
                          in case useQueryContext (rt_queryContext res) w of
                               Inl e \<Rightarrow> (Some (JsError e), s', w)
                             | Inr w' \<Rightarrow>
                                 (None, s', if ss_isMulti s then w' else updateWorld (rt_parameters res) w'))))
      | Some (AsyncHandle q) \<Rightarrow> (Some (JsError TypeError), s, w)
      | Some (ResultOf res) \<Rightarrow>
          (case refresh (rd_chunks (rs_data r)) (rt_chunks res) of
             (chunks, e) \<Rightarrow>
               (let s' = s\<lparr>ss_result := Some (ResultOf (res\<lparr>rt_chunks := chunks\<rparr>))\<rparr>
                in case e of
                     Some x \<Rightarrow> (Some (JsError x), s', w)
                   | None \<Rightarrow> (None, s', if ss_isMulti s then w else updateWorld (rt_parameters res) w))))"

definition invokeStatementComplete :: "jsv \<Rightarrow> 'v stmt \<Rightarrow> completion" where
  "invokeStatementComplete configStreamResult s =
     (let stream = (if jsExists (cx_streamResult (ss_context s)) then cx_streamResult (ss_context s)
                    else configStreamResult)
      in if truthy stream then CompletedWith (externalizeError (ss_resultError s))
         else if truthy (cx_asyncExec (ss_context s)) then
           CompletedAsync (case ss_result s of Some (AsyncHandle q) \<Rightarrow> q | _ \<Rightarrow> [])
         else CollectRows)"

text \<open>
  A failed request: the error is kept, and with an answer of the server its query id and its query
  context are used.  \<open>None\<close> in the second place is the exception that ends the handler.
\<close>

definition onStatementRequestErr :: "stmt_error \<Rightarrow> 'v stmt \<Rightarrow> world \<Rightarrow> 'v stmt \<times> world option" where
  "onStatementRequestErr err s w =
     (let s1 = s\<lparr>ss_resultError := Some (SfError err)\<rparr>
      in case err_data err of
           Some d \<Rightarrow>
             if isOperationFailedError (Some err) then
               (let s2 = (if nonempty_str (cx_queryId (ss_context s1)) then s1
                          else s1\<lparr>ss_context := (ss_context s1)\<lparr>cx_queryId := Some (fd_queryId d)\<rparr>\<rparr>)
                in case fd_queryContext d of
                     None \<Rightarrow> (s2, Some w)
                   | Some q \<Rightarrow> (case useQueryContext q w of Inl e \<Rightarrow> (s2, None) | Inr w' \<Rightarrow> (s2, Some w')))
             else (s1, Some w)
         | None \<Rightarrow> (s1, Some w))"

definition onStatementRequestComp ::
  "(rat \<Rightarrow> string) \<Rightarrow> jsv \<Rightarrow> stmt_error + 'v response \<Rightarrow> 'v stmt \<times> world \<Rightarrow> 'v stmt \<times> world"
where
  "onStatementRequestComp nt configStreamResult reply sw =
     (case sw of (s, w) \<Rightarrow>
       (let suppressComplete = (ss_result s \<noteq> None \<or> ss_resultError s \<noteq> None);
            s0 = s\<lparr>ss_resultError := None\<rparr>;
            (s1, w1) = (case reply of
                          Inr r \<Rightarrow>
                            (case onStatementRequestSucc nt r s0 w of
                               (None, s', w') \<Rightarrow> (s', Some w')
                             | (Some e, s', w') \<Rightarrow> (s'\<lparr>ss_resultError := Some e\<rparr>, Some w'))
                        | Inl err \<Rightarrow> onStatementRequestErr err s0 w)
        in case w1 of
             None \<Rightarrow> (s1, w)
           | Some w2 \<Rightarrow>
               (let s2 = s1\<lparr>ss_isFetchingResult := False\<rparr>
                in if suppressComplete then (s2, w2)
                   else (s2\<lparr>ss_emitted := ss_emitted s2 @
                              [case reply of Inr _ \<Rightarrow> None | Inl err \<Rightarrow> externalize (Some err)],
                           ss_completions := ss_completions s2 @
                              (if jsExists (cx_complete (ss_context s2))
                               then [invokeStatementComplete configStreamResult s2] else [])\<rparr>, w2))))"

text \<open>\<open>context.refresh\<close>: the request that is sent; its answer is handled as above.\<close>

definition refreshRequest ::
  "(rat \<Rightarrow> string) \<Rightarrow> 'd option \<Rightarrow> string option \<Rightarrow> stmt_context \<Rightarrow> 'd sf_request js"
where
  "refreshRequest nt dto bindStage cx =
     (if nonempty_str (cx_queryId cx) then Inr (sendRequestPostExec (cx_queryId cx))
      else sendRequestPreExec nt dto bindStage cx)"

section \<open>Starting to read rows\<close>

text \<open>The first \<open>_read\<close> of a row stream (\<open>lib/connection/result/row_stream.js\<close>).\<close>

datatype stream_start = AwaitComplete | InitNextTick | RefreshThenInit | NoStart

datatype statement_type = ROW_PRE_EXEC | ROW_POST_EXEC | FILE_PRE_EXEC | FILE_POST_EXEC

definition isFailedWithSqlState :: "'v stmt \<Rightarrow> bool" where
  "isFailedWithSqlState s \<longleftrightarrow>
     (case ss_resultError s of
        Some (SfError e) \<Rightarrow> isOperationFailedError (Some e) \<and> nonempty_str (err_sqlState e)
      | _ \<Rightarrow> False)"

definition isFileUploadError :: "result_error option \<Rightarrow> statement_type \<Rightarrow> bool" where
  "isFileUploadError e contextType \<longleftrightarrow> e \<noteq> None \<and> contextType = FILE_PRE_EXEC"

definition isStatementErrorFatal :: "statement_type \<Rightarrow> 'v stmt \<Rightarrow> bool" where
  "isStatementErrorFatal type s \<longleftrightarrow> isFailedWithSqlState s \<or> isFileUploadError (ss_resultError s) type"

definition streamStart :: "statement_type \<Rightarrow> 'v stmt \<Rightarrow> stream_start" where
  "streamStart type s =
     (if ss_isFetchingResult s then AwaitComplete
      else if ss_result s \<noteq> None \<or> isStatementErrorFatal type s then InitNextTick
      else if cx_multiResultIds (ss_context s) = JUndefined then RefreshThenInit
      else NoStart)"

datatype fetch_start = EndWith "result_error option" | RefreshFirst | FetchFromResult | FetchThrows

text \<open>\<open>fetchRowsFromResult\<close> starts an operation on the result, which has to be there.\<close>

definition fetchFrom :: "'v stmt \<Rightarrow> fetch_start" where
  "fetchFrom s = (case ss_result s of Some (ResultOf r) \<Rightarrow> FetchFromResult | _ \<Rightarrow> FetchThrows)"

definition fetchClientError :: "int \<Rightarrow> result_error option" where
  "fetchClientError c = externalizeError (Some (SfError (createClientError (NumCode c) None [])))"

definition fetchRows :: "'v stmt \<Rightarrow> fetch_start" where
  "fetchRows s =
     (if ss_isFetchingResult s then EndWith (fetchClientError 450007)
      else if ss_resultError s \<noteq> None then
        (if isFailedWithSqlState s then EndWith (externalizeError (ss_resultError s)) else RefreshFirst)
      else fetchFrom s)"

definition fetchRowsAfterRefresh :: "'v stmt \<Rightarrow> fetch_start" where
  "fetchRowsAfterRefresh s =
     (if ss_resultError s = None then fetchFrom s else EndWith (externalizeError (ss_resultError s)))"

section \<open>Interrupted fetches\<close>

datatype fetch_action = Reissued | Continued | Ended "result_error option"

record 'v fetch_op =
  fo_stmt :: "'v stmt"
  fo_world :: world
  fo_interrupts :: nat
  fo_actions :: "fetch_action list"

text \<open>The \<open>complete\<close> event of the operation.\<close>

definition linkExpired :: "stmt_error option \<Rightarrow> bool" where
  "linkExpired e \<longleftrightarrow>
     isLargeResultSetError e \<and>
     (case e of None \<Rightarrow> False | Some x \<Rightarrow> (case err_response x of None \<Rightarrow> False | Some (status, _) \<Rightarrow> status = 403))"

definition onOperationComplete :: "nat \<Rightarrow> stmt_error option \<Rightarrow> 'v fetch_op \<Rightarrow> 'v fetch_op" where
  "onOperationComplete maxInterrupts e fo =
     (if linkExpired e \<and> fo_interrupts fo < maxInterrupts then
        fo\<lparr>fo_interrupts := fo_interrupts fo + 1, fo_actions := fo_actions fo @ [Reissued]\<rparr>
      else fo\<lparr>fo_actions := fo_actions fo @ [Ended (externalizeError (ss_resultError (fo_stmt fo)))]\<rparr>)"

definition onReissueAnswer ::
  "(rat \<Rightarrow> string) \<Rightarrow> jsv \<Rightarrow> stmt_error + 'v response \<Rightarrow> 'v fetch_op \<Rightarrow> 'v fetch_op"
where
  "onReissueAnswer nt configStreamResult reply fo =
     (case onStatementRequestComp nt configStreamResult reply (fo_stmt fo, fo_world fo) of
        (s, w) \<Rightarrow>
          fo\<lparr>fo_stmt := s, fo_world := w,
             fo_actions := fo_actions fo @ (case reply of Inr _ \<Rightarrow> [Continued] | Inl _ \<Rightarrow> [])\<rparr>)"

text \<open>
  A fetch with the outcomes of its operation and the answers to the requests it issues: each
  interruption takes the next answer; \<open>None\<close> is an operation that completes without error.
\<close>

fun runFetch ::
  "(rat \<Rightarrow> string) \<Rightarrow> jsv \<Rightarrow> nat \<Rightarrow> (stmt_error option \<times> (stmt_error + 'v response)) list \<Rightarrow> 'v fetch_op \<Rightarrow> 'v fetch_op"
where
  "runFetch nt cs maxInterrupts [] fo = fo"
| "runFetch nt cs maxInterrupts ((e, reply) # rest) fo =
     (let fo1 = onOperationComplete maxInterrupts e fo
      in if last (fo_actions fo1) = Reissued then
           (let fo2 = onReissueAnswer nt cs reply fo1
            in if last (fo_actions fo2) = Continued then runFetch nt cs maxInterrupts rest fo2 else fo2)
         else fo1)"

end
