(* ===== verification/StatementProps.thy ===== *)
theory StatementProps
  imports StatementRun
begin

text \<open>
  Properties of statements: the options are validated, binds are transposed into columns, the
  \<open>complete\<close> callback is called once per statement, polling ends with the result, the results of a
  multi-statement are visited in order, and what becomes of failed fetches.
\<close>

section \<open>One response\<close>

definition world_ok :: "world \<Rightarrow> bool" where
  "world_ok w \<longleftrightarrow> (case w_qcc w of None \<Rightarrow> True | Some q \<Rightarrow> qcc_inv q \<and> 0 \<le> capacity q)"

definition single_result :: "stmt_error + 'v response \<Rightarrow> bool" where
  "single_result reply \<longleftrightarrow>
     (case reply of Inl _ \<Rightarrow> True | Inr r \<Rightarrow> \<not> nonempty_str (rd_resultIds (rs_data r)))"

definition settled_stmt :: "'v stmt \<Rightarrow> bool" where
  "settled_stmt s \<longleftrightarrow> ss_result s \<noteq> None \<or> ss_resultError s \<noteq> None"

lemma useQueryContext_ok:
  "world_ok w \<Longrightarrow> \<exists>w'. useQueryContext d w = Inr w' \<and> world_ok w' \<and> w_created w' = w_created w \<and> w_parameters w' = w_parameters w"
  using deserialize_total[of "the (w_qcc w)" d]
  by (cases "w_qcc w") (auto simp: useQueryContext_def world_ok_def)

lemma world_ok_updateWorld [simp]: "world_ok (updateWorld c w) \<longleftrightarrow> world_ok w"
  by (simp add: world_ok_def updateWorld_def)

lemma succ_step:
  assumes "world_ok w" "\<not> nonempty_str (rd_resultIds (rs_data r))" "onStatementRequestSucc nt r s w = (e, s', w')"
  shows "world_ok w' \<and> (e = None \<longrightarrow> ss_result s' \<noteq> None) \<and> w_created w' = w_created w \<and>
    ss_emitted s' = ss_emitted s \<and> ss_completions s' = ss_completions s \<and>
    cx_complete (ss_context s') = cx_complete (ss_context s) \<and> ss_resultError s' = ss_resultError s"
proof (cases "ss_result s")
  case None
  have ids: "rd_resultIds (rs_data r) = None \<or> rd_resultIds (rs_data r) = Some []"
    using assms(2) by (cases "rd_resultIds (rs_data r)") auto
  show ?thesis
  proof (cases "newResult (cx_rowMode (ss_context s)) (rs_data r)")
    case (Inl x)
    with None ids assms(1,3) show ?thesis
      by (auto simp: onStatementRequestSucc_def split: if_splits option.splits list.splits)
  next
    case (Inr res)
    obtain w1 where "useQueryContext (rt_queryContext res) w = Inr w1" "world_ok w1" "w_created w1 = w_created w"
      using useQueryContext_ok[OF assms(1)] by metis
    with None ids assms(1,3) Inr show ?thesis
      by (auto simp: onStatementRequestSucc_def updateWorld_def Let_def world_ok_def
          split: if_splits option.splits list.splits)
  qed
next
  case (Some o')
  with assms(1,3) show ?thesis
    by (cases o') (auto simp: onStatementRequestSucc_def updateWorld_def Let_def world_ok_def
        split: if_splits option.splits prod.splits)
qed

lemma err_step:
  assumes "world_ok w" "onStatementRequestErr err s w = (s', w')"
  shows "\<exists>w2. w' = Some w2 \<and> world_ok w2 \<and> w_created w2 = w_created w \<and> ss_resultError s' = Some (SfError err) \<and>
    ss_emitted s' = ss_emitted s \<and> ss_completions s' = ss_completions s \<and> ss_result s' = ss_result s \<and>
    cx_complete (ss_context s') = cx_complete (ss_context s)"
proof (cases "err_data err")
  case None
  with assms show ?thesis by (auto simp: onStatementRequestErr_def)
next
  case (Some d)
  show ?thesis
  proof (cases "fd_queryContext d")
    case None
    with assms Some show ?thesis by (auto simp: onStatementRequestErr_def Let_def split: if_splits)
  next
    case (Some q)
    obtain w1 where "useQueryContext q w = Inr w1" "world_ok w1" "w_created w1 = w_created w"
      using useQueryContext_ok[OF assms(1)] by metis
    with assms Some \<open>err_data err = Some d\<close> show ?thesis
      by (auto simp: onStatementRequestErr_def Let_def split: if_splits)
  qed
qed

lemma comp_step:
  assumes "world_ok w" "single_result reply" "onStatementRequestComp nt cs reply (s, w) = (s', w')"
  shows "world_ok w' \<and> settled_stmt s' \<and> w_created w' = w_created w \<and> \<not> ss_isFetchingResult s' \<and>
    cx_complete (ss_context s') = cx_complete (ss_context s) \<and>
    length (ss_emitted s') = length (ss_emitted s) + (if settled_stmt s then 0 else 1) \<and>
    length (ss_completions s') = length (ss_completions s) +
      (if settled_stmt s \<or> \<not> jsExists (cx_complete (ss_context s)) then 0 else 1)"
proof (cases reply)
  case (Inl err)
  obtain s1 w1 where e: "onStatementRequestErr err (s\<lparr>ss_resultError := None\<rparr>) w = (s1, w1)" by fastforce
  from err_step[OF assms(1) e] obtain w2 where "w1 = Some w2" "world_ok w2" "w_created w2 = w_created w"
    "ss_resultError s1 = Some (SfError err)" "ss_emitted s1 = ss_emitted s" "ss_completions s1 = ss_completions s"
    "cx_complete (ss_context s1) = cx_complete (ss_context s)" by auto
  with assms(3) Inl e show ?thesis
    by (auto simp: onStatementRequestComp_def settled_stmt_def Let_def split: if_splits)
next
  case (Inr r)
  obtain x s1 w1 where e: "onStatementRequestSucc nt r (s\<lparr>ss_resultError := None\<rparr>) w = (x, s1, w1)"
    using prod_cases3 by blast
  have "\<not> nonempty_str (rd_resultIds (rs_data r))" using assms(2) Inr by (simp add: single_result_def)
  from succ_step[OF assms(1) this e] assms(3) Inr e show ?thesis
    by (cases x) (auto simp: onStatementRequestComp_def settled_stmt_def Let_def split: if_splits)
qed

section \<open>The complete callback\<close>



definition sampleContext :: "jsv \<Rightarrow> jsv \<Rightarrow> stmt_context" where
  "sampleContext sql stream =
     \<lparr>cx_sqlText = sql, cx_complete = JFunction, cx_streamResult = stream, cx_fetchAsString = JUndefined,
      cx_rowMode = JUndefined, cx_asyncExec = JUndefined, cx_binds = None, cx_parameters = JUndefined,
      cx_internal = JUndefined, cx_cwd = JUndefined, cx_describeOnly = JUndefined, cx_requestId = Some ''r'',
      cx_resubmitRequest = False, cx_queryId = None, cx_multiResultIds = JUndefined,
      cx_multiSqlTexts = JUndefined, cx_multiCurId = JUndefined\<rparr>"

definition sampleWorld :: world where
  "sampleWorld = \<lparr>w_qcc = Some (newQueryContextCache 5), w_parameters = defaultParameters, w_created = []\<rparr>"

definition sampleResponse :: "string \<Rightarrow> string option \<Rightarrow> string list option \<Rightarrow> string response" where
  "sampleResponse code ids columns =
     \<lparr>rs_code = code, rs_data = \<lparr>rd_queryId = ''q1'', rd_getResultUrl = ''/queries/q1/result'', rd_resultIds = ids,
      rd_rowtype = columns, rd_rowset = [[''1'']], rd_chunks = None, rd_returned = 1, rd_parameters = [],
      rd_queryContext = FalsyData\<rparr>\<rparr>"

lemma sampleWorld_ok: "world_ok sampleWorld"
  by (simp add: world_ok_def sampleWorld_def) (simp add: newQueryContextCache_def)


section \<open>Polling\<close>

text \<open>
  C21. Polling ends with the result: after any number of answers that say the query is in progress, each of
  which is followed by one request to the url it names, the first other answer is passed on, once, and
  nothing further is requested; the query id is the latest one. A statement executed asynchronously
  takes the first answer as it is.
\<close>

theorem polling_delivers_final_answer:
  assumes "\<forall>r\<in>set progress. inProgress r" "case final of Inl _ \<Rightarrow> True | Inr r \<Rightarrow> \<not> inProgress r"
    "\<not> truthy (cx_asyncExec cx)"
  shows "\<exists>cx'. pollResult cx (map Inr progress @ final # later) =
      (cx', map (\<lambda>r. pollRequest (rd_getResultUrl (rs_data r))) progress, Some final) \<and>
    cx_queryId cx' = last (cx_queryId cx # map (\<lambda>r. Some (rd_queryId (rs_data r)))
      (progress @ (case final of Inl _ \<Rightarrow> [] | Inr r \<Rightarrow> [r]))) \<and>
    pollResult (cx\<lparr>cx_asyncExec := JBoolean True\<rparr>) (Inr r # later) =
      (cx\<lparr>cx_asyncExec := JBoolean True, cx_queryId := Some (rd_queryId (rs_data r))\<rparr>, [], Some (Inr r))"
  using assms
proof (induction progress arbitrary: cx)
  case Nil
  then show ?case by (cases final) (auto simp: resultRequestCallback_def)
next
  case (Cons p ps)
  define cx1 where "cx1 = cx\<lparr>cx_queryId := Some (rd_queryId (rs_data p))\<rparr>"
  have "resultRequestCallback cx (Inr p) = (cx1, PollAgain (rd_getResultUrl (rs_data p)))"
    using Cons.prems by (simp add: resultRequestCallback_def cx1_def)
  moreover have "\<not> truthy (cx_asyncExec cx1)" "cx_queryId cx1 = Some (rd_queryId (rs_data p))"
    using Cons.prems(3) by (simp_all add: cx1_def)
  ultimately show ?case
    using Cons.IH[of cx1] Cons.prems(1,2) by (auto simp: resultRequestCallback_def)
qed

theorem polling_delivers_final_answer_witness:
  "\<exists>cx'. pollResult (sampleContext (JString ''x'') JUndefined)
     [Inr (sampleResponse ''333333'' None None), Inr (sampleResponse ''0'' None (Some [''A'']))] =
     (cx', [pollRequest ''/queries/q1/result'' :: unit sf_request], Some (Inr (sampleResponse ''0'' None (Some [''A'']))))"
  using polling_delivers_final_answer[where progress = "[sampleResponse ''333333'' None None]"
      and final = "Inr (sampleResponse ''0'' None (Some [''A'']))" and cx = "sampleContext (JString ''x'') JUndefined"
      and later = "[]"]
  by (auto simp: inProgress_def sampleResponse_def sampleContext_def)

section \<open>Several results\<close>

text \<open>What a caller sees who asks each statement for the next one while there is one.\<close>

fun visitResults :: "(rat \<Rightarrow> string) \<Rightarrow> nat \<Rightarrow> stmt_context \<Rightarrow> string option list" where
  "visitResults nt 0 cx = []"
| "visitResults nt (Suc n) cx =
     cx_queryId cx #
     (if hasNextResult cx then (case NextResult nt cx of (_, Inr child) \<Rightarrow> visitResults nt n child | _ \<Rightarrow> [])
      else [])"

text \<open>The options of a statement that its successors take over.\<close>

definition inherited :: "(rat \<Rightarrow> string) \<Rightarrow> stmt_context \<Rightarrow> bool" where
  "inherited nt cx \<longleftrightarrow> (\<forall>c\<in>set (fetchResultChecks nt (contextOptions (cx\<lparr>cx_queryId := Some []\<rparr>))). c = Inr ())"

lemma contextOptions_simps:
  "contextOptions cx ''queryId'' = (case cx_queryId cx of None \<Rightarrow> JUndefined | Some q \<Rightarrow> JString q)"
  "contextOptions cx ''complete'' = cx_complete cx" "contextOptions cx ''streamResult'' = cx_streamResult cx"
  "contextOptions cx ''fetchAsString'' = cx_fetchAsString cx" "contextOptions cx ''rowMode'' = cx_rowMode cx"
  "contextOptions cx ''cwd'' = cx_cwd cx" "contextOptions cx ''sqlText'' = cx_sqlText cx"
  "contextOptions cx ''multiResultIds'' = cx_multiResultIds cx"
  "contextOptions cx ''multiSqlTexts'' = cx_multiSqlTexts cx" "contextOptions cx ''multiCurId'' = cx_multiCurId cx"
  by (simp_all add: contextOptions_def)

lemma postExec_child:
  assumes "inherited nt cx" "cx_queryId cx = Some q"
  obtains child where "postExecContext nt (contextOptions cx) = Inr child" "inherited nt child"
    "cx_queryId child = Some q" "cx_multiResultIds child = cx_multiResultIds cx"
    "cx_multiSqlTexts child = cx_multiSqlTexts cx" "cx_multiCurId child = cx_multiCurId cx"
    "cx_complete child = cx_complete cx" "cx_streamResult child = cx_streamResult cx" "cx_sqlText child = cx_sqlText cx"
proof -
  have "checks (fetchResultChecks nt (contextOptions cx)) = Inr ()"
    using assms unfolding inherited_def checks_Inr by (auto simp: fetchResultChecks_def contextOptions_simps)
  then show ?thesis
    using assms that
    by (simp add: postExecContext_def contextOptions_simps inherited_def fetchResultChecks_def)
qed

lemma nth_result:
  assumes "k + 1 < length ids"
  shows "arrayElement (JArray (map JString ids)) (JNumber (rat_of_nat k + 1)) = Inr (JString (ids ! (k + 1)))"
proof -
  have "\<lfloor>rat_of_nat k + 1\<rfloor> = int (k + 1)" by (simp add: floor_unique)
  moreover have "rat_of_nat k + 1 < rat_of_nat (length ids)" using assms by (metis of_nat_1 of_nat_add of_nat_less_iff)
  ultimately show ?thesis
    using assms by (simp add: arrayElement_def) (simp add: nat_add_distrib add.commute)
qed

lemma hasNext_iff:
  assumes "cx_multiResultIds cx = JArray (map JString ids)" "cx_multiCurId cx = JNumber (rat_of_nat k)"
  shows "hasNextResult cx \<longleftrightarrow> k + 1 < length ids"
proof -
  have "rat_of_nat k + 1 = rat_of_nat (k + 1)" by simp
  then show ?thesis using assms by (simp only: hasNextResult_def prod.case jsv.case length_map of_nat_less_iff)
qed

lemma NextResult_child:
  assumes "inherited nt cx" "cx_multiResultIds cx = JArray (map JString ids)" "cx_multiCurId cx = JNumber (rat_of_nat k)"
    "cx_multiSqlTexts cx = JArray texts" "k + 1 < length ids"
  obtains cx' child where "NextResult nt cx = (cx', Inr child)" "inherited nt child"
    "cx_queryId child = Some (ids ! (k + 1))" "cx_multiResultIds child = JArray (map JString ids)"
    "cx_multiSqlTexts child = JArray texts" "cx_multiCurId child = JNumber (rat_of_nat (k + 1))"
    "cx_complete child = cx_complete cx"
proof -
  define cx1 where "cx1 = cx\<lparr>cx_multiCurId := JNumber (rat_of_nat k + 1), cx_queryId := Some (ids ! (k + 1))\<rparr>"
  obtain t where t: "arrayElement (JArray texts) (JNumber (rat_of_nat k + 1)) = Inr t"
    by (simp add: arrayElement_def)
  have i: "inherited nt (cx1\<lparr>cx_sqlText := t\<rparr>)" "cx_queryId (cx1\<lparr>cx_sqlText := t\<rparr>) = Some (ids ! (k + 1))"
    using assms(1) by (simp_all add: inherited_def cx1_def fetchResultChecks_def contextOptions_simps)
  obtain child where c: "postExecContext nt (contextOptions (cx1\<lparr>cx_sqlText := t\<rparr>)) = Inr child" "inherited nt child"
    "cx_queryId child = Some (ids ! (k + 1))" "cx_multiResultIds child = JArray (map JString ids)"
    "cx_multiSqlTexts child = JArray texts" "cx_multiCurId child = JNumber (rat_of_nat k + 1)"
    "cx_complete child = cx_complete cx"
    by (rule postExec_child[OF i]) (use assms in \<open>simp add: cx1_def\<close>)
  have "NextResult nt cx = (cx1\<lparr>cx_sqlText := t\<rparr>, Inr child)"
    using assms(2-4) nth_result[OF assms(5)] t c(1)
    by (simp add: NextResult_def nextNumber_def Let_def idText_def cx1_def)
  moreover have "JNumber (rat_of_nat k + 1) = JNumber (rat_of_nat (k + 1))" by simp
  ultimately show ?thesis using that c(2-7) by metis
qed

lemma visit_from:
  assumes "inherited nt cx" "cx_multiResultIds cx = JArray (map JString ids)" "cx_multiCurId cx = JNumber (rat_of_nat k)"
    "cx_multiSqlTexts cx = JArray texts" "cx_queryId cx = Some (ids ! k)" "k < length ids" "n = length ids - k"
  shows "visitResults nt n cx = map Some (drop k ids)"
  using assms
proof (induction n arbitrary: k cx)
  case (Suc n)
  have d: "drop k ids = ids ! k # drop (k + 1) ids" using Suc.prems(6) by (simp add: Cons_nth_drop_Suc)
  show ?case
  proof (cases "k + 1 < length ids")
    case True
    obtain cx' child where n: "NextResult nt cx = (cx', Inr child)" "inherited nt child"
      "cx_queryId child = Some (ids ! (k + 1))" "cx_multiResultIds child = JArray (map JString ids)"
      "cx_multiSqlTexts child = JArray texts" "cx_multiCurId child = JNumber (rat_of_nat (k + 1))"
      by (rule NextResult_child[OF Suc.prems(1-4) True])
    have "visitResults nt n child = map Some (drop (k + 1) ids)"
      by (rule Suc.IH[OF n(2,4,6,5,3) True]) (use Suc.prems(7) in simp)
    then show ?thesis
      unfolding d using Suc.prems(5) n(1) True by (simp add: hasNext_iff[OF Suc.prems(2,3)])
  next
    case False
    then have "drop (k + 1) ids = []" by simp
    then show ?thesis
      unfolding d using Suc.prems(5) False by (simp add: hasNext_iff[OF Suc.prems(2,3)])
  qed
qed simp

lemma splitOn_nonempty: "splitOn c s \<noteq> []"
  by (induction s) (auto split: list.splits)

text \<open>
  C23. The results of a multi-statement are visited in order: from the statement created for the first one,
  asking \<open>hasNext\<close> before each \<open>NextResult\<close>, a caller meets the id of every result once and in the
  order of the server's list, and every statement on the way has the caller's complete callback.
\<close>

theorem multi_results_in_order:
  assumes "inherited nt cx" "cx_sqlText cx = JString sql"
  shows "case startMulti nt resultIds cx of
    (cx1, Inr child) \<Rightarrow>
      visitResults nt (length (splitOn CHR '','' resultIds)) child = map Some (splitOn CHR '','' resultIds) \<and>
      cx_complete child = cx_complete cx
  | (cx1, Inl e) \<Rightarrow> False"
proof -
  let ?ids = "splitOn CHR '','' resultIds" and ?texts = "splitOn CHR '';'' sql"
  define cx1 where "cx1 = cx\<lparr>cx_multiResultIds := JArray (map JString ?ids),
    cx_multiSqlTexts := JArray (map JString ?texts), cx_multiCurId := JNumber 0,
    cx_sqlText := JString (hd ?texts), cx_queryId := Some (hd ?ids)\<rparr>"
  have i: "inherited nt cx1" "cx_queryId cx1 = Some (hd ?ids)"
    using assms(1) by (simp_all add: inherited_def cx1_def fetchResultChecks_def contextOptions_simps)
  obtain child where c: "postExecContext nt (contextOptions cx1) = Inr child" "inherited nt child"
    "cx_queryId child = Some (hd ?ids)" "cx_multiResultIds child = JArray (map JString ?ids)"
    "cx_multiSqlTexts child = JArray (map JString ?texts)" "cx_multiCurId child = JNumber 0"
    "cx_complete child = cx_complete cx"
    by (rule postExec_child[OF i]) (simp add: cx1_def)
  have s: "startMulti nt resultIds cx = (cx1, Inr child)"
    using assms(2) c(1) by (simp add: startMulti_def Let_def cx1_def)
  have "visitResults nt (length ?ids) child = map Some (drop 0 ?ids)"
    by (rule visit_from[OF c(2,4) _ c(5)])
      (use c(3,6) splitOn_nonempty[of "CHR '',''" resultIds] in \<open>auto simp: hd_conv_nth\<close>)
  then show ?thesis unfolding s using c(7) by simp
qed

theorem multi_results_in_order_witness:
  "case startMulti (\<lambda>_. []) ''a,b'' (sampleContext (JString ''select 1;select 2'') JUndefined) of
     (cx1, Inr child) \<Rightarrow> visitResults (\<lambda>_. []) 2 child = [Some ''a'', Some ''b''] | _ \<Rightarrow> False"
proof -
  have "inherited (\<lambda>_. []) (sampleContext (JString ''select 1;select 2'') JUndefined)"
    by (simp add: inherited_def sampleContext_def fetchResultChecks_def contextOptions_simps fetchAsStringOption_def
        rowModeOption_def validIfExists_def)
  from multi_results_in_order[OF this, of "''select 1;select 2''" "''a,b''"] show ?thesis
    by (simp add: sampleContext_def numeral_2_eq_2 del: visitResults.simps split: prod.splits sum.splits)
qed

text \<open>Past the last result \<open>NextResult\<close> does not stay where it is: it moves on and throws.\<close>

lemma next_result_overrun:
  assumes "cx_multiResultIds cx = JArray ids" "cx_multiSqlTexts cx = JArray texts"
    "cx_multiCurId cx = JNumber (of_nat k)" "length ids \<le> k + 1"
  shows "\<exists>cx'. NextResult nt cx = (cx', Inl (coded MissingParameterError (NumCode 410003) [])) \<and>
    cx_multiCurId cx' = JNumber (of_nat (k + 1))"
proof -
  have "\<not> rat_of_nat k + 1 < rat_of_nat (length ids)"
    using assms(4) by (metis not_le of_nat_1 of_nat_add of_nat_le_iff)
  then have "arrayElement (JArray ids) (JNumber (rat_of_nat k + 1)) = Inr JUndefined" by (simp add: arrayElement_def)
  moreover obtain t where "arrayElement (JArray texts) (JNumber (rat_of_nat k + 1)) = Inr t"
    by (simp add: arrayElement_def)
  ultimately show ?thesis
    using assms(1-3)
    by (simp add: NextResult_def nextNumber_def idText_def Let_def postExecContext_def fetchResultChecks_def
        contextOptions_simps failed_checks add.commute)
qed

lemma fresh_success:
  assumes "ss_result s = None" "ss_resultError s = None"
  shows "onStatementRequestComp nt cs (Inr r) (s, w) =
      (case onStatementRequestSucc nt r s w of (e, s1, w1) \<Rightarrow>
         let s2 = s1\<lparr>ss_resultError := (case e of None \<Rightarrow> ss_resultError s1 | Some x \<Rightarrow> Some x), ss_isFetchingResult := False\<rparr>
         in (s2\<lparr>ss_emitted := ss_emitted s2 @ [None], ss_completions := ss_completions s2 @
               (if jsExists (cx_complete (ss_context s2)) then [invokeStatementComplete cs s2] else [])\<rparr>, w1))"
proof -
  have s: "s\<lparr>ss_resultError := None\<rparr> = s" using assms(2) by simp
  obtain e s1 w1 where e: "onStatementRequestSucc nt r s w = (e, s1, w1)" using prod_cases3 by blast
  show ?thesis
    unfolding onStatementRequestComp_def Let_def prod.case s sum.case e
    using assms by (cases e) simp_all
qed

lemma fresh_completes:
  fixes reply :: "stmt_error + 'v response"
  assumes "world_ok w" "single_result reply" "jsExists (cx_complete cx)"
  shows "length (ss_completions (fst (onStatementRequestComp nt cs reply (newStatement mode cx, w)))) = 1"
proof -
  obtain s w' where e: "onStatementRequestComp nt cs reply (newStatement mode cx :: 'v stmt, w) = (s, w')" by fastforce
  have "length (ss_completions s) = length (ss_completions (newStatement mode cx :: 'v stmt)) +
      (if settled_stmt (newStatement mode cx :: 'v stmt) \<or>
          \<not> jsExists (cx_complete (ss_context (newStatement mode cx :: 'v stmt))) then 0 else 1)"
    using comp_step[OF assms(1,2) e] by blast
  then show ?thesis using assms(3) unfolding e by (simp add: settled_stmt_def newStatement_def)
qed

lemma multi_child:
  assumes "inherited nt cx" "cx_sqlText cx = JString sql"
  obtains cx1 child where "startMulti nt ids cx = (cx1, Inr child)" "cx_streamResult cx1 = cx_streamResult cx"
    "cx_asyncExec cx1 = cx_asyncExec cx" "cx_complete cx1 = cx_complete cx" "cx_complete child = cx_complete cx"
    "cx_multiResultIds cx1 \<noteq> JUndefined"
proof -
  define cx1 where "cx1 = cx\<lparr>cx_multiResultIds := JArray (map JString (splitOn CHR '','' ids)),
    cx_multiSqlTexts := JArray (map JString (splitOn CHR '';'' sql)), cx_multiCurId := JNumber 0,
    cx_sqlText := JString (hd (splitOn CHR '';'' sql)), cx_queryId := Some (hd (splitOn CHR '','' ids))\<rparr>"
  have i: "inherited nt cx1" "cx_queryId cx1 = Some (hd (splitOn CHR '','' ids))"
    using assms(1) by (simp_all add: inherited_def cx1_def fetchResultChecks_def contextOptions_simps)
  obtain child where c: "postExecContext nt (contextOptions cx1) = Inr child" "cx_complete child = cx_complete cx1"
    by (rule postExec_child[OF i])
  have f: "cx_streamResult cx1 = cx_streamResult cx" "cx_asyncExec cx1 = cx_asyncExec cx"
    "cx_complete cx1 = cx_complete cx" "cx_multiResultIds cx1 \<noteq> JUndefined"
    by (simp_all add: cx1_def)
  have "startMulti nt ids cx = (cx1, Inr child)"
    unfolding startMulti_def assms(2) jsv.case Let_def c(1)[unfolded cx1_def] by (simp only: cx1_def)
  from that[OF this f(1,2,3) _ f(4)] show ?thesis using c(2) f(3) by simp
qed

lemma multi_first_answer:
  assumes "startMulti nt (c # ids) (ss_context s0) = (cx1, Inr child)" "cx_multiResultIds cx1 \<noteq> JUndefined"
    "cx_streamResult cx1 = JBoolean b" "\<not> truthy (cx_asyncExec cx1)" "jsExists (cx_complete cx1)"
    "rd_resultIds (rs_data r) = Some (c # ids)" "rs_code r \<noteq> ''333334''"
    "ss_result s0 = None" "ss_resultError s0 = None" "ss_completions s0 = []"
  obtains s where
    "onStatementRequestComp nt cs (Inr r) (s0, w) = (s, w\<lparr>w_created := w_created w @ [child]\<rparr>)"
    "ss_result s = None" "ss_completions s = [if b then CompletedWith None else CollectRows]" "streamStart type s = NoStart"
proof -
  define s2 where "s2 = s0\<lparr>ss_context := cx1, ss_isMulti := True, ss_isFetchingResult := False\<rparr>"
  have s2: "ss_context s2 = cx1" "ss_result s2 = None" "ss_resultError s2 = None" "ss_completions s2 = []"
    "\<not> ss_isFetchingResult s2" "s0\<lparr>ss_context := cx1, ss_isMulti := True, ss_resultError := ss_resultError s0,
       ss_isFetchingResult := False\<rparr> = s2"
    using assms(8-10) by (simp_all add: s2_def)
  have complete: "invokeStatementComplete cs s2 = (if b then CompletedWith None else CollectRows)"
    using assms(3,4) s2(1,3) by (simp add: invokeStatementComplete_def externalizeError_def Let_def)
  have succ: "onStatementRequestSucc nt r s0 w =
      (None, s0\<lparr>ss_context := cx1, ss_isMulti := True\<rparr>, w\<lparr>w_created := w_created w @ [child]\<rparr>)"
    unfolding onStatementRequestSucc_def using assms(1,6-8) by simp
  have upd: "(s0\<lparr>ss_context := cx1, ss_isMulti := True\<rparr>)\<lparr>ss_resultError := ss_resultError (s0\<lparr>ss_context := cx1, ss_isMulti := True\<rparr>),
      ss_isFetchingResult := False\<rparr> = s2"
    using s2(6) by simp
  have step: "onStatementRequestComp nt cs (Inr r) (s0, w) =
      (s2\<lparr>ss_emitted := ss_emitted s2 @ [None], ss_completions := [if b then CompletedWith None else CollectRows]\<rparr>,
       w\<lparr>w_created := w_created w @ [child]\<rparr>)"
    unfolding fresh_success[OF assms(8,9)] succ prod.case option.case Let_def upd s2(1,4) complete
    using assms(5) by simp
  show ?thesis
    by (rule that[OF step]) (use assms(2) s2 in \<open>simp_all add: streamStart_def isStatementErrorFatal_def isFailedWithSqlState_def isFileUploadError_def\<close>)
qed

text \<open>
  A multi-statement calls the complete callback twice when results are streamed: the statement that was
  executed has no result of its own, but reports success at once, and the statement created for the
  first result calls the same callback again. Without streaming the first one waits for rows it
  never asks for, so that only the second call happens.
\<close>

theorem streamed_multi_completes_twice:
  fixes r :: "'v response"
  assumes "inherited nt (ss_context (newStatement mode cx :: 'v stmt))" "cx_sqlText cx = JString sql"
    "jsExists (cx_complete cx)" "\<not> truthy (cx_asyncExec cx)" "isBoolean (cx_streamResult cx)"
    "rs_code r \<noteq> ''333334''" "nonempty_str (rd_resultIds (rs_data r))" "world_ok w"
  shows "case onStatementRequestComp nt cs (Inr r) (newStatement mode cx, w) of
    (s, w') \<Rightarrow> ss_result s = None \<and>
      (if truthy (cx_streamResult cx) then ss_completions s = [CompletedWith None]
       else ss_completions s = [CollectRows] \<and> streamStart type s = NoStart) \<and>
      (\<exists>child. w_created w' = w_created w @ [child] \<and> cx_complete child = cx_complete cx \<and>
         (\<forall>reply. single_result reply \<longrightarrow>
            length (ss_completions (fst (onStatementRequestComp nt cs reply (newStatement mode child :: 'v stmt, w')))) = 1))"
proof -
  let ?s0 = "newStatement mode cx :: 'v stmt"
  obtain c ids where ids: "rd_resultIds (rs_data r) = Some (c # ids)"
    using assms(7) by (cases "rd_resultIds (rs_data r)"; cases "the (rd_resultIds (rs_data r))") auto
  obtain b where b: "cx_streamResult cx = JBoolean b" using assms(5) by (auto simp: isBoolean_iff)
  have sql: "cx_sqlText (ss_context ?s0) = JString sql" using assms(2) by (simp add: newStatement_def)
  have same: "cx_streamResult (ss_context ?s0) = cx_streamResult cx" "cx_asyncExec (ss_context ?s0) = cx_asyncExec cx"
    "cx_complete (ss_context ?s0) = cx_complete cx"
    by (simp_all add: newStatement_def)
  obtain cx1 child where m: "startMulti nt (c # ids) (ss_context ?s0) = (cx1, Inr child)"
    "cx_streamResult cx1 = JBoolean b" "cx_asyncExec cx1 = cx_asyncExec cx" "cx_complete cx1 = cx_complete cx"
    "cx_complete child = cx_complete cx" "cx_multiResultIds cx1 \<noteq> JUndefined"
    by (rule multi_child[OF assms(1) sql, of "c # ids"]) (simp add: same b)
  define w1 where "w1 = w\<lparr>w_created := w_created w @ [child]\<rparr>"
  obtain s where s: "onStatementRequestComp nt cs (Inr r) (?s0, w) = (s, w1)" "ss_result s = None"
    "ss_completions s = [if b then CompletedWith None else CollectRows]" "streamStart type s = NoStart"
    by (rule multi_first_answer[OF m(1,6,2) _ _ ids assms(6), of cs w])
      (use m(3,4) assms(3,4) in \<open>simp_all add: newStatement_def w1_def\<close>)
  have "world_ok w1" using assms(8) by (simp add: w1_def world_ok_def)
  then have "length (ss_completions (fst (onStatementRequestComp nt cs reply (newStatement mode child :: 'v stmt, w1)))) = 1"
    if "single_result reply" for reply
    using fresh_completes[OF _ that] m(5) assms(3) by metis
  then have "\<exists>child. w_created w1 = w_created w @ [child] \<and> cx_complete child = cx_complete cx \<and>
      (\<forall>reply. single_result reply \<longrightarrow>
        length (ss_completions (fst (onStatementRequestComp nt cs reply (newStatement mode child :: 'v stmt, w1)))) = 1)"
    using m(5) by (intro exI[of _ child]) (simp add: w1_def)
  then show ?thesis unfolding s(1) prod.case b truthy.simps using s(2-4) by (cases b) simp_all
qed

theorem streamed_multi_completes_twice_witness:
  "case onStatementRequestComp (\<lambda>_. []) (JBoolean False) (Inr (sampleResponse ''0'' (Some ''a,b'') None))
      (newStatement JUndefined (sampleContext (JString ''select 1;select 2'') (JBoolean True)), sampleWorld) of
    (s, w') \<Rightarrow> ss_completions s = [CompletedWith None] \<and> length (w_created w') = 1"
proof -
  have "inherited (\<lambda>_. []) (ss_context (newStatement JUndefined
      (sampleContext (JString ''select 1;select 2'') (JBoolean True)) :: string stmt))"
    by (simp add: inherited_def sampleContext_def newStatement_def fetchResultChecks_def contextOptions_simps
        fetchAsStringOption_def rowModeOption_def validIfExists_def)
  from streamed_multi_completes_twice[OF this, of "''select 1;select 2''" "sampleResponse ''0'' (Some ''a,b'') None" sampleWorld
      ROW_PRE_EXEC "JBoolean False"]
  show ?thesis using sampleWorld_ok
    by (auto simp: sampleContext_def sampleResponse_def sampleWorld_def split: prod.splits)
qed

section \<open>Binds\<close>

text \<open>
  Array binds are transposed without loss: for rows of equal length the map has one entry per
  column, numbered from 1, that holds the column's values of all rows in order, none of them missing
  if every value has a JSON text; the type sent for a column is that of its value in the first row
  alone; and the number of values compared with the threshold for stage binding is rows times columns.
\<close>

theorem binds_transposed:
  assumes "bs \<noteq> []" "\<forall>r\<in>set bs. length r = n \<and> (\<forall>v\<in>set r. stringify nt v \<noteq> None)"
  shows "\<exists>m. buildBindsMap nt (map JArray bs) = Inr m \<and> map fst m = [1..<n + 1] \<and>
    countBinding (Some (map JArray bs)) = length bs * n \<and>
    (\<forall>i<n. m ! i = (i + 1, \<lparr>bd_type = bindType (hd bs ! i),
        bd_value = Column (map (\<lambda>r. bindValue nt (r ! i)) bs)\<rparr>) \<and>
      BindUndefined \<notin> set (map (\<lambda>r. bindValue nt (r ! i)) bs))"
proof -
  let ?e = "\<lambda>i. (i + 1, \<lparr>bd_type = bindType (hd bs ! i), bd_value = Column (map (\<lambda>r. bindValue nt (r ! i)) bs)\<rparr>)"
  have "buildBindsMap nt (map JArray bs) = Inr (map ?e [0..<n])"
    using assms by (intro buildBindsMap_rows) auto
  moreover have "map fst (map ?e [0..<n]) = [1..<n + 1]"
    using map_Suc_upt[of 0 n] by (simp add: o_def)
  moreover have "\<forall>r\<in>set cs. length r = n \<Longrightarrow> countBinding (Some (map JArray cs)) = length cs * n" for cs
    by (induction cs) (simp_all add: countBinding_def)
  moreover have "BindUndefined \<notin> set (map (\<lambda>r. bindValue nt (r ! i)) bs)" if "i < n" for i
  proof -
    have "bindValue nt (r ! i) \<noteq> BindUndefined" if "r \<in> set bs" for r
      using assms(2) that \<open>i < n\<close> by (intro bindValue_present) auto
    then show ?thesis by (auto dest: sym)
  qed
  ultimately show ?thesis using assms(2) by (intro exI[of _ "map ?e [0..<n]"]) simp
qed

theorem binds_transposed_witness:
  "\<exists>m. buildBindsMap (\<lambda>_. []) [JArray [JBoolean True], JArray [JString ''x'']] = Inr m \<and>
     m ! 0 = (1, \<lparr>bd_type = ''BOOLEAN'', bd_value = Column [BindText ''true'', BindText ''x'']\<rparr>)"
  using binds_transposed[of "[[JBoolean True], [JString ''x'']]" 1 "\<lambda>_. []"]
  by (auto simp: bindType_def bindValue_def)

section \<open>Options\<close>

lemma fetchAsStringOption_Inl:
  "Inl e \<in> set (fetchAsStringOption nt v a b) \<Longrightarrow>
   \<exists>c args. (c = a \<or> c = b) \<and> e = coded InvalidParameterError (NumCode c) args"
  by (auto simp: fetchAsStringOption_def check_errors Let_def split: if_splits jsv.splits)

lemma bindOptions_Inl:
  "Inl e \<in> set (bindOptions text nt v) \<Longrightarrow>
   \<exists>c args. (c = 409007 \<or> c = 409008) \<and> e = coded InvalidParameterError (NumCode c) args"
  by (auto simp: bindOptions_def check_errors split: if_splits jsv.splits) metis

lemma rowModeOption_Inl:
  "rowModeOption nt v = Inl e \<Longrightarrow> \<exists>args. e = coded InvalidParameterError (NumCode 411006) args"
  by (auto simp: rowModeOption_def check_errors split: if_splits)

lemma executeChecks_Inl:
  "Inl e \<in> set (executeChecks text nt opt) \<Longrightarrow> coded_in 409003 411006 e"
  by (auto simp: executeChecks_def check_errors split: if_splits
      dest!: fetchAsStringOption_Inl bindOptions_Inl rowModeOption_Inl rowModeOption_Inl[OF sym])

text \<open>
  The options of execute are checked completely: a call is rejected with a coded error and never
  with a TypeError, and an accepted one has a text to run or a request id to resubmit, a request
  id, a callback that is a function or absent, boolean flags, parameters that are an object or
  absent, and binds that all have a JSON text.
\<close>

theorem execute_options_checked:
  "case createContextPreExec render nt uuid tag options of
     Inl e \<Rightarrow> coded_in 409001 411006 e
   | Inr cx \<Rightarrow>
       (isString (cx_sqlText cx) \<or> (\<exists>ps. options = JObject ps \<and> isString (getProp ps ''requestId''))) \<and>
       cx_requestId cx \<noteq> None \<and> cx_queryId cx = None \<and>
       (jsExists (cx_complete cx) \<longrightarrow> isFunction (cx_complete cx)) \<and>
       (jsExists (cx_streamResult cx) \<longrightarrow> isBoolean (cx_streamResult cx)) \<and>
       (jsExists (cx_asyncExec cx) \<longrightarrow> isBoolean (cx_asyncExec cx)) \<and>
       (cx_parameters cx = JUndefined \<or> isObject (cx_parameters cx)) \<and>
       (case cx_binds cx of None \<Rightarrow> True | Some vs \<Rightarrow> \<forall>v\<in>set vs. stringify nt v \<noteq> None)"
proof (cases "createContextPreExec render nt uuid tag options")
  case (Inl e)
  then consider "e = coded MissingParameterError (NumCode 409001) []" | "e = coded InvalidParameterError (NumCode 409002) []"
    | opt where "checks (executeChecks render nt opt) = Inl e" | "\<not> isObject options" "e = ThrownJs TypeError" "isObject options"
    by (auto simp: createContextPreExec_def withOptions_def chk_bind_eq_Inl chk_bind_eq_Inr check_errors split: jsv.splits)
  then have "coded_in 409001 411006 e"
  proof cases
    case (3 opt)
    then have "coded_in 409003 411006 e" by (intro executeChecks_Inl checks_Inl)
    then show ?thesis by (rule coded_in_mono) simp_all
  qed simp_all
  then show ?thesis using Inl by simp
next
  case (Inr cx)
  then obtain ps where ps: "options = JObject ps" and ok: "checks (executeChecks render nt (getProp ps)) = Inr ()"
    by (auto simp: createContextPreExec_def withOptions_def chk_bind_eq_Inr split: jsv.splits)
  have cx: "cx_sqlText cx = getProp ps ''sqlText''" "cx_complete cx = getProp ps ''complete''"
    "cx_streamResult cx = getProp ps ''streamResult''" "cx_asyncExec cx = getProp ps ''asyncExec''"
    "cx_requestId cx \<noteq> None" "cx_queryId cx = None"
    "cx_parameters cx = taggedParameters tag (getProp ps ''parameters'')"
    "cx_binds cx = (case getProp ps ''binds'' of JArray vs \<Rightarrow> Some vs | _ \<Rightarrow> None)"
    using Inr unfolding createContextPreExec_def withOptions_def ps by (auto simp: ok)
  have k: "\<forall>c\<in>set (executeChecks render nt (getProp ps)). c = Inr ()" using ok by (simp add: checks_Inr)
  have sql: "isString (getProp ps ''sqlText'') \<or> isString (getProp ps ''requestId'')"
    using k by (cases "jsExists (getProp ps ''requestId'')") (simp_all add: executeChecks_def)
  have f: "jsExists (getProp ps ''complete'') \<longrightarrow> isFunction (getProp ps ''complete'')"
    "jsExists (getProp ps ''streamResult'') \<longrightarrow> isBoolean (getProp ps ''streamResult'')"
    "jsExists (getProp ps ''asyncExec'') \<longrightarrow> isBoolean (getProp ps ''asyncExec'')"
    "jsExists (getProp ps ''parameters'') \<longrightarrow> isObject (getProp ps ''parameters'')"
    "\<forall>c\<in>set (bindOptions render nt (getProp ps ''binds'')). c = Inr ()"
    using k by (simp_all add: executeChecks_def split: if_splits)
  have "taggedParameters tag v = JUndefined \<or> isObject (taggedParameters tag v)" for v
    by (cases v) (simp_all add: taggedParameters_def)
  moreover have "case cx_binds cx of None \<Rightarrow> True | Some vs \<Rightarrow> \<forall>v\<in>set vs. stringify nt v \<noteq> None"
    using f(5) unfolding cx(8) by (cases "getProp ps ''binds''") (auto simp: bindOptions_def)
  ultimately show ?thesis using Inr sql f(1-4) by (simp add: cx(1-7) ps)
qed

theorem execute_options_checked_witness:
  "case createContextPreExec (\<lambda>_. []) (\<lambda>_. []) ''uuid'' JUndefined
      (JObject [(''sqlText'', JString ''select ?''), (''complete'', JFunction), (''binds'', JArray [JString ''a''])]) of
     Inl _ \<Rightarrow> False
   | Inr cx \<Rightarrow> isFunction (cx_complete cx) \<and> cx_requestId cx = Some ''uuid'' \<and> cx_binds cx = Some [JString ''a'']"
proof -
  let ?o = "JObject [(''sqlText'', JString ''select ?''), (''complete'', JFunction), (''binds'', JArray [JString ''a''])]"
  have "\<exists>cx. createContextPreExec (\<lambda>_. []) (\<lambda>_. []) ''uuid'' JUndefined ?o = Inr cx \<and> cx_requestId cx = Some ''uuid'' \<and>
      cx_binds cx = Some [JString ''a''] \<and> jsExists (cx_complete cx)"
    by (simp add: createContextPreExec_def withOptions_def getProp_def executeChecks_def fetchAsStringOption_def
        rowModeOption_def bindOptions_def validIfExists_def)
  then show ?thesis
    using execute_options_checked[where render = "\<lambda>_. []" and nt = "\<lambda>_. []" and uuid = "''uuid''" and tag = JUndefined and options = ?o]
    by auto
qed

section \<open>Fetching rows\<close>

lemma refresh_keeps:
  assumes "ss_result s = Some (ResultOf res)" "ss_resultError s = None"
    "rd_chunks (rs_data r) = Some l" "length (rt_chunks res) \<le> length l"
  shows "\<exists>res' w'. onStatementRequestComp nt cs (Inr r) (s, w) =
      (s\<lparr>ss_result := Some (ResultOf res'), ss_isFetchingResult := False\<rparr>, w') \<and>
    length (rt_chunks res') = length (rt_chunks res)"
proof -
  have "refresh (rd_chunks (rs_data r)) (rt_chunks res) =
      (map2 (\<lambda>g c. setUrl (cfg_url g) c) l (rt_chunks res), None)"
    using assms(3,4) refreshFrom_enough[of 0 "rt_chunks res" l] by (simp add: refresh_def)
  then show ?thesis
    using assms
    by (simp add: onStatementRequestComp_def onStatementRequestSucc_def Let_def)
      (intro exI[of _ "res\<lparr>rt_chunks := map2 (\<lambda>g c. setUrl (cfg_url g) c) l (rt_chunks res)\<rparr>"], simp)
qed

text \<open>An expired link whose refresh succeeds: the answer names a url for every chunk.\<close>

definition refreshed :: "nat \<Rightarrow> stmt_error option \<times> (stmt_error + 'v response) \<Rightarrow> bool" where
  "refreshed n ev \<longleftrightarrow> linkExpired (fst ev) \<and>
     (case snd ev of Inl _ \<Rightarrow> False
      | Inr r \<Rightarrow> (case rd_chunks (rs_data r) of None \<Rightarrow> False | Some l \<Rightarrow> n \<le> length l))"

lemma runFetch_interrupts:
  assumes "ss_result (fo_stmt fo) = Some (ResultOf res)" "ss_resultError (fo_stmt fo) = None"
    "\<forall>ev\<in>set evs. refreshed (length (rt_chunks res)) ev" "\<not> linkExpired e"
  shows "fo_actions (runFetch nt cs m (evs @ (e, reply) # rest) fo) =
    fo_actions fo @ concat (replicate (min (length evs) (m - fo_interrupts fo)) [Reissued, Continued]) @ [Ended None]"
  using assms
proof (induction evs arbitrary: fo res)
  case Nil
  then show ?case by (simp add: onOperationComplete_def externalizeError_def Let_def)
next
  case (Cons ev evs)
  obtain x r l where ev: "ev = (x, Inr r)" "linkExpired x" "rd_chunks (rs_data r) = Some l" "length (rt_chunks res) \<le> length l"
    using Cons.prems(3) by (cases ev) (auto simp: refreshed_def split: sum.splits option.splits)
  show ?case
  proof (cases "fo_interrupts fo < m")
    case True
    define fo1 where "fo1 = onOperationComplete m x fo"
    have fo1: "fo_actions fo1 = fo_actions fo @ [Reissued]" "fo_interrupts fo1 = fo_interrupts fo + 1" "fo_stmt fo1 = fo_stmt fo"
      using True ev(2) by (simp_all add: fo1_def onOperationComplete_def)
    obtain res' w' where step: "onStatementRequestComp nt cs (Inr r) (fo_stmt fo1, fo_world fo1) =
        ((fo_stmt fo)\<lparr>ss_result := Some (ResultOf res'), ss_isFetchingResult := False\<rparr>, w')"
      "length (rt_chunks res') = length (rt_chunks res)"
      using refresh_keeps[OF Cons.prems(1,2) ev(3,4)] fo1(3) by metis
    define fo2 where "fo2 = onReissueAnswer nt cs (Inr r) fo1"
    have fo2: "fo_actions fo2 = fo_actions fo @ [Reissued, Continued]" "fo_interrupts fo2 = fo_interrupts fo + 1"
      "ss_result (fo_stmt fo2) = Some (ResultOf res')" "ss_resultError (fo_stmt fo2) = None"
      using step(1) fo1 Cons.prems(2) by (simp_all add: fo2_def onReissueAnswer_def)
    have "runFetch nt cs m ((ev # evs) @ (e, reply) # rest) fo = runFetch nt cs m (evs @ (e, reply) # rest) fo2"
      using fo1 fo2(1) by (simp add: ev Let_def flip: fo1_def fo2_def)
    moreover have "m - fo_interrupts fo = Suc (m - (fo_interrupts fo + 1))" using True by simp
    ultimately show ?thesis
      using Cons.IH[of fo2 res'] fo2 Cons.prems(3,4) step(2) by simp
  next
    case False
    then show ?thesis
      using Cons.prems(2) by (simp add: ev onOperationComplete_def externalizeError_def Let_def)
  qed
qed

text \<open>
  Interrupted fetches: a fetch whose download links expire k times, each time with a refresh that
  answers with urls for all chunks, is continued at most the configured number of times and then
  calls end() once, as its last action; but end() never gets the error of the operation, so a failed
  download, and an interruption beyond the limit, look to the caller like a complete fetch.
\<close>

theorem interrupted_fetch_ends_without_error:
  assumes "ss_result s = Some (ResultOf res)" "ss_resultError s = None"
    "\<forall>ev\<in>set evs. refreshed (length (rt_chunks res)) ev" "\<not> linkExpired (Some err)"
  shows "fo_actions (runFetch nt cs m (evs @ (Some err, reply) # rest)
      \<lparr>fo_stmt = s, fo_world = w, fo_interrupts = 0, fo_actions = []\<rparr>) =
    concat (replicate (min (length evs) m) [Reissued, Continued]) @ [Ended None]"
  using runFetch_interrupts[of "\<lparr>fo_stmt = s, fo_world = w, fo_interrupts = 0, fo_actions = []\<rparr>" res evs "Some err" nt cs m reply rest]
    assms by simp

definition sampleResult :: "string result" where
  "sampleResult = \<lparr>rt_queryId = ''q1'', rt_columns = [''A''], rt_columnIndex = [''A'' \<mapsto> [0]], rt_chunks = [],
     rt_returned = 0, rt_parameters = [], rt_queryContext = FalsyData\<rparr>"

definition sampleDownloadError :: "int \<Rightarrow> stmt_error" where
  "sampleDownloadError status = createLargeResultSetError (NumCode 402002) (Some (status, []))"

theorem interrupted_fetch_ends_without_error_witness:
  "fo_actions (runFetch (\<lambda>_. []) (JBoolean False) 3
      [(Some (sampleDownloadError 403), Inr (sampleResponse ''0'' None None
          \<lparr>rs_data := (rs_data (sampleResponse ''0'' None None))\<lparr>rd_chunks := Some []\<rparr>\<rparr>)),
       (Some (sampleDownloadError 500), Inl (sampleDownloadError 500))]
      \<lparr>fo_stmt = (newStatement JUndefined (sampleContext JUndefined JUndefined))\<lparr>ss_result := Some (ResultOf sampleResult)\<rparr>,
       fo_world = sampleWorld, fo_interrupts = 0, fo_actions = []\<rparr>) = [Reissued, Continued, Ended None]"
  using interrupted_fetch_ends_without_error[where evs = "[(Some (sampleDownloadError 403),
        Inr (sampleResponse ''0'' None None\<lparr>rs_data := (rs_data (sampleResponse ''0'' None None))\<lparr>rd_chunks := Some []\<rparr>\<rparr>))]"
      and err = "sampleDownloadError 500"
      and s = "(newStatement JUndefined (sampleContext JUndefined JUndefined))\<lparr>ss_result := Some (ResultOf sampleResult)\<rparr>"
      and res = sampleResult and m = 3 and rest = "[]" and reply = "Inl (sampleDownloadError 500)" and w = sampleWorld
      and nt = "\<lambda>_. []" and cs = "JBoolean False"]
  by (simp add: refreshed_def linkExpired_def sampleDownloadError_def createLargeResultSetError_def createError_def
      no_options_def isLargeResultSetError_def isErrorOfType_def sampleResult_def newStatement_def numeral_3_eq_3)

text \<open>When the refresh request itself fails, the fetch is neither continued nor ended.\<close>

lemma failed_refresh_strands_fetch:
  assumes "linkExpired e" "fo_interrupts fo < m"
  shows "fo_actions (runFetch nt cs m ((e, Inl err) # rest) fo) = fo_actions fo @ [Reissued]"
  using assms
  by (simp add: onOperationComplete_def onReissueAnswer_def Let_def split: prod.splits)

section \<open>Session parameters\<close>

text \<open>
  Updating the session parameters never adds or removes one, and each known parameter has the value
  of its last occurrence in the list that was received, or its old one.
\<close>

theorem known_parameters_updated:
  "dom (updateParameters config ps) = dom ps \<and>
   (n \<in> dom ps \<longrightarrow> getValue (updateParameters config ps) n =
      Inr (case map_of (rev config) n of Some v \<Rightarrow> v | None \<Rightarrow> the (ps n)))"
proof (induction config rule: rev_induct)
  case (snoc p config)
  then show ?case
    by (auto simp: updateParameters_def updateParameter_def getValue_def split: option.splits if_splits)
qed (auto simp: updateParameters_def getValue_def)

theorem known_parameters_updated_witness:
  "getValue (updateParameters [(''QUERY_CONTEXT_CACHE_SIZE'', JNumber 7), (''X'', JNumber 1),
       (''QUERY_CONTEXT_CACHE_SIZE'', JNumber 9)] defaultParameters) ''QUERY_CONTEXT_CACHE_SIZE'' = Inr (JNumber 9)"
  using known_parameters_updated[of "[(''QUERY_CONTEXT_CACHE_SIZE'', JNumber 7), (''X'', JNumber 1),
      (''QUERY_CONTEXT_CACHE_SIZE'', JNumber 9)]" defaultParameters "''QUERY_CONTEXT_CACHE_SIZE''"]
  by (simp add: defaultParameters_def)

end
