(* ===== verification/BindUploaderModel.thy ===== *)
theory BindUploaderModel
  imports StatementModel
begin

text \<open>
  Stage binding (\<open>lib/connection/bind_uploader.js\<close>): large array binds are written as CSV files to a
  temporary stage, a file whenever the buffer is full, and the statement then refers to the stage;
  if anything fails the binds are sent with the statement (\<open>StageBindingRequest\<close> of
  \<open>lib/connection/statement.js\<close>).  Whether the stage can be created and whether the n-th file can be put
  there are parameters.
\<close>

section \<open>CSV fields\<close>

definition dquote :: char where "dquote = CHR 0x22"
definition newline :: char where "newline = CHR 0x0A"

text \<open>\<open>v.toString() === ''\<close>\<close>

fun emptyText :: "jsv \<Rightarrow> bool" where
  "emptyText (JString s) = (s = [])"
| "emptyText (JArray []) = True"
| "emptyText (JArray [v]) = (v = JUndefined \<or> v = JNullV \<or> emptyText v)"
| "emptyText _ = False"

definition needsQuotes :: "string \<Rightarrow> bool" where
  "needsQuotes s \<longleftrightarrow>
     list_ex (\<lambda>c. c = dquote \<or> c = CHR '','' \<or> c = CHR 0x5C \<or> c = newline \<or> c = CHR 0x09) s"

definition quoted :: "string \<Rightarrow> string" where
  "quoted s = dquote # concat (map (\<lambda>c. if c = dquote then [c, c] else [c]) s) @ [dquote]"

definition csvText :: "(rat \<Rightarrow> string) \<Rightarrow> jsv \<Rightarrow> string js" where
  "csvText nt v =
     (case v of
        JString s \<Rightarrow> Inr s
      | JDate d \<Rightarrow> (case d of None \<Rightarrow> Inl TypeError | Some s \<Rightarrow> Inr s)
      | _ \<Rightarrow> (case stringify nt v of None \<Rightarrow> Inl TypeError | Some s \<Rightarrow> Inr s))"

definition csvData :: "(rat \<Rightarrow> string) \<Rightarrow> jsv \<Rightarrow> string js" where
  "csvData nt v =
     (if v = JNullV then Inr []
      else if v = JUndefined then Inl TypeError
      else if emptyText v then Inr [dquote, dquote]
      else js_bind (csvText nt v) (\<lambda>s. Inr (if needsQuotes s then quoted s else s)))"

section \<open>Upload\<close>

definition rowCells :: "jsv \<Rightarrow> jsv list js" where
  "rowCells row =
     (case row of
        JUndefined \<Rightarrow> Inl TypeError
      | JNullV \<Rightarrow> Inl TypeError
      | JArray vs \<Rightarrow> Inr vs
      | JString s \<Rightarrow> Inr (map (\<lambda>c. JString [c]) s)
      | _ \<Rightarrow> Inr [])"

definition csvLine :: "(rat \<Rightarrow> string) \<Rightarrow> jsv \<Rightarrow> string js" where
  "csvLine nt row =
     js_bind (rowCells row) (\<lambda>vs. js_bind (js_map (csvData nt) vs) (\<lambda>ts. Inr (joinWith CHR '','' ts @ [newline])))"

definition MAX_BUFFER_SIZE :: nat where "MAX_BUFFER_SIZE = 1024 * 1024 * 100"

text \<open>The files uploaded, each with its name, and the exception that ended the upload.\<close>

fun uploadRows ::
  "(rat \<Rightarrow> string) \<Rightarrow> nat \<Rightarrow> (nat \<Rightarrow> bool) \<Rightarrow> nat \<Rightarrow> string \<Rightarrow> jsv list \<Rightarrow> (string \<times> string) list \<times> js_exn option"
where
  "uploadRows nt maxSize putOk fileCount strbuffer [] = ([], None)"
| "uploadRows nt maxSize putOk fileCount strbuffer (row # rest) =
     (case csvLine nt row of
        Inl e \<Rightarrow> ([], Some e)
      | Inr line \<Rightarrow>
          (if maxSize \<le> length (strbuffer @ line) \<or> rest = [] then
             (if putOk (fileCount + 1) then
                (case uploadRows nt maxSize putOk (fileCount + 1) [] rest of
                   (files, e) \<Rightarrow> ((show_nat (fileCount + 1), strbuffer @ line) # files, e))
              else ([], Some PlainError))
           else uploadRows nt maxSize putOk fileCount (strbuffer @ line) rest))"

record uploader =
  up_forceError :: jsv           \<comment> \<open>\<open>getForceStageBindError()\<close>\<close>
  up_createOk :: bool
  up_putOk :: "nat \<Rightarrow> bool"
  up_isStageCreated :: bool

definition Upload ::
  "(rat \<Rightarrow> string) \<Rightarrow> uploader \<Rightarrow> jsv list \<Rightarrow> uploader \<times> (string \<times> string) list \<times> js_exn option"
where
  "Upload nt u bindings =
     (if \<not> up_isStageCreated u \<and> (up_forceError u = JNumber 0 \<or> \<not> up_createOk u) then (u, [], Some PlainError)
      else (u\<lparr>up_isStageCreated := True\<rparr>,
            uploadRows nt MAX_BUFFER_SIZE (\<lambda>n. up_forceError u \<noteq> JNumber 1 \<and> up_putOk u n) 0 [] bindings))"

definition stageName :: "string \<Rightarrow> string" where
  "stageName requestId = ''@SYSTEM$BIND/'' @ requestId"

definition putStatement :: "string \<Rightarrow> string \<Rightarrow> string" where
  "putStatement fileName requestId =
     ''PUT file://'' @ fileName @ [char_of (39 :: nat)] @ stageName requestId @ [char_of (39 :: nat)] @
     '' overwrite=true auto_compress=false source_compression=gzip''"

text \<open>The stage a row statement is then executed with; \<open>None\<close> means inline binds.\<close>

definition stageBindingRequest ::
  "(rat \<Rightarrow> string) \<Rightarrow> uploader \<Rightarrow> string \<Rightarrow> stmt_context \<Rightarrow> uploader \<times> (string \<times> string) list \<times> string option"
where
  "stageBindingRequest nt u uploadId cx =
     (case cx_binds cx of
        None \<Rightarrow> (u, [], Some (stageName uploadId))
      | Some rows \<Rightarrow>
          (case Upload nt u rows of
             (u', files, None) \<Rightarrow> (u', files, Some (stageName uploadId))
           | (u', files, Some e) \<Rightarrow> (u', files, None)))"

section \<open>Reading the files\<close>






section \<open>Facts\<close>

lemma char_facts [simp]:
  "dquote \<noteq> CHR '',''" "CHR '','' \<noteq> dquote" "dquote \<noteq> newline" "newline \<noteq> dquote" "newline \<noteq> CHR '',''" "CHR '','' \<noteq> newline"
  by (simp_all add: dquote_def newline_def)






section \<open>Files and rows\<close>









section \<open>Properties\<close>




text \<open>
  The files are cut by size: every file but the last has at least the maximum size, and any file
  without its last line is below it; a file is never cut inside a row.
\<close>

lemma uploadRows_bounds:
  assumes "length buf < m" "uploadRows nt m putOk n buf rows = (files, e)" "f \<in> set files"
  shows "(\<exists>a line row. snd f = a @ line \<and> length a < m \<and> row \<in> set rows \<and> csvLine nt row = Inr line)"
  using assms
proof (induction rows arbitrary: n buf files)
  case (Cons row rows)
  show ?case
  proof (cases "csvLine nt row")
    case (Inl x)
    with Cons.prems show ?thesis by simp
  next
    case (Inr line)
    show ?thesis
    proof (cases "m \<le> length (buf @ line) \<or> rows = []")
      case False
      with Cons.prems Inr Cons.IH[of "buf @ line" n files] show ?thesis by auto
    next
      case True
      show ?thesis
      proof (cases "putOk (n + 1)")
        case False
        with True Inr Cons.prems show ?thesis by simp
      next
        case put: True
        obtain files' e' where r: "uploadRows nt m putOk (n + 1) [] rows = (files', e')" by fastforce
        then have f: "files = (show_nat (n + 1), buf @ line) # files'" "e' = e" using True put Inr Cons.prems(2) by auto
        have m: "length ([] :: string) < m" using Cons.prems(1) by (cases m) auto
        consider "snd f = buf @ line" | "f \<in> set files'" using f Cons.prems(3) by auto
        then show ?thesis
        proof cases
          case 1
          then show ?thesis using Cons.prems(1) Inr by (intro exI[of _ buf] exI[of _ line] exI[of _ row]) simp
        next
          case 2
          then show ?thesis using Cons.IH[OF m r[unfolded f(2)]] by (meson list.set_intros(2))
        qed
      qed
    qed
  qed
qed simp

lemma uploadRows_full:
  assumes "uploadRows nt m putOk n buf rows = (files, None)" "f \<in> set (butlast files)"
  shows "m \<le> length (snd f)"
  using assms
proof (induction rows arbitrary: n buf files)
  case (Cons row rows)
  obtain line where line: "csvLine nt row = Inr line" using Cons.prems(1) by (cases "csvLine nt row") auto
  show ?case
  proof (cases "m \<le> length (buf @ line) \<or> rows = []")
    case False
    with Cons.prems line Cons.IH[of n "buf @ line" files] show ?thesis by auto
  next
    case True
    obtain files' e' where r: "uploadRows nt m putOk (n + 1) [] rows = (files', e')" by fastforce
    then have f: "files = (show_nat (n + 1), buf @ line) # files'" "e' = None"
      using True line Cons.prems(1) by (auto split: if_splits)
    show ?thesis
    proof (cases "files' = []")
      case True
      with f Cons.prems(2) show ?thesis by simp
    next
      case False
      then have "rows \<noteq> []" using r by auto
      then show ?thesis
        using False f Cons.prems(2) True Cons.IH[of "n + 1" "[]" files'] r by auto
    qed
  qed
qed simp

end
