(* ===== verification/FileTransferTypes.thy ===== *)
theory FileTransferTypes
  imports UtilModel
begin

text \<open>
  The data of PUT and GET (\<open>lib/file_transfer_agent\<close>): the status of a file, the errors of the storage
  libraries, the metadata a file carries through a transfer, the table of compression types
  (\<open>file_compression_type.js\<close>) and the paths of Node's \<open>path\<close> module on POSIX systems.
\<close>

section \<open>Status and errors\<close>

text \<open>\<open>resultStatus\<close> of \<open>lib/file_util.js\<close>.\<close>

datatype result_status =
    ERROR | UPLOADED | DOWNLOADED | COLLISION | SKIPPED | RENEW_TOKEN | RENEW_PRESIGNED_URL
  | NOT_FOUND_FILE | NEED_RETRY | NEED_RETRY_WITH_LOWER_CONCURRENCY

text \<open>
  What the code reads of an error of a storage library: \<open>Code\<close>, \<open>name\<close>, \<open>code\<close> (a text or a number),
  \<open>statusCode\<close>, \<open>response.status\<close> and its text.
\<close>

datatype js_code = CodeText string | CodeNumber int

record storage_error =
  se_Code :: "string option"
  se_name :: string
  se_code :: "js_code option"
  se_statusCode :: "int option"
  se_response :: "int option"
  se_text :: string

text \<open>What a transfer throws: such an error, an \<open>Error\<close> with a message, or an exception of the language.\<close>

datatype transfer_exn = StorageError storage_error | TransferError string | LanguageError js_exn

fun exnText :: "transfer_exn \<Rightarrow> string" where
  "exnText (StorageError e) = se_text e"
| "exnText (TransferError m) = ''Error: '' @ m"
| "exnText (LanguageError e) = ''TypeError''"

type_synonym 'a transfer = "transfer_exn + 'a"

definition tr_bind :: "'a transfer \<Rightarrow> ('a \<Rightarrow> 'b transfer) \<Rightarrow> 'b transfer" where
  "tr_bind m f = (case m of Inl e \<Rightarrow> Inl e | Inr x \<Rightarrow> f x)"

lemma tr_bind_simps [simp]:
  "tr_bind (Inl e) f = Inl e" "tr_bind (Inr x) f = f x"
  by (simp_all add: tr_bind_def)

lemma tr_bind_eq_Inr: "tr_bind m f = Inr y \<longleftrightarrow> (\<exists>x. m = Inr x \<and> f x = Inr y)"
  by (cases m) simp_all

section \<open>Compression types\<close>

record compression =
  ct_name :: string
  ct_file_extension :: string
  ct_mime_type :: string
  ct_mime_subtypes :: "string list"
  ct_is_supported :: bool

definition ctype :: "string \<Rightarrow> string \<Rightarrow> string \<Rightarrow> string list \<Rightarrow> bool \<Rightarrow> compression" where
  "ctype name ext mime subtypes supported =
     \<lparr>ct_name = name, ct_file_extension = ext, ct_mime_type = mime, ct_mime_subtypes = subtypes,
      ct_is_supported = supported\<rparr>"

definition Types :: "compression list" where
  "Types =
    [ctype ''GZIP'' ''.gz'' ''application'' [''gzip'', ''x-gzip''] True,
     ctype ''DEFLATE'' ''.deflate'' ''application'' [''zlib'', ''deflate''] True,
     ctype ''RAW_DEFLATE'' ''.raw_deflate'' ''application'' [''raw_deflate''] True,
     ctype ''BZIP2'' ''.bz2'' ''application'' [''bzip2'', ''x-bzip2'', ''x-bz2'', ''x-bzip'', ''bz2''] True,
     ctype ''LZIP'' ''.lz'' ''application'' [''lzip'', ''x-lzip''] False,
     ctype ''LZMA'' ''.lzma'' ''application'' [''lzma'', ''x-lzma''] False,
     ctype ''LZO'' ''.lzo'' ''application'' [''lzo'', ''x-lzo''] False,
     ctype ''XZ'' ''.xz'' ''application'' [''xz'', ''x-xz''] False,
     ctype ''COMPRESS'' ''.Z'' ''application'' [''compress'', ''x-compress''] False,
     ctype ''PARQUET'' ''.parquet'' ''snowflake'' [''parquet''] True,
     ctype ''ZSTD'' ''.zst'' ''application'' [''zstd'', ''x-zstd''] True,
     ctype ''BROTLI'' ''.br'' ''application'' [''br'', ''x-br''] True,
     ctype ''ORC'' ''.orc'' ''snowflake'' [''orc''] True]"

text \<open>
  \<open>subtypeToMeta\<close>: the loop over the types and their subtypes.  (It is an array, so the names of
  \<open>Array.prototype\<close> would also be found; no encoding has such a name.)
\<close>

definition subtypeToMeta :: "string \<rightharpoonup> compression" where
  "subtypeToMeta =
     fold (\<lambda>t m. fold (\<lambda>ms m. m(ms \<mapsto> t)) (ct_mime_subtypes t) m) Types Map.empty"

definition lowerChar :: "char \<Rightarrow> char" where
  "lowerChar c = (if 65 \<le> (of_char c :: nat) \<and> (of_char c :: nat) \<le> 90 then char_of ((of_char c :: nat) + 32) else c)"

definition lookupByMimeSubType :: "string \<Rightarrow> compression option" where
  "lookupByMimeSubType subtype = subtypeToMeta (map lowerChar subtype)"

text \<open>\<open>encoding.substring(encoding.indexOf('/') + 1)\<close>\<close>

definition afterSlash :: "string \<Rightarrow> string" where
  "afterSlash s = (if CHR ''/'' \<in> set s then tl (dropWhile (\<lambda>c. c \<noteq> CHR ''/'') s) else s)"

definition lookupByEncoding :: "string \<Rightarrow> compression option" where
  "lookupByEncoding encoding = subtypeToMeta (afterSlash encoding)"

text \<open>The subtypes are pairwise different, so each leads back to its own type.\<close>

lemma fold_map_updates:
  "fold (\<lambda>t m. fold (\<lambda>ms m. m(ms \<mapsto> t)) (f t) m) ts m k =
     (case find (\<lambda>t. k \<in> set (f t)) (rev ts) of Some t \<Rightarrow> Some t | None \<Rightarrow> m k)"
proof (induction ts arbitrary: m)
  case (Cons t ts)
  have inner: "fold (\<lambda>ms m. m(ms \<mapsto> t)) xs m k = (if k \<in> set xs then Some t else m k)" for xs and m :: "_ \<rightharpoonup> _"
    by (induction xs arbitrary: m) auto
  have app: "find P (xs @ ys) = (case find P xs of None \<Rightarrow> find P ys | r \<Rightarrow> r)" for P xs ys
    by (induction xs) auto
  show ?case by (simp only: fold_simps comp_apply Cons.IH inner rev.simps app) (simp split: option.splits)
qed simp

lemma subtypes_distinct: "distinct (concat (map ct_mime_subtypes Types))"
  by (simp add: Types_def ctype_def)

lemma subtype_owner:
  assumes "t \<in> set Types" "s \<in> set (ct_mime_subtypes t)"
  shows "find (\<lambda>t. s \<in> set (ct_mime_subtypes t)) (rev Types) = Some t"
proof -
  have "\<forall>t\<in>set Types. \<forall>s\<in>set (ct_mime_subtypes t). find (\<lambda>t. s \<in> set (ct_mime_subtypes t)) (rev Types) = Some t"
    by (simp add: Types_def ctype_def)
  then show ?thesis using assms by blast
qed

lemma lookup_finds_its_type:
  assumes "t \<in> set Types" "s \<in> set (ct_mime_subtypes t)"
  shows "subtypeToMeta s = Some t" "lookupByEncoding (ct_mime_type t @ ''/'' @ s) = Some t"
proof -
  show A: "subtypeToMeta s = Some t"
    using assms(2) subtype_owner[OF assms] by (simp add: subtypeToMeta_def fold_map_updates)
  have "afterSlash (ct_mime_type t @ ''/'' @ s) = s"
    using assms(1) by (auto simp: Types_def ctype_def afterSlash_def)
  then show "lookupByEncoding (ct_mime_type t @ ''/'' @ s) = Some t"
    using A by (simp add: lookupByEncoding_def)
qed

section \<open>Files in a transfer\<close>

text \<open>\<open>SnowflakeFileEncryptionMaterial\<close>, \<open>EncryptionMetadata\<close> and \<open>FileHeader\<close>.\<close>

record enc_material =
  em_queryStageMasterKey :: string
  em_queryId :: string
  em_smkId :: string

record enc_metadata =
  en_key :: string
  en_iv :: string
  en_matDesc :: "string option"
  en_keyIv :: "string option"
  en_dataAad :: "string option"
  en_keyAad :: "string option"

record file_header =
  fh_digest :: "string option"
  fh_contentLength :: "nat option"
  fh_encryptionMetadata :: "enc_metadata option"

definition FileHeader :: "string option \<Rightarrow> nat option \<Rightarrow> enc_metadata option \<Rightarrow> file_header" where
  "FileHeader digest contentLength encryptionMetadata =
     \<lparr>fh_digest = digest, fh_contentLength = contentLength, fh_encryptionMetadata = encryptionMetadata\<rparr>"

text \<open>Where the files of a stage are: what the server tells about it.\<close>

record stage_info =
  si_locationType :: string
  si_location :: string
  si_region :: string
  si_endPoint :: "string option"
  si_storageAccount :: string
  si_useRegionalUrl :: bool
  si_useS3RegionalUrl :: bool
  si_useVirtualUrl :: bool
  si_gcsToken :: "string option"
  si_sasToken :: string
  si_presignedUrl :: "string option"

text \<open>
  The metadata object of a file.  Fields the code may leave unset are options.  The last three are
  what a GCS request keeps of the headers it saw.
\<close>

record meta =
  m_srcFileName :: string
  m_dstFileName :: string
  m_srcFilePath :: string
  m_realSrcFilePath :: string
  m_srcFileSize :: "nat option"
  m_dstFileSize :: "int option"
  m_uploadSize :: nat
  m_digest :: string
  m_parallel :: nat
  m_overwrite :: bool
  m_requireCompress :: bool
  m_srcCompressionType :: "compression option"
  m_dstCompressionType :: "compression option"
  m_encryptionMaterial :: "enc_material option"
  m_stageLocationType :: string
  m_stageInfo :: stage_info
  m_localLocation :: string
  m_presignedUrl :: "string option"
  m_clientToken :: "string option"
  m_resultStatus :: "result_status option"
  m_lastError :: "storage_error option"
  m_lastMaxConcurrency :: "nat option"
  m_noSleepingTime :: bool
  m_errorDetails :: "string option"
  m_headerDigest :: "string option"
  m_headerLength :: "nat option"
  m_headerEncryption :: "enc_metadata option"

section \<open>Paths\<close>

text \<open>
  \<open>path\<close> on POSIX systems: segments between slashes, \<open>.\<close> and empty segments dropped, \<open>..\<close> removing the
  segment before it, at the root doing nothing.
\<close>

fun normSegs :: "bool \<Rightarrow> string list \<Rightarrow> string list \<Rightarrow> string list" where
  "normSegs absolute acc [] = rev acc"
| "normSegs absolute acc (s # ss) =
     (if s = [] \<or> s = ''.'' then normSegs absolute acc ss
      else if s = ''..'' then
        (case acc of
           [] \<Rightarrow> normSegs absolute (if absolute then [] else [s]) ss
         | a # as \<Rightarrow> normSegs absolute (if a = ''..'' then s # acc else as) ss)
      else normSegs absolute (s # acc) ss)"

fun segments :: "string \<Rightarrow> string list" where
  "segments [] = [[]]"
| "segments (c # cs) =
     (if c = CHR ''/'' then [] # segments cs
      else (case segments cs of [] \<Rightarrow> [[c]] | w # ws \<Rightarrow> (c # w) # ws))"

fun slashed :: "string list \<Rightarrow> string" where
  "slashed [] = []"
| "slashed [w] = w"
| "slashed (w # ws) = w @ CHR ''/'' # slashed ws"

definition isAbsolute :: "string \<Rightarrow> bool" where
  "isAbsolute p = (take 1 p = ''/'')"

text \<open>\<open>path.join(a, b)\<close> and \<open>path.resolve(cwd, p)\<close> for an absolute \<open>cwd\<close>.\<close>

definition joinPath :: "string \<Rightarrow> string \<Rightarrow> string" where
  "joinPath a b =
     (let p = (if a = [] then b else if b = [] then a else a @ CHR ''/'' # b);
          t = slashed (normSegs (isAbsolute p) [] (segments p));
          d = (if p \<noteq> [] \<and> last p = CHR ''/'' \<and> t \<noteq> [] then t @ ''/'' else t)
      in if isAbsolute p then CHR ''/'' # d
         else if p = [] \<or> t = [] then (if p \<noteq> [] \<and> last p = CHR ''/'' then ''./'' else ''.'') else d)"

definition resolvePath :: "string \<Rightarrow> string \<Rightarrow> string" where
  "resolvePath cwd p =
     (if isAbsolute p then CHR ''/'' # slashed (normSegs True [] (segments p))
      else CHR ''/'' # slashed (normSegs True [] (segments cwd @ segments p)))"

text \<open>\<open>path.basename\<close> and \<open>path.dirname\<close>.\<close>

definition trimSlashes :: "string \<Rightarrow> string" where
  "trimSlashes p = rev (dropWhile (\<lambda>c. c = CHR ''/'') (rev p))"

definition basename :: "string \<Rightarrow> string" where
  "basename p = rev (takeWhile (\<lambda>c. c \<noteq> CHR ''/'') (rev (trimSlashes p)))"

definition dirname :: "string \<Rightarrow> string" where
  "dirname p =
     (let rest = rev (dropWhile (\<lambda>c. c \<noteq> CHR ''/'') (rev (trimSlashes p)))
      in if rest = [] then (if isAbsolute p then ''/'' else ''.'')
         else if trimSlashes rest = [] then ''/'' else trimSlashes rest)"

lemma basename_no_slash: "CHR ''/'' \<notin> set (basename p)"
  by (auto simp: basename_def dest: set_takeWhileD)

end
