(* ===== verification/StorageModel.thy ===== *)
theory StorageModel
  imports FileTransferTypes
begin

text \<open>
  Uploading and downloading one file (\<open>file_transfer_agent/remote_storage_util.js\<close>): the attempts with
  their retries, the check of an uploaded file and the steps after a download.

  A storage (S3, Azure or GCS) is a record of its three operations on a world \<open>'e\<close>, which stands for
  the storage service and the disk; \<open>'d\<close> is what is uploaded, the path of a file or a content.  The log
  keeps the order of the calls, with the concurrency of an upload and the milliseconds of a pause.
\<close>

section \<open>Storages\<close>

record ('d, 'e) storage_util =
  su_getFileHeader :: "meta \<Rightarrow> string \<Rightarrow> 'e \<Rightarrow> file_header option transfer \<times> meta \<times> 'e"
  su_uploadFile :: "'d \<Rightarrow> meta \<Rightarrow> enc_metadata option \<Rightarrow> nat \<Rightarrow> 'e \<Rightarrow> unit transfer \<times> meta \<times> 'e"
  su_nativeDownloadFile :: "meta \<Rightarrow> string \<Rightarrow> 'e \<Rightarrow> unit transfer \<times> meta \<times> 'e"

datatype storage_action = Checked | Sent nat | Fetched | Slept nat

type_synonym 'e transferred = "unit transfer \<times> meta \<times> 'e \<times> storage_action list"

definition logged :: "storage_action list \<Rightarrow> 'e transferred \<Rightarrow> 'e transferred" where
  "logged acts r = (case r of (x, m, e, tr) \<Rightarrow> (x, m, e, acts @ tr))"

lemma logged_simps [simp]: "logged acts (x, m, e, tr) = (x, m, e, acts @ tr)"
  by (simp add: logged_def)

definition DEFAULT_CONCURRENCY :: nat where "DEFAULT_CONCURRENCY = 1"
definition DEFAULT_MAX_RETRY :: nat where "DEFAULT_MAX_RETRY = 5"

text \<open>\<open>Math.min(Math.pow(2, retry), 16)\<close>, unless sleeping is switched off.\<close>

definition pauseAfter :: "meta \<Rightarrow> nat \<Rightarrow> storage_action list" where
  "pauseAfter m retry = (if m_noSleepingTime m then [] else [Slept (min (2 ^ retry) 16)])"

definition lowerConcurrency :: "meta \<Rightarrow> nat \<Rightarrow> nat" where
  "lowerConcurrency m retry =
     max DEFAULT_CONCURRENCY (m_parallel m - (retry * m_parallel m) div DEFAULT_MAX_RETRY)"

definition giveUp :: "storage_error option \<Rightarrow> string \<Rightarrow> transfer_exn" where
  "giveUp lastErr msg = TransferError (case lastErr of Some x \<Rightarrow> se_text x | None \<Rightarrow> msg)"

section \<open>Uploading\<close>

text \<open>
  One attempt: the check whether the file is there already, unless it may be overwritten, and the
  upload; \<open>True\<close> if the file was found and is skipped.
\<close>

definition attempt ::
  "('d, 'e) storage_util \<Rightarrow> 'd \<Rightarrow> enc_metadata option \<Rightarrow> nat \<Rightarrow> meta \<Rightarrow> 'e \<Rightarrow>
   bool transfer \<times> meta \<times> 'e \<times> storage_action list"
where
  "attempt su data em maxConcurrency m e =
     (case (if m_overwrite m then (Inr None, m, e) else su_getFileHeader su m (m_dstFileName m) e) of
        (Inl x, m1, e1) \<Rightarrow> (Inl x, m1, e1, [Checked])
      | (Inr fileHeader, m1, e1) \<Rightarrow>
          (let check = (if m_overwrite m then [] else [Checked])
           in if \<not> m_overwrite m \<and> fileHeader \<noteq> None \<and> m_resultStatus m1 = Some UPLOADED then
                (Inr True, m1\<lparr>m_dstFileSize := Some 0, m_resultStatus := Some SKIPPED\<rparr>, e1, check)
              else if m_overwrite m1 \<or> m_resultStatus m1 = Some NOT_FOUND_FILE then
                (case su_uploadFile su data m1 em maxConcurrency e1 of
                   (Inl x, m2, e2) \<Rightarrow> (Inl x, m2, e2, check @ [Sent maxConcurrency])
                 | (Inr _, m2, e2) \<Rightarrow> (Inr False, m2, e2, check @ [Sent maxConcurrency]))
              else (Inr False, m1, e1, check)))"

text \<open>The loop over the attempts, \<open>left\<close> of them to go.\<close>

fun uploadAttempts ::
  "('d, 'e) storage_util \<Rightarrow> 'd \<Rightarrow> enc_metadata option \<Rightarrow> string \<Rightarrow> nat \<Rightarrow> nat \<Rightarrow> storage_error option \<Rightarrow>
   meta \<Rightarrow> 'e \<Rightarrow> 'e transferred"
where
  "uploadAttempts su data em msg 0 maxConcurrency lastErr m e = (Inl (giveUp lastErr msg), m, e, [])"
| "uploadAttempts su data em msg (Suc left) maxConcurrency lastErr m e =
     (case attempt su data em maxConcurrency m e of
        (Inl x, m2, e2, tr) \<Rightarrow> (Inl x, m2, e2, tr)
      | (Inr True, m2, e2, tr) \<Rightarrow> (Inr (), m2, e2, tr)
      | (Inr False, m2, e2, tr) \<Rightarrow>
          (let retry = DEFAULT_MAX_RETRY - Suc left
           in case m_resultStatus m2 of
                Some UPLOADED \<Rightarrow> (Inr (), m2, e2, tr)
              | Some RENEW_TOKEN \<Rightarrow> (Inr (), m2, e2, tr)
              | Some RENEW_PRESIGNED_URL \<Rightarrow> (Inr (), m2, e2, tr)
              | Some NEED_RETRY \<Rightarrow>
                  logged (tr @ pauseAfter m2 retry)
                    (uploadAttempts su data em msg left maxConcurrency (m_lastError m2) m2 e2)
              | Some NEED_RETRY_WITH_LOWER_CONCURRENCY \<Rightarrow>
                  (let c = lowerConcurrency m2 retry; m3 = m2\<lparr>m_lastMaxConcurrency := Some c\<rparr>
                   in logged (tr @ pauseAfter m3 retry)
                        (uploadAttempts su data em msg left c (m_lastError m3) m3 e2))
              | _ \<Rightarrow> logged tr (uploadAttempts su data em msg left maxConcurrency lastErr m2 e2)))"

text \<open>
  \<open>uploadOneFile\<close> and \<open>uploadOneFileStream\<close>: the data is encrypted first if there is encryption
  material.  \<open>encrypt\<close> is \<open>encryptFile\<close> or \<open>encryptFileStream\<close>; \<open>name\<close> is what the message names.
\<close>

definition uploadData ::
  "('d, 'e) storage_util \<Rightarrow> (enc_material \<Rightarrow> 'd \<Rightarrow> 'e \<Rightarrow> (enc_metadata \<times> 'd) transfer \<times> 'e) \<Rightarrow> ('d \<Rightarrow> string) \<Rightarrow>
   'd \<Rightarrow> meta \<Rightarrow> 'e \<Rightarrow> 'e transferred"
where
  "uploadData su encrypt name data m e =
     (case (case m_encryptionMaterial m of
              None \<Rightarrow> (Inr (None, data), e)
            | Some material \<Rightarrow>
                (case encrypt material data e of
                   (Inl x, e') \<Rightarrow> (Inl x, e')
                 | (Inr (em, data'), e') \<Rightarrow> (Inr (Some em, data'), e'))) of
        (Inl x, e') \<Rightarrow> (Inl x, m, e', [])
      | (Inr (em, data'), e') \<Rightarrow>
          uploadAttempts su data' em (''Unknown Error in uploading a file: '' @ name data')
            DEFAULT_MAX_RETRY (m_parallel m) None m e')"

definition uploadOneFile ::
  "(string, 'e) storage_util \<Rightarrow> (enc_material \<Rightarrow> string \<Rightarrow> 'e \<Rightarrow> (enc_metadata \<times> string) transfer \<times> 'e) \<Rightarrow>
   meta \<Rightarrow> 'e \<Rightarrow> 'e transferred"
where
  "uploadOneFile su encryptFile m e = uploadData su encryptFile (\<lambda>f. f) (m_realSrcFilePath m) m e"

definition uploadOneFileStream ::
  "('d, 'e) storage_util \<Rightarrow> (enc_material \<Rightarrow> 'd \<Rightarrow> 'e \<Rightarrow> (enc_metadata \<times> 'd) transfer \<times> 'e) \<Rightarrow>
   'd \<Rightarrow> meta \<Rightarrow> 'e \<Rightarrow> 'e transferred"
where
  "uploadOneFileStream su encryptFileStream content m e =
     uploadData su encryptFileStream (\<lambda>_. m_srcFileName m) content m e"

text \<open>
  \<open>uploadOneFileWithRetry\<close>: an uploaded file is looked up until it is found, at most ten times with
  a second in between.  The body of the outer loop ends with \<open>break\<close>, so it runs once and the status
  \<open>ERROR\<close> after the loop is never set.
\<close>

fun verifyUpload :: "('d, 'e) storage_util \<Rightarrow> nat \<Rightarrow> meta \<Rightarrow> 'e \<Rightarrow> 'e transferred" where
  "verifyUpload su 0 m e = (Inr (), m, e, [])"
| "verifyUpload su (Suc left) m e =
     (case su_getFileHeader su m (m_dstFileName m) e of
        (Inl x, m', e') \<Rightarrow> (Inl x, m', e', [Checked])
      | (Inr _, m', e') \<Rightarrow>
          if m_resultStatus m' = Some NOT_FOUND_FILE then
            logged [Checked, Slept 1000] (verifyUpload su left m' e')
          else (Inr (), m', e', [Checked]))"

definition uploadOneFileWithRetry ::
  "(string, 'e) storage_util \<Rightarrow> (enc_material \<Rightarrow> string \<Rightarrow> 'e \<Rightarrow> (enc_metadata \<times> string) transfer \<times> 'e) \<Rightarrow>
   meta \<Rightarrow> 'e \<Rightarrow> 'e transferred"
where
  "uploadOneFileWithRetry su encryptFile m e =
     (case uploadOneFile su encryptFile m e of
        (Inl x, m1, e1, tr) \<Rightarrow> (Inl x, m1, e1, tr)
      | (Inr _, m1, e1, tr) \<Rightarrow>
          if m_resultStatus m1 = Some UPLOADED then logged tr (verifyUpload su 10 m1 e1)
          else (Inr (), m1, e1, tr))"

section \<open>Downloading\<close>

text \<open>The disk operations of a download.  A directory that cannot be made is not reported.\<close>

record 'e disk =
  dk_realpath :: "string \<Rightarrow> 'e \<Rightarrow> string transfer \<times> 'e"
  dk_mkdirIfMissing :: "string \<Rightarrow> 'e \<Rightarrow> 'e"
  dk_decryptFile :: "enc_metadata option \<Rightarrow> enc_material \<Rightarrow> string \<Rightarrow> 'e \<Rightarrow> string transfer \<times> 'e"
  dk_copyFile :: "string \<Rightarrow> string \<Rightarrow> 'e \<Rightarrow> unit transfer \<times> 'e"
  dk_removeTemp :: "string \<Rightarrow> 'e \<Rightarrow> unit transfer \<times> 'e"
  dk_fileSize :: "string \<Rightarrow> 'e \<Rightarrow> nat transfer \<times> 'e"

definition dk_bind ::
  "'a transfer \<times> 'e \<Rightarrow> ('a \<Rightarrow> 'e \<Rightarrow> 'b transfer \<times> 'e) \<Rightarrow> 'b transfer \<times> 'e"
where
  "dk_bind r f = (case r of (Inl x, e) \<Rightarrow> (Inl x, e) | (Inr v, e) \<Rightarrow> f v e)"

lemma dk_bind_simps [simp]:
  "dk_bind (Inl x, e) f = (Inl x, e)" "dk_bind (Inr v, e) f = f v e"
  by (simp_all add: dk_bind_def)

text \<open>
  After the file has arrived: decryption into a temporary file, which is copied over the download and
  removed, and the size of the result.  The header is read again when the file came from a presigned
  URL.  A missing header (\<open>null\<close>) has no encryption metadata to read.
\<close>

definition decryptDownload ::
  "('d, 'e) storage_util \<Rightarrow> 'e disk \<Rightarrow> file_header option \<Rightarrow> string \<Rightarrow> meta \<Rightarrow> 'e \<Rightarrow> unit transfer \<times> meta \<times> 'e"
where
  "decryptDownload su dk fileHeader fullDstPath m e =
     (case m_encryptionMaterial m of
        None \<Rightarrow> (Inr (), m, e)
      | Some material \<Rightarrow>
          (case (if nonempty_str (m_presignedUrl m) then su_getFileHeader su m (m_srcFilePath m) e
                 else (Inr fileHeader, m, e)) of
             (Inl x, m1, e1) \<Rightarrow> (Inl x, m1, e1)
           | (Inr None, m1, e1) \<Rightarrow> (Inl (LanguageError TypeError), m1, e1)
           | (Inr (Some fh), m1, e1) \<Rightarrow>
               (case dk_bind (dk_decryptFile dk (fh_encryptionMetadata fh) material fullDstPath e1)
                       (\<lambda>tmp e2. dk_bind (dk_copyFile dk tmp fullDstPath e2) (\<lambda>_ e3. dk_removeTemp dk tmp e3)) of
                  (r, e4) \<Rightarrow> (r, m1, e4))))"

definition finishDownload ::
  "('d, 'e) storage_util \<Rightarrow> 'e disk \<Rightarrow> file_header option \<Rightarrow> string \<Rightarrow> meta \<Rightarrow> 'e \<Rightarrow> unit transfer \<times> meta \<times> 'e"
where
  "finishDownload su dk fileHeader fullDstPath m e =
     (case decryptDownload su dk fileHeader fullDstPath m e of
        (Inl x, m1, e1) \<Rightarrow> (Inl x, m1, e1)
      | (Inr _, m1, e1) \<Rightarrow>
          (case dk_fileSize dk fullDstPath e1 of
             (Inl x, e2) \<Rightarrow> (Inl x, m1, e2)
           | (Inr n, e2) \<Rightarrow> (Inr (), m1\<lparr>m_dstFileSize := Some (int n)\<rparr>, e2)))"

text \<open>The concurrency is computed here too, but the download does not use it.\<close>

fun downloadAttempts ::
  "('d, 'e) storage_util \<Rightarrow> 'e disk \<Rightarrow> file_header option \<Rightarrow> string \<Rightarrow> nat \<Rightarrow> storage_error option \<Rightarrow>
   meta \<Rightarrow> 'e \<Rightarrow> 'e transferred"
where
  "downloadAttempts su dk fh path 0 lastErr m e =
     (Inl (giveUp lastErr (''Unknown Error in downloading a file: '' @ m_srcFileName m)), m, e, [])"
| "downloadAttempts su dk fh path (Suc left) lastErr m e =
     (case su_nativeDownloadFile su m path e of
        (Inl x, m2, e2) \<Rightarrow> (Inl x, m2, e2, [Fetched])
      | (Inr _, m2, e2) \<Rightarrow>
          (let retry = DEFAULT_MAX_RETRY - Suc left
           in case m_resultStatus m2 of
                Some DOWNLOADED \<Rightarrow>
                  (case finishDownload su dk fh path m2 e2 of (r, m3, e3) \<Rightarrow> (r, m3, e3, [Fetched]))
              | Some RENEW_TOKEN \<Rightarrow> (Inr (), m2, e2, [Fetched])
              | Some RENEW_PRESIGNED_URL \<Rightarrow> (Inr (), m2, e2, [Fetched])
              | Some NEED_RETRY_WITH_LOWER_CONCURRENCY \<Rightarrow>
                  (let m3 = m2\<lparr>m_lastMaxConcurrency := Some (lowerConcurrency m2 retry)\<rparr>
                   in logged (Fetched # pauseAfter m3 retry)
                        (downloadAttempts su dk fh path left (m_lastError m3) m3 e2))
              | Some NEED_RETRY \<Rightarrow>
                  logged (Fetched # pauseAfter m2 retry)
                    (downloadAttempts su dk fh path left (m_lastError m2) m2 e2)
              | _ \<Rightarrow> logged [Fetched] (downloadAttempts su dk fh path left lastErr m2 e2)))"

definition downloadOneFile ::
  "('d, 'e) storage_util \<Rightarrow> 'e disk \<Rightarrow> meta \<Rightarrow> 'e \<Rightarrow> 'e transferred"
where
  "downloadOneFile su dk m e =
     (case dk_realpath dk (m_localLocation m) e of
        (Inl x, e1) \<Rightarrow> (Inl x, m, e1, [])
      | (Inr base, e1) \<Rightarrow>
          (let fullDstPath = joinPath base (basename (m_dstFileName m));
               e2 = dk_mkdirIfMissing dk (dirname fullDstPath) e1
           in case su_getFileHeader su m (m_srcFileName m) e2 of
                (Inl x, m1, e3) \<Rightarrow> (Inl x, m1, e3, [Checked])
              | (Inr fh, m1, e3) \<Rightarrow>
                  (let m2 = (case fh of None \<Rightarrow> m1 | Some h \<Rightarrow> m1\<lparr>m_srcFileSize := fh_contentLength h\<rparr>)
                   in logged [Checked] (downloadAttempts su dk fh fullDstPath DEFAULT_MAX_RETRY None m2 e3))))"

section \<open>Outcomes\<close>

text \<open>The statuses an upload can end with when it does not throw.\<close>

definition upload_settled :: "result_status option \<Rightarrow> bool" where
  "upload_settled s \<longleftrightarrow> s \<in> Some ` {UPLOADED, SKIPPED, RENEW_TOKEN, RENEW_PRESIGNED_URL}"

lemma attempt_found:
  "attempt su data em c m e = (Inr True, m', e', tr) \<Longrightarrow>
     m_resultStatus m' = Some SKIPPED \<and> \<not> m_overwrite m \<and> tr = [Checked]"
  by (auto simp: attempt_def Let_def split: prod.splits sum.splits if_splits)

lemma attempt_log:
  "attempt su data em c m e = (r, m', e', tr) \<Longrightarrow> tr \<in> {[], [Checked], [Checked, Sent c], [Sent c]}"
  by (auto simp: attempt_def Let_def split: prod.splits sum.splits if_splits)

lemma uploadAttempts_settled:
  "uploadAttempts su data em msg left c lastErr m e = (Inr (), m', e', tr) \<Longrightarrow> upload_settled (m_resultStatus m')"
proof (induction left arbitrary: c lastErr m e tr)
  case (Suc left)
  show ?case
  proof (cases "attempt su data em c m e")
    case (fields r m2 e2 tr2)
    have again: "logged acts (uploadAttempts su data em msg left c' l m3 e2) = (Inr (), m', e', tr) \<Longrightarrow>
        upload_settled (m_resultStatus m')" for acts c' l m3
      using Suc.IH[of c' l m3 e2] by (cases "uploadAttempts su data em msg left c' l m3 e2") auto
    show ?thesis
    proof (cases r)
      case (Inr b)
      then show ?thesis
        using Suc.prems fields attempt_found[of su data em c m e m2 e2 tr2] again
        by (cases b) (auto simp: upload_settled_def Let_def split: option.splits result_status.splits)
    qed (use Suc.prems fields in simp)
  qed
qed simp

text \<open>The uploads in a log, and the pauses.\<close>

definition uploads :: "storage_action list \<Rightarrow> nat list" where
  "uploads tr = concat (map (\<lambda>a. case a of Sent c \<Rightarrow> [c] | _ \<Rightarrow> []) tr)"

definition pauses :: "storage_action list \<Rightarrow> nat list" where
  "pauses tr = concat (map (\<lambda>a. case a of Slept t \<Rightarrow> [t] | _ \<Rightarrow> []) tr)"

lemma log_simps [simp]:
  "uploads [] = []" "uploads (a @ b) = uploads a @ uploads b" "uploads (Checked # tr) = uploads tr"
  "uploads (Sent c # tr) = c # uploads tr" "uploads (Slept t # tr) = uploads tr"
  "pauses [] = []" "pauses (a @ b) = pauses a @ pauses b" "pauses (Checked # tr) = pauses tr"
  "pauses (Sent c # tr) = pauses tr" "pauses (Slept t # tr) = t # pauses tr"
  by (simp_all add: uploads_def pauses_def)

lemma pauseAfter_log [simp]:
  "uploads (pauseAfter m retry) = []" "length (pauses (pauseAfter m retry)) \<le> 1"
  "t \<in> set (pauses (pauseAfter m retry)) \<Longrightarrow> t \<le> 16"
  by (auto simp: pauseAfter_def split: if_splits)

lemma pauseAfter_sum: "sum_list (pauses (pauseAfter m retry)) \<le> 2 ^ retry"
  by (simp add: pauseAfter_def)

lemma attempt_uploads:
  "attempt su data em c m e = (r, m', e', tr) \<Longrightarrow> length (uploads tr) \<le> 1 \<and> pauses tr = [] \<and> set (uploads tr) \<subseteq> {c}"
  using attempt_log[of su data em c m e r m' e' tr] by auto

text \<open>An upload is sent at most once per attempt, and the pauses of all attempts add up to 31 milliseconds.\<close>

lemma uploadAttempts_bounded:
  assumes "uploadAttempts su data em msg left c lastErr m e = (r, m', e', tr)" "left \<le> DEFAULT_MAX_RETRY"
  shows "length (uploads tr) \<le> left \<and> sum_list (pauses tr) + 2 ^ (DEFAULT_MAX_RETRY - left) \<le> 2 ^ DEFAULT_MAX_RETRY"
  using assms
proof (induction left arbitrary: c lastErr m e r m' e' tr)
  case (Suc left)
  obtain b m2 e2 tr2 where a: "attempt su data em c m e = (b, m2, e2, tr2)" by (metis prod_cases4)
  note one = attempt_uploads[OF a]
  define k where "k = DEFAULT_MAX_RETRY - Suc left"
  have k: "DEFAULT_MAX_RETRY - left = Suc k" "k < DEFAULT_MAX_RETRY" using Suc.prems(2) by (simp_all add: k_def)
  have "(2::nat) ^ k \<le> 2 ^ DEFAULT_MAX_RETRY" using k(2) by (intro power_increasing) simp_all
  then have stop: ?case if "tr = tr2" using that one by (simp add: k_def)
  have cont: ?case if "logged (tr2 @ pz) (uploadAttempts su data em msg left c' l m3 e2) = (r, m', e', tr)"
    "sum_list (pauses pz) \<le> 2 ^ k" "uploads pz = []" for pz c' l m3
  proof -
    obtain r4 m4 e4 tr4 where u: "uploadAttempts su data em msg left c' l m3 e2 = (r4, m4, e4, tr4)" by (metis prod_cases4)
    have ih: "length (uploads tr4) \<le> left" "sum_list (pauses tr4) + 2 ^ Suc k \<le> 2 ^ DEFAULT_MAX_RETRY"
      using Suc.IH[OF u] Suc.prems(2) by (simp_all add: k)
    have "tr = tr2 @ pz @ tr4" using that(1) u by simp
    then show ?thesis using ih one that(2,3) by (simp add: k_def[symmetric])
  qed
  show ?case
  proof (cases b)
    case (Inr found)
    show ?thesis
    proof (cases "found \<or> m_resultStatus m2 \<in> Some ` {UPLOADED, RENEW_TOKEN, RENEW_PRESIGNED_URL}")
      case True
      then show ?thesis using Suc.prems(1) a Inr by (intro stop) (cases found, auto simp: Let_def)
    next
      case False
      then show ?thesis
        using Suc.prems(1) a Inr cont[of "pauseAfter m2 k" c "m_lastError m2" m2] cont[of "[]" c lastErr m2]
          cont[of "pauseAfter (m2\<lparr>m_lastMaxConcurrency := Some (lowerConcurrency m2 k)\<rparr>) k" "lowerConcurrency m2 k"
            "m_lastError m2" "m2\<lparr>m_lastMaxConcurrency := Some (lowerConcurrency m2 k)\<rparr>"]
        by (cases found) (auto simp: Let_def k_def[symmetric] pauseAfter_sum split: option.splits result_status.splits)
    qed
  qed (use Suc.prems(1) a stop in simp)
qed simp

section \<open>The contract of a storage\<close>

text \<open>What the loops rely on: the status an upload leaves, and that the options of the file stay.\<close>

definition same_options :: "meta \<Rightarrow> meta \<Rightarrow> bool" where
  "same_options m m' \<longleftrightarrow> m_overwrite m' = m_overwrite m \<and> m_parallel m' = m_parallel m \<and>
     m_dstFileName m' = m_dstFileName m \<and> m_srcFileName m' = m_srcFileName m \<and>
     m_stageInfo m' = m_stageInfo m \<and> m_noSleepingTime m' = m_noSleepingTime m \<and>
     m_encryptionMaterial m' = m_encryptionMaterial m"

lemma same_options_refl [simp]: "same_options m m"
  by (simp add: same_options_def)

lemma same_options_trans: "same_options a b \<Longrightarrow> same_options b c \<Longrightarrow> same_options a c"
  by (simp add: same_options_def)

lemma same_options_updates [simp]:
  "same_options m (m1\<lparr>m_resultStatus := s\<rparr>) = same_options m m1"
  "same_options m (m1\<lparr>m_dstFileSize := n\<rparr>) = same_options m m1"
  "same_options m (m1\<lparr>m_lastError := l\<rparr>) = same_options m m1"
  "same_options m (m1\<lparr>m_lastMaxConcurrency := c\<rparr>) = same_options m m1"
  "same_options m (m1\<lparr>m_srcFileSize := sz\<rparr>) = same_options m m1"
  "same_options m (m1\<lparr>m_headerDigest := d\<rparr>) = same_options m m1"
  "same_options m (m1\<lparr>m_headerLength := sz\<rparr>) = same_options m m1"
  "same_options m (m1\<lparr>m_headerEncryption := x\<rparr>) = same_options m m1"
  by (simp_all add: same_options_def)

locale storage =
  fixes su :: "('d, 'e) storage_util"
  assumes upload_status:
    "su_uploadFile su d m em c e = (Inr (), m', e') \<Longrightarrow>
       m_resultStatus m' \<in> Some ` {UPLOADED, RENEW_TOKEN, RENEW_PRESIGNED_URL, NEED_RETRY, NEED_RETRY_WITH_LOWER_CONCURRENCY} \<and>
       (m_resultStatus m' \<in> Some ` {NEED_RETRY, NEED_RETRY_WITH_LOWER_CONCURRENCY} \<longrightarrow> m_lastError m' \<noteq> None)"
    and upload_keeps: "su_uploadFile su d m em c e = (r, m', e') \<Longrightarrow> same_options m m'"
    and header_keeps: "su_getFileHeader su m f e = (h, m', e') \<Longrightarrow> same_options m m'"
begin

lemma attempt_keeps: "attempt su data em c m e = (r, m', e', tr) \<Longrightarrow> same_options m m'"
  by (auto simp: attempt_def Let_def split: prod.splits sum.splits if_splits
      dest!: upload_keeps header_keeps intro: same_options_trans)

text \<open>Every upload is sent with a concurrency between one and the one that was asked for.\<close>

lemma concurrency_in_range:
  "uploadAttempts su data em msg left c lastErr m e = (r, m', e', tr) \<Longrightarrow> 1 \<le> c \<Longrightarrow> c \<le> max 1 (m_parallel m) \<Longrightarrow>
   \<forall>k\<in>set (uploads tr). 1 \<le> k \<and> k \<le> max 1 (m_parallel m)"
proof (induction left arbitrary: c lastErr m e r m' e' tr)
  case (Suc left)
  obtain b m2 e2 tr2 where a: "attempt su data em c m e = (b, m2, e2, tr2)" by (metis prod_cases4)
  have par: "m_parallel m2 = m_parallel m" using attempt_keeps[OF a] by (simp add: same_options_def)
  have one: "\<forall>k\<in>set (uploads tr2). k = c" using attempt_uploads[OF a] by auto
  have cont: ?case if "logged (tr2 @ pz) (uploadAttempts su data em msg left c' l m3 e2) = (r, m', e', tr)"
    "uploads pz = []" "1 \<le> c'" "c' \<le> max 1 (m_parallel m)" "m_parallel m3 = m_parallel m" for pz c' l m3
    using that one Suc.IH[of c' l m3 e2] Suc.prems(2,3)
    by (cases "uploadAttempts su data em msg left c' l m3 e2") auto
  have lower: "1 \<le> lowerConcurrency m2 k \<and> lowerConcurrency m2 k \<le> max 1 (m_parallel m)" for k
    by (auto simp: lowerConcurrency_def DEFAULT_CONCURRENCY_def par)
  show ?case
  proof (cases b)
    case (Inr found)
    then show ?thesis
      using Suc.prems a one lower par cont[of _ c _ m2] cont[of "[]" c lastErr m2] cont[of _ "lowerConcurrency m2 _"]
      by (cases found) (auto simp: Let_def split: option.splits result_status.splits)
  qed (use Suc.prems a one in auto)
qed simp

text \<open>
  Uploading over a file ends in one of three ways: it is there, the credentials have to be renewed,
  or the text of the last error of the storage is thrown; the message for an unknown error never is.
\<close>

lemma overwriting_outcome:
  assumes "uploadAttempts su data em msg left c lastErr m e = (r, m', e', tr)" "m_overwrite m" "0 < left"
    "\<And>d m em c e. \<not> isl (fst (su_uploadFile su d m em c e))"
  shows "(r = Inr () \<and> m_resultStatus m' \<in> Some ` {UPLOADED, RENEW_TOKEN, RENEW_PRESIGNED_URL}) \<or>
    (\<exists>x. m_lastError m' = Some x \<and> r = Inl (TransferError (se_text x)) \<and> length (uploads tr) = left)"
  using assms(1-3)
proof (induction left arbitrary: c lastErr m e r m' e' tr)
  case (Suc left)
  obtain m2 e2 where up: "su_uploadFile su data m em c e = (Inr (), m2, e2)"
    using assms(4)[of data m em c e] by (cases "su_uploadFile su data m em c e", cases "fst (su_uploadFile su data m em c e)") auto
  have a: "attempt su data em c m e = (Inr False, m2, e2, [Sent c])"
    using Suc.prems(2) by (simp add: attempt_def up Let_def)
  note st = upload_status[OF up]
  have ov: "m_overwrite m2" using upload_keeps[OF up] Suc.prems(2) by (simp add: same_options_def)
  have cont: ?case if "logged ([Sent c] @ pz) (uploadAttempts su data em msg left c' (m_lastError m3) m3 e2) = (r, m', e', tr)"
    "uploads pz = []" "m_overwrite m3" "m_lastError m3 \<noteq> None" for pz c' m3
  proof (cases left)
    case 0
    then show ?thesis using that by (auto simp: giveUp_def)
  next
    case (Suc n)
    then show ?thesis
      using that Suc.IH[of c' "m_lastError m3" m3 e2]
      by (cases "uploadAttempts su data em msg left c' (m_lastError m3) m3 e2") auto
  qed
  show ?case
    using Suc.prems(1) st ov cont[of _ c m2] cont[of _ _ "m2\<lparr>m_lastMaxConcurrency := _\<rparr>"]
    by (auto simp: a Let_def split: option.splits result_status.splits)
qed simp

end

section \<open>Attempts that all go the same way\<close>

lemma retries_exhausted:
  assumes upload: "\<And>m e k. P m \<Longrightarrow> \<exists>m' e'. su_uploadFile su d m em k e = (Inr (), m', e') \<and> P m' \<and>
      m_resultStatus m' = Some NEED_RETRY \<and> m_lastError m' = Some x"
    and ov: "\<And>m. P m \<Longrightarrow> m_overwrite m"
  shows "P m \<Longrightarrow> 0 < left \<Longrightarrow>
    \<exists>m' e' tr. uploadAttempts su d em msg left c l m e = (Inl (TransferError (se_text x)), m', e', tr) \<and>
      length (uploads tr) = left \<and> m_resultStatus m' = Some NEED_RETRY"
proof (induction left arbitrary: m e l)
  case (Suc left)
  obtain m2 e2 where up: "su_uploadFile su d m em c e = (Inr (), m2, e2)" "P m2"
    "m_resultStatus m2 = Some NEED_RETRY" "m_lastError m2 = Some x" using upload[OF Suc.prems(1)] by blast
  have a: "attempt su d em c m e = (Inr False, m2, e2, [Sent c])"
    using ov[OF Suc.prems(1)] by (simp add: attempt_def up(1) Let_def)
  show ?case
  proof (cases left)
    case 0
    then show ?thesis by (simp add: a up(3,4) Let_def giveUp_def)
  next
    case (Suc n)
    then show ?thesis using Suc.IH[OF up(2), of "m_lastError m2" e2] by (auto simp: a up(3,4) Let_def)
  qed
qed simp

lemma idle_attempts:
  assumes idle: "\<And>e. \<exists>e'. attempt su d em c m e = (Inr False, m, e', [Checked])"
    and status: "m_resultStatus m \<in> {None, Some ERROR, Some COLLISION}"
  shows "\<exists>e' tr. uploadAttempts su d em msg left c None m e = (Inl (TransferError msg), m, e', tr) \<and> uploads tr = []"
proof (induction left arbitrary: e)
  case (Suc left)
  obtain e2 where a: "attempt su d em c m e = (Inr False, m, e2, [Checked])" using idle by blast
  show ?case using Suc.IH[of e2] status by (auto simp: a Let_def)
qed (simp add: giveUp_def)

text \<open>If the storage keeps answering that an uploaded file is not there, that is the status that stays.\<close>

lemma verifyUpload_missing:
  assumes "\<And>m e. \<exists>h m' e'. su_getFileHeader su m f e = (Inr h, m', e') \<and> m_resultStatus m' = Some NOT_FOUND_FILE \<and>
      m_dstFileName m' = m_dstFileName m"
    and "m_dstFileName m = f" "0 < left"
  shows "\<exists>m' e' tr. verifyUpload su left m e = (Inr (), m', e', tr) \<and> m_resultStatus m' = Some NOT_FOUND_FILE \<and>
    uploads tr = [] \<and> sum_list (pauses tr) = left * 1000"
  using assms(2,3)
proof (induction left arbitrary: m e)
  case (Suc left)
  obtain h m' e' where g: "su_getFileHeader su m (m_dstFileName m) e = (Inr h, m', e')"
    "m_resultStatus m' = Some NOT_FOUND_FILE" "m_dstFileName m' = f" using assms(1)[of m e] Suc.prems(1) by auto
  show ?case
  proof (cases left)
    case 0
    then show ?thesis by (simp add: g)
  next
    case (Suc n)
    then show ?thesis using Suc.IH[OF g(3), of e'] by (auto simp: g(1,2))
  qed
qed simp

end
