(* ===== verification/MultipartModel.thy ===== *)
theory MultipartModel
  imports StorageModel "HOL-Library.Word"
begin

text \<open>
  Uploading a large file in parts (\<open>file_transfer_agent/multipart.ts\<close> and the part loops of \<open>s3_util.js\<close>
  and \<open>azure_util.js\<close>), and the division of a stage location into bucket and path.

  A send operation gets the number and the bytes of a part; \<open>'p\<close> is what the loop keeps for it.
\<close>

type_synonym bytes = "8 word list"

definition MULTIPART_THRESHOLD_BYTES :: nat where "MULTIPART_THRESHOLD_BYTES = 64 * 1024 * 1024"
definition MULTIPART_PART_SIZE_BYTES :: nat where "MULTIPART_PART_SIZE_BYTES = 8 * 1024 * 1024"

lemma part_size_pos [simp]: "0 < MULTIPART_PART_SIZE_BYTES"
  by (simp add: MULTIPART_PART_SIZE_BYTES_def)

lemma part_progress [simp]:
  "position < fileSize \<Longrightarrow>
     fileSize - (position + min MULTIPART_PART_SIZE_BYTES (fileSize - position)) < fileSize - position"
  using part_size_pos unfolding min_def by (simp del: part_size_pos) linarith

text \<open>An error that only has a text, such as the one of a short read.\<close>

definition plainError :: "string \<Rightarrow> storage_error" where
  "plainError msg =
     \<lparr>se_Code = None, se_name = ''Error'', se_code = None, se_statusCode = None, se_response = None,
      se_text = ''Error: '' @ msg\<rparr>"

definition readChunk :: "bytes \<Rightarrow> nat \<Rightarrow> nat \<Rightarrow> storage_error + bytes" where
  "readChunk file position sz =
     (let got = take sz (drop position file)
      in if length got = sz then Inr got
         else Inl (plainError (''Short read at offset '' @ show_nat position @ '': expected '' @ show_nat sz @
                    '' bytes, got '' @ show_nat (length got))))"

text \<open>
  The loop of a multipart upload over a file whose size was read before.  The second result is what
  was kept before an error.
\<close>

function partLoop ::
  "(nat \<Rightarrow> bytes \<Rightarrow> 'e \<Rightarrow> (storage_error + 'p) \<times> 'e) \<Rightarrow> bytes \<Rightarrow> nat \<Rightarrow> nat \<Rightarrow> nat \<Rightarrow> 'p list \<Rightarrow> 'e \<Rightarrow>
   storage_error option \<times> 'p list \<times> 'e"
where
  "partLoop send file fileSize position partNumber parts e =
     (if position < fileSize then
        (let thisPartSize = min MULTIPART_PART_SIZE_BYTES (fileSize - position)
         in case readChunk file position thisPartSize of
              Inl x \<Rightarrow> (Some x, parts, e)
            | Inr buf \<Rightarrow>
                (case send partNumber buf e of
                   (Inl x, e') \<Rightarrow> (Some x, parts, e')
                 | (Inr p, e') \<Rightarrow>
                     partLoop send file fileSize (position + thisPartSize) (partNumber + 1) (parts @ [p]) e'))
      else (None, parts, e))"
  by pat_completeness auto
termination
  by (relation "measure (\<lambda>(send, file, fileSize, position, _). fileSize - position)") (auto simp: Let_def)

declare partLoop.simps [simp del]

text \<open>The reference: the parts of a file, numbered from one, sent in order until one fails.\<close>

function partsFrom :: "nat \<Rightarrow> bytes \<Rightarrow> (nat \<times> bytes) list" where
  "partsFrom n file =
     (if file = [] then []
      else (n, take MULTIPART_PART_SIZE_BYTES file) # partsFrom (n + 1) (drop MULTIPART_PART_SIZE_BYTES file))"
  by pat_completeness auto
termination
  by (relation "measure (length \<circ> snd)") (auto simp: MULTIPART_PART_SIZE_BYTES_def)

declare partsFrom.simps [simp del]

fun sendAll ::
  "(nat \<Rightarrow> bytes \<Rightarrow> 'e \<Rightarrow> (storage_error + 'p) \<times> 'e) \<Rightarrow> (nat \<times> bytes) list \<Rightarrow> 'p list \<Rightarrow> 'e \<Rightarrow>
   storage_error option \<times> 'p list \<times> 'e"
where
  "sendAll send [] parts e = (None, parts, e)"
| "sendAll send ((n, buf) # rest) parts e =
     (case send n buf e of
        (Inl x, e') \<Rightarrow> (Some x, parts, e')
      | (Inr p, e') \<Rightarrow> sendAll send rest (parts @ [p]) e')"

lemma readChunk_ok: "position + sz \<le> length file \<Longrightarrow> readChunk file position sz = Inr (take sz (drop position file))"
  by (simp add: readChunk_def Let_def)

lemma partLoop_sendAll:
  "partLoop send file (length file) position n parts e = sendAll send (partsFrom n (drop position file)) parts e"
proof (induction "length file - position" arbitrary: position n parts e rule: less_induct)
  case less
  show ?case
  proof (cases "position < length file")
    case True
    let ?sz = "min MULTIPART_PART_SIZE_BYTES (length file - position)"
    have chunk: "readChunk file position ?sz = Inr (take MULTIPART_PART_SIZE_BYTES (drop position file))"
      using True by (simp add: readChunk_ok min_def)
    have rest: "drop (position + ?sz) file = drop MULTIPART_PART_SIZE_BYTES (drop position file)"
      by (simp add: min_def add.commute)
    have "partLoop send file (length file) (position + ?sz) n' ps e1 =
        sendAll send (partsFrom n' (drop (position + ?sz) file)) ps e1" for n' ps e1
      by (rule less.hyps) (use True in simp)
    then show ?thesis
      using True by (subst partLoop.simps, subst partsFrom.simps)
        (simp add: chunk rest Let_def split: prod.splits sum.splits)
  qed (simp add: partLoop.simps[of _ _ _ position] partsFrom.simps)
qed

lemma concat_parts: "concat (map snd (partsFrom n bs)) = bs"
  by (induction n bs rule: partsFrom.induct) (subst partsFrom.simps, simp)

lemma part_numbers: "map fst (partsFrom n bs) = [n..<n + length (partsFrom n bs)]"
proof (induction n bs rule: partsFrom.induct)
  case (1 n bs)
  then show ?case by (subst (1 2) partsFrom.simps) (auto simp: upt_rec)
qed

lemma part_sizes: "\<forall>p\<in>set (partsFrom n bs). p \<noteq> (m, []) \<and> length (snd p) \<le> MULTIPART_PART_SIZE_BYTES"
  by (induction n bs rule: partsFrom.induct) (subst partsFrom.simps, auto)

lemma inner_parts_full: "\<forall>p\<in>set (butlast (partsFrom n bs)). length (snd p) = MULTIPART_PART_SIZE_BYTES"
proof (induction n bs rule: partsFrom.induct)
  case (1 n bs)
  have "partsFrom (n + 1) (drop MULTIPART_PART_SIZE_BYTES bs) \<noteq> [] \<Longrightarrow> MULTIPART_PART_SIZE_BYTES < length bs"
    by (subst (asm) partsFrom.simps) (simp split: if_splits)
  then show ?case using 1 by (subst partsFrom.simps) auto
qed

section \<open>Stage locations\<close>

text \<open>
  \<open>extractBucketNameAndPath\<close> and \<open>extractContainerNameAndPath\<close> after the expansion of tildes: without
  a slash the path is \<open>undefined\<close>, and a name appended to it starts with that word.
\<close>

definition splitLocation :: "string \<Rightarrow> string \<times> string option" where
  "splitLocation location =
     (if CHR ''/'' \<in> set location then
        (let p = tl (dropWhile (\<lambda>c. c \<noteq> CHR ''/'') location)
         in (takeWhile (\<lambda>c. c \<noteq> CHR ''/'') location,
             Some (if p \<noteq> [] \<and> last p \<noteq> CHR ''/'' then p @ ''/'' else p)))
      else (location, None))"

definition concatPath :: "string option \<Rightarrow> string \<Rightarrow> string" where
  "concatPath path name = (case path of None \<Rightarrow> ''undefined'' | Some p \<Rightarrow> p) @ name"

section \<open>Numbers of parts as texts\<close>

text \<open>Base64 of a text, by groups of three characters.\<close>

definition base64_digit :: "nat \<Rightarrow> char" where
  "base64_digit k =
     (''ABCDEFGHIJKLMNOPQRSTUVWXYZabcdefghijklmnopqrstuvwxyz0123456789+/'' ! k)"

fun base64 :: "string \<Rightarrow> string" where
  "base64 [] = []"
| "base64 [a] =
     (let n = of_char a * 16 in [base64_digit (n div 64), base64_digit (n mod 64), CHR ''='', CHR ''=''])"
| "base64 [a, b] =
     (let n = of_char a * 1024 + of_char b * 4
      in [base64_digit (n div 4096), base64_digit (n div 64 mod 64), base64_digit (n mod 64), CHR ''=''])"
| "base64 (a # b # c # cs) =
     (let n = of_char a * 65536 + of_char b * 256 + of_char c
      in base64_digit (n div 262144) # base64_digit (n div 4096 mod 64) # base64_digit (n div 64 mod 64) #
         base64_digit (n mod 64) # base64 cs)"

definition padStart :: "nat \<Rightarrow> char \<Rightarrow> string \<Rightarrow> string" where
  "padStart n c s = replicate (n - length s) c @ s"

definition blockId :: "nat \<Rightarrow> string" where
  "blockId partNumber = base64 (padStart 10 CHR ''0'' (show_nat partNumber))"

lemma base64_digit_inject: "j < 64 \<Longrightarrow> k < 64 \<Longrightarrow> base64_digit j = base64_digit k \<longleftrightarrow> j = k"
proof -
  have "distinct ''ABCDEFGHIJKLMNOPQRSTUVWXYZabcdefghijklmnopqrstuvwxyz0123456789+/''" by simp
  then show "j < 64 \<Longrightarrow> k < 64 \<Longrightarrow> base64_digit j = base64_digit k \<longleftrightarrow> j = k"
    unfolding base64_digit_def by (subst nth_eq_iff_index_eq) simp_all
qed

lemma div_mod_inject: "(m::nat) div k = n div k \<Longrightarrow> m mod k = n mod k \<Longrightarrow> m = n"
  by (metis div_mult_mod_eq)

lemma sextets_inject:
  assumes "(m::nat) div 262144 = n div 262144" "m div 4096 mod 64 = n div 4096 mod 64"
    "m div 64 mod 64 = n div 64 mod 64" "m mod 64 = n mod 64"
  shows "m = n"
proof -
  have "m div 4096 div 64 = n div 4096 div 64" using assms(1) by (simp add: div_mult2_eq[symmetric])
  then have "m div 4096 = n div 4096" using assms(2) by (rule div_mod_inject)
  then have "m div 64 div 64 = n div 64 div 64" by (simp add: div_mult2_eq[symmetric])
  then have "m div 64 = n div 64" using assms(3) by (rule div_mod_inject)
  then show ?thesis using assms(4) by (rule div_mod_inject)
qed

lemma octets_inject:
  assumes "(a::nat) * 65536 + b * 256 + c = a' * 65536 + b' * 256 + c'" "b < 256" "c < 256" "b' < 256" "c' < 256"
  shows "a = a' \<and> b = b' \<and> c = c'"
proof -
  have split: "(x * 65536 + y * 256 + z) mod 256 = z" "(x * 65536 + y * 256 + z) div 256 = x * 256 + y"
    if "z < 256" for x y z :: nat
  proof -
    have e: "x * 65536 + y * 256 + z = z + (x * 256 + y) * 256" by (simp add: algebra_simps)
    show "(x * 65536 + y * 256 + z) mod 256 = z" "(x * 65536 + y * 256 + z) div 256 = x * 256 + y"
      using that by (simp_all only: e mod_mult_self1 div_mult_self1) simp_all
  qed
  have "c = c'" "a * 256 + b = a' * 256 + b'"
    using assms split[of c a b] split[of c' a' b'] by simp_all
  moreover have "b = b'" "a = a'"
    using assms(2,4) arg_cong[OF calculation(2), of "\<lambda>x. x mod 256"] arg_cong[OF calculation(2), of "\<lambda>x. x div 256"]
    by simp_all
  ultimately show ?thesis by simp
qed

lemma of_char_inject: "(of_char c :: nat) = of_char d \<longleftrightarrow> c = d"
  by (metis char_of_char)

lemma base64_inject: "length s = length t \<Longrightarrow> base64 s = base64 t \<Longrightarrow> s = t"
proof (induction s arbitrary: t rule: base64.induct)
  case (2 a)
  then obtain a' where t: "t = [a']" by (cases t) auto
  let ?n = "(of_char a :: nat) * 16" and ?m = "(of_char a' :: nat) * 16"
  have "?n div 64 = ?m div 64" "?n mod 64 = ?m mod 64"
    using 2(2) nat_of_char_less_256[of a] nat_of_char_less_256[of a'] by (simp_all add: t Let_def base64_digit_inject)
  then have "?n = ?m" by (rule div_mod_inject)
  then show ?case by (simp add: t of_char_inject)
next
  case (3 a b)
  then obtain a' b' where t: "t = [a', b']" by (auto simp: Suc_length_conv length_Suc_conv)
  let ?n = "(of_char a :: nat) * 1024 + of_char b * 4" and ?m = "(of_char a' :: nat) * 1024 + of_char b' * 4"
  have "?n div 64 div 64 = ?m div 64 div 64" "?n div 64 mod 64 = ?m div 64 mod 64" "?n mod 64 = ?m mod 64"
    using 3(2) nat_of_char_less_256[of a] nat_of_char_less_256[of a'] nat_of_char_less_256[of b] nat_of_char_less_256[of b']
    by (simp_all add: t Let_def base64_digit_inject div_mult2_eq[symmetric] less_mult_imp_div_less)
  then have "?n = ?m" using div_mod_inject by metis
  then have "(of_char a :: nat) * 65536 + of_char b * 256 + 0 = of_char a' * 65536 + of_char b' * 256 + 0" by simp
  from octets_inject[OF this] have "a = a'" "b = b'" by (simp_all add: of_char_inject)
  then show ?case by (simp add: t)
next
  case (4 a b c cs)
  from 4(2) obtain a' b' c' cs' where t: "t = a' # b' # c' # cs'" by (auto simp: Suc_length_conv length_Suc_conv)
  let ?n = "(of_char a :: nat) * 65536 + of_char b * 256 + of_char c"
  let ?m = "(of_char a' :: nat) * 65536 + of_char b' * 256 + of_char c'"
  have lt: "?n < 16777216" "?m < 16777216"
    using nat_of_char_less_256[of a] nat_of_char_less_256[of a'] nat_of_char_less_256[of b] nat_of_char_less_256[of b']
      nat_of_char_less_256[of c] nat_of_char_less_256[of c'] by linarith+
  then have "?n div 262144 < 64" "?m div 262144 < 64" by (simp_all add: less_mult_imp_div_less)
  then have eqs: "?n div 262144 = ?m div 262144" "?n div 4096 mod 64 = ?m div 4096 mod 64" "?n div 64 mod 64 = ?m div 64 mod 64"
    "?n mod 64 = ?m mod 64" "base64 cs = base64 cs'"
    using 4(3) by (simp_all add: t Let_def base64_digit_inject)
  from sextets_inject[OF eqs(1-4)] have "a = a' \<and> b = b' \<and> c = c'"
    using octets_inject[of "of_char a" "of_char b" "of_char c" "of_char a'" "of_char b'" "of_char c'"]
    by (simp add: of_char_inject)
  moreover have "cs = cs'" using 4(1)[OF refl _ eqs(5)] 4(2) by (simp add: t)
  ultimately show ?case by (simp add: t)
qed simp

lemma length_base64: "length (base64 s) = 4 * ((length s + 2) div 3)"
  by (induction s rule: base64.induct) (simp_all add: Let_def, presburger)

text \<open>Block ids are pairwise different and, up to ten digits, of one length.\<close>

lemma length_padStart: "length s \<le> n \<Longrightarrow> length (padStart n c s) = n"
  by (simp add: padStart_def)

lemma length_blockId: "n < 10 ^ 10 \<Longrightarrow> length (blockId n) = 16"
  using length_padStart[OF show_nat_length[of n 10]] by (simp only: blockId_def length_base64) simp

lemma blockId_inject:
  assumes "m < 10 ^ 10" "n < 10 ^ 10"
  shows "blockId m = blockId n \<longleftrightarrow> m = n"
proof
  have l: "length (padStart 10 CHR ''0'' (show_nat m)) = length (padStart 10 CHR ''0'' (show_nat n))"
    by (simp only: length_padStart[OF show_nat_length[OF assms(1) zero_less_numeral]]
        length_padStart[OF show_nat_length[OF assms(2) zero_less_numeral]])
  assume "blockId m = blockId n"
  then have "padStart 10 CHR ''0'' (show_nat m) = padStart 10 CHR ''0'' (show_nat n)"
    unfolding blockId_def by (rule base64_inject[OF l])
  then have "read_nat (padStart 10 CHR ''0'' (show_nat m)) = read_nat (padStart 10 CHR ''0'' (show_nat n))"
    by (rule arg_cong)
  then show "m = n" by (simp add: padStart_def read_nat_append)
qed simp

end
