(* ===== verification/S3AzureModel.thy ===== *)
theory S3AzureModel
  imports MultipartModel ConfigModel
begin

text \<open>
  The S3 and Azure storages (\<open>file_transfer_agent/s3_util.js\<close>, \<open>azure_util.js\<close>): object names, metadata,
  the classification of errors, uploads in one piece and in parts, and downloads.

  The libraries of the providers are records of their calls, each with the stage it was made for; a call
  that is rejected gives \<open>Inl\<close>.  \<open>fi\<close> is the disk; \<open>multi\<close> is the global setting for multipart uploads;
  \<open>tilde\<close> is the package \<open>expand-tilde\<close>.
\<close>

record 'e file_io =
  fi_stat :: "string \<Rightarrow> 'e \<Rightarrow> storage_error + nat"
  fi_read :: "string \<Rightarrow> 'e \<Rightarrow> storage_error + bytes"
  fi_write :: "string \<Rightarrow> bytes \<Rightarrow> 'e \<Rightarrow> storage_error option \<times> 'e"

text \<open>An asynchronous call that gives a value or is rejected.\<close>

type_synonym ('a, 'e) io_call = "(storage_error + 'a) \<times> 'e"

section \<open>S3\<close>

type_synonym s3_metadata = "(string \<times> string option) list"

record 'e s3_client =
  s3_headObject :: "stage_info \<Rightarrow> string \<Rightarrow> string \<Rightarrow> 'e \<Rightarrow> (s3_metadata \<times> nat, 'e) io_call"
  s3_putObject :: "stage_info \<Rightarrow> string \<Rightarrow> string \<Rightarrow> s3_metadata \<Rightarrow> bytes \<Rightarrow> 'e \<Rightarrow> (unit, 'e) io_call"
  s3_createMultipartUpload :: "stage_info \<Rightarrow> string \<Rightarrow> string \<Rightarrow> s3_metadata \<Rightarrow> 'e \<Rightarrow> (string, 'e) io_call"
  s3_uploadPart :: "stage_info \<Rightarrow> string \<Rightarrow> string \<Rightarrow> string \<Rightarrow> nat \<Rightarrow> bytes \<Rightarrow> 'e \<Rightarrow> (string, 'e) io_call"
  s3_completeMultipartUpload ::
    "stage_info \<Rightarrow> string \<Rightarrow> string \<Rightarrow> string \<Rightarrow> (string \<times> nat) list \<Rightarrow> 'e \<Rightarrow> (unit, 'e) io_call"
  s3_abortMultipartUpload :: "stage_info \<Rightarrow> string \<Rightarrow> string \<Rightarrow> string \<Rightarrow> 'e \<Rightarrow> (unit, 'e) io_call"
  s3_getObject :: "stage_info \<Rightarrow> string \<Rightarrow> string \<Rightarrow> 'e \<Rightarrow> (bytes, 'e) io_call"

text \<open>The endpoint of \<open>createClient\<close>; none lets the library choose.\<close>

definition s3_endPoint :: "stage_info \<Rightarrow> string option" where
  "s3_endPoint si =
     (if nonempty_str (si_endPoint si) then Some (''https://'' @ the (si_endPoint si))
      else if si_region si \<noteq> [] \<and> (si_useRegionalUrl si \<or> si_useS3RegionalUrl si) then
        Some (''https://s3.'' @ si_region si @ ''.'' @
              (if prefix ''cn-'' (map lowerChar (si_region si)) then ''amazonaws.com.cn'' else ''amazonaws.com''))
      else None)"

definition s3_bucket :: "(string \<Rightarrow> string) \<Rightarrow> stage_info \<Rightarrow> string" where
  "s3_bucket tilde si = fst (splitLocation (tilde (si_location si)))"

definition s3_key :: "(string \<Rightarrow> string) \<Rightarrow> stage_info \<Rightarrow> string \<Rightarrow> string" where
  "s3_key tilde si name = concatPath (snd (splitLocation (tilde (si_location si)))) name"

text \<open>
  \<open>buildS3Metadata\<close>.  The digest is stored under the name of the constant, \<open>SFC_DIGEST\<close>, and not under
  its value.
\<close>

definition buildS3Metadata :: "meta \<Rightarrow> enc_metadata option \<Rightarrow> s3_metadata" where
  "buildS3Metadata m em =
     [(''HTTP_HEADER_CONTENT_TYPE'', Some ''application/octet-stream''), (''SFC_DIGEST'', Some (m_digest m))] @
     (case em of
        None \<Rightarrow> []
      | Some x \<Rightarrow> [(''x-amz-iv'', Some (en_iv x)), (''x-amz-key'', Some (en_key x)), (''x-amz-matdesc'', en_matDesc x)])"

definition metaEntry :: "s3_metadata \<Rightarrow> string \<Rightarrow> string option" where
  "metaEntry md k = (case map_of md k of Some v \<Rightarrow> v | None \<Rightarrow> None)"

text \<open>\<open>EncryptionMetadata\<close> with three arguments; an iv that is missing is the empty text.\<close>

definition encMetadata :: "string \<Rightarrow> string \<Rightarrow> string option \<Rightarrow> enc_metadata" where
  "encMetadata key iv matDesc =
     \<lparr>en_key = key, en_iv = iv, en_matDesc = matDesc, en_keyIv = None, en_dataAad = None, en_keyAad = None\<rparr>"

definition s3_header :: "s3_metadata \<Rightarrow> nat \<Rightarrow> file_header" where
  "s3_header md contentLength =
     FileHeader (metaEntry md ''sfc-digest'') (Some contentLength)
       (if nonempty_str (metaEntry md ''x-amz-key'') then
          Some (encMetadata (the (metaEntry md ''x-amz-key''))
                  (case metaEntry md ''x-amz-iv'' of Some v \<Rightarrow> v | None \<Rightarrow> []) (metaEntry md ''x-amz-matdesc''))
        else None)"

definition s3_headerError :: "storage_error \<Rightarrow> result_status \<times> file_header option" where
  "s3_headerError x =
     (if se_Code x = Some ''ExpiredToken'' then (RENEW_TOKEN, None)
      else if se_name x = ''NotFound'' then (NOT_FOUND_FILE, Some (FileHeader None None None))
      else if se_Code x = Some ''400'' then (RENEW_TOKEN, None)
      else (ERROR, None))"

definition s3_getFileHeader ::
  "(string \<Rightarrow> string) \<Rightarrow> 'e s3_client \<Rightarrow> meta \<Rightarrow> string \<Rightarrow> 'e \<Rightarrow> file_header option transfer \<times> meta \<times> 'e"
where
  "s3_getFileHeader tilde c m name e =
     (case s3_headObject c (m_stageInfo m) (s3_bucket tilde (m_stageInfo m)) (s3_key tilde (m_stageInfo m) name) e of
        (Inl x, e') \<Rightarrow> (Inr (snd (s3_headerError x)), m\<lparr>m_resultStatus := Some (fst (s3_headerError x))\<rparr>, e')
      | (Inr (md, n), e') \<Rightarrow> (Inr (Some (s3_header md n)), m\<lparr>m_resultStatus := Some UPLOADED\<rparr>, e'))"

definition applyS3UploadError :: "storage_error \<Rightarrow> meta \<Rightarrow> meta" where
  "applyS3UploadError x m =
     (if se_Code x = Some ''ExpiredToken'' then m\<lparr>m_resultStatus := Some RENEW_TOKEN\<rparr>
      else m\<lparr>m_lastError := Some x,
             m_resultStatus := Some (if se_Code x = Some ''10053'' then NEED_RETRY_WITH_LOWER_CONCURRENCY else NEED_RETRY)\<rparr>)"

definition uploadedMeta :: "meta \<Rightarrow> meta" where
  "uploadedMeta m = m\<lparr>m_dstFileSize := Some (int (m_uploadSize m)), m_resultStatus := Some UPLOADED\<rparr>"

definition s3_uploadFileStream ::
  "(string \<Rightarrow> string) \<Rightarrow> 'e s3_client \<Rightarrow> bytes \<Rightarrow> meta \<Rightarrow> enc_metadata option \<Rightarrow> 'e \<Rightarrow> unit transfer \<times> meta \<times> 'e"
where
  "s3_uploadFileStream tilde c content m em e =
     (case s3_putObject c (m_stageInfo m) (s3_bucket tilde (m_stageInfo m))
             (s3_key tilde (m_stageInfo m) (m_dstFileName m)) (buildS3Metadata m em) content e of
        (Inl x, e') \<Rightarrow> (Inr (), applyS3UploadError x m, e')
      | (Inr _, e') \<Rightarrow> (Inr (), uploadedMeta m, e'))"

text \<open>What the body of a multipart upload gives, and the upload id if there is one to abort.\<close>

definition s3_sendParts ::
  "'e s3_client \<Rightarrow> 'e file_io \<Rightarrow> stage_info \<Rightarrow> string \<Rightarrow> string \<Rightarrow> string \<Rightarrow> nat \<Rightarrow> string \<Rightarrow> 'e \<Rightarrow>
   storage_error option \<times> 'e"
where
  "s3_sendParts c fi si bucket key dataFile fileSize uploadId e =
     (case fi_read fi dataFile e of
        Inl x \<Rightarrow> (Some x, e)
      | Inr content \<Rightarrow>
          (case partLoop (\<lambda>n buf e. case s3_uploadPart c si bucket key uploadId n buf e of
                                    (Inl x, e') \<Rightarrow> (Inl x, e')
                                  | (Inr etag, e') \<Rightarrow> (Inr (etag, n), e'))
                  content fileSize 0 1 [] e of
             (Some x, parts, e') \<Rightarrow> (Some x, e')
           | (None, parts, e') \<Rightarrow>
               (case s3_completeMultipartUpload c si bucket key uploadId parts e' of
                  (Inl x, e'') \<Rightarrow> (Some x, e'')
                | (Inr _, e'') \<Rightarrow> (None, e''))))"

definition s3_uploadFileMultipart ::
  "(string \<Rightarrow> string) \<Rightarrow> 'e s3_client \<Rightarrow> 'e file_io \<Rightarrow> string \<Rightarrow> nat \<Rightarrow> meta \<Rightarrow> enc_metadata option \<Rightarrow> 'e \<Rightarrow>
   unit transfer \<times> meta \<times> 'e"
where
  "s3_uploadFileMultipart tilde c fi dataFile fileSize m em e =
     (let si = m_stageInfo m; bucket = s3_bucket tilde si; key = s3_key tilde si (m_dstFileName m)
      in case s3_createMultipartUpload c si bucket key (buildS3Metadata m em) e of
           (Inl x, e1) \<Rightarrow> (Inr (), applyS3UploadError x m, e1)
         | (Inr uploadId, e1) \<Rightarrow>
             (case s3_sendParts c fi si bucket key dataFile fileSize uploadId e1 of
                (None, e2) \<Rightarrow> (Inr (), uploadedMeta m, e2)
              | (Some x, e2) \<Rightarrow>
                  (Inr (), applyS3UploadError x m,
                   if uploadId = [] then e2 else snd (s3_abortMultipartUpload c si bucket key uploadId e2))))"

text \<open>\<open>uploadFile\<close>: a file that cannot be looked at throws; one that cannot be read rejects the upload.\<close>

definition s3_uploadFile ::
  "bool \<Rightarrow> (string \<Rightarrow> string) \<Rightarrow> 'e s3_client \<Rightarrow> 'e file_io \<Rightarrow> string \<Rightarrow> meta \<Rightarrow> enc_metadata option \<Rightarrow> nat \<Rightarrow> 'e \<Rightarrow>
   unit transfer \<times> meta \<times> 'e"
where
  "s3_uploadFile multi tilde c fi dataFile m em maxConcurrency e =
     (if multi then
        (case fi_stat fi dataFile e of
           Inl x \<Rightarrow> (Inl (StorageError x), m, e)
         | Inr fileSize \<Rightarrow>
             if fileSize > MULTIPART_THRESHOLD_BYTES then s3_uploadFileMultipart tilde c fi dataFile fileSize m em e
             else (case fi_read fi dataFile e of
                     Inl x \<Rightarrow> (Inl (StorageError x), m, e)
                   | Inr content \<Rightarrow> s3_uploadFileStream tilde c content m em e))
      else (case fi_read fi dataFile e of
              Inl x \<Rightarrow> (Inr (), applyS3UploadError x m, e)
            | Inr content \<Rightarrow> s3_uploadFileStream tilde c content m em e))"

definition s3_nativeDownloadFile ::
  "(string \<Rightarrow> string) \<Rightarrow> 'e s3_client \<Rightarrow> 'e file_io \<Rightarrow> meta \<Rightarrow> string \<Rightarrow> 'e \<Rightarrow> unit transfer \<times> meta \<times> 'e"
where
  "s3_nativeDownloadFile tilde c fi m fullDstPath e =
     (case s3_getObject c (m_stageInfo m) (s3_bucket tilde (m_stageInfo m))
             (s3_key tilde (m_stageInfo m) (m_dstFileName m)) e of
        (Inl x, e1) \<Rightarrow> (Inr (), applyS3UploadError x m, e1)
      | (Inr content, e1) \<Rightarrow>
          (case fi_write fi fullDstPath content e1 of
             (Some x, e2) \<Rightarrow> (Inr (), applyS3UploadError x m, e2)
           | (None, e2) \<Rightarrow> (Inr (), m\<lparr>m_resultStatus := Some DOWNLOADED\<rparr>, e2)))"

definition S3Util :: "bool \<Rightarrow> (string \<Rightarrow> string) \<Rightarrow> 'e s3_client \<Rightarrow> 'e file_io \<Rightarrow> (string, 'e) storage_util" where
  "S3Util multi tilde c fi =
     \<lparr>su_getFileHeader = s3_getFileHeader tilde c, su_uploadFile = s3_uploadFile multi tilde c fi,
      su_nativeDownloadFile = s3_nativeDownloadFile tilde c fi\<rparr>"

definition S3StreamUtil :: "(string \<Rightarrow> string) \<Rightarrow> 'e s3_client \<Rightarrow> 'e file_io \<Rightarrow> (bytes, 'e) storage_util" where
  "S3StreamUtil tilde c fi =
     \<lparr>su_getFileHeader = s3_getFileHeader tilde c,
      su_uploadFile = (\<lambda>content m em maxConcurrency. s3_uploadFileStream tilde c content m em),
      su_nativeDownloadFile = s3_nativeDownloadFile tilde c fi\<rparr>"

section \<open>Azure\<close>

text \<open>
  The JSON text of the encryption data is given by the two members that vary; any other text is one
  whose parts cannot be read.
\<close>

datatype encryption_json = EncryptionJson string string | OtherText

record azure_metadata =
  az_sfcdigest :: "string option"
  az_encryptiondata :: "encryption_json option"
  az_matdesc :: "string option"

record 'e azure_client =
  az_getProperties :: "stage_info \<Rightarrow> string \<Rightarrow> string \<Rightarrow> 'e \<Rightarrow> (azure_metadata \<times> nat, 'e) io_call"
  az_stageBlock :: "stage_info \<Rightarrow> string \<Rightarrow> string \<Rightarrow> string \<Rightarrow> bytes \<Rightarrow> 'e \<Rightarrow> (unit, 'e) io_call"
  az_commitBlockList :: "stage_info \<Rightarrow> string \<Rightarrow> string \<Rightarrow> string list \<Rightarrow> azure_metadata \<Rightarrow> 'e \<Rightarrow> (unit, 'e) io_call"
  az_deleteIfExists :: "stage_info \<Rightarrow> string \<Rightarrow> string \<Rightarrow> 'e \<Rightarrow> (unit, 'e) io_call"
  az_upload :: "stage_info \<Rightarrow> string \<Rightarrow> string \<Rightarrow> bytes \<Rightarrow> azure_metadata \<Rightarrow> 'e \<Rightarrow> (unit, 'e) io_call"
  az_uploadStream :: "stage_info \<Rightarrow> string \<Rightarrow> string \<Rightarrow> bytes \<Rightarrow> nat \<Rightarrow> azure_metadata \<Rightarrow> 'e \<Rightarrow> (unit, 'e) io_call"
  az_download :: "stage_info \<Rightarrow> string \<Rightarrow> string \<Rightarrow> 'e \<Rightarrow> (bytes, 'e) io_call"

definition az_container :: "(string \<Rightarrow> string) \<Rightarrow> stage_info \<Rightarrow> string" where
  "az_container tilde si = fst (splitLocation (tilde (si_location si)))"

definition az_blob :: "(string \<Rightarrow> string) \<Rightarrow> stage_info \<Rightarrow> string \<Rightarrow> string" where
  "az_blob tilde si name = concatPath (snd (splitLocation (tilde (si_location si)))) name"

definition az_connectionString :: "stage_info \<Rightarrow> string" where
  "az_connectionString si = ''https://'' @ si_storageAccount si @ ''.blob.core.windows.net'' @ si_sasToken si"

definition buildAzureMetadata :: "meta \<Rightarrow> enc_metadata option \<Rightarrow> azure_metadata" where
  "buildAzureMetadata m em =
     \<lparr>az_sfcdigest = Some (m_digest m),
      az_encryptiondata = (case em of None \<Rightarrow> None | Some x \<Rightarrow> Some (EncryptionJson (en_key x) (en_iv x))),
      az_matdesc = (case em of None \<Rightarrow> None | Some x \<Rightarrow> en_matDesc x)\<rparr>"

definition az_header :: "azure_metadata \<Rightarrow> nat \<Rightarrow> file_header transfer" where
  "az_header md contentLength =
     (case az_encryptiondata md of
        None \<Rightarrow> Inr (FileHeader (az_sfcdigest md) (Some contentLength) None)
      | Some (EncryptionJson key iv) \<Rightarrow>
          Inr (FileHeader (az_sfcdigest md) (Some contentLength) (Some (encMetadata key iv (az_matdesc md))))
      | Some OtherText \<Rightarrow> Inl (LanguageError SyntaxError))"

definition az_headerError :: "storage_error \<Rightarrow> result_status \<times> file_header option" where
  "az_headerError x =
     (if se_code x = Some (CodeText ''ExpiredToken'') then (RENEW_TOKEN, None)
      else if se_statusCode x = Some 404 then (NOT_FOUND_FILE, Some (FileHeader None None None))
      else if se_statusCode x = Some 400 then (RENEW_TOKEN, None)
      else (ERROR, None))"

definition az_getFileHeader ::
  "(string \<Rightarrow> string) \<Rightarrow> 'e azure_client \<Rightarrow> meta \<Rightarrow> string \<Rightarrow> 'e \<Rightarrow> file_header option transfer \<times> meta \<times> 'e"
where
  "az_getFileHeader tilde c m name e =
     (case az_getProperties c (m_stageInfo m) (az_container tilde (m_stageInfo m)) (az_blob tilde (m_stageInfo m) name) e of
        (Inl x, e') \<Rightarrow> (Inr (snd (az_headerError x)), m\<lparr>m_resultStatus := Some (fst (az_headerError x))\<rparr>, e')
      | (Inr (md, n), e') \<Rightarrow>
          (map_sum id Some (az_header md n), m\<lparr>m_resultStatus := Some UPLOADED\<rparr>, e'))"

definition detectAzureTokenExpireError :: "storage_error \<Rightarrow> bool" where
  "detectAzureTokenExpireError x \<longleftrightarrow> se_statusCode x = Some 403 \<and>
     (contains ''Signature not valid in the specified time frame'' (se_text x) \<or>
      contains ''Server failed to authenticate the request.'' (se_text x))"

definition applyAzureUploadError :: "storage_error \<Rightarrow> meta \<Rightarrow> meta" where
  "applyAzureUploadError x m =
     m\<lparr>m_lastError := Some x,
       m_resultStatus := Some (if se_statusCode x = Some 403 \<and> detectAzureTokenExpireError x then RENEW_TOKEN else NEED_RETRY)\<rparr>"

text \<open>A content is sent in one request, the stream of a file with the given concurrency.\<close>

definition az_uploadFileStream ::
  "(string \<Rightarrow> string) \<Rightarrow> 'e azure_client \<Rightarrow> bool \<Rightarrow> bytes \<Rightarrow> meta \<Rightarrow> enc_metadata option \<Rightarrow> nat \<Rightarrow> 'e \<Rightarrow>
   unit transfer \<times> meta \<times> 'e"
where
  "az_uploadFileStream tilde c isStream content m em maxConcurrency e =
     (let si = m_stageInfo m; container = az_container tilde si; blob = az_blob tilde si (m_dstFileName m)
      in case (if isStream then
                 az_uploadStream c si container blob content (if maxConcurrency > 0 then maxConcurrency else 1)
                   (buildAzureMetadata m em) e
               else az_upload c si container blob content (buildAzureMetadata m em) e) of
           (Inl x, e') \<Rightarrow> (Inr (), applyAzureUploadError x m, e')
         | (Inr _, e') \<Rightarrow> (Inr (), uploadedMeta m, e'))"

definition az_sendBlocks ::
  "'e azure_client \<Rightarrow> 'e file_io \<Rightarrow> stage_info \<Rightarrow> string \<Rightarrow> string \<Rightarrow> azure_metadata \<Rightarrow> string \<Rightarrow> nat \<Rightarrow> 'e \<Rightarrow>
   storage_error option \<times> string list \<times> 'e"
where
  "az_sendBlocks c fi si container blob md dataFile fileSize e =
     (case fi_read fi dataFile e of
        Inl x \<Rightarrow> (Some x, [], e)
      | Inr content \<Rightarrow>
          (case partLoop (\<lambda>n buf e. case az_stageBlock c si container blob (blockId n) buf e of
                                    (Inl x, e') \<Rightarrow> (Inl x, e')
                                  | (Inr _, e') \<Rightarrow> (Inr (blockId n), e'))
                  content fileSize 0 1 [] e of
             (Some x, ids, e') \<Rightarrow> (Some x, ids, e')
           | (None, ids, e') \<Rightarrow>
               (case az_commitBlockList c si container blob ids md e' of
                  (Inl x, e'') \<Rightarrow> (Some x, ids, e'')
                | (Inr _, e'') \<Rightarrow> (None, ids, e''))))"

definition az_uploadFileMultipart ::
  "(string \<Rightarrow> string) \<Rightarrow> 'e azure_client \<Rightarrow> 'e file_io \<Rightarrow> string \<Rightarrow> nat \<Rightarrow> meta \<Rightarrow> enc_metadata option \<Rightarrow> 'e \<Rightarrow>
   unit transfer \<times> meta \<times> 'e"
where
  "az_uploadFileMultipart tilde c fi dataFile fileSize m em e =
     (let si = m_stageInfo m; container = az_container tilde si; blob = az_blob tilde si (m_dstFileName m)
      in case az_sendBlocks c fi si container blob (buildAzureMetadata m em) dataFile fileSize e of
           (None, ids, e1) \<Rightarrow> (Inr (), uploadedMeta m, e1)
         | (Some x, ids, e1) \<Rightarrow>
             (Inr (), applyAzureUploadError x m,
              if ids = [] then e1 else snd (az_deleteIfExists c si container blob e1)))"

definition az_uploadFile ::
  "bool \<Rightarrow> (string \<Rightarrow> string) \<Rightarrow> 'e azure_client \<Rightarrow> 'e file_io \<Rightarrow> string \<Rightarrow> meta \<Rightarrow> enc_metadata option \<Rightarrow> nat \<Rightarrow> 'e \<Rightarrow>
   unit transfer \<times> meta \<times> 'e"
where
  "az_uploadFile multi tilde c fi dataFile m em maxConcurrency e =
     (if multi then
        (case fi_stat fi dataFile e of
           Inl x \<Rightarrow> (Inl (StorageError x), m, e)
         | Inr fileSize \<Rightarrow>
             if fileSize > MULTIPART_THRESHOLD_BYTES then az_uploadFileMultipart tilde c fi dataFile fileSize m em e
             else (case fi_read fi dataFile e of
                     Inl x \<Rightarrow> (Inl (StorageError x), m, e)
                   | Inr content \<Rightarrow> az_uploadFileStream tilde c False content m em maxConcurrency e))
      else (case fi_read fi dataFile e of
              Inl x \<Rightarrow> (Inr (), applyAzureUploadError x m, e)
            | Inr content \<Rightarrow> az_uploadFileStream tilde c True content m em maxConcurrency e))"

text \<open>An error of the stream that is written has no listener: it is not caught.\<close>

definition az_nativeDownloadFile ::
  "(string \<Rightarrow> string) \<Rightarrow> 'e azure_client \<Rightarrow> 'e file_io \<Rightarrow> meta \<Rightarrow> string \<Rightarrow> 'e \<Rightarrow> unit transfer \<times> meta \<times> 'e"
where
  "az_nativeDownloadFile tilde c fi m fullDstPath e =
     (case az_download c (m_stageInfo m) (az_container tilde (m_stageInfo m))
             (az_blob tilde (m_stageInfo m) (m_srcFileName m)) e of
        (Inl x, e1) \<Rightarrow> (Inr (), applyAzureUploadError x m, e1)
      | (Inr content, e1) \<Rightarrow>
          (case fi_write fi fullDstPath content e1 of
             (Some x, e2) \<Rightarrow> (Inl (StorageError x), m, e2)
           | (None, e2) \<Rightarrow> (Inr (), m\<lparr>m_resultStatus := Some DOWNLOADED\<rparr>, e2)))"

definition AzureUtil :: "bool \<Rightarrow> (string \<Rightarrow> string) \<Rightarrow> 'e azure_client \<Rightarrow> 'e file_io \<Rightarrow> (string, 'e) storage_util" where
  "AzureUtil multi tilde c fi =
     \<lparr>su_getFileHeader = az_getFileHeader tilde c, su_uploadFile = az_uploadFile multi tilde c fi,
      su_nativeDownloadFile = az_nativeDownloadFile tilde c fi\<rparr>"

definition AzureStreamUtil :: "(string \<Rightarrow> string) \<Rightarrow> 'e azure_client \<Rightarrow> 'e file_io \<Rightarrow> (bytes, 'e) storage_util" where
  "AzureStreamUtil tilde c fi =
     \<lparr>su_getFileHeader = az_getFileHeader tilde c, su_uploadFile = az_uploadFileStream tilde c False,
      su_nativeDownloadFile = az_nativeDownloadFile tilde c fi\<rparr>"

section \<open>Both keep the contract of a storage\<close>

lemma applied_S3Error:
  "m_resultStatus (applyS3UploadError x m) \<in> Some ` {RENEW_TOKEN, NEED_RETRY, NEED_RETRY_WITH_LOWER_CONCURRENCY}"
  "m_resultStatus (applyS3UploadError x m) \<in> Some ` {NEED_RETRY, NEED_RETRY_WITH_LOWER_CONCURRENCY} \<Longrightarrow>
     m_lastError (applyS3UploadError x m) = Some x"
  "same_options m (applyS3UploadError x m)"
  by (auto simp: applyS3UploadError_def)

lemma applied_AzureError:
  "m_resultStatus (applyAzureUploadError x m) \<in> Some ` {RENEW_TOKEN, NEED_RETRY}"
  "m_lastError (applyAzureUploadError x m) = Some x" "same_options m (applyAzureUploadError x m)"
  by (auto simp: applyAzureUploadError_def)

lemma uploadedMeta_fields [simp]:
  "m_resultStatus (uploadedMeta m) = Some UPLOADED" "same_options m (uploadedMeta m)"
  by (simp_all add: uploadedMeta_def)

text \<open>An upload that returns leaves the metadata marked as uploaded or with the error it met.\<close>

lemma s3_upload_cases:
  "s3_uploadFile multi tilde c fi d m em k e = (Inr (), m', e') \<Longrightarrow> m' = uploadedMeta m \<or> (\<exists>x. m' = applyS3UploadError x m)"
  "s3_uploadFileStream tilde c content m em e = (Inr (), m', e') \<Longrightarrow> m' = uploadedMeta m \<or> (\<exists>x. m' = applyS3UploadError x m)"
  by (auto simp: s3_uploadFile_def s3_uploadFileMultipart_def s3_uploadFileStream_def Let_def
      split: if_splits sum.splits prod.splits option.splits)

lemma az_upload_cases:
  "az_uploadFile multi tilde c fi d m em k e = (Inr (), m', e') \<Longrightarrow> m' = uploadedMeta m \<or> (\<exists>x. m' = applyAzureUploadError x m)"
  "az_uploadFileStream tilde c st content m em k e = (Inr (), m', e') \<Longrightarrow>
     m' = uploadedMeta m \<or> (\<exists>x. m' = applyAzureUploadError x m)"
  by (auto simp: az_uploadFile_def az_uploadFileMultipart_def az_uploadFileStream_def Let_def
      split: if_splits sum.splits prod.splits option.splits)

lemma s3_upload_throws:
  "s3_uploadFile multi tilde c fi d m em k e = (Inl x, m', e') \<Longrightarrow> m' = m"
  "s3_uploadFileStream tilde c content m em e = (r, m', e') \<Longrightarrow> r = Inr ()"
  by (auto simp: s3_uploadFile_def s3_uploadFileMultipart_def s3_uploadFileStream_def Let_def
      split: if_splits sum.splits prod.splits option.splits)

lemma az_upload_throws:
  "az_uploadFile multi tilde c fi d m em k e = (Inl x, m', e') \<Longrightarrow> m' = m"
  "az_uploadFileStream tilde c st content m em k e = (r, m', e') \<Longrightarrow> r = Inr ()"
  by (auto simp: az_uploadFile_def az_uploadFileMultipart_def az_uploadFileStream_def Let_def
      split: if_splits sum.splits prod.splits option.splits)

lemma header_keeps_options:
  "s3_getFileHeader tilde c m name e = (h, m', e') \<Longrightarrow> same_options m m'"
  "az_getFileHeader tilde ac m name e = (h, m', e') \<Longrightarrow> same_options m m'"
  by (auto simp: s3_getFileHeader_def az_getFileHeader_def split: prod.splits sum.splits)

interpretation s3: storage "S3Util multi tilde c fi" for multi tilde c fi
proof
  fix d m em k e m' e'
  assume "su_uploadFile (S3Util multi tilde c fi) d m em k e = (Inr (), m', e')"
  then show "m_resultStatus m' \<in> Some ` {UPLOADED, RENEW_TOKEN, RENEW_PRESIGNED_URL, NEED_RETRY, NEED_RETRY_WITH_LOWER_CONCURRENCY} \<and>
       (m_resultStatus m' \<in> Some ` {NEED_RETRY, NEED_RETRY_WITH_LOWER_CONCURRENCY} \<longrightarrow> m_lastError m' \<noteq> None)"
    using applied_S3Error(1,2) by (fastforce simp: S3Util_def dest: s3_upload_cases)
next
  fix d m em k e r m' e'
  assume "su_uploadFile (S3Util multi tilde c fi) d m em k e = (r, m', e')"
  then show "same_options m m'"
    by (cases r) (auto simp: S3Util_def applied_S3Error(3) dest: s3_upload_cases s3_upload_throws)
next
  fix m f e h m' e'
  assume "su_getFileHeader (S3Util multi tilde c fi) m f e = (h, m', e')"
  then show "same_options m m'" by (simp add: S3Util_def header_keeps_options)
qed

interpretation azure: storage "AzureUtil multi tilde c fi" for multi tilde c fi
proof
  fix d m em k e m' e'
  assume "su_uploadFile (AzureUtil multi tilde c fi) d m em k e = (Inr (), m', e')"
  then show "m_resultStatus m' \<in> Some ` {UPLOADED, RENEW_TOKEN, RENEW_PRESIGNED_URL, NEED_RETRY, NEED_RETRY_WITH_LOWER_CONCURRENCY} \<and>
       (m_resultStatus m' \<in> Some ` {NEED_RETRY, NEED_RETRY_WITH_LOWER_CONCURRENCY} \<longrightarrow> m_lastError m' \<noteq> None)"
    using applied_AzureError(1,2) by (fastforce simp: AzureUtil_def dest: az_upload_cases)
next
  fix d m em k e r m' e'
  assume "su_uploadFile (AzureUtil multi tilde c fi) d m em k e = (r, m', e')"
  then show "same_options m m'"
    by (cases r) (auto simp: AzureUtil_def applied_AzureError(3) dest: az_upload_cases az_upload_throws)
next
  fix m f e h m' e'
  assume "su_getFileHeader (AzureUtil multi tilde c fi) m f e = (h, m', e')"
  then show "same_options m m'" by (simp add: AzureUtil_def header_keeps_options)
qed

end
