(* ===== verification/GcsModel.thy ===== *)
theory GcsModel
  imports S3AzureModel
begin

text \<open>
  The GCS storage (\<open>file_transfer_agent/gcs_util.js\<close>): the two styles of credentials (an access token or
  one presigned url per file), urls, headers, the classification of errors, uploads in one request or
  as a resumable session, and downloads.

  \<open>gc\<close> are the requests of the HTTP library; a session that is resumed runs with fuel, because the
  server decides from where the upload continues.
\<close>

section \<open>Urls\<close>

text \<open>\<open>extractBucketNameAndPath\<close>: no tilde is expanded and a missing path is empty.\<close>

definition gcs_location :: "string \<Rightarrow> string \<times> string" where
  "gcs_location location = (case splitLocation location of (b, p) \<Rightarrow> (b, case p of None \<Rightarrow> [] | Some q \<Rightarrow> q))"

definition getGCSCustomEndPoint :: "stage_info \<Rightarrow> string option" where
  "getGCSCustomEndPoint si =
     (let region = map lowerChar (si_region si)
      in if nonempty_str (si_endPoint si) then si_endPoint si
         else if si_useVirtualUrl si then
           Some (''https://'' @ fst (gcs_location (si_location si)) @ ''.storage.googleapis.com'')
         else if region = ''me-central2'' \<or> si_useRegionalUrl si then
           Some (''storage.'' @ region @ ''.rep.googleapis.com'')
         else None)"

definition generateFileURL :: "stage_info \<Rightarrow> string \<Rightarrow> string" where
  "generateFileURL si filename =
     (let bucket = fst (gcs_location (si_location si));
          fullFilePath = snd (gcs_location (si_location si)) @ filename;
          link = (if si_useVirtualUrl si then
                    (case getGCSCustomEndPoint si of None \<Rightarrow> ''null'' | Some ep \<Rightarrow> ep) @ ''/'' @ fullFilePath
                  else (case getGCSCustomEndPoint si of None \<Rightarrow> ''https://storage.googleapis.com'' | Some ep \<Rightarrow> ep) @
                         ''/'' @ bucket @ ''/'' @ fullFilePath)
      in if prefix ''http://'' link \<or> prefix ''https://'' link then link else ''https://'' @ link)"

text \<open>\<open>Util.lstrip(s, '/')\<close>\<close>

definition lstrip :: "string \<Rightarrow> char list \<Rightarrow> string" where
  "lstrip s remove = dropWhile (\<lambda>c. c \<in> set remove) s"

section \<open>Headers\<close>

definition normalizeGcsContentEncoding :: "meta \<Rightarrow> string" where
  "normalizeGcsContentEncoding m =
     (let enc = (case m_dstCompressionType m of None \<Rightarrow> [] | Some t \<Rightarrow> map lowerChar (ct_name t))
      in if enc \<in> set [''gzip'', ''bzip2'', ''brotli'', ''deflate'', ''raw_deflate'', ''zstd''] then [] else enc)"

record gcs_headers =
  gh_authorization :: "string option"
  gh_contentEncoding :: "string option"
  gh_contentLength :: "nat option"
  gh_contentRange :: "string option"
  gh_digest :: "string option"
  gh_encryptiondata :: "encryption_json option"
  gh_matdesc :: "string option"

definition noHeaders :: gcs_headers where
  "noHeaders =
     \<lparr>gh_authorization = None, gh_contentEncoding = None, gh_contentLength = None, gh_contentRange = None,
      gh_digest = None, gh_encryptiondata = None, gh_matdesc = None\<rparr>"

definition bearer :: "string \<Rightarrow> string option" where
  "bearer token = Some (''Bearer '' @ token)"

definition buildGcsEncryptionHeaders :: "meta \<Rightarrow> enc_metadata option \<Rightarrow> gcs_headers \<Rightarrow> gcs_headers" where
  "buildGcsEncryptionHeaders m em h =
     (let h1 = h\<lparr>gh_digest := Some (m_digest m)\<rparr>
      in case em of
           None \<Rightarrow> h1
         | Some x \<Rightarrow> h1\<lparr>gh_encryptiondata := Some (EncryptionJson (en_key x) (en_iv x)), gh_matdesc := en_matDesc x\<rparr>)"

definition gcs_encryption :: "encryption_json option \<Rightarrow> string option \<Rightarrow> enc_metadata option transfer" where
  "gcs_encryption d matdesc =
     (case d of
        None \<Rightarrow> Inr None
      | Some (EncryptionJson key iv) \<Rightarrow> Inr (Some (encMetadata key iv matdesc))
      | Some OtherText \<Rightarrow> Inl (LanguageError SyntaxError))"

section \<open>Requests\<close>

record gcs_response =
  gr_status :: int
  gr_digest :: "string option"
  gr_contentLength :: "nat option"
  gr_encryptiondata :: "encryption_json option"
  gr_matdesc :: "string option"
  gr_range :: "(nat \<times> nat) option"      \<comment> \<open>the committed range, if the header has that form\<close>

record 'e gcs_client =
  gc_get :: "string \<Rightarrow> 'e \<Rightarrow> (gcs_response, 'e) io_call"
  gc_head :: "string \<Rightarrow> gcs_headers \<Rightarrow> 'e \<Rightarrow> (gcs_response, 'e) io_call"
  gc_put :: "string \<Rightarrow> gcs_headers \<Rightarrow> bytes \<Rightarrow> 'e \<Rightarrow> (unit, 'e) io_call"
  gc_initiate :: "string \<Rightarrow> gcs_headers \<Rightarrow> nat \<Rightarrow> 'e \<Rightarrow> (string option, 'e) io_call"
  gc_putChunk :: "string \<Rightarrow> gcs_headers \<Rightarrow> bytes \<Rightarrow> 'e \<Rightarrow> (gcs_response, 'e) io_call"
  gc_delete :: "string \<Rightarrow> gcs_headers \<Rightarrow> 'e \<Rightarrow> (unit, 'e) io_call"
  gc_download :: "string \<Rightarrow> gcs_headers \<Rightarrow> string \<Rightarrow> 'e \<Rightarrow> (gcs_response, 'e) io_call"

text \<open>
  \<open>err.code || err.response.status\<close>: a code that is a text hides the status.  \<open>applyGcsUploadError\<close> keeps
  the code of the error before, so that a second 400 in a row does not renew the url again.
\<close>

definition truthyCode :: "js_code option \<Rightarrow> bool" where
  "truthyCode c = (case c of None \<Rightarrow> False | Some (CodeText t) \<Rightarrow> t \<noteq> [] | Some (CodeNumber n) \<Rightarrow> n \<noteq> 0)"

definition httpCode :: "storage_error \<Rightarrow> int option" where
  "httpCode x =
     (if truthyCode (se_code x) then (case se_code x of Some (CodeNumber n) \<Rightarrow> Some n | _ \<Rightarrow> None) else se_response x)"

definition gcs_retryable :: "int list" where
  "gcs_retryable = [403, 408, 429, 500, 502, 503, 504]"

definition applyGcsUploadError :: "storage_error \<Rightarrow> bool \<Rightarrow> meta \<Rightarrow> meta" where
  "applyGcsUploadError x hasAccessToken m =
     (let priorCode = (case m_lastError m of None \<Rightarrow> None | Some y \<Rightarrow> se_code y);
          status =
            (case httpCode x of
               None \<Rightarrow> NEED_RETRY
             | Some n \<Rightarrow>
                 if n \<in> set gcs_retryable then NEED_RETRY
                 else if hasAccessToken \<and> n = 401 then RENEW_TOKEN
                 else if \<not> hasAccessToken \<and> n = 400 \<and> priorCode \<noteq> Some (CodeNumber 400) then RENEW_PRESIGNED_URL
                 else NEED_RETRY)
      in m\<lparr>m_lastError := Some x, m_resultStatus := Some status\<rparr>)"

text \<open>
  The status of a failed look-up: a numeric code, or the status of the response.  Without a response
  the access throws.  (A code that is the text of a number is kept as a text and matches no number.)
\<close>

definition headerErrCode :: "storage_error \<Rightarrow> int option transfer" where
  "headerErrCode x =
     (case se_code x of
        Some (CodeNumber n) \<Rightarrow> Inr (Some n)
      | Some (CodeText t) \<Rightarrow>
          if t \<noteq> [] \<and> list_all is_digit t then Inr None
          else (case se_response x of None \<Rightarrow> Inl (LanguageError TypeError) | Some n \<Rightarrow> Inr (Some n))
      | None \<Rightarrow> (case se_response x of None \<Rightarrow> Inl (LanguageError TypeError) | Some n \<Rightarrow> Inr (Some n)))"

definition emptyHeader :: file_header where "emptyHeader = FileHeader None None None"

definition gcs_headFailed :: "storage_error \<Rightarrow> meta \<Rightarrow> file_header option transfer \<times> meta" where
  "gcs_headFailed x m =
     (case headerErrCode x of
        Inl t \<Rightarrow> (Inl t, m)
      | Inr code \<Rightarrow>
          if code \<in> Some ` {403, 408, 429, 500, 503} then
            (Inr None, m\<lparr>m_lastError := Some x, m_resultStatus := Some NEED_RETRY\<rparr>)
          else if code = Some 404 then (Inr (Some emptyHeader), m\<lparr>m_resultStatus := Some NOT_FOUND_FILE\<rparr>)
          else if code = Some 401 then
            (Inr (Some emptyHeader), m\<lparr>m_lastError := Some x, m_resultStatus := Some RENEW_TOKEN\<rparr>)
          else (Inl (StorageError x), m\<lparr>m_lastError := Some x, m_resultStatus := Some ERROR\<rparr>))"

text \<open>
  \<open>getFileHeader\<close>.  After a transfer the headers it kept are returned.  With a presigned url only a
  missing file is told apart: any other answer leaves the status as it was.  An encryption text that
  cannot be read ends up in the handler of failed requests, where it has neither code nor response.
\<close>

definition gcs_getFileHeader ::
  "'e gcs_client \<Rightarrow> meta \<Rightarrow> string \<Rightarrow> 'e \<Rightarrow> file_header option transfer \<times> meta \<times> 'e"
where
  "gcs_getFileHeader c m filename e =
     (if m_resultStatus m \<in> Some ` {UPLOADED, DOWNLOADED} then
        (Inr (Some (FileHeader (m_headerDigest m) (m_headerLength m) (m_headerEncryption m))), m, e)
      else if nonempty_str (m_presignedUrl m) then
        (case gc_get c (the (m_presignedUrl m)) e of
           (Inr _, e') \<Rightarrow> (Inr (Some emptyHeader), m, e')
         | (Inl x, e') \<Rightarrow>
             (case se_response x of
                None \<Rightarrow> (Inl (LanguageError TypeError), m, e')
              | Some n \<Rightarrow>
                  (Inr (Some emptyHeader),
                   if n \<in> {401, 403, 404} then m\<lparr>m_resultStatus := Some NOT_FOUND_FILE\<rparr> else m, e')))
      else
        (case m_clientToken m of
           None \<Rightarrow> (Inl (LanguageError TypeError), m, e)
         | Some token \<Rightarrow>
             (case gc_head c (generateFileURL (m_stageInfo m) (lstrip filename ''/''))
                     (noHeaders\<lparr>gh_authorization := bearer token\<rparr>) e of
                (Inl x, e') \<Rightarrow> (case gcs_headFailed x m of (r, m') \<Rightarrow> (r, m', e'))
              | (Inr r, e') \<Rightarrow>
                  (case gcs_encryption (gr_encryptiondata r)
                          (if nonempty_str (gr_matdesc r) then gr_matdesc r else None) of
                     Inl _ \<Rightarrow> (Inl (LanguageError TypeError), m, e')
                   | Inr em \<Rightarrow>
                       (Inr (Some (FileHeader (gr_digest r) (gr_contentLength r) em)),
                        m\<lparr>m_resultStatus := Some UPLOADED\<rparr>, e')))))"

section \<open>Uploading\<close>

text \<open>
  After an upload the headers that were sent are kept.  The encryption data is kept as its text, which
  has none of the members of encryption metadata.
\<close>

definition keptHeaders :: "gcs_headers \<Rightarrow> meta \<Rightarrow> meta" where
  "keptHeaders h m =
     (uploadedMeta m)\<lparr>m_headerDigest := gh_digest h, m_headerLength := Some (m_uploadSize m),
       m_headerEncryption := None\<rparr>"

definition gcs_uploadFileStream ::
  "'e gcs_client \<Rightarrow> nat option \<Rightarrow> bytes \<Rightarrow> meta \<Rightarrow> enc_metadata option \<Rightarrow> 'e \<Rightarrow> unit transfer \<times> meta \<times> 'e"
where
  "gcs_uploadFileStream c contentLength content m em e =
     (let presigned = nonempty_str (m_presignedUrl m)
      in if \<not> presigned \<and> m_clientToken m = None then (Inl (LanguageError TypeError), m, e)
         else
           (let url = (if presigned then the (m_presignedUrl m)
                       else generateFileURL (m_stageInfo m) (afterSlash (m_dstFileName m)));
                token = (if presigned then None else m_clientToken m);
                h = (buildGcsEncryptionHeaders m em noHeaders)
                      \<lparr>gh_contentEncoding := Some (normalizeGcsContentEncoding m),
                       gh_authorization := (if nonempty_str token then bearer (the token) else None),
                       gh_contentLength := contentLength\<rparr>
            in case gc_put c url h content e of
                 (Inl x, e') \<Rightarrow> (Inr (), applyGcsUploadError x (nonempty_str token) m, e')
               | (Inr _, e') \<Rightarrow> (Inr (), keptHeaders h m, e')))"

text \<open>
  One chunk of a resumable session, from \<open>position\<close>: where to continue, or the error.  The answer 308
  must name the range that is committed; any other answer that is accepted ends the upload.
\<close>

definition contentRange :: "nat \<Rightarrow> nat \<Rightarrow> nat \<Rightarrow> string" where
  "contentRange start sz fileSize =
     ''bytes '' @ show_nat start @ ''-'' @ show_nat (start + sz - 1) @ ''/'' @ show_nat fileSize"

definition resumableStep ::
  "'e gcs_client \<Rightarrow> string \<Rightarrow> string \<Rightarrow> bytes \<Rightarrow> nat \<Rightarrow> nat \<Rightarrow> 'e \<Rightarrow> (storage_error + nat) \<times> 'e"
where
  "resumableStep c sessionUrl token content fileSize position e =
     (let thisChunkSize = min MULTIPART_PART_SIZE_BYTES (fileSize - position)
      in case readChunk content position thisChunkSize of
           Inl x \<Rightarrow> (Inl x, e)
         | Inr buf \<Rightarrow>
             (case gc_putChunk c sessionUrl
                     (noHeaders\<lparr>gh_authorization := bearer token, gh_contentLength := Some (length buf),
                                gh_contentRange := Some (contentRange position thisChunkSize fileSize)\<rparr>) buf e of
                (Inl x, e') \<Rightarrow> (Inl x, e')
              | (Inr r, e') \<Rightarrow>
                  if gr_status r = 308 then
                    (case gr_range r of
                       None \<Rightarrow> (Inl (plainError ''GCS resumable 308 returned no usable Range header; cannot safely resume''), e')
                     | Some (firstByte, lastByte) \<Rightarrow> (Inr (lastByte + 1), e'))
                  else (Inr fileSize, e')))"

fun resumableLoop ::
  "nat \<Rightarrow> 'e gcs_client \<Rightarrow> string \<Rightarrow> string \<Rightarrow> bytes \<Rightarrow> nat \<Rightarrow> nat \<Rightarrow> 'e \<Rightarrow> (storage_error option \<times> 'e) option"
where
  "resumableLoop 0 c url token content fileSize position e = None"
| "resumableLoop (Suc fuel) c url token content fileSize position e =
     (if position < fileSize then
        (case resumableStep c url token content fileSize position e of
           (Inl x, e') \<Rightarrow> Some (Some x, e')
         | (Inr position', e') \<Rightarrow> resumableLoop fuel c url token content fileSize position' e')
      else Some (None, e))"

definition gcs_uploadFileResumable ::
  "nat \<Rightarrow> 'e gcs_client \<Rightarrow> 'e file_io \<Rightarrow> string \<Rightarrow> nat \<Rightarrow> meta \<Rightarrow> enc_metadata option \<Rightarrow> 'e \<Rightarrow>
   (unit transfer \<times> meta \<times> 'e) option"
where
  "gcs_uploadFileResumable fuel c fi dataFile fileSize m em e =
     (case m_clientToken m of
        None \<Rightarrow> Some (Inl (LanguageError TypeError), m, e)
      | Some token \<Rightarrow>
          (let url = generateFileURL (m_stageInfo m) (afterSlash (m_dstFileName m));
               enc = normalizeGcsContentEncoding m;
               h = (buildGcsEncryptionHeaders m em noHeaders)
                     \<lparr>gh_authorization := bearer token, gh_contentLength := Some 0,
                      gh_contentEncoding := (if enc = [] then None else Some enc)\<rparr>;
               failed = (\<lambda>x e'. (Inr (), applyGcsUploadError x True m, e'));
               abandoned = (\<lambda>s x e'. failed x (snd (gc_delete c s (noHeaders\<lparr>gh_authorization := bearer token\<rparr>) e')))
           in case gc_initiate c url h fileSize e of
                (Inl x, e1) \<Rightarrow> Some (failed x e1)
              | (Inr session, e1) \<Rightarrow>
                  if \<not> nonempty_str session then
                    Some (failed (plainError ''GCS resumable initiate succeeded without a Location header'') e1)
                  else
                    (case fi_read fi dataFile e1 of
                       Inl x \<Rightarrow> Some (abandoned (the session) x e1)
                     | Inr content \<Rightarrow>
                         (case resumableLoop fuel c (the session) token content fileSize 0 e1 of
                            None \<Rightarrow> None
                          | Some (Some x, e2) \<Rightarrow> Some (abandoned (the session) x e2)
                          | Some (None, e2) \<Rightarrow> Some (Inr (), keptHeaders h m, e2)))))"

definition gcs_uploadFile ::
  "nat \<Rightarrow> bool \<Rightarrow> 'e gcs_client \<Rightarrow> 'e file_io \<Rightarrow> string \<Rightarrow> meta \<Rightarrow> enc_metadata option \<Rightarrow> 'e \<Rightarrow>
   (unit transfer \<times> meta \<times> 'e) option"
where
  "gcs_uploadFile fuel multi c fi dataFile m em e =
     (case fi_stat fi dataFile e of
        Inl x \<Rightarrow> Some (Inl (StorageError x), m, e)
      | Inr fileSize \<Rightarrow>
          (let canResumable = nonempty_str (m_clientToken m) \<and> \<not> nonempty_str (m_presignedUrl m)
           in if multi \<and> canResumable \<and> fileSize > MULTIPART_THRESHOLD_BYTES then
                gcs_uploadFileResumable fuel c fi dataFile fileSize m em e
              else
                (case fi_read fi dataFile e of
                   Inl x \<Rightarrow>
                     if multi then Some (Inl (StorageError x), m, e)
                     else Some (Inr (), applyGcsUploadError x (\<not> nonempty_str (m_presignedUrl m) \<and> nonempty_str (m_clientToken m)) m, e)
                 | Inr content \<Rightarrow>
                     Some (gcs_uploadFileStream c (Some (if multi then length content else fileSize)) content m em e))))"

section \<open>Downloading\<close>

definition gcs_nativeDownloadFile ::
  "'e gcs_client \<Rightarrow> 'e file_io \<Rightarrow> meta \<Rightarrow> string \<Rightarrow> 'e \<Rightarrow> unit transfer \<times> meta \<times> 'e"
where
  "gcs_nativeDownloadFile c fi m fullDstPath e =
     (let presigned = nonempty_str (m_presignedUrl m)
      in if \<not> presigned \<and> m_clientToken m = None then (Inl (LanguageError TypeError), m, e)
         else
           (let url = (if presigned then the (m_presignedUrl m)
                       else generateFileURL (m_stageInfo m) (lstrip (m_srcFileName m) ''/''));
                h = (if presigned then noHeaders else noHeaders\<lparr>gh_authorization := bearer (the (m_clientToken m))\<rparr>)
            in case gc_download c url h fullDstPath e of
                 (Inl x, e') \<Rightarrow>
                   (Inr (),
                    if se_code x = Some (CodeText ''ExpiredToken'') then m\<lparr>m_resultStatus := Some RENEW_TOKEN\<rparr>
                    else m\<lparr>m_lastError := Some x,
                           m_resultStatus := Some (if se_code x = Some (CodeNumber 10053)
                             then NEED_RETRY_WITH_LOWER_CONCURRENCY else NEED_RETRY)\<rparr>, e')
               | (Inr r, e') \<Rightarrow>
                   (case gcs_encryption (gr_encryptiondata r) (gr_matdesc r) of
                      Inl t \<Rightarrow> (Inl t, m, e')
                    | Inr em \<Rightarrow>
                        (case fi_stat fi fullDstPath e' of
                           Inl x \<Rightarrow> (Inl (StorageError x), m, e')
                         | Inr n \<Rightarrow>
                             (Inr (), m\<lparr>m_srcFileSize := Some n, m_resultStatus := Some DOWNLOADED,
                                        m_headerDigest := gr_digest r, m_headerLength := gr_contentLength r,
                                        m_headerEncryption := em\<rparr>, e')))))"

text \<open>The storage as it is by default, without resumable uploads; then an upload always ends.\<close>

definition GCSUtil :: "'e gcs_client \<Rightarrow> 'e file_io \<Rightarrow> (string, 'e) storage_util" where
  "GCSUtil c fi =
     \<lparr>su_getFileHeader = gcs_getFileHeader c,
      su_uploadFile = (\<lambda>dataFile m em maxConcurrency e.
        case gcs_uploadFile 0 False c fi dataFile m em e of Some r \<Rightarrow> r | None \<Rightarrow> (Inr (), m, e)),
      su_nativeDownloadFile = gcs_nativeDownloadFile c fi\<rparr>"

definition GCSStreamUtil :: "'e gcs_client \<Rightarrow> 'e file_io \<Rightarrow> (bytes, 'e) storage_util" where
  "GCSStreamUtil c fi =
     \<lparr>su_getFileHeader = gcs_getFileHeader c,
      su_uploadFile = (\<lambda>content m em maxConcurrency. gcs_uploadFileStream c (Some (length content)) content m em),
      su_nativeDownloadFile = gcs_nativeDownloadFile c fi\<rparr>"

section \<open>The contract of a storage\<close>

lemma applied_GcsError:
  "m_resultStatus (applyGcsUploadError x b m) \<in> Some ` {RENEW_TOKEN, RENEW_PRESIGNED_URL, NEED_RETRY}"
  "m_lastError (applyGcsUploadError x b m) = Some x" "same_options m (applyGcsUploadError x b m)"
  by (auto simp: applyGcsUploadError_def Let_def split: option.splits)

lemma keptHeaders_fields [simp]:
  "m_resultStatus (keptHeaders h m) = Some UPLOADED" "same_options m (keptHeaders h m)"
  by (simp_all add: keptHeaders_def)

lemma gcs_stream_cases:
  "gcs_uploadFileStream c n content m em e = (r, m', e') \<Longrightarrow>
     (r = Inr () \<and> ((\<exists>h. m' = keptHeaders h m) \<or> (\<exists>x b. m' = applyGcsUploadError x b m))) \<or>
     (r = Inl (LanguageError TypeError) \<and> m' = m)"
  by (auto simp: gcs_uploadFileStream_def Let_def split: if_splits sum.splits prod.splits)

lemma gcs_upload_cases:
  assumes "gcs_uploadFile fuel False c fi d m em e = Some (r, m', e')"
  shows "(r = Inr () \<and> ((\<exists>h. m' = keptHeaders h m) \<or> (\<exists>x b. m' = applyGcsUploadError x b m))) \<or> m' = m \<and> isl r"
  using assms
  by (auto simp: gcs_uploadFile_def Let_def split: if_splits sum.splits dest!: gcs_stream_cases)

lemma gcs_upload_total: "\<exists>r m' e'. gcs_uploadFile fuel False c fi d m em e = Some (r, m', e')"
proof -
  have "gcs_uploadFile fuel False c fi d m em e \<noteq> None" by (simp add: gcs_uploadFile_def Let_def split: sum.splits) (metis prod_cases3)
  then show ?thesis by (metis option.exhaust prod_cases3)
qed

lemma gcs_header_keeps: "gcs_getFileHeader c m f e = (h, m', e') \<Longrightarrow> same_options m m'"
  by (auto simp: gcs_getFileHeader_def gcs_headFailed_def split: if_splits option.splits sum.splits prod.splits)

interpretation gcs: storage "GCSUtil c fi" for c fi
proof
  fix d m em k e m' e'
  assume up: "su_uploadFile (GCSUtil c fi) d m em k e = (Inr (), m', e')"
  obtain r m1 e1 where "gcs_uploadFile 0 False c fi d m em e = Some (r, m1, e1)" using gcs_upload_total by metis
  with gcs_upload_cases[OF this] up have "(\<exists>h. m' = keptHeaders h m) \<or> (\<exists>x b. m' = applyGcsUploadError x b m)"
    by (auto simp: GCSUtil_def)
  then show "m_resultStatus m' \<in> Some ` {UPLOADED, RENEW_TOKEN, RENEW_PRESIGNED_URL, NEED_RETRY, NEED_RETRY_WITH_LOWER_CONCURRENCY} \<and>
       (m_resultStatus m' \<in> Some ` {NEED_RETRY, NEED_RETRY_WITH_LOWER_CONCURRENCY} \<longrightarrow> m_lastError m' \<noteq> None)"
    using applied_GcsError(1,2) by fastforce
next
  fix d m em k e r m' e'
  assume up: "su_uploadFile (GCSUtil c fi) d m em k e = (r, m', e')"
  obtain r1 m1 e1 where "gcs_uploadFile 0 False c fi d m em e = Some (r1, m1, e1)" using gcs_upload_total by metis
  with gcs_upload_cases[OF this] up show "same_options m m'"
    by (auto simp: GCSUtil_def applied_GcsError(3))
next
  fix m f e h m' e'
  assume "su_getFileHeader (GCSUtil c fi) m f e = (h, m', e')"
  then show "same_options m m'" by (simp add: GCSUtil_def gcs_header_keeps)
qed

section \<open>Resumable uploads\<close>

lemma resumableStep_answer:
  assumes "position < fileSize" "fileSize = length content"
    "gc_putChunk c url h (take MULTIPART_PART_SIZE_BYTES (drop position content)) e = (Inr r, e')"
    "h = noHeaders\<lparr>gh_authorization := bearer token,
           gh_contentLength := Some (length (take MULTIPART_PART_SIZE_BYTES (drop position content))),
           gh_contentRange := Some (contentRange position (length (take MULTIPART_PART_SIZE_BYTES (drop position content))) fileSize)\<rparr>"
  shows "resumableStep c url token content fileSize position e =
    (if gr_status r = 308 then
       (case gr_range r of
          None \<Rightarrow> (Inl (plainError ''GCS resumable 308 returned no usable Range header; cannot safely resume''), e')
        | Some (firstByte, lastByte) \<Rightarrow> (Inr (lastByte + 1), e'))
     else (Inr fileSize, e'))"
proof -
  let ?sz = "min MULTIPART_PART_SIZE_BYTES (fileSize - position)"
  have buf: "readChunk content position ?sz = Inr (take MULTIPART_PART_SIZE_BYTES (drop position content))"
    using assms(1,2) by (simp add: readChunk_ok min_def)
  have "length (take MULTIPART_PART_SIZE_BYTES (drop position content)) = ?sz" using assms(2) by simp
  then show ?thesis using assms(3) unfolding resumableStep_def Let_def buf assms(4) by simp
qed

text \<open>
  C13. A resumable upload delivers the whole file although the server may commit only a part of every
  chunk. The server is described by what it has committed: it answers 308 with the range it has, after
  taking at least one byte of a chunk that continues it, and another accepted status only when the
  file is complete.
\<close>

theorem resumable_upload_delivers_file:
  fixes committed :: "'e \<Rightarrow> bytes"
  assumes server: "\<And>h buf e. buf \<noteq> [] \<Longrightarrow>
      gh_contentRange h = Some (contentRange (length (committed e)) (length buf) (length content)) \<Longrightarrow>
      \<exists>r e'. gc_putChunk c url h buf e = (Inr r, e') \<and>
        (if gr_status r = 308 then
           \<exists>k. 0 < k \<and> k \<le> length buf \<and> committed e' = committed e @ take k buf \<and>
             gr_range r = Some (0, length (committed e) + k - 1)
         else committed e' = committed e @ buf \<and> length (committed e') = length content)"
    and start: "committed e0 = []" and fuel: "length content < fuel"
  shows "\<exists>e'. resumableLoop fuel c url token content (length content) 0 e0 = Some (None, e') \<and> committed e' = content"
proof -
  have "length content - length (committed e) < n \<Longrightarrow> committed e = take (length (committed e)) content \<Longrightarrow>
      \<exists>e'. resumableLoop n c url token content (length content) (length (committed e)) e = Some (None, e') \<and> committed e' = content"
    for n e
  proof (induction n arbitrary: e)
    case (Suc n)
    let ?p = "length (committed e)"
    have le: "?p \<le> length content" using arg_cong[OF Suc.prems(2), of length] by simp
    show ?case
    proof (cases "?p < length content")
      case True
      let ?buf = "take MULTIPART_PART_SIZE_BYTES (drop ?p content)"
      let ?h = "noHeaders\<lparr>gh_authorization := bearer token, gh_contentLength := Some (length ?buf),
           gh_contentRange := Some (contentRange ?p (length ?buf) (length content))\<rparr>"
      have ne: "?buf \<noteq> []" using True part_size_pos by (simp del: part_size_pos)
      have range: "gh_contentRange ?h = Some (contentRange ?p (length ?buf) (length content))" by simp
      from server[OF ne range] obtain r e' where
        put: "gc_putChunk c url ?h ?buf e = (Inr r, e')" and
        ans: "if gr_status r = 308 then
           \<exists>k. 0 < k \<and> k \<le> length ?buf \<and> committed e' = committed e @ take k ?buf \<and>
             gr_range r = Some (0, ?p + k - 1)
         else committed e' = committed e @ ?buf \<and> length (committed e') = length content" by blast
      note step = resumableStep_answer[OF True refl put refl]
      have pre: "committed e @ take k (drop ?p content) = take (?p + k) content" for k
        by (subst (1) Suc.prems(2)) (simp add: take_add)
      show ?thesis
      proof (cases "gr_status r = 308")
        case t308: True
        with ans obtain k where k: "0 < k" "k \<le> length ?buf" "committed e' = committed e @ take k ?buf"
          "gr_range r = Some (0, ?p + k - 1)" by auto
        have c': "committed e' = take (?p + k) content" using k(2,3) pre[of k] by simp
        have l: "length (committed e') = ?p + k" using k(2,3) by simp
        have "length content - length (committed e') < n" using Suc.prems(1) k(1) l True by linarith
        moreover have "committed e' = take (length (committed e')) content" using c' l by simp
        ultimately have "\<exists>e''. resumableLoop n c url token content (length content) (length (committed e')) e' =
            Some (None, e'') \<and> committed e'' = content" by (rule Suc.IH)
        moreover have "?p + k - 1 + 1 = length (committed e')" using k(1) l by simp
        ultimately show ?thesis using True step t308 k(4) by (simp add: l)
      next
        case False
        with ans have d: "committed e' = committed e @ ?buf" "length (committed e') = length content" by auto
        then have "committed e' = content" using pre[of MULTIPART_PART_SIZE_BYTES] by simp
        then show ?thesis using True False step d(2) Suc.prems(1) by (cases n) auto
      qed
    next
      case False
      then have "committed e = content" using le Suc.prems(2) by simp
      then show ?thesis using False by auto
    qed
  qed simp
  from this[of e0 fuel] show ?thesis using start fuel by simp
qed

text \<open>A server that commits one byte of every chunk.\<close>

definition gcsResponse :: "int \<Rightarrow> (nat \<times> nat) option \<Rightarrow> gcs_response" where
  "gcsResponse status rng =
     \<lparr>gr_status = status, gr_digest = None, gr_contentLength = None, gr_encryptiondata = None, gr_matdesc = None,
      gr_range = rng\<rparr>"

definition chunkServer :: "(string \<Rightarrow> gcs_headers \<Rightarrow> bytes \<Rightarrow> bytes \<Rightarrow> (gcs_response, bytes) io_call) \<Rightarrow> bytes gcs_client" where
  "chunkServer putChunk =
     \<lparr>gc_get = (\<lambda>_ e. (Inr (gcsResponse 200 None), e)), gc_head = (\<lambda>_ _ e. (Inr (gcsResponse 200 None), e)),
      gc_put = (\<lambda>_ _ _ e. (Inr (), e)), gc_initiate = (\<lambda>_ _ _ e. (Inr (Some ''session''), e)),
      gc_putChunk = putChunk, gc_delete = (\<lambda>_ _ e. (Inr (), e)),
      gc_download = (\<lambda>_ _ _ e. (Inr (gcsResponse 200 None), e))\<rparr>"

definition slowServer :: "bytes gcs_client" where
  "slowServer = chunkServer (\<lambda>_ _ buf e. (Inr (gcsResponse 308 (Some (0, length e))), e @ take 1 buf))"

theorem resumable_upload_delivers_file_witness:
  "resumableLoop 4 slowServer ''session'' ''token'' [1, 2, 3] 3 0 [] = Some (None, [1, 2, 3])"
proof -
  have "\<exists>e'. resumableLoop 4 slowServer ''session'' ''token'' [1, 2, 3] (length [1, 2, 3 :: 8 word]) 0 [] = Some (None, e') \<and>
      id e' = [1, 2, 3]"
  proof (rule resumable_upload_delivers_file)
    fix h :: gcs_headers and buf e :: bytes
    assume "buf \<noteq> []"
    then show "\<exists>r e'. gc_putChunk slowServer ''session'' h buf e = (Inr r, e') \<and>
        (if gr_status r = 308 then
           \<exists>k. 0 < k \<and> k \<le> length buf \<and> id e' = id e @ take k buf \<and> gr_range r = Some (0, length (id e) + k - 1)
         else id e' = id e @ buf \<and> length (id e') = length [1, 2, 3 :: 8 word])"
      by (simp add: slowServer_def chunkServer_def gcsResponse_def) (rule exI[of _ 1], simp add: Suc_leI)
  qed simp_all
  then show ?thesis by (simp add: numeral_3_eq_3)
qed

text \<open>
  A resumable upload has no bound on its requests: a server that answers 308 and always names the
  same last byte is asked again for ever.
\<close>

theorem stalled_resumable_upload_never_ends:
  assumes "\<And>h buf e. \<exists>r e'. gc_putChunk c url h buf e = (Inr r, e') \<and> gr_status r = 308 \<and> gr_range r = Some (a, b)"
    and "b + 1 < length content" "position < length content"
  shows "resumableLoop fuel c url token content (length content) position e = None"
  using assms(3)
proof (induction fuel arbitrary: position e)
  case (Suc fuel)
  obtain r e' where put: "gc_putChunk c url
      (noHeaders\<lparr>gh_authorization := bearer token,
           gh_contentLength := Some (length (take MULTIPART_PART_SIZE_BYTES (drop position content))),
           gh_contentRange := Some (contentRange position (length (take MULTIPART_PART_SIZE_BYTES (drop position content)))
             (length content))\<rparr>)
      (take MULTIPART_PART_SIZE_BYTES (drop position content)) e = (Inr r, e')" "gr_status r = 308" "gr_range r = Some (a, b)"
    using assms(1) by blast
  show ?case
    using Suc.prems resumableStep_answer[OF Suc.prems refl put(1) refl] Suc.IH[OF assms(2)] by (simp add: put(2,3))
qed simp

definition stuckServer :: "bytes gcs_client" where
  "stuckServer = chunkServer (\<lambda>_ _ buf e. (Inr (gcsResponse 308 (Some (0, 0))), e))"

theorem stalled_resumable_upload_never_ends_witness:
  "resumableLoop 1000 stuckServer ''session'' ''token'' [1, 2, 3] (length [1, 2, 3 :: 8 word]) 0 [] = None"
  by (rule stalled_resumable_upload_never_ends[of stuckServer _ 0 0])
    (simp_all add: stuckServer_def chunkServer_def gcsResponse_def)

section \<open>Credentials\<close>

text \<open>
  An expired access token is not renewed when the HTTP library puts a text into the code of its
  errors, as it does for every response outside 2xx: the code hides the status 401, the upload is sent
  five times with the same token, and the text of the error is thrown.
\<close>

theorem text_code_hides_expired_token:
  assumes code: "se_code x = Some (CodeText t)" "t \<noteq> []"
    and put: "\<And>u h b e. fst (gc_put c u h b e) = Inl x"
    and data: "\<And>e. \<exists>n content. fi_stat fi (m_realSrcFilePath m) e = Inr n \<and> fi_read fi (m_realSrcFilePath m) e = Inr content"
    and m: "m_overwrite m" "m_encryptionMaterial m = None" "m_presignedUrl m = None" "m_clientToken m = Some token"
  shows "\<exists>m' e' tr. uploadOneFile (GCSUtil c fi) encrypt m e = (Inl (TransferError (se_text x)), m', e', tr) \<and>
    length (uploads tr) = 5 \<and> m_resultStatus m' = Some NEED_RETRY"
proof -
  let ?P = "\<lambda>m. m_overwrite m \<and> m_presignedUrl m = None \<and> m_clientToken m = Some token"
  have retry: "m_resultStatus (applyGcsUploadError x b m1) = Some NEED_RETRY" "m_lastError (applyGcsUploadError x b m1) = Some x"
    "m_overwrite (applyGcsUploadError x b m1) = m_overwrite m1" "m_presignedUrl (applyGcsUploadError x b m1) = m_presignedUrl m1"
    "m_clientToken (applyGcsUploadError x b m1) = m_clientToken m1" for b m1
    using code by (simp_all add: applyGcsUploadError_def httpCode_def truthyCode_def)
  have up: "\<exists>m' e'. su_uploadFile (GCSUtil c fi) (m_realSrcFilePath m) m1 None k e1 = (Inr (), m', e') \<and> ?P m' \<and>
      m_resultStatus m' = Some NEED_RETRY \<and> m_lastError m' = Some x" if "?P m1" for m1 e1 k
  proof -
    obtain n content where f: "fi_stat fi (m_realSrcFilePath m) e1 = Inr n" "fi_read fi (m_realSrcFilePath m) e1 = Inr content"
      using data by blast
    have "\<exists>b e'. gcs_uploadFileStream c (Some n) content m1 None e1 = (Inr (), applyGcsUploadError x b m1, e')"
      using that put by (auto simp: gcs_uploadFileStream_def Let_def split: prod.splits sum.splits) (metis fst_conv sum.distinct(1) sum.inject(1))+
    then show ?thesis using that f retry by (auto simp: GCSUtil_def gcs_uploadFile_def)
  qed
  show ?thesis
    using retries_exhausted[where P = ?P and x = x, OF up, of m DEFAULT_MAX_RETRY] m
    by (simp add: uploadOneFile_def uploadData_def DEFAULT_MAX_RETRY_def)
qed

definition sampleStage :: stage_info where
  "sampleStage =
     \<lparr>si_locationType = ''GCS'', si_location = ''bucket/dir'', si_region = ''us-central1'', si_endPoint = None,
      si_storageAccount = [], si_useRegionalUrl = False, si_useS3RegionalUrl = False, si_useVirtualUrl = False,
      si_gcsToken = None, si_sasToken = [], si_presignedUrl = None\<rparr>"

definition sampleMeta :: "bool \<Rightarrow> string option \<Rightarrow> string option \<Rightarrow> meta" where
  "sampleMeta overwrite presignedUrl token =
     \<lparr>m_srcFileName = ''a.csv'', m_dstFileName = ''a.csv'', m_srcFilePath = ''/tmp/a.csv'',
      m_realSrcFilePath = ''/tmp/a.csv'', m_srcFileSize = Some 3, m_dstFileSize = None, m_uploadSize = 3, m_digest = ''d'',
      m_parallel = 1, m_overwrite = overwrite, m_requireCompress = False, m_srcCompressionType = None,
      m_dstCompressionType = None, m_encryptionMaterial = None, m_stageLocationType = ''GCS'', m_stageInfo = sampleStage,
      m_localLocation = [], m_presignedUrl = presignedUrl, m_clientToken = token, m_resultStatus = None,
      m_lastError = None, m_lastMaxConcurrency = None, m_noSleepingTime = False, m_errorDetails = None,
      m_headerDigest = None, m_headerLength = None, m_headerEncryption = None\<rparr>"

definition sampleDisk :: "'e file_io" where
  "sampleDisk = \<lparr>fi_stat = \<lambda>_ _. Inr 3, fi_read = \<lambda>_ _. Inr [1, 2, 3], fi_write = \<lambda>_ _ e. (None, e)\<rparr>"

definition unauthorized :: storage_error where
  "unauthorized =
     \<lparr>se_Code = None, se_name = ''AxiosError'', se_code = Some (CodeText ''ERR_BAD_REQUEST''), se_statusCode = None,
      se_response = Some 401, se_text = ''AxiosError: Request failed with status code 401''\<rparr>"

definition rejectingServer :: "bytes gcs_client" where
  "rejectingServer = slowServer\<lparr>gc_put := \<lambda>_ _ _ e. (Inl unauthorized, e)\<rparr>"

theorem text_code_hides_expired_token_witness:
  "\<exists>m' e' tr. uploadOneFile (GCSUtil rejectingServer sampleDisk) (\<lambda>_ _ e. (Inl (TransferError []), e))
      (sampleMeta True None (Some ''token'')) [] =
      (Inl (TransferError ''AxiosError: Request failed with status code 401''), m', e', tr) \<and>
    length (uploads tr) = 5 \<and> m_resultStatus m' = Some NEED_RETRY"
  using text_code_hides_expired_token[of unauthorized "''ERR_BAD_REQUEST''" rejectingServer sampleDisk
      "sampleMeta True None (Some ''token'')" "''token''"]
  by (simp add: unauthorized_def rejectingServer_def sampleDisk_def sampleMeta_def)

text \<open>
  With presigned urls a file that already exists is not skipped: without overwriting, the look-up
  leaves the status unset, nothing is uploaded in any of the five attempts, and an unknown error is
  thrown, where S3 and Azure report the file as skipped.
\<close>

theorem presigned_existing_file_fails:
  assumes found: "\<And>u e. \<exists>r e'. gc_get c u e = (Inr r, e')"
    and m: "\<not> m_overwrite m" "nonempty_str (m_presignedUrl m)" "m_resultStatus m = None" "m_encryptionMaterial m = None"
  shows "\<exists>e' tr. uploadOneFile (GCSUtil c fi) encrypt m e =
      (Inl (TransferError (''Unknown Error in uploading a file: '' @ m_realSrcFilePath m)), m, e', tr) \<and> uploads tr = []"
proof -
  have "\<exists>e'. attempt (GCSUtil c fi) (m_realSrcFilePath m) None (m_parallel m) m e = (Inr False, m, e', [Checked])" for e
  proof -
    obtain r e' where "gc_get c (the (m_presignedUrl m)) e = (Inr r, e')" using found by blast
    then show ?thesis using m by (simp add: attempt_def GCSUtil_def gcs_getFileHeader_def Let_def)
  qed
  from idle_attempts[OF this] show ?thesis using m by (simp add: uploadOneFile_def uploadData_def)
qed

theorem presigned_existing_file_fails_witness:
  "\<exists>e' tr. uploadOneFile (GCSUtil slowServer sampleDisk) (\<lambda>_ _ e. (Inl (TransferError []), e))
      (sampleMeta False (Some ''https://x'') None) [] =
      (Inl (TransferError ''Unknown Error in uploading a file: /tmp/a.csv''), sampleMeta False (Some ''https://x'') None, e', tr) \<and>
    uploads tr = []"
  using presigned_existing_file_fails[of slowServer "sampleMeta False (Some ''https://x'') None"]
  by (simp add: slowServer_def chunkServer_def sampleMeta_def)

end
