(* ===== verification/StorageProps.thy ===== *)
theory StorageProps
  imports GcsModel
begin

text \<open>
  Properties of the storages and of uploading one file: what is sent, in how many requests, what the
  object keeps of the file, and how a transfer can end.
\<close>

section \<open>Parts\<close>

lemma sendAll_done:
  assumes "\<And>n buf e p e'. send n buf e = (Inr p, e') \<Longrightarrow> p = f n"
  shows "sendAll send parts ps e = (None, qs, e') \<Longrightarrow> qs = ps @ map (f \<circ> fst) parts"
proof (induction parts arbitrary: ps e)
  case (Cons part parts)
  obtain n buf where part: "part = (n, buf)" by (cases part)
  obtain p e1 where s: "send n buf e = (Inr p, e1)" "sendAll send parts (ps @ [p]) e1 = (None, qs, e')"
    using Cons.prems by (auto simp: part split: prod.splits sum.splits)
  show ?case using Cons.IH[OF s(2)] assms[OF s(1)] by (simp add: part)
qed simp

text \<open>
  C15. A multipart upload to S3 sends the file exactly once and in order: it does what sending a list of
  parts one after the other and completing the upload does, where the parts make up the file, are
  numbered from one, and all but the last have the full size.
\<close>

theorem s3_parts_cover_file:
  assumes "fi_read fi dataFile e = Inr content"
  shows "let parts = partsFrom 1 content;
             send = (\<lambda>n buf e. case s3_uploadPart c si bucket key uid n buf e of
                                (Inl x, e') \<Rightarrow> (Inl x, e') | (Inr etag, e') \<Rightarrow> (Inr (etag, n), e'))
         in s3_sendParts c fi si bucket key dataFile (length content) uid e =
              (case sendAll send parts [] e of
                 (Some x, ps, e') \<Rightarrow> (Some x, e')
               | (None, ps, e') \<Rightarrow> (case s3_completeMultipartUpload c si bucket key uid ps e' of
                                      (Inl x, e'') \<Rightarrow> (Some x, e'') | (Inr _, e'') \<Rightarrow> (None, e''))) \<and>
            concat (map snd parts) = content \<and> map fst parts = [1..<length parts + 1] \<and>
            (\<forall>p\<in>set parts. snd p \<noteq> [] \<and> length (snd p) \<le> MULTIPART_PART_SIZE_BYTES) \<and>
            (\<forall>p\<in>set (butlast parts). length (snd p) = MULTIPART_PART_SIZE_BYTES)"
proof -
  have "map fst (partsFrom 1 content) = [1..<length (partsFrom 1 content) + 1]"
    using part_numbers[of 1 content] by (simp add: add.commute)
  moreover have "\<forall>p\<in>set (partsFrom 1 content). snd p \<noteq> []" using part_sizes[of 1 content] by force
  ultimately show ?thesis
    using assms part_sizes[of 1 content] concat_parts[of 1 content] inner_parts_full[of 1 content]
    by (simp add: Let_def s3_sendParts_def partLoop_sendAll)
qed

text \<open>
  The block list an Azure upload commits names the blocks of the whole file in order, with block ids
  that differ from each other and all have sixteen characters, for up to ten thousand million blocks.
\<close>

theorem azure_block_list_valid:
  assumes "fi_read fi dataFile e = Inr content" "length (partsFrom 1 content) < 10 ^ 10"
    "az_sendBlocks c fi si container blob md dataFile (length content) e = (None, ids, e')"
  shows "ids = map (blockId \<circ> fst) (partsFrom 1 content) \<and> concat (map snd (partsFrom 1 content)) = content \<and>
    distinct ids \<and> (\<forall>i\<in>set ids. length i = 16)"
proof -
  let ?parts = "partsFrom 1 content"
  let ?send = "\<lambda>n buf e. case az_stageBlock c si container blob (blockId n) buf e of
      (Inl x, e') \<Rightarrow> (Inl x, e') | (Inr _, e') \<Rightarrow> (Inr (blockId n), e')"
  obtain e2 where "partLoop ?send content (length content) 0 1 [] e = (None, ids, e2)"
    using assms(1,3) by (auto simp: az_sendBlocks_def split: prod.splits sum.splits option.splits)
  then have sent: "sendAll ?send ?parts [] e = (None, ids, e2)" by (simp add: partLoop_sendAll)
  have "\<And>n buf e p e'. ?send n buf e = (Inr p, e') \<Longrightarrow> p = blockId n" by (auto split: prod.splits sum.splits)
  from sendAll_done[of ?send blockId, OF this sent] have ids: "ids = map (blockId \<circ> fst) ?parts" by simp
  have nums: "map fst ?parts = [1..<1 + length ?parts]" by (rule part_numbers)
  have "\<forall>n\<in>set (map fst ?parts). n < 10 ^ 10" unfolding nums using assms(2) by auto
  then have "inj_on blockId (set (map fst ?parts))" by (intro inj_onI) (metis blockId_inject)
  moreover have "distinct (map fst ?parts)" unfolding nums by simp
  ultimately have "distinct (map blockId (map fst ?parts))" by (simp only: distinct_map simp_thms)
  moreover have "\<forall>i\<in>set (map blockId (map fst ?parts)). length i = 16"
    using \<open>\<forall>n\<in>set (map fst ?parts). n < 10 ^ 10\<close> by (auto simp: length_blockId)
  ultimately show ?thesis using ids concat_parts by simp
qed

text \<open>Stores that accept everything and keep the bytes they got.\<close>

definition sampleS3 :: "bytes s3_client" where
  "sampleS3 =
     \<lparr>s3_headObject = (\<lambda>_ _ _ e. (Inr ([], length e), e)), s3_putObject = (\<lambda>_ _ _ _ buf e. (Inr (), buf)),
      s3_createMultipartUpload = (\<lambda>_ _ _ _ e. (Inr ''id'', e)), s3_uploadPart = (\<lambda>_ _ _ _ _ buf e. (Inr ''tag'', e @ buf)),
      s3_completeMultipartUpload = (\<lambda>_ _ _ _ _ e. (Inr (), e)), s3_abortMultipartUpload = (\<lambda>_ _ _ _ e. (Inr (), [])),
      s3_getObject = (\<lambda>_ _ _ e. (Inr e, e))\<rparr>"

definition sampleAzure :: "bytes azure_client" where
  "sampleAzure =
     \<lparr>az_getProperties = (\<lambda>_ _ _ e. (Inr (\<lparr>az_sfcdigest = None, az_encryptiondata = None, az_matdesc = None\<rparr>, length e), e)),
      az_stageBlock = (\<lambda>_ _ _ _ buf e. (Inr (), e @ buf)), az_commitBlockList = (\<lambda>_ _ _ _ _ e. (Inr (), e)),
      az_deleteIfExists = (\<lambda>_ _ _ e. (Inr (), [])), az_upload = (\<lambda>_ _ _ buf _ e. (Inr (), buf)),
      az_uploadStream = (\<lambda>_ _ _ buf _ _ e. (Inr (), buf)), az_download = (\<lambda>_ _ _ e. (Inr e, e))\<rparr>"

lemma parts_of_sample: "partsFrom (Suc 0) [1, 2, 3 :: 8 word] = [(Suc 0, [1, 2, 3])]"
  by (simp add: partsFrom.simps MULTIPART_PART_SIZE_BYTES_def)

theorem s3_parts_cover_file_witness:
  "s3_sendParts sampleS3 sampleDisk sampleStage ''bucket'' ''key'' ''f'' (length [1, 2, 3 :: 8 word]) ''id'' [] = (None, [1, 2, 3])"
  using s3_parts_cover_file[of sampleDisk "''f''" "[]" "[1, 2, 3]" sampleS3 sampleStage "''bucket''" "''key''" "''id''"]
  by (simp add: sampleDisk_def parts_of_sample sampleS3_def Let_def)

lemma show_nat_1: "show_nat 1 = ''1''"
  by code_simp

theorem azure_block_list_valid_witness:
  "blockId 1 = ''MDAwMDAwMDAwMQ=='' \<and>
   fst (snd (az_sendBlocks sampleAzure sampleDisk sampleStage ''c'' ''b'' (buildAzureMetadata (sampleMeta True None None) None)
     ''f'' (length [1, 2, 3 :: 8 word]) [])) = [blockId 1]"
proof -
  let ?md = "buildAzureMetadata (sampleMeta True None None) None"
  have d: "fi_read sampleDisk ''f'' ([] :: bytes) = Inr [1, 2, 3]" by (simp add: sampleDisk_def)
  have run: "az_sendBlocks sampleAzure sampleDisk sampleStage ''c'' ''b'' ?md ''f'' (length [1, 2, 3 :: 8 word]) [] =
      (None, [blockId 1], [1, 2, 3])"
    unfolding az_sendBlocks_def d sum.case partLoop_sendAll by (simp add: parts_of_sample sampleAzure_def)
  from azure_block_list_valid[OF d _ run] have "[blockId 1] = map (blockId \<circ> fst) (partsFrom 1 [1, 2, 3 :: 8 word])"
    by (simp add: parts_of_sample)
  moreover have "padStart 10 CHR ''0'' ''1'' = ''0000000001''" by (simp add: padStart_def numeral_eq_Suc)
  moreover have "base64 ''0000000001'' = ''MDAwMDAwMDAwMQ==''" by (simp add: base64_digit_def Let_def)
  ultimately show ?thesis unfolding run blockId_def show_nat_1 by (simp only: fst_conv snd_conv simp_thms)
qed

section \<open>Metadata of an object\<close>

text \<open>
  What an upload stores with an object is read back as it was for the encryption, on both stores. The
  digest is read back from Azure but never from S3, where it is written under another name.
\<close>

theorem object_metadata_roundtrip:
  assumes "en_key x \<noteq> []"
  shows "az_header (buildAzureMetadata m (Some (encMetadata (en_key x) (en_iv x) (en_matDesc x)))) n =
      Inr (FileHeader (Some (m_digest m)) (Some n) (Some (encMetadata (en_key x) (en_iv x) (en_matDesc x)))) \<and>
    s3_header (buildS3Metadata m (Some (encMetadata (en_key x) (en_iv x) (en_matDesc x)))) n =
      FileHeader None (Some n) (Some (encMetadata (en_key x) (en_iv x) (en_matDesc x))) \<and>
    az_header (buildAzureMetadata m None) n = Inr (FileHeader (Some (m_digest m)) (Some n) None) \<and>
    s3_header (buildS3Metadata m None) n = FileHeader None (Some n) None"
  using assms
  by (simp add: az_header_def buildAzureMetadata_def s3_header_def buildS3Metadata_def metaEntry_def encMetadata_def)

section \<open>Uploading over a file\<close>

lemma s3_never_throws: "\<not> isl (fst (su_uploadFile (S3Util False tilde c fi) d m em k e))"
  by (auto simp: S3Util_def s3_uploadFile_def s3_uploadFileStream_def split: sum.splits prod.splits)

text \<open>
  Uploading over a file on S3 always ends: after at most five uploads, each with a concurrency between
  one and the one asked for, and pauses of at most 31 milliseconds together, the file is there, the
  token has to be renewed, or the text of the last error of the store is thrown after five uploads.
\<close>

theorem s3_overwrite_outcome:
  assumes "m_overwrite m" "m_encryptionMaterial m = None" "1 \<le> m_parallel m"
  shows "case uploadOneFile (S3Util False tilde c fi) encrypt m e of (r, m', e', tr) \<Rightarrow>
    length (uploads tr) \<le> 5 \<and> (\<forall>k\<in>set (uploads tr). 1 \<le> k \<and> k \<le> m_parallel m) \<and> sum_list (pauses tr) \<le> 31 \<and>
    ((r = Inr () \<and> m_resultStatus m' \<in> Some ` {UPLOADED, RENEW_TOKEN, RENEW_PRESIGNED_URL}) \<or>
     (\<exists>x. m_lastError m' = Some x \<and> r = Inl (TransferError (se_text x)) \<and> length (uploads tr) = 5))"
proof -
  let ?su = "S3Util False tilde c fi"
  obtain r m' e' tr where u: "uploadAttempts ?su (m_realSrcFilePath m) None
      (''Unknown Error in uploading a file: '' @ m_realSrcFilePath m) DEFAULT_MAX_RETRY (m_parallel m) None m e = (r, m', e', tr)"
    by (metis prod_cases4)
  have one: "uploadOneFile ?su encrypt m e = (r, m', e', tr)" using u assms(2) by (simp add: uploadOneFile_def uploadData_def)
  note b = uploadAttempts_bounded[OF u order.refl]
  have "\<forall>k\<in>set (uploads tr). 1 \<le> k \<and> k \<le> m_parallel m"
    using s3.concurrency_in_range[OF u assms(3)] assms(3) by (simp add: max_def)
  then show ?thesis
    using one b s3.overwriting_outcome[OF u assms(1) _ s3_never_throws] by (auto simp: DEFAULT_MAX_RETRY_def)
qed

theorem object_metadata_roundtrip_witness:
  "s3_header (buildS3Metadata (sampleMeta True None None) (Some (encMetadata ''k'' ''v'' (Some ''d'')))) 3 =
     FileHeader None (Some 3) (Some (encMetadata ''k'' ''v'' (Some ''d'')))"
  using object_metadata_roundtrip[of "encMetadata ''k'' ''v'' (Some ''d'')" "sampleMeta True None None" 3]
  by (simp add: encMetadata_def)

theorem s3_overwrite_outcome_witness:
  "case uploadOneFile (S3Util False (\<lambda>s. s) (sampleS3\<lparr>s3_putObject := \<lambda>_ _ _ _ _ e. (Inl unauthorized, e)\<rparr>) sampleDisk)
      (\<lambda>_ _ e. (Inl (TransferError []), e)) (sampleMeta True None None) [] of
    (r, m', e', tr) \<Rightarrow> length (uploads tr) \<le> 5 \<and> sum_list (pauses tr) \<le> 31 \<and>
      (r = Inr () \<or> length (uploads tr) = 5)"
  using s3_overwrite_outcome[of "sampleMeta True None None" "\<lambda>s. s"
      "sampleS3\<lparr>s3_putObject := \<lambda>_ _ _ _ _ e. (Inl unauthorized, e)\<rparr>" sampleDisk
      "\<lambda>_ _ e. (Inl (TransferError []), e)" "[]"]
  by (auto simp: sampleMeta_def split: prod.splits)

text \<open>
  An uploaded file that the store does not show is not uploaded again: it is looked up ten times, ten
  seconds long, and the transfer returns normally with the status that the file was not found.
\<close>

theorem vanished_upload_not_retried:
  assumes up: "uploadOneFile su encrypt m e = (Inr (), m1, e1, tr1)" "m_resultStatus m1 = Some UPLOADED"
    and missing: "\<And>m e. \<exists>h m' e'. su_getFileHeader su m (m_dstFileName m1) e = (Inr h, m', e') \<and>
      m_resultStatus m' = Some NOT_FOUND_FILE \<and> m_dstFileName m' = m_dstFileName m"
  shows "\<exists>m' e' tr. uploadOneFileWithRetry su encrypt m e = (Inr (), m', e', tr1 @ tr) \<and>
    m_resultStatus m' = Some NOT_FOUND_FILE \<and> uploads tr = [] \<and> sum_list (pauses tr) = 10000"
  using verifyUpload_missing[OF missing refl, of 10 e1] up by (auto simp: uploadOneFileWithRetry_def)

definition missingS3 :: "bytes s3_client" where
  "missingS3 = sampleS3\<lparr>s3_headObject := \<lambda>_ _ _ e.
     (Inl \<lparr>se_Code = None, se_name = ''NotFound'', se_code = None, se_statusCode = None, se_response = None, se_text = []\<rparr>, e)\<rparr>"

theorem vanished_upload_not_retried_witness:
  "\<exists>m' e' tr. uploadOneFileWithRetry (S3Util False (\<lambda>s. s) missingS3 sampleDisk) (\<lambda>_ _ e. (Inl (TransferError []), e))
      (sampleMeta True None None) [] = (Inr (), m', e', [Sent 1] @ tr) \<and>
    m_resultStatus m' = Some NOT_FOUND_FILE \<and> uploads tr = [] \<and> sum_list (pauses tr) = 10000"
proof (rule vanished_upload_not_retried)
  show "uploadOneFile (S3Util False (\<lambda>s. s) missingS3 sampleDisk) (\<lambda>_ _ e. (Inl (TransferError []), e))
      (sampleMeta True None None) [] = (Inr (), uploadedMeta (sampleMeta True None None), [1, 2, 3], [Sent 1])"
    by (simp add: uploadOneFile_def uploadData_def sampleMeta_def DEFAULT_MAX_RETRY_def eval_nat_numeral attempt_def S3Util_def
        s3_uploadFile_def sampleDisk_def s3_uploadFileStream_def missingS3_def sampleS3_def uploadedMeta_def)
qed (simp_all add: S3Util_def s3_getFileHeader_def missingS3_def s3_headerError_def)

end
