(* ===== verification/FileUtilModel.thy ===== *)
theory FileUtilModel
  imports FileTransferTypes "HOL-Library.Word"
begin

text \<open>
  \<open>lib/file_util.js\<close>: the file names a wildcard stands for, the normalised header of a compressed file,
  and the checks of the permissions of files that hold secrets.
\<close>

section \<open>Wildcards\<close>

text \<open>The items of the regular expression \<open>globToRegex\<close> builds.  A dot does not match the end of a line.\<close>

datatype regex_item = Literal char | AnyChar | NotDot | AnyChars

definition lineEnd :: "char \<Rightarrow> bool" where
  "lineEnd c \<longleftrightarrow> of_char c = (10 :: nat) \<or> of_char c = (13 :: nat)"

definition globItem :: "nat \<Rightarrow> char \<Rightarrow> regex_item list" where
  "globItem i c =
     (if c = CHR ''*'' then (if i = 0 then [NotDot, AnyChars] else [AnyChars])
      else if c = CHR ''?'' then (if i = 0 then [NotDot] else [AnyChar])
      else [Literal c])"

definition globToRegex :: "string \<Rightarrow> regex_item list" where
  "globToRegex pattern = concat (map (\<lambda>(i, c). globItem i c) (enumerate 0 pattern))"

fun regexTest :: "regex_item list \<Rightarrow> string \<Rightarrow> bool" where
  "regexTest [] s \<longleftrightarrow> s = []"
| "regexTest (Literal c # r) s \<longleftrightarrow> (case s of [] \<Rightarrow> False | x # xs \<Rightarrow> x = c \<and> regexTest r xs)"
| "regexTest (AnyChar # r) s \<longleftrightarrow> (case s of [] \<Rightarrow> False | x # xs \<Rightarrow> \<not> lineEnd x \<and> regexTest r xs)"
| "regexTest (NotDot # r) s \<longleftrightarrow> (case s of [] \<Rightarrow> False | x # xs \<Rightarrow> x \<noteq> CHR ''.'' \<and> regexTest r xs)"
| "regexTest (AnyChars # r) s \<longleftrightarrow>
     list_ex (\<lambda>k. list_all (\<lambda>c. \<not> lineEnd c) (take k s) \<and> regexTest r (drop k s)) [0..<Suc (length s)]"

text \<open>A directory that cannot be read has no matching files.\<close>

definition getMatchingFilePaths :: "(string \<Rightarrow> string list option) \<Rightarrow> string \<Rightarrow> string \<Rightarrow> string list" where
  "getMatchingFilePaths readdir dir fileName =
     (case readdir dir of
        None \<Rightarrow> []
      | Some files \<Rightarrow> map (joinPath dir) (filter (regexTest (globToRegex fileName)) files))"

text \<open>The usual meaning of a wildcard pattern, for names without line ends.\<close>

fun globMatch :: "string \<Rightarrow> string \<Rightarrow> bool" where
  "globMatch [] s \<longleftrightarrow> s = []"
| "globMatch (p # ps) s \<longleftrightarrow>
     (if p = CHR ''*'' then list_ex (\<lambda>k. globMatch ps (drop k s)) [0..<Suc (length s)]
      else case s of [] \<Rightarrow> False | x # xs \<Rightarrow> (p = CHR ''?'' \<or> x = p) \<and> globMatch ps xs)"

definition plainName :: "string \<Rightarrow> bool" where
  "plainName s \<longleftrightarrow> list_all (\<lambda>c. \<not> lineEnd c) s"

lemma plainName_simps [simp]:
  "plainName []" "plainName (c # s) \<longleftrightarrow> \<not> lineEnd c \<and> plainName s"
  "plainName s \<Longrightarrow> plainName (take k s)" "plainName s \<Longrightarrow> plainName (drop k s)"
  by (auto simp: plainName_def list_all_iff dest: in_set_takeD in_set_dropD)

lemma later_items:
  "0 < i \<Longrightarrow> plainName s \<Longrightarrow>
     regexTest (concat (map (\<lambda>(i, c). globItem i c) (enumerate i ps))) s = globMatch ps s"
proof (induction ps arbitrary: i s)
  case (Cons p ps)
  have "list_all (\<lambda>c. \<not> lineEnd c) (take k s)" for k
    using plainName_simps(3)[OF Cons.prems(2), of k] by (simp add: plainName_def)
  then show ?case
    using Cons by (cases s) (auto simp: globItem_def list_ex_iff)
qed simp

text \<open>
  A wildcard means what it usually does, hidden files aside, except at the start of a pattern: there a
  star stands for at least one character. So \<open>*data.csv\<close> does not match \<open>data.csv\<close>.
\<close>

theorem wildcards_match:
  assumes "plainName s"
  shows "regexTest (globToRegex (p # ps)) s =
    (if p = CHR ''*'' then s \<noteq> [] \<and> hd s \<noteq> CHR ''.'' \<and> globMatch (p # ps) (tl s)
     else if p = CHR ''?'' then s \<noteq> [] \<and> hd s \<noteq> CHR ''.'' \<and> globMatch (p # ps) s
     else globMatch (p # ps) s)"
proof (cases s)
  case (Cons x xs)
  define R where "R = concat (map (\<lambda>(i, c). globItem i c) (enumerate (Suc 0) ps))"
  have R: "globToRegex (p # ps) = globItem 0 p @ R" by (simp add: globToRegex_def R_def)
  have xs: "plainName xs" using assms Cons by simp
  have line: "list_all (\<lambda>c. \<not> lineEnd c) (take k xs)" for k
    using plainName_simps(3)[OF xs, of k] by (simp add: plainName_def)
  have tl: "regexTest R (drop k xs) = globMatch ps (drop k xs)" "regexTest R xs = globMatch ps xs" for k
    unfolding R_def using xs by (simp_all add: later_items)
  show ?thesis
    unfolding R Cons by (cases "p = CHR ''*''"; cases "p = CHR ''?''")
      (simp_all add: globItem_def line tl list_ex_iff del: upt_Suc)
qed (simp add: globToRegex_def globItem_def)

theorem wildcards_match_witness:
  "regexTest (globToRegex ''*a.csv'') ''ba.csv'' \<and> \<not> regexTest (globToRegex ''*a.csv'') ''a.csv''"
  using wildcards_match[of "''ba.csv''" "CHR ''*''" "''a.csv''"] wildcards_match[of "''a.csv''" "CHR ''*''" "''a.csv''"]
  by (simp add: plainName_def lineEnd_def list_ex_iff eval_nat_numeral upt_rec)

section \<open>Permissions\<close>

text \<open>
  \<open>validateNoExtraPermissionsForOthers\<close> with the mode as a 32-bit integer.  \<open>skip\<close> is Windows or the
  variable that switches the check off; a missing file is accepted.
\<close>

record file_stats =
  st_mode :: "32 word"
  st_uid :: nat

datatype permission_error = IsExecutable | WritableByOthers | OwnerCannotAccess | WrongOwner | StatError string

definition permissionBits :: "32 word \<Rightarrow> 32 word" where
  "permissionBits mode = and mode 0x1FF"

definition readableByOthers :: "32 word \<Rightarrow> bool" where
  "readableByOthers mode \<longleftrightarrow> and (permissionBits mode) 36 \<noteq> 0"

definition validatePermissions :: "nat \<Rightarrow> file_stats \<Rightarrow> permission_error + unit" where
  "validatePermissions uid stats =
     (let permission = permissionBits (st_mode stats)
      in if and permission 73 \<noteq> 0 then Inl IsExecutable
         else if and permission 18 \<noteq> 0 then Inl WritableByOthers
         else if and permission 384 \<noteq> 384 then Inl OwnerCannotAccess
         else if st_uid stats \<noteq> uid then Inl WrongOwner
         else Inr ())"

definition validateNoExtraPermissionsForOthers ::
  "bool \<Rightarrow> nat \<Rightarrow> string + file_stats \<Rightarrow> permission_error + unit"
where
  "validateNoExtraPermissionsForOthers skip uid stat =
     (if skip then Inr ()
      else (case stat of
              Inl code \<Rightarrow> if code = ''ENOENT'' then Inr () else Inl (StatError code)
            | Inr stats \<Rightarrow> validatePermissions uid stats))"

text \<open>\<open>getSecureHandle\<close>: the handle, or \<open>None\<close> for a file that is not there.\<close>

definition getSecureHandle ::
  "bool \<Rightarrow> nat \<Rightarrow> string + ('h \<times> file_stats) \<Rightarrow> permission_error + 'h option"
where
  "getSecureHandle skip uid opened =
     (case opened of
        Inl code \<Rightarrow> if code = ''ENOENT'' then Inr None else Inl (StatError code)
      | Inr (handle, stats) \<Rightarrow>
          if skip then Inr (Some handle)
          else if permissionBits (st_mode stats) \<noteq> 384 then Inl OwnerCannotAccess
          else if st_uid stats \<noteq> uid then Inl WrongOwner
          else Inr (Some handle))"

definition isFileModeCorrect :: "bool \<Rightarrow> file_stats \<Rightarrow> 32 word \<Rightarrow> bool" where
  "isFileModeCorrect windows stats expectedMode \<longleftrightarrow>
     windows \<or> and (st_mode stats) (push_bit 9 1 - 1) = expectedMode"

text \<open>\<open>generateChecksum\<close>: the first 32 characters of a digest.\<close>

definition generateChecksum :: "(string \<Rightarrow> string) \<Rightarrow> string \<Rightarrow> string" where
  "generateChecksum digest txt = take 32 (digest txt)"

text \<open>\<open>normalizeGzipHeader\<close> clears the four bytes of the time, also of a file that is too short.\<close>

definition normalizeGzipHeader :: "8 word list \<Rightarrow> 8 word list" where
  "normalizeGzipHeader bs = take 4 bs @ replicate (4 - length bs) 0 @ replicate 4 0 @ drop 8 bs"

text \<open>The masks of the code, bit by bit.\<close>

lemma single_bits:
  "and (m :: 32 word) 1 = 0 \<longleftrightarrow> \<not> bit m 0" "and m 2 = 0 \<longleftrightarrow> \<not> bit m 1" "and m 8 = 0 \<longleftrightarrow> \<not> bit m 3"
  "and m 16 = 0 \<longleftrightarrow> \<not> bit m 4" "and m 64 = 0 \<longleftrightarrow> \<not> bit m 6" "and m 128 = 0 \<longleftrightarrow> \<not> bit m 7" "and m 256 = 0 \<longleftrightarrow> \<not> bit m 8"
  using bit_iff_and_push_bit_not_eq_0[of m 0] bit_iff_and_push_bit_not_eq_0[of m 1] bit_iff_and_push_bit_not_eq_0[of m 3]
    bit_iff_and_push_bit_not_eq_0[of m 4] bit_iff_and_push_bit_not_eq_0[of m 6] bit_iff_and_push_bit_not_eq_0[of m 7]
    bit_iff_and_push_bit_not_eq_0[of m 8] by simp_all

lemma set_single_bit: "bit (m :: 32 word) n \<Longrightarrow> and m (push_bit n 1) = push_bit n 1"
  by (rule bit_eqI) (auto simp: bit_simps)

lemma mask_bits:
  "and (permissionBits m) 73 = 0 \<longleftrightarrow> \<not> bit m 0 \<and> \<not> bit m 3 \<and> \<not> bit m 6"
  "and (permissionBits m) 18 = 0 \<longleftrightarrow> \<not> bit m 1 \<and> \<not> bit m 4"
  "and (permissionBits m) 384 = 384 \<longleftrightarrow> bit m 7 \<and> bit m 8"
proof -
  have "and (permissionBits m) 73 = and m (or 1 (or 8 64))" unfolding permissionBits_def by (simp add: and.assoc)
  then show "and (permissionBits m) 73 = 0 \<longleftrightarrow> \<not> bit m 0 \<and> \<not> bit m 3 \<and> \<not> bit m 6"
    by (simp only: bit.conj_disj_distrib or_eq_0_iff single_bits)
  have "and (permissionBits m) 18 = and m (or 2 16)" unfolding permissionBits_def by (simp add: and.assoc)
  then show "and (permissionBits m) 18 = 0 \<longleftrightarrow> \<not> bit m 1 \<and> \<not> bit m 4"
    by (simp only: bit.conj_disj_distrib or_eq_0_iff single_bits)
  have e: "and (permissionBits m) 384 = or (and m 128) (and m 256)"
    unfolding permissionBits_def by (simp add: and.assoc flip: bit.conj_disj_distrib)
  have "and m 128 = (if bit m 7 then 128 else 0)" "and m 256 = (if bit m 8 then 256 else 0)"
    using set_single_bit[of m 7] set_single_bit[of m 8] single_bits(6,7)[of m] by simp_all
  then show "and (permissionBits m) 384 = 384 \<longleftrightarrow> bit m 7 \<and> bit m 8" unfolding e by simp
qed

text \<open>
  A file of secrets is accepted exactly when it belongs to the user, the owner may read and write it,
  nobody may execute it and nobody else may write it; others may read it.
\<close>

theorem accepted_permissions:
  "validateNoExtraPermissionsForOthers False uid (Inr stats) = Inr () \<longleftrightarrow>
     st_uid stats = uid \<and> bit (st_mode stats) 7 \<and> bit (st_mode stats) 8 \<and>
     \<not> bit (st_mode stats) 0 \<and> \<not> bit (st_mode stats) 3 \<and> \<not> bit (st_mode stats) 6 \<and>
     \<not> bit (st_mode stats) 1 \<and> \<not> bit (st_mode stats) 4"
  by (auto simp: validateNoExtraPermissionsForOthers_def validatePermissions_def Let_def mask_bits)

text \<open>A file that is opened with \<open>getSecureHandle\<close> is held to more.\<close>

lemma secure_handle_permissions:
  assumes "getSecureHandle False uid (Inr (h, stats)) = Inr (Some h')"
  shows "validateNoExtraPermissionsForOthers False uid (Inr stats) = Inr ()"
proof -
  have p: "permissionBits (st_mode stats) = 384" "st_uid stats = uid"
    using assms by (auto simp: getSecureHandle_def split: if_splits)
  then show ?thesis by (simp add: validateNoExtraPermissionsForOthers_def validatePermissions_def Let_def)
qed

end
