(* ===== verification/TextModel.thy ===== *)
theory TextModel
  imports Prelude "HOL-Library.Sublist"
begin

text \<open>Operations of JavaScript texts that several components share: \<open>substring\<close> and \<open>indexOf\<close>.\<close>

text \<open>\<open>s.substring(a, b)\<close>: the bounds are clipped and swapped if they are in the wrong order.\<close>

definition js_substring :: "string \<Rightarrow> int \<Rightarrow> int \<Rightarrow> string" where
  "js_substring s a b =
     (let n = int (length s); clip = (\<lambda>x. nat (max 0 (min n x))); i = min (clip a) (clip b); j = max (clip a) (clip b)
      in take (j - i) (drop i s))"

fun indexOfText :: "string \<Rightarrow> string \<Rightarrow> nat option" where
  "indexOfText sub [] = (if sub = [] then Some 0 else None)"
| "indexOfText sub (c # cs) =
     (if prefix sub (c # cs) then Some 0 else map_option Suc (indexOfText sub cs))"

definition textIndex :: "string \<Rightarrow> string \<Rightarrow> int" where
  "textIndex sub s = (case indexOfText sub s of None \<Rightarrow> - 1 | Some k \<Rightarrow> int k)"

end
