(* ===== verification/TransferAgent.thy ===== *)
theory TransferAgent
  imports StorageProps FileUtilModel TextModel
begin

text \<open>
  The execution of PUT and GET (\<open>file_transfer_agent/file_transfer_agent.js\<close>, \<open>local_util.js\<close>) and the
  result a file statement gets (\<open>executeFileTransferRequest\<close> of \<open>connection/statement.js\<close>).

  The metadata objects are shared by the list of all files, the lists of small and large files and the
  list of results, and are changed through each of them.  So the agent keeps them in one list and the
  other lists hold positions in it.  Its environment is the disk, the table of MIME types, the server
  for new presigned urls and the storage clients, on a world \<open>'e\<close>.
\<close>

section \<open>The request and the state of an agent\<close>

record transfer_data =
  td_command :: string
  td_autoCompress :: bool
  td_sourceCompression :: "string option"
  td_parallel :: nat
  td_stageInfo :: stage_info
  td_presignedUrls :: "string option list option"
  td_overwrite :: bool
  td_src_locations :: "string list"
  td_localLocation :: string
  td_uploadMaterial :: "enc_material option"
  td_downloadMaterials :: "enc_material list option"

record put_file =
  pf_srcFileName :: string
  pf_srcFilePath :: string
  pf_srcFileSize :: nat

record agent =
  ag_filesToPut :: "put_file list"
  ag_fileName :: "string option"
  ag_encryptionMaterial :: "enc_material list"
  ag_srcFiles :: "string list"
  ag_localLocation :: string
  ag_files :: "meta list"
  ag_results :: "nat list"

definition newAgent :: agent where
  "newAgent =
     \<lparr>ag_filesToPut = [], ag_fileName = None, ag_encryptionMaterial = [], ag_srcFiles = [], ag_localLocation = [],
      ag_files = [], ag_results = []\<rparr>"

text \<open>What an agent can do with a file on a stage.\<close>

record 'e storage_client =
  sc_uploadOneFileWithRetry :: "meta \<Rightarrow> 'e \<Rightarrow> unit transfer \<times> meta \<times> 'e"
  sc_downloadOneFile :: "meta \<Rightarrow> 'e \<Rightarrow> unit transfer \<times> meta \<times> 'e"
  sc_uploadOneFileStream :: "bytes \<Rightarrow> meta \<Rightarrow> 'e \<Rightarrow> unit transfer \<times> meta \<times> 'e"

record 'e agent_env =
  ae_exists :: "string \<Rightarrow> 'e \<Rightarrow> bool"
  ae_isDirectory :: "string \<Rightarrow> 'e \<Rightarrow> bool transfer"
  ae_fileSize :: "string \<Rightarrow> 'e \<Rightarrow> nat transfer"
  ae_readdir :: "'e \<Rightarrow> string \<Rightarrow> string list option"
  ae_mkdir :: "string \<Rightarrow> 'e \<Rightarrow> unit transfer \<times> 'e"
  ae_firstBytes :: "string \<Rightarrow> 'e \<Rightarrow> bytes transfer"
  ae_mimeLookup :: "string \<Rightarrow> string option"
  ae_expandTilde :: "string \<Rightarrow> string"
  ae_digest :: "bytes \<Rightarrow> string"
  ae_tempDir :: "'e \<Rightarrow> string transfer \<times> 'e"
  ae_removeDir :: "string \<Rightarrow> 'e \<Rightarrow> 'e"
  ae_compress :: "string \<Rightarrow> string \<Rightarrow> 'e \<Rightarrow> string transfer \<times> 'e"
  ae_digestAndSize :: "string \<Rightarrow> 'e \<Rightarrow> (string \<times> nat) transfer"
  ae_requestStage :: "string \<Rightarrow> 'e \<Rightarrow> stage_info transfer \<times> 'e"
  ae_local :: "'e storage_client"
  ae_remote :: "'e storage_client"

definition getStorageClient :: "'e agent_env \<Rightarrow> string \<Rightarrow> 'e storage_client option" where
  "getStorageClient env stageLocationType =
     (if stageLocationType = ''LOCAL_FS'' then Some (ae_local env)
      else if stageLocationType \<in> set [''S3'', ''AZURE'', ''GCS''] then Some (ae_remote env)
      else None)"

section \<open>Files of a command\<close>

text \<open>A relative path is taken from the working directory of the statement if it has one.\<close>

definition fromCwd :: "string option \<Rightarrow> string \<Rightarrow> string" where
  "fromCwd cwd p = (if nonempty_str cwd \<and> \<not> isAbsolute p then resolvePath (the cwd) p else p)"

definition putRoot :: "string option \<Rightarrow> string \<Rightarrow> string" where
  "putRoot cwd src = dirname (fromCwd cwd src)"

fun statFiles :: "'e agent_env \<Rightarrow> 'e \<Rightarrow> string list \<Rightarrow> put_file list transfer" where
  "statFiles env e [] = Inr []"
| "statFiles env e (p # ps) =
     tr_bind (ae_fileSize env p e) (\<lambda>n.
     tr_bind (statFiles env e ps) (\<lambda>fs.
       Inr (\<lparr>pf_srcFileName = basename p, pf_srcFilePath = p, pf_srcFileSize = n\<rparr> # fs)))"

text \<open>The encryption material of an upload is added once per file.\<close>

definition addFiles :: "transfer_data \<Rightarrow> put_file list \<Rightarrow> agent \<Rightarrow> agent" where
  "addFiles td fs ag =
     ag\<lparr>ag_filesToPut := ag_filesToPut ag @ fs,
        ag_encryptionMaterial := ag_encryptionMaterial ag @
          (case td_uploadMaterial td of None \<Rightarrow> [] | Some x \<Rightarrow> replicate (length fs) x)\<rparr>"

definition parseUpload :: "'e agent_env \<Rightarrow> string option \<Rightarrow> transfer_data \<Rightarrow> 'e \<Rightarrow> agent \<Rightarrow> agent transfer" where
  "parseUpload env cwd td e ag =
     (case td_src_locations td of
        [] \<Rightarrow> Inl (LanguageError TypeError)
      | src # _ \<Rightarrow>
          (let root = putRoot cwd src
           in if \<not> ae_exists env root e then Inl (TransferError ''undefined is not a directory'')
              else tr_bind (ae_isDirectory env root e) (\<lambda>isDir.
                if \<not> isDir then Inr ag
                else
                  (let fileName = basename src; ag1 = ag\<lparr>ag_fileName := Some fileName\<rparr>
                   in if CHR ''*'' \<in> set fileName then
                        tr_bind (statFiles env e (getMatchingFilePaths (ae_readdir env e) root fileName)) (\<lambda>fs.
                          Inr (addFiles td fs ag1))
                      else
                        tr_bind (ae_fileSize env (joinPath root fileName) e) (\<lambda>n.
                          Inr (addFiles td [\<lparr>pf_srcFileName = fileName, pf_srcFilePath = joinPath root fileName,
                                             pf_srcFileSize = n\<rparr>] ag1))))))"

definition parseDownload :: "'e agent_env \<Rightarrow> string option \<Rightarrow> transfer_data \<Rightarrow> 'e \<Rightarrow> agent \<Rightarrow> agent transfer" where
  "parseDownload env cwd td e ag =
     (let materials = (case td_downloadMaterials td of None \<Rightarrow> [] | Some ms \<Rightarrow> ms)
      in if length (td_src_locations td) \<noteq> length materials \<and> materials \<noteq> [] then
           Inl (TransferError ''The number of downloading files doesn't match'')
         else
           (let dst = fromCwd cwd (ae_expandTilde env (td_localLocation td))
            in tr_bind (ae_isDirectory env dst e) (\<lambda>isDir.
                 if \<not> isDir then Inl (TransferError (''The local path is not a directory: '' @ dst))
                 else Inr (ag\<lparr>ag_encryptionMaterial := ag_encryptionMaterial ag @ materials,
                              ag_srcFiles := td_src_locations td, ag_localLocation := dst\<rparr>))))"

definition parseCommand :: "'e agent_env \<Rightarrow> string option \<Rightarrow> transfer_data \<Rightarrow> 'e \<Rightarrow> agent \<Rightarrow> agent transfer" where
  "parseCommand env cwd td e ag =
     (if td_command td = ''UPLOAD'' then parseUpload env cwd td e ag
      else if td_command td = ''DOWNLOAD'' then parseDownload env cwd td e ag
      else Inr ag)"

text \<open>
  \<open>initFileMetadata\<close>: the metadata of each file; encryption material is dealt out by position.  The name
  on the stage of an upload is not set yet, which reads as the text \<open>undefined\<close>.
\<close>

definition newMeta :: "transfer_data \<Rightarrow> string \<Rightarrow> meta" where
  "newMeta td name =
     \<lparr>m_srcFileName = name, m_dstFileName = ''undefined'', m_srcFilePath = [], m_realSrcFilePath = [], m_srcFileSize = None,
      m_dstFileSize = None, m_uploadSize = 0, m_digest = [], m_parallel = 0, m_overwrite = False,
      m_requireCompress = False, m_srcCompressionType = None, m_dstCompressionType = None, m_encryptionMaterial = None,
      m_stageLocationType = si_locationType (td_stageInfo td), m_stageInfo = td_stageInfo td, m_localLocation = [],
      m_presignedUrl = None, m_clientToken = None, m_resultStatus = None, m_lastError = None, m_lastMaxConcurrency = None,
      m_noSleepingTime = False, m_errorDetails = None, m_headerDigest = None, m_headerLength = None,
      m_headerEncryption = None\<rparr>"

definition uploadMeta :: "transfer_data \<Rightarrow> put_file \<Rightarrow> meta" where
  "uploadMeta td f =
     (newMeta td (pf_srcFileName f))
       \<lparr>m_srcFilePath := pf_srcFilePath f, m_srcFileSize := Some (pf_srcFileSize f), m_overwrite := td_overwrite td\<rparr>"

definition downloadMeta :: "transfer_data \<Rightarrow> string \<Rightarrow> string \<Rightarrow> meta" where
  "downloadMeta td dst name = (newMeta td name)\<lparr>m_dstFileName := name, m_localLocation := dst\<rparr>"

definition dealMaterial :: "enc_material list \<Rightarrow> meta list \<Rightarrow> meta list" where
  "dealMaterial ms files =
     (if ms = [] then files
      else map (\<lambda>(i, m). m\<lparr>m_encryptionMaterial := (if i < length ms then Some (ms ! i) else None)\<rparr>) (enumerate 0 files))"

definition initFileMetadata :: "transfer_data \<Rightarrow> agent \<Rightarrow> agent" where
  "initFileMetadata td ag =
     ag\<lparr>ag_files := dealMaterial (ag_encryptionMaterial ag)
         (if td_command td = ''UPLOAD'' then map (uploadMeta td) (ag_filesToPut ag)
          else if td_command td = ''DOWNLOAD'' then map (downloadMeta td (ag_localLocation ag)) (ag_srcFiles ag)
          else [])\<rparr>"

section \<open>Compression\<close>

text \<open>
  \<open>fileName.substring(fileName.lastIndexOf('.'))\<close>: the whole name if there is no dot.
\<close>

definition extension :: "string \<Rightarrow> string" where
  "extension s =
     (if CHR ''.'' \<in> set s then CHR ''.'' # rev (takeWhile (\<lambda>c. c \<noteq> CHR ''.'') (rev s)) else s)"

text \<open>
  The encoding of a file whose name has no known MIME type.  The tests for ORC and Parquet compare two
  new buffers by identity and are never true, so they are not branches here.
\<close>

definition detectEncoding :: "string \<Rightarrow> bytes \<Rightarrow> string option" where
  "detectEncoding fileName test =
     (if extension fileName = ''.br'' then Some ''br''
      else if extension fileName = ''.deflate'' then Some ''deflate''
      else if extension fileName = ''.raw_deflate'' then Some ''raw_deflate''
      else if test = [0x28, 0xFD, 0x2F, 0xFD] \<or> extension fileName = ''.zst'' then Some ''zstd''
      else None)"

text \<open>
  What the user said about the compression: detection, or one type for all files.  An unknown type is
  looked up as \<open>undefined\<close>, whose property is read; the intended comparison is with the text \<open>string\<close>,
  and that text means no compression.
\<close>

datatype source_compression = AutoDetect | Specified "compression option"

definition sourceCompressionOf :: "string option \<Rightarrow> source_compression transfer" where
  "sourceCompressionOf sc =
     (case sc of
        None \<Rightarrow> Inl (LanguageError TypeError)
      | Some s \<Rightarrow>
          if s = ''auto_detect'' then Inr AutoDetect
          else if s = ''string'' then Inr (Specified None)
          else (case lookupByMimeSubType s of
                  None \<Rightarrow> Inl (LanguageError TypeError)
                | Some t \<Rightarrow>
                    if ct_is_supported t then Inr (Specified (Some t))
                    else Inl (TransferError (s @ '' is not a supported compression type''))))"

definition fileCompression :: "'e agent_env \<Rightarrow> source_compression \<Rightarrow> meta \<Rightarrow> 'e \<Rightarrow> compression option transfer" where
  "fileCompression env sc m e =
     (case sc of
        Specified t \<Rightarrow> Inr t
      | AutoDetect \<Rightarrow>
          tr_bind (case ae_mimeLookup env (m_srcFileName m) of
                     Some enc \<Rightarrow> Inr (Some enc)
                   | None \<Rightarrow> tr_bind (ae_firstBytes env (m_srcFilePath m) e) (\<lambda>b. Inr (detectEncoding (m_srcFileName m) b)))
            (\<lambda>encoding.
              case encoding of
                None \<Rightarrow> Inr None
              | Some enc \<Rightarrow>
                  (case (if enc = [] then None else lookupByEncoding enc) of
                     None \<Rightarrow> Inr None
                   | Some t \<Rightarrow>
                       if ct_is_supported t then Inr (Some t)
                       else Inl (TransferError (enc @ '' is not a a supported compression type'')))))"

definition compressMeta :: "bool \<Rightarrow> compression option \<Rightarrow> meta \<Rightarrow> meta" where
  "compressMeta autoCompress t m =
     (case t of
        Some t \<Rightarrow> m\<lparr>m_dstCompressionType := Some t, m_requireCompress := False, m_dstFileName := m_srcFileName m\<rparr>
      | None \<Rightarrow>
          if autoCompress then
            m\<lparr>m_requireCompress := True, m_srcCompressionType := None, m_dstCompressionType := lookupByMimeSubType ''GZIP'',
              m_dstFileName := m_srcFileName m @
                (case lookupByMimeSubType ''GZIP'' of Some g \<Rightarrow> ct_file_extension g | None \<Rightarrow> ''undefined'')\<rparr>
          else
            m\<lparr>m_requireCompress := False, m_srcCompressionType := None, m_dstCompressionType := None,
              m_dstFileName := m_srcFileName m\<rparr>)"

fun compressFiles :: "'e agent_env \<Rightarrow> bool \<Rightarrow> source_compression \<Rightarrow> 'e \<Rightarrow> meta list \<Rightarrow> meta list transfer" where
  "compressFiles env autoCompress sc e [] = Inr []"
| "compressFiles env autoCompress sc e (m # ms) =
     tr_bind (fileCompression env sc m e) (\<lambda>t.
     tr_bind (compressFiles env autoCompress sc e ms) (\<lambda>ms'. Inr (compressMeta autoCompress t m # ms')))"

definition processFileCompressionType :: "'e agent_env \<Rightarrow> transfer_data \<Rightarrow> 'e \<Rightarrow> meta list \<Rightarrow> meta list transfer" where
  "processFileCompressionType env td e files =
     tr_bind (sourceCompressionOf (td_sourceCompression td)) (\<lambda>sc. compressFiles env (td_autoCompress td) sc e files)"

section \<open>Presigned urls\<close>

definition getFileNameFromPutCommand :: "string \<Rightarrow> string" where
  "getFileNameFromPutCommand command =
     (let start = textIndex ''file://'' command + 7;
          rest = js_substring command start (int (length command));
          space = textIndex '' '' rest;
          quote = textIndex [CHR 0x27] rest;
          len = (if quote \<noteq> - 1 \<and> quote < space then quote else space)
      in js_substring command start (start + len))"

text \<open>\<open>s.replace(old, new)\<close> for texts: the first occurrence; a dollar in the new text can be special.\<close>

fun expandDollars :: "string \<Rightarrow> string \<Rightarrow> string \<Rightarrow> string \<Rightarrow> string" where
  "expandDollars before old after [] = []"
| "expandDollars before old after [c] = [c]"
| "expandDollars before old after (c # d # cs) =
     (if c = CHR ''$'' \<and> d = CHR ''$'' then CHR ''$'' # expandDollars before old after cs
      else if c = CHR ''$'' \<and> d = CHR ''&'' then old @ expandDollars before old after cs
      else if c = CHR ''$'' \<and> d = CHR 0x60 then before @ expandDollars before old after cs
      else if c = CHR ''$'' \<and> d = CHR 0x27 then after @ expandDollars before old after cs
      else c # expandDollars before old after (d # cs))"

definition replaceFirst :: "string \<Rightarrow> string \<Rightarrow> string \<Rightarrow> string" where
  "replaceFirst s old new =
     (case indexOfText old s of
        None \<Rightarrow> s
      | Some k \<Rightarrow>
          (let before = take k s; after = drop (k + length old) s
           in before @ expandDollars before old after new @ after))"

fun presignUploads :: "'e agent_env \<Rightarrow> string \<Rightarrow> meta list \<Rightarrow> 'e \<Rightarrow> meta list transfer \<times> 'e" where
  "presignUploads env command [] e = (Inr [], e)"
| "presignUploads env command (m # ms) e =
     dk_bind (ae_requestStage env (replaceFirst command (getFileNameFromPutCommand command) (m_dstFileName m)) e)
       (\<lambda>si e1. dk_bind (presignUploads env command ms e1)
         (\<lambda>ms' e2. (Inr (m\<lparr>m_stageInfo := si, m_presignedUrl := si_presignedUrl si\<rparr> # ms'), e2)))"

definition presignDownloads :: "string option list \<Rightarrow> meta list \<Rightarrow> meta list" where
  "presignDownloads urls files =
     map (\<lambda>(i, m). m\<lparr>m_presignedUrl := (if i < length urls then urls ! i else None)\<rparr>) (enumerate 0 files)"

text \<open>
  \<open>updateFileMetasWithPresignedUrl\<close>.  Not for other stages than GCS, nor for uploads with an access token,
  whose folder covers every file.  A request that fails ends the command.
\<close>

definition updateFileMetasWithPresignedUrl ::
  "'e agent_env \<Rightarrow> string \<Rightarrow> transfer_data \<Rightarrow> meta list \<Rightarrow> 'e \<Rightarrow> meta list transfer \<times> 'e"
where
  "updateFileMetasWithPresignedUrl env command td files e =
     (if si_locationType (td_stageInfo td) \<noteq> ''GCS'' then (Inr files, e)
      else if td_command td = ''UPLOAD'' then
        (if nonempty_str (si_gcsToken (td_stageInfo td)) then (Inr files, e) else presignUploads env command files e)
      else if td_command td = ''DOWNLOAD'' then
        (case td_presignedUrls td of
           None \<Rightarrow> if files = [] then (Inr files, e) else (Inl (LanguageError TypeError), e)
         | Some urls \<Rightarrow> (Inr (presignDownloads urls files), e))
      else (Inr files, e))"

section \<open>Transferring the files\<close>

definition failedMeta :: "string \<Rightarrow> int \<Rightarrow> transfer_exn \<Rightarrow> meta \<Rightarrow> meta" where
  "failedMeta detail dstFileSize x m =
     m\<lparr>m_dstFileSize := Some dstFileSize,
       m_resultStatus := (if m_resultStatus m = None then None else Some ERROR),
       m_errorDetails := Some (exnText x @ detail)\<rparr>"

text \<open>
  \<open>uploadOneFile\<close>: whatever the steps throw is caught and put into the metadata, where the status
  becomes \<open>ERROR\<close> only if one was set before.  A temporary directory that cannot be made is thrown.
\<close>

definition putSteps :: "'e agent_env \<Rightarrow> string \<Rightarrow> meta \<Rightarrow> 'e \<Rightarrow> unit transfer \<times> meta \<times> 'e" where
  "putSteps env tmpDir m e =
     (case (if m_requireCompress m then ae_compress env (m_srcFilePath m) tmpDir e else (Inr (m_srcFilePath m), e)) of
        (Inl x, e1) \<Rightarrow> (Inl x, m, e1)
      | (Inr realPath, e1) \<Rightarrow>
          (let m1 = m\<lparr>m_realSrcFilePath := realPath\<rparr>
           in case ae_digestAndSize env realPath e1 of
                Inl x \<Rightarrow> (Inl x, m1, e1)
              | Inr (digest, sz) \<Rightarrow>
                  (let m2 = m1\<lparr>m_digest := digest, m_uploadSize := sz\<rparr>
                   in case getStorageClient env (m_stageLocationType m2) of
                        None \<Rightarrow> (Inl (LanguageError TypeError), m2, e1)
                      | Some client \<Rightarrow> sc_uploadOneFileWithRetry client m2 e1)))"

definition agentUploadOneFile :: "'e agent_env \<Rightarrow> meta \<Rightarrow> 'e \<Rightarrow> meta transfer \<times> 'e" where
  "agentUploadOneFile env m e =
     dk_bind (ae_tempDir env e) (\<lambda>tmpDir e1.
       case putSteps env tmpDir (m\<lparr>m_realSrcFilePath := m_srcFilePath m\<rparr>) e1 of
         (Inr _, m2, e2) \<Rightarrow> (Inr m2, ae_removeDir env tmpDir e2)
       | (Inl x, m2, e2) \<Rightarrow>
           (Inr (failedMeta ('' file='' @ m_srcFileName m2 @ '', real file='' @ m_realSrcFilePath m2) 0 x m2),
            ae_removeDir env tmpDir e2))"

definition agentDownloadOneFile :: "'e agent_env \<Rightarrow> meta \<Rightarrow> 'e \<Rightarrow> meta transfer \<times> 'e" where
  "agentDownloadOneFile env m e =
     dk_bind (ae_tempDir env e) (\<lambda>tmpDir e1.
       case (case getStorageClient env (m_stageLocationType m) of
               None \<Rightarrow> (Inl (LanguageError TypeError), m, e1)
             | Some client \<Rightarrow> sc_downloadOneFile client m e1) of
         (Inr _, m2, e2) \<Rightarrow> (Inr m2, e2)
       | (Inl x, m2, e2) \<Rightarrow> (Inr (failedMeta ('' file='' @ m_dstFileName m2) (- 1) x m2), e2))"

text \<open>
  The sequential loops over the positions that are left.  A token is renewed to \<open>undefined\<close>, for this
  file and those after it, and the file is tried again; so is a file whose presigned url has to be
  renewed, after all files got new ones.  An upload stops at the first error, a download does not.
\<close>

definition renewClients :: "nat list \<Rightarrow> meta list \<Rightarrow> meta list" where
  "renewClients idxs files = fold (\<lambda>i fs. fs[i := (fs ! i)\<lparr>m_clientToken := None\<rparr>]) idxs files"

fun transferSequential ::
  "nat \<Rightarrow> bool \<Rightarrow> ('e agent_env \<Rightarrow> meta \<Rightarrow> 'e \<Rightarrow> meta transfer \<times> 'e) \<Rightarrow> 'e agent_env \<Rightarrow> string \<Rightarrow> transfer_data \<Rightarrow>
   nat list \<Rightarrow> agent \<Rightarrow> 'e \<Rightarrow> (agent transfer \<times> 'e) option"
where
  "transferSequential fuel stopOnError one env command td [] ag e = Some (Inr ag, e)"
| "transferSequential 0 stopOnError one env command td (i # is) ag e = None"
| "transferSequential (Suc fuel) stopOnError one env command td (i # is) ag e =
     (case one env (ag_files ag ! i) e of
        (Inl x, e1) \<Rightarrow> Some (Inl x, e1)
      | (Inr m, e1) \<Rightarrow>
          (let ag1 = ag\<lparr>ag_files := (ag_files ag)[i := m]\<rparr>
           in if m_resultStatus m = Some RENEW_TOKEN then
                transferSequential fuel stopOnError one env command td (i # is)
                  (ag1\<lparr>ag_files := renewClients (i # is) (ag_files ag1)\<rparr>) e1
              else if m_resultStatus m = Some RENEW_PRESIGNED_URL then
                (case updateFileMetasWithPresignedUrl env command td (ag_files ag1) e1 of
                   (Inl x, e2) \<Rightarrow> Some (Inl x, e2)
                 | (Inr files, e2) \<Rightarrow>
                     transferSequential fuel stopOnError one env command td (i # is) (ag1\<lparr>ag_files := files\<rparr>) e2)
              else
                (let ag2 = ag1\<lparr>ag_results := ag_results ag1 @ [i]\<rparr>
                 in if stopOnError \<and> m_resultStatus m = Some ERROR then Some (Inr ag2, e1)
                    else transferSequential fuel stopOnError one env command td is ag2 e1)))"

definition uploadFilesinSequential where
  "uploadFilesinSequential fuel = transferSequential fuel True agentUploadOneFile"

definition downloadFilesinSequential where
  "downloadFilesinSequential fuel = transferSequential fuel False agentDownloadOneFile"

text \<open>Small files first, then the large ones, also after an error among the small ones.\<close>

definition DATA_SIZE_THRESHOLD :: nat where "DATA_SIZE_THRESHOLD = 67108864"

definition isLarge :: "meta \<Rightarrow> bool" where
  "isLarge m \<longleftrightarrow> (case m_srcFileSize m of None \<Rightarrow> False | Some n \<Rightarrow> n > DATA_SIZE_THRESHOLD)"

definition splitBySize :: "transfer_data \<Rightarrow> agent \<Rightarrow> agent \<times> nat list \<times> nat list" where
  "splitBySize td ag =
     (ag\<lparr>ag_files := map (\<lambda>m. m\<lparr>m_parallel := (if isLarge m then td_parallel td else 1)\<rparr>) (ag_files ag)\<rparr>,
      filter (\<lambda>i. \<not> isLarge (ag_files ag ! i)) [0..<length (ag_files ag)],
      filter (\<lambda>i. isLarge (ag_files ag ! i)) [0..<length (ag_files ag)])"

definition transferAll ::
  "(nat list \<Rightarrow> agent \<Rightarrow> 'e \<Rightarrow> (agent transfer \<times> 'e) option) \<Rightarrow> 'e agent_env \<Rightarrow> transfer_data \<Rightarrow> agent \<Rightarrow> 'e \<Rightarrow>
   (agent transfer \<times> 'e) option"
where
  "transferAll sequential env td ag e =
     (case getStorageClient env (si_locationType (td_stageInfo td)) of
        None \<Rightarrow> Some (Inl (LanguageError TypeError), e)
      | Some _ \<Rightarrow>
          (case splitBySize td ag of
             (ag1, small, large) \<Rightarrow>
               (let token = si_gcsToken (td_stageInfo td);
                    ag2 = ag1\<lparr>ag_files := map (\<lambda>m. m\<lparr>m_clientToken := (if nonempty_str token then token else None)\<rparr>) (ag_files ag1)\<rparr>
                in case sequential small ag2 e of
                     None \<Rightarrow> None
                   | Some (Inl x, e1) \<Rightarrow> Some (Inl x, e1)
                   | Some (Inr ag3, e1) \<Rightarrow> sequential large ag3 e1)))"

section \<open>Executing a command\<close>

text \<open>
  \<open>execute\<close> with files: an upload without files is an error whose message names the text \<open>undefined\<close> if
  the directory was no directory.  The acceleration of S3 is asked for, but its answer is not used.
\<close>

definition makeDirectory :: "'e agent_env \<Rightarrow> bool \<Rightarrow> string \<Rightarrow> 'e \<Rightarrow> unit transfer \<times> 'e" where
  "makeDirectory env needed dir e = (if needed \<and> \<not> ae_exists env dir e then ae_mkdir env dir e else (Inr (), e))"

definition executeFiles ::
  "nat \<Rightarrow> 'e agent_env \<Rightarrow> string \<Rightarrow> string option \<Rightarrow> transfer_data \<Rightarrow> 'e \<Rightarrow> (agent transfer \<times> 'e) option"
where
  "executeFiles fuel env command cwd td e =
     (let uploading = (td_command td = ''UPLOAD''); downloading = (td_command td = ''DOWNLOAD'')
      in case tr_bind (parseCommand env cwd td e newAgent) (\<lambda>ag.
              (let ag1 = initFileMetadata td ag
               in if \<not> uploading then Inr ag1
                  else if ag_filesToPut ag1 = [] then
                    Inl (TransferError (''No file found for: '' @ (case ag_fileName ag1 of None \<Rightarrow> ''undefined'' | Some n \<Rightarrow> n)))
                  else tr_bind (processFileCompressionType env td e (ag_files ag1)) (\<lambda>files. Inr (ag1\<lparr>ag_files := files\<rparr>)))) of
           Inl x \<Rightarrow> Some (Inl x, e)
         | Inr ag \<Rightarrow>
             (case dk_bind (makeDirectory env downloading (ag_localLocation ag) e) (\<lambda>_ e1.
                   dk_bind (makeDirectory env (si_locationType (td_stageInfo td) = ''LOCAL_FS'') (si_location (td_stageInfo td)) e1) (\<lambda>_ e2.
                     updateFileMetasWithPresignedUrl env command td (ag_files ag) e2)) of
                (Inl x, e3) \<Rightarrow> Some (Inl x, e3)
              | (Inr files, e3) \<Rightarrow>
                  (let ag1 = ag\<lparr>ag_files := files\<rparr>
                   in if uploading then transferAll (uploadFilesinSequential fuel env command td) env td ag1 e3
                      else if downloading then transferAll (downloadFilesinSequential fuel env command td) env td ag1 e3
                      else Some (Inr ag1, e3))))"

text \<open>
  \<open>execute\<close> with a content: one file, whose metadata is not among the results.  A request without a
  location has the file name \<open>undefined\<close>.
\<close>

definition streamMeta :: "'e agent_env \<Rightarrow> transfer_data \<Rightarrow> bytes \<Rightarrow> meta \<Rightarrow> meta" where
  "streamMeta env td content m =
     m\<lparr>m_parallel := td_parallel td,
       m_clientToken := (if nonempty_str (si_gcsToken (td_stageInfo td)) then si_gcsToken (td_stageInfo td) else None),
       m_digest := ae_digest env content, m_uploadSize := length content,
       m_dstCompressionType := (case td_sourceCompression td of None \<Rightarrow> None | Some s \<Rightarrow> lookupByEncoding s),
       m_requireCompress := False, m_dstFileName := m_srcFileName m\<rparr>"

definition executeStream ::
  "'e agent_env \<Rightarrow> string \<Rightarrow> transfer_data \<Rightarrow> bytes \<Rightarrow> 'e \<Rightarrow> agent transfer \<times> meta option \<times> 'e"
where
  "executeStream env command td content e =
     (if td_command td \<noteq> ''UPLOAD'' then (Inl (TransferError ''Incorrect UploadFileStream command''), None, e)
      else
        (let src = (case td_src_locations td of [] \<Rightarrow> ''undefined'' | s # _ \<Rightarrow> s);
             f = \<lparr>pf_srcFileName = src, pf_srcFilePath = [], pf_srcFileSize = length content\<rparr>;
             ag = initFileMetadata td (addFiles td [f] newAgent)
         in case updateFileMetasWithPresignedUrl env command td (ag_files ag) e of
                   (Inl x, e1) \<Rightarrow> (Inl x, None, e1)
                 | (Inr files, e1) \<Rightarrow>
                     (case (getStorageClient env (si_locationType (td_stageInfo td)), td_sourceCompression td) of
                        (Some client, Some _) \<Rightarrow>
                          (case sc_uploadOneFileStream client content (streamMeta env td content (hd files)) e1 of
                             (Inl x, m, e2) \<Rightarrow> (Inl x, Some m, e2)
                           | (Inr _, m, e2) \<Rightarrow> (Inr (ag\<lparr>ag_files := [m]\<rparr>), Some m, e2))
                      | _ \<Rightarrow> (Inl (LanguageError TypeError), None, e1))))"

definition executeTransfer ::
  "nat \<Rightarrow> 'e agent_env \<Rightarrow> string \<Rightarrow> string option \<Rightarrow> transfer_data \<Rightarrow> bytes option \<Rightarrow> 'e \<Rightarrow> (agent transfer \<times> 'e) option"
where
  "executeTransfer fuel env command cwd td fileStream e =
     (case fileStream of
        Some (b # bs) \<Rightarrow> (case executeStream env command td (b # bs) e of (r, m, e') \<Rightarrow> Some (r, e'))
      | _ \<Rightarrow> executeFiles fuel env command cwd td e)"

section \<open>The result of a command\<close>

datatype cell = Text string | Number int | Null | Undefined

definition statusText :: "result_status \<Rightarrow> string" where
  "statusText s =
     (case s of
        ERROR \<Rightarrow> ''ERROR'' | UPLOADED \<Rightarrow> ''UPLOADED'' | DOWNLOADED \<Rightarrow> ''DOWNLOADED'' | COLLISION \<Rightarrow> ''COLLISION''
      | SKIPPED \<Rightarrow> ''SKIPPED'' | RENEW_TOKEN \<Rightarrow> ''RENEW_TOKEN'' | RENEW_PRESIGNED_URL \<Rightarrow> ''RENEW_PRESIGNED_URL''
      | NOT_FOUND_FILE \<Rightarrow> ''NOT_FOUND_FILE'' | NEED_RETRY \<Rightarrow> ''NEED_RETRY''
      | NEED_RETRY_WITH_LOWER_CONCURRENCY \<Rightarrow> ''NEED_RETRY_WITH_LOWER_CONCURRENCY'')"

definition orUndefined :: "('a \<Rightarrow> cell) \<Rightarrow> 'a option \<Rightarrow> cell" where
  "orUndefined f v = (case v of None \<Rightarrow> Undefined | Some x \<Rightarrow> f x)"

definition orNull :: "compression option \<Rightarrow> cell" where
  "orNull v = (case v of None \<Rightarrow> Null | Some t \<Rightarrow> Text (ct_name t))"

text \<open>The row of an uploaded file, or the error that ends the result.\<close>

definition uploadRow :: "meta \<Rightarrow> cell list transfer" where
  "uploadRow m =
     (if m_resultStatus m = Some ERROR then
        Inl (TransferError (if nonempty_str (m_errorDetails m) then the (m_errorDetails m)
                            else ''Unknown error during PUT of file: '' @ m_srcFilePath m))
      else
        (case (m_srcFileSize m, m_dstFileSize m) of
           (Some src, Some dst) \<Rightarrow>
             Inr [Text (m_srcFileName m), Text (m_dstFileName m), Text (show_nat src), Text (show_int dst),
                  orNull (m_srcCompressionType m), orNull (m_dstCompressionType m),
                  orUndefined (Text \<circ> statusText) (m_resultStatus m), orUndefined Text (m_errorDetails m)]
         | _ \<Rightarrow> Inl (LanguageError TypeError)))"

definition downloadRow :: "meta \<Rightarrow> cell list" where
  "downloadRow m =
     [Text (m_dstFileName m), orUndefined Number (m_dstFileSize m), orUndefined (Text \<circ> statusText) (m_resultStatus m),
      orUndefined Text (m_errorDetails m)]"

fun putRows :: "meta list \<Rightarrow> cell list list transfer" where
  "putRows [] = Inr []"
| "putRows (m # ms) = tr_bind (uploadRow m) (\<lambda>r. tr_bind (putRows ms) (\<lambda>rs. Inr (r # rs)))"

definition uploadRowType :: "(string \<times> string) list" where
  "uploadRowType =
     [(''source'', ''text''), (''target'', ''text''), (''sourceSize'', ''fixed''), (''targetSize'', ''fixed''),
      (''sourceCompression'', ''text''), (''targetCompression'', ''text''), (''status'', ''text''), (''message'', ''text'')]"

definition downloadRowType :: "(string \<times> string) list" where
  "downloadRowType = [(''file'', ''text''), (''size'', ''fixed''), (''status'', ''text''), (''message'', ''text'')]"

text \<open>\<open>result\<close>: rows and columns; \<open>None\<close> is \<open>undefined\<close>, for a command that is neither.\<close>

definition transferResult ::
  "string \<Rightarrow> agent \<Rightarrow> (cell list list \<times> (string \<times> string) list) option transfer"
where
  "transferResult commandType ag =
     (let metas = map (\<lambda>i. ag_files ag ! i) (ag_results ag)
      in if commandType = ''UPLOAD'' then tr_bind (putRows metas) (\<lambda>rows. Inr (Some (rows, uploadRowType)))
         else if commandType = ''DOWNLOAD'' then Inr (Some (map downloadRow metas, downloadRowType))
         else Inr None)"

text \<open>
  \<open>executeFileTransferRequest\<close>: what \<open>execute\<close> throws goes on to the caller, what building the result
  throws becomes the error of the statement.
\<close>

datatype file_outcome =
    FileResult "cell list list" "(string \<times> string) list"
  | FileResultError transfer_exn
  | FileThrows transfer_exn

definition executeFileTransferRequest ::
  "nat \<Rightarrow> 'e agent_env \<Rightarrow> string \<Rightarrow> string option \<Rightarrow> transfer_data \<Rightarrow> bytes option \<Rightarrow> 'e \<Rightarrow> (file_outcome \<times> 'e) option"
where
  "executeFileTransferRequest fuel env command cwd td fileStream e =
     (case executeTransfer fuel env command cwd td fileStream e of
        None \<Rightarrow> None
      | Some (Inl x, e') \<Rightarrow> Some (FileThrows x, e')
      | Some (Inr ag, e') \<Rightarrow>
          Some (case transferResult (td_command td) ag of
                  Inl x \<Rightarrow> FileResultError x
                | Inr None \<Rightarrow> FileResultError (LanguageError TypeError)
                | Inr (Some (rows, columns)) \<Rightarrow> FileResult rows columns, e'))"

section \<open>The clients\<close>

text \<open>\<open>LocalUtil\<close>: files are copied; it has no operation for contents.\<close>

record 'e local_ops =
  lo_mkdirIfMissing :: "string \<Rightarrow> 'e \<Rightarrow> 'e"
  lo_copy :: "string \<Rightarrow> string \<Rightarrow> 'e \<Rightarrow> 'e"
  lo_size :: "string \<Rightarrow> 'e \<Rightarrow> nat transfer"

definition LocalUtil :: "(string \<Rightarrow> string) \<Rightarrow> 'e local_ops \<Rightarrow> 'e storage_client" where
  "LocalUtil tilde lo =
     \<lparr>sc_uploadOneFileWithRetry = (\<lambda>m e.
        (Inr (), uploadedMeta m,
         lo_copy lo (m_realSrcFilePath m) (tilde (joinPath (si_location (m_stageInfo m)) (m_dstFileName m)))
           (lo_mkdirIfMissing lo (si_location (m_stageInfo m)) e))),
      sc_downloadOneFile = (\<lambda>m e.
        let output = joinPath (m_localLocation m) (basename (m_dstFileName m));
            e1 = lo_copy lo (joinPath (tilde (si_location (m_stageInfo m))) (m_srcFileName m)) output
                   (lo_mkdirIfMissing lo (m_localLocation m) e)
        in case lo_size lo output e1 of
             Inl x \<Rightarrow> (Inl x, m, e1)
           | Inr n \<Rightarrow> (Inr (), m\<lparr>m_dstFileSize := Some (int n), m_resultStatus := Some DOWNLOADED\<rparr>, e1)),
      sc_uploadOneFileStream = (\<lambda>content m e. (Inl (LanguageError TypeError), m, e))\<rparr>"

text \<open>\<open>RemoteStorageUtil\<close> on a storage for files and one for contents.\<close>

definition dropLog :: "'e transferred \<Rightarrow> unit transfer \<times> meta \<times> 'e" where
  "dropLog r = (case r of (x, m, e, tr) \<Rightarrow> (x, m, e))"

definition RemoteStorageUtil ::
  "(string, 'e) storage_util \<Rightarrow> (bytes, 'e) storage_util \<Rightarrow> 'e disk \<Rightarrow>
   (enc_material \<Rightarrow> string \<Rightarrow> 'e \<Rightarrow> (enc_metadata \<times> string) transfer \<times> 'e) \<Rightarrow>
   (enc_material \<Rightarrow> bytes \<Rightarrow> 'e \<Rightarrow> (enc_metadata \<times> bytes) transfer \<times> 'e) \<Rightarrow> 'e storage_client"
where
  "RemoteStorageUtil su stream dk encryptFile encryptFileStream =
     \<lparr>sc_uploadOneFileWithRetry = (\<lambda>m e. dropLog (uploadOneFileWithRetry su encryptFile m e)),
      sc_downloadOneFile = (\<lambda>m e. dropLog (downloadOneFile su dk m e)),
      sc_uploadOneFileStream = (\<lambda>content m e. dropLog (uploadOneFileStream stream encryptFileStream content m e))\<rparr>"

end
