(* ===== verification/TransferProps.thy ===== *)
theory TransferProps
  imports TransferAgent
begin

text \<open>Properties of PUT and GET commands as a whole.\<close>

section \<open>The sequential loop\<close>

lemma renewClients_fields:
  "length (renewClients is files) = length files"
  "m_resultStatus (renewClients is files ! j) = m_resultStatus (files ! j)"
proof -
  have "length (renewClients is files) = length files \<and>
    m_resultStatus (renewClients is files ! j) = m_resultStatus (files ! j)"
    unfolding renewClients_def
  proof (induction "is" arbitrary: files)
    case (Cons i "is")
    have "m_resultStatus (files[i := (files ! i)\<lparr>m_clientToken := None\<rparr>] ! j) = m_resultStatus (files ! j)"
      by (cases "i < length files") (auto simp: nth_list_update_iff list_update_beyond)
    then show ?case using Cons.IH[of "files[i := (files ! i)\<lparr>m_clientToken := None\<rparr>]"] by simp
  qed simp
  then show "length (renewClients is files) = length files"
    "m_resultStatus (renewClients is files ! j) = m_resultStatus (files ! j)" by auto
qed







section \<open>Expired tokens\<close>

lemma renewClients_nth:
  "j < length files \<Longrightarrow>
     renewClients is files ! j = (if j \<in> set is then (files ! j)\<lparr>m_clientToken := None\<rparr> else files ! j)"
  unfolding renewClients_def
proof (induction "is" arbitrary: files)
  case (Cons i "is")
  then show ?case using Cons.IH[of "files[i := (files ! i)\<lparr>m_clientToken := None\<rparr>]"]
    by (auto simp: nth_list_update_iff)
qed simp

lemma renewing_never_ends:
  assumes step: "\<And>m e. P m \<Longrightarrow> \<exists>m' e'. one env m e = (Inr m', e') \<and> m_resultStatus m' = Some RENEW_TOKEN \<and>
      P (m'\<lparr>m_clientToken := None\<rparr>)"
  shows "i < length (ag_files ag) \<Longrightarrow> P (ag_files ag ! i) \<Longrightarrow>
    transferSequential fuel stop one env command td (i # is) ag e = None"
proof (induction fuel arbitrary: ag e)
  case (Suc fuel)
  obtain m' e' where one: "one env (ag_files ag ! i) e = (Inr m', e')" "m_resultStatus m' = Some RENEW_TOKEN"
    "P (m'\<lparr>m_clientToken := None\<rparr>)" using step[OF Suc.prems(2)] by blast
  let ?files = "renewClients (i # is) ((ag_files ag)[i := m'])"
  have files: "i < length ?files" "?files ! i = m'\<lparr>m_clientToken := None\<rparr>"
    using Suc.prems(1) by (simp_all add: renewClients_fields renewClients_nth)
  have "transferSequential fuel stop one env command td (i # is) (ag\<lparr>ag_files := ?files\<rparr>) e' = None"
    by (rule Suc.IH) (use files one(3) in simp_all)
  then show ?case by (simp add: one(1,2) Let_def)
qed simp

lemma first_attempt_renews:
  assumes "attempt su d em c m e = (Inr False, m2, e2, tr)" "m_resultStatus m2 = Some RENEW_TOKEN"
  shows "uploadAttempts su d em msg DEFAULT_MAX_RETRY c l m e = (Inr (), m2, e2, tr)"
proof -
  have "uploadAttempts su d em msg (Suc n) c l m e = (Inr (), m2, e2, tr)" for n by (simp add: assms)
  then show ?thesis by (metis DEFAULT_MAX_RETRY_def Suc_numeral add_num_simps(2) numeral_eq_Suc)
qed

lemma s3_expired_upload:
  assumes put: "\<And>si b k md buf e. \<exists>x e'. s3_putObject c si b k md buf e = (Inl x, e') \<and> se_Code x = Some ''ExpiredToken''"
    and m: "m_overwrite m" "m_encryptionMaterial m = None"
  shows "fi_read fi (m_realSrcFilePath m) e = Inr content \<Longrightarrow>
      \<exists>e' tr. uploadOneFile (S3Util False tilde c fi) enc m e = (Inr (), m\<lparr>m_resultStatus := Some RENEW_TOKEN\<rparr>, e', tr)"
    "\<exists>e' tr. uploadOneFileStream (S3StreamUtil tilde c fi) encS content m e =
       (Inr (), m\<lparr>m_resultStatus := Some RENEW_TOKEN\<rparr>, e', tr)"
proof -
  have up: "\<exists>e'. s3_uploadFileStream tilde c content m None e = (Inr (), m\<lparr>m_resultStatus := Some RENEW_TOKEN\<rparr>, e')"
    using put[of "m_stageInfo m" "s3_bucket tilde (m_stageInfo m)" "s3_key tilde (m_stageInfo m) (m_dstFileName m)"
        "buildS3Metadata m None" content e]
    by (auto simp: s3_uploadFileStream_def applyS3UploadError_def)
  then obtain e' where e': "s3_uploadFileStream tilde c content m None e = (Inr (), m\<lparr>m_resultStatus := Some RENEW_TOKEN\<rparr>, e')" ..
  show "fi_read fi (m_realSrcFilePath m) e = Inr content \<Longrightarrow>
      \<exists>e' tr. uploadOneFile (S3Util False tilde c fi) enc m e = (Inr (), m\<lparr>m_resultStatus := Some RENEW_TOKEN\<rparr>, e', tr)"
    using m e' by (simp add: uploadOneFile_def uploadData_def first_attempt_renews attempt_def S3Util_def s3_uploadFile_def)
  show "\<exists>e' tr. uploadOneFileStream (S3StreamUtil tilde c fi) encS content m e =
       (Inr (), m\<lparr>m_resultStatus := Some RENEW_TOKEN\<rparr>, e', tr)"
    using m e' by (simp add: uploadOneFileStream_def uploadData_def first_attempt_renews attempt_def S3StreamUtil_def)
qed

text \<open>
  C26. A PUT to S3 with an expired token never ends: a renewed client is \<open>undefined\<close>, the credentials of
  the stage stay, and the same file is sent again without end.
\<close>

theorem expired_s3_token_never_ends:
  assumes put: "\<And>si b k md buf e. \<exists>x e'. s3_putObject c si b k md buf e = (Inl x, e') \<and> se_Code x = Some ''ExpiredToken''"
    and env: "\<And>e. \<exists>t e'. ae_tempDir env e = (Inr t, e')" "\<And>p e. \<exists>d n. ae_digestAndSize env p e = Inr (d, n)"
      "\<And>p e. \<exists>content. fi_read fi p e = Inr content"
      "ae_remote env = RemoteStorageUtil (S3Util False tilde c fi) stream dk enc encS"
    and i: "i < length (ag_files ag)" "m_overwrite (ag_files ag ! i)" "\<not> m_requireCompress (ag_files ag ! i)"
      "m_encryptionMaterial (ag_files ag ! i) = None" "m_stageLocationType (ag_files ag ! i) = ''S3''"
  shows "uploadFilesinSequential fuel env command td (i # is) ag e = None"
proof -
  let ?P = "\<lambda>m. m_overwrite m \<and> \<not> m_requireCompress m \<and> m_encryptionMaterial m = None \<and> m_stageLocationType m = ''S3''"
  have step: "\<exists>m' e'. agentUploadOneFile env m e = (Inr m', e') \<and> m_resultStatus m' = Some RENEW_TOKEN \<and>
      ?P (m'\<lparr>m_clientToken := None\<rparr>)" if "?P m" for m e
  proof -
    obtain t e1 where t: "ae_tempDir env e = (Inr t, e1)" using env(1) by blast
    let ?m0 = "m\<lparr>m_realSrcFilePath := m_srcFilePath m\<rparr>"
    obtain d n where d: "ae_digestAndSize env (m_srcFilePath m) e1 = Inr (d, n)" using env(2) by blast
    let ?m2 = "?m0\<lparr>m_digest := d, m_uploadSize := n\<rparr>"
    have m2: "m_overwrite ?m2" "m_encryptionMaterial ?m2 = None" using that by simp_all
    obtain content where r: "fi_read fi (m_realSrcFilePath ?m2) e1 = Inr content" using env(3) by blast
    obtain e2 tr where "uploadOneFile (S3Util False tilde c fi) enc ?m2 e1 = (Inr (), ?m2\<lparr>m_resultStatus := Some RENEW_TOKEN\<rparr>, e2, tr)"
      using s3_expired_upload(1)[OF put m2 r] by blast
    then show ?thesis
      using that t d
      by (simp add: agentUploadOneFile_def putSteps_def getStorageClient_def env(4) RemoteStorageUtil_def
          uploadOneFileWithRetry_def dropLog_def Let_def)
  qed
  show ?thesis
    unfolding uploadFilesinSequential_def using i renewing_never_ends[where P = ?P and one = agentUploadOneFile and env = env, OF step] by blast
qed

text \<open>
  A content that is uploaded to S3 with an expired token is reported as a success: the statement gets
  an empty result, the same as for a content that was stored, and nothing tells it that the data is
  not on the stage.
\<close>

theorem expired_token_content_reported_as_stored:
  assumes put: "\<And>si b k md buf e. \<exists>x e'. s3_putObject c si b k md buf e = (Inl x, e') \<and> se_Code x = Some ''ExpiredToken''"
    and env: "ae_remote env = RemoteStorageUtil su (S3StreamUtil tilde c fi) dk enc encS"
    and td: "td_command td = ''UPLOAD''" "si_locationType (td_stageInfo td) = ''S3''" "td_overwrite td"
      "td_uploadMaterial td = None" "td_sourceCompression td \<noteq> None"
  shows "\<exists>e'. executeFileTransferRequest fuel env command cwd td (Some (b # bs)) e = Some (FileResult [] uploadRowType, e')"
proof -
  define f where "f = \<lparr>pf_srcFileName = (case td_src_locations td of [] \<Rightarrow> ''undefined'' | s # _ \<Rightarrow> s),
      pf_srcFilePath = [], pf_srcFileSize = length (b # bs)\<rparr>"
  have files: "ag_files (initFileMetadata td (addFiles td [f] newAgent)) = [uploadMeta td f]"
    using td by (simp add: initFileMetadata_def addFiles_def newAgent_def dealMaterial_def)
  let ?m = "streamMeta env td (b # bs) (uploadMeta td f)"
  have m: "m_overwrite ?m" "m_encryptionMaterial ?m = None"
    using td by (simp_all add: streamMeta_def uploadMeta_def newMeta_def)
  obtain e2 tr where "uploadOneFileStream (S3StreamUtil tilde c fi) encS (b # bs) ?m e =
      (Inr (), ?m\<lparr>m_resultStatus := Some RENEW_TOKEN\<rparr>, e2, tr)"
    using s3_expired_upload(2)[OF put m] by blast
  then have "executeStream env command td (b # bs) e =
      (Inr ((initFileMetadata td (addFiles td [f] newAgent))\<lparr>ag_files := [?m\<lparr>m_resultStatus := Some RENEW_TOKEN\<rparr>]\<rparr>),
       Some (?m\<lparr>m_resultStatus := Some RENEW_TOKEN\<rparr>), e2)"
    using td unfolding executeStream_def f_def[symmetric] Let_def files updateFileMetasWithPresignedUrl_def
    by (auto simp: getStorageClient_def env RemoteStorageUtil_def dropLog_def)
  then show ?thesis
    using td by (simp add: executeFileTransferRequest_def executeTransfer_def transferResult_def initFileMetadata_def
        addFiles_def newAgent_def)
qed

section \<open>Samples\<close>

definition expiredToken :: storage_error where
  "expiredToken = unauthorized\<lparr>se_Code := Some ''ExpiredToken''\<rparr>"

definition expiredS3 :: "bytes s3_client" where
  "expiredS3 = sampleS3\<lparr>s3_putObject := \<lambda>_ _ _ _ _ e. (Inl expiredToken, e)\<rparr>"

definition idleDisk :: "'e disk" where
  "idleDisk =
     \<lparr>dk_realpath = (\<lambda>p e. (Inr p, e)), dk_mkdirIfMissing = (\<lambda>_ e. e), dk_decryptFile = (\<lambda>_ _ p e. (Inr p, e)),
      dk_copyFile = (\<lambda>_ _ e. (Inr (), e)), dk_removeTemp = (\<lambda>_ e. (Inr (), e)), dk_fileSize = (\<lambda>_ e. (Inr 3, e))\<rparr>"

definition noEncryption :: "enc_material \<Rightarrow> 'd \<Rightarrow> 'e \<Rightarrow> (enc_metadata \<times> 'd) transfer \<times> 'e" where
  "noEncryption _ d e = (Inr (encMetadata [] [] None, d), e)"

definition sampleEnv :: "bytes s3_client \<Rightarrow> bytes agent_env" where
  "sampleEnv c =
     \<lparr>ae_exists = (\<lambda>_ _. True), ae_isDirectory = (\<lambda>_ _. Inr True), ae_fileSize = (\<lambda>_ _. Inr 3), ae_readdir = (\<lambda>_ _. None),
      ae_mkdir = (\<lambda>_ e. (Inr (), e)), ae_firstBytes = (\<lambda>_ _. Inr [1, 2, 3]), ae_mimeLookup = (\<lambda>_. None),
      ae_expandTilde = (\<lambda>s. s), ae_digest = (\<lambda>_. ''d''), ae_tempDir = (\<lambda>e. (Inr ''/tmp/t'', e)), ae_removeDir = (\<lambda>_ e. e),
      ae_compress = (\<lambda>_ _ e. (Inl (TransferError ''ENOSPC''), e)), ae_digestAndSize = (\<lambda>_ _. Inr (''d'', 3)),
      ae_requestStage = (\<lambda>_ e. (Inr sampleStage, e)),
      ae_local = LocalUtil (\<lambda>s. s) \<lparr>lo_mkdirIfMissing = \<lambda>_ e. e, lo_copy = \<lambda>_ _ e. e, lo_size = \<lambda>_ _. Inr 3\<rparr>,
      ae_remote = RemoteStorageUtil (S3Util False (\<lambda>s. s) c sampleDisk) (S3StreamUtil (\<lambda>s. s) c sampleDisk) idleDisk
        noEncryption noEncryption\<rparr>"

definition samplePut :: "string option \<Rightarrow> bool \<Rightarrow> transfer_data" where
  "samplePut compression autoCompress =
     \<lparr>td_command = ''UPLOAD'', td_autoCompress = autoCompress, td_sourceCompression = compression, td_parallel = 4,
      td_stageInfo = sampleStage\<lparr>si_locationType := ''S3''\<rparr>, td_presignedUrls = None, td_overwrite = True,
      td_src_locations = [''/data/a.csv''], td_localLocation = [], td_uploadMaterial = None, td_downloadMaterials = None\<rparr>"

definition sampleAgent :: "bool \<Rightarrow> agent" where
  "sampleAgent compress =
     newAgent\<lparr>ag_files := [(sampleMeta True None None)\<lparr>m_stageLocationType := ''S3'', m_requireCompress := compress\<rparr>]\<rparr>"

theorem expired_s3_token_never_ends_witness:
  "uploadFilesinSequential 100 (sampleEnv expiredS3) [] (samplePut None False) [0] (sampleAgent False) [] = None"
proof (rule expired_s3_token_never_ends)
  show "ae_remote (sampleEnv expiredS3) = RemoteStorageUtil (S3Util False (\<lambda>s. s) expiredS3 sampleDisk)
      (S3StreamUtil (\<lambda>s. s) expiredS3 sampleDisk) idleDisk noEncryption noEncryption"
    by (simp add: sampleEnv_def)
qed (simp_all add: expiredS3_def expiredToken_def sampleEnv_def sampleDisk_def sampleAgent_def newAgent_def sampleMeta_def)

theorem expired_token_content_reported_as_stored_witness:
  "\<exists>e'. executeFileTransferRequest 0 (sampleEnv expiredS3) [] None (samplePut (Some ''gzip'') False) (Some [1, 2, 3]) [] =
     Some (FileResult [] uploadRowType, e')"
proof (rule expired_token_content_reported_as_stored)
  show "ae_remote (sampleEnv expiredS3) = RemoteStorageUtil (S3Util False (\<lambda>s. s) expiredS3 sampleDisk)
      (S3StreamUtil (\<lambda>s. s) expiredS3 sampleDisk) idleDisk noEncryption noEncryption"
    by (simp add: sampleEnv_def)
qed (simp_all add: expiredS3_def expiredToken_def samplePut_def sampleStage_def)


section \<open>Errors without a status\<close>

text \<open>
  When a step before the upload fails, such as compressing the file, the file has no status yet and
  gets none: the PUT ends normally, and its result has a row for the file whose status is undefined and
  whose message is the error, instead of failing.
\<close>

theorem failed_step_reported_in_row:
  assumes "ae_tempDir env e = (Inr t, e1)"
    "putSteps env t ((ag_files ag ! i)\<lparr>m_realSrcFilePath := m_srcFilePath (ag_files ag ! i)\<rparr>) e1 = (Inl x, m, e2)"
    "m_resultStatus m = None" "m_srcFileSize m = Some n" "ag_results ag = []" "i < length (ag_files ag)"
  shows "\<exists>ag' e'. uploadFilesinSequential (Suc fuel) env command td [i] ag e = Some (Inr ag', e') \<and>
    transferResult ''UPLOAD'' ag' = Inr (Some
      ([[Text (m_srcFileName m), Text (m_dstFileName m), Text (show_nat n), Text ''0'', orNull (m_srcCompressionType m),
         orNull (m_dstCompressionType m), Undefined,
         Text (exnText x @ '' file='' @ m_srcFileName m @ '', real file='' @ m_realSrcFilePath m)]], uploadRowType))"
proof -
  have zero: "show_int 0 = ''0''" by code_simp
  show ?thesis
    using assms
    by (auto simp: uploadFilesinSequential_def agentUploadOneFile_def failedMeta_def Let_def transferResult_def uploadRow_def
        orUndefined_def zero)
qed

theorem failed_step_reported_in_row_witness:
  "\<exists>ag' e'. uploadFilesinSequential 1 (sampleEnv sampleS3) [] (samplePut None True) [0] (sampleAgent True) [] = Some (Inr ag', e') \<and>
    transferResult ''UPLOAD'' ag' = Inr (Some
      ([[Text ''a.csv'', Text ''a.csv'', Text ''3'', Text ''0'', Null, Null, Undefined,
         Text ''Error: ENOSPC file=a.csv, real file=/tmp/a.csv'']], uploadRowType))"
proof -
  have three: "show_nat 3 = ''3''" by code_simp
  let ?m = "(ag_files (sampleAgent True) ! 0)\<lparr>m_realSrcFilePath := ''/tmp/a.csv''\<rparr>"
  have m: "m_srcFilePath (ag_files (sampleAgent True) ! 0) = ''/tmp/a.csv''" "m_requireCompress ?m"
    by (simp_all add: sampleAgent_def newAgent_def sampleMeta_def)
  have steps: "putSteps (sampleEnv sampleS3) ''/tmp/t'' ?m [] = (Inl (TransferError ''ENOSPC''), ?m, [])"
    using m(2) unfolding putSteps_def by (simp add: sampleEnv_def)
  have temp: "ae_tempDir (sampleEnv sampleS3) [] = (Inr ''/tmp/t'', [])" by (simp add: sampleEnv_def)
  have "\<exists>ag' e'. uploadFilesinSequential (Suc 0) (sampleEnv sampleS3) [] (samplePut None True) [0] (sampleAgent True) [] =
      Some (Inr ag', e') \<and> transferResult ''UPLOAD'' ag' = Inr (Some
      ([[Text (m_srcFileName ?m), Text (m_dstFileName ?m), Text (show_nat 3), Text ''0'', orNull (m_srcCompressionType ?m),
         orNull (m_dstCompressionType ?m), Undefined,
         Text (exnText (TransferError ''ENOSPC'') @ '' file='' @ m_srcFileName ?m @ '', real file='' @ m_realSrcFilePath ?m)]],
       uploadRowType))"
    by (rule failed_step_reported_in_row[OF temp]) (use steps m in \<open>simp_all add: sampleAgent_def newAgent_def sampleMeta_def\<close>)
  then show ?thesis by (simp add: three sampleAgent_def newAgent_def sampleMeta_def orNull_def)
qed

section \<open>Compression\<close>

lemma gzip_found: "lookupByMimeSubType ''GZIP'' = Some (hd Types)"
proof -
  have "map lowerChar ''GZIP'' = ''gzip''" by code_simp
  then show ?thesis
    using lookup_finds_its_type(1)[of "hd Types" "''gzip''"] by (simp add: lookupByMimeSubType_def Types_def ctype_def)
qed

lemma compressFiles_each:
  "compressFiles env auto sc e files = Inr files' \<Longrightarrow>
     list_all2 (\<lambda>m m'. \<exists>t. fileCompression env sc m e = Inr t \<and> m' = compressMeta auto t m) files files'"
  by (induction files arbitrary: files') (auto simp: tr_bind_eq_Inr)

lemma fileCompression_supported:
  assumes "sourceCompressionOf s = Inr sc" "fileCompression env sc m e = Inr (Some t)"
  shows "ct_is_supported t"
  using assms
  by (auto simp: sourceCompressionOf_def fileCompression_def tr_bind_eq_Inr split: option.splits if_splits source_compression.splits)

text \<open>
  C27. What a PUT decides about compression is consistent: a file is compressed only if the server asked
  for it and no compression was found, its name on the stage then ends with \<open>.gz\<close> and is unchanged
  otherwise, and its type on the stage is gzip or a supported one, or none. The compression of the
  source is never recorded.
\<close>

theorem compression_decided:
  assumes "processFileCompressionType env td e files = Inr files'"
  shows "list_all2 (\<lambda>m m'.
      (m_requireCompress m' \<longrightarrow> td_autoCompress td \<and> m_dstCompressionType m' = Some (hd Types)) \<and>
      m_dstFileName m' = m_srcFileName m @ (if m_requireCompress m' then ''.gz'' else []) \<and>
      m_srcFileName m' = m_srcFileName m \<and> m_srcFilePath m' = m_srcFilePath m \<and>
      (case m_dstCompressionType m' of None \<Rightarrow> \<not> td_autoCompress td | Some t \<Rightarrow> ct_is_supported t) \<and>
      (m_srcCompressionType m = None \<longrightarrow> m_srcCompressionType m' = None)) files files'"
proof -
  obtain sc where sc: "sourceCompressionOf (td_sourceCompression td) = Inr sc"
    "compressFiles env (td_autoCompress td) sc e files = Inr files'"
    using assms by (auto simp: processFileCompressionType_def tr_bind_eq_Inr)
  have gz: "ct_file_extension (hd Types) = ''.gz''" "ct_is_supported (hd Types)" by (simp_all add: Types_def ctype_def)
  have each: "(m_requireCompress m' \<longrightarrow> td_autoCompress td \<and> m_dstCompressionType m' = Some (hd Types)) \<and>
      m_dstFileName m' = m_srcFileName m @ (if m_requireCompress m' then ''.gz'' else []) \<and>
      m_srcFileName m' = m_srcFileName m \<and> m_srcFilePath m' = m_srcFilePath m \<and>
      (case m_dstCompressionType m' of None \<Rightarrow> \<not> td_autoCompress td | Some t \<Rightarrow> ct_is_supported t) \<and>
      (m_srcCompressionType m = None \<longrightarrow> m_srcCompressionType m' = None)"
    if some: "\<exists>t. fileCompression env sc m e = Inr t \<and> m' = compressMeta (td_autoCompress td) t m" for m m'
  proof -
    obtain t where t: "fileCompression env sc m e = Inr t" "m' = compressMeta (td_autoCompress td) t m"
      using some by blast
    show ?thesis
    proof (cases t)
      case None
      then show ?thesis using t(2) by (cases "td_autoCompress td") (simp_all add: compressMeta_def gzip_found gz)
    next
      case (Some c)
      then show ?thesis using t fileCompression_supported[OF sc(1), of env m e c] by (simp add: compressMeta_def)
    qed
  qed
  show ?thesis by (rule list_all2_mono[OF compressFiles_each[OF sc(2)]]) (rule each)
qed

theorem compression_decided_witness:
  "\<exists>m'. processFileCompressionType (sampleEnv sampleS3) (samplePut (Some ''auto_detect'') True) [] [sampleMeta True None None] = Inr [m'] \<and>
    m_dstFileName m' = ''a.csv.gz'' \<and> m_requireCompress m'"
proof -
  let ?m = "sampleMeta True None None"
  have "detectEncoding ''a.csv'' [1, 2, 3] = None" by (simp add: detectEncoding_def extension_def)
  then have run: "processFileCompressionType (sampleEnv sampleS3) (samplePut (Some ''auto_detect'') True) [] [?m] =
      Inr [compressMeta True None ?m]"
    by (simp add: processFileCompressionType_def sourceCompressionOf_def fileCompression_def samplePut_def sampleEnv_def
        sampleMeta_def)
  have "m_requireCompress (compressMeta True None ?m)" by (simp add: compressMeta_def)
  then show ?thesis
    using compression_decided[OF run] run by (simp add: sampleMeta_def)
qed

section \<open>The file name in a command\<close>

lemma index_of_char:
  "textIndex [c] s = (if c \<in> set s then int (length (takeWhile (\<lambda>x. x \<noteq> c) s)) else - 1)"
proof -
  have "indexOfText [c] s = (if c \<in> set s then Some (length (takeWhile (\<lambda>x. x \<noteq> c) s)) else None)"
    by (induction s) auto
  then show ?thesis by (simp add: textIndex_def)
qed

text \<open>
  From a PUT command the name of the file is taken up to the first blank or quote. So a quoted path
  with a blank in it is cut off there, and the request for a presigned url replaces only that part.
\<close>

theorem put_command_file_name:
  "getFileNameFromPutCommand (''PUT file://'' @ path @ CHR '' '' # rest) =
     takeWhile (\<lambda>c. c \<noteq> CHR '' '' \<and> c \<noteq> CHR 0x27) path"
proof -
  let ?r = "path @ CHR '' '' # rest" and ?c = "''PUT file://'' @ path @ CHR '' '' # rest"
  define b q where "b = length (takeWhile (\<lambda>x. x \<noteq> CHR '' '') ?r)" and "q = length (takeWhile (\<lambda>x. x \<noteq> CHR 0x27) ?r)"
  have start: "textIndex ''file://'' ?c = 4" by (simp add: textIndex_def)
  have rest: "js_substring ?c 11 (int (length ?c)) = ?r"
    by (simp add: js_substring_def Let_def nat_add_distrib)
  have cut: "js_substring ?c 11 (11 + int n) = take n ?r" if "n \<le> length ?r" for n
    using that by (simp add: js_substring_def Let_def nat_add_distrib min_def)
  have le: "b \<le> length ?r" "q \<le> length ?r" by (simp_all only: b_def q_def length_takeWhile_le)
  have both: "takeWhile (\<lambda>c. c \<noteq> CHR '' '' \<and> c \<noteq> CHR 0x27) path = take (min b q) ?r"
    unfolding b_def q_def by (induction path) auto
  have space: "textIndex '' '' ?r = int b" by (simp only: index_of_char b_def) simp
  have quote: "textIndex [CHR 0x27] ?r = (if CHR 0x27 \<in> set ?r then int q else - 1)"
    by (simp only: index_of_char q_def)
  have none: "q = length ?r" if "CHR 0x27 \<notin> set ?r"
    using that takeWhile_eq_all_conv[of "\<lambda>x. x \<noteq> CHR 0x27" ?r] by (metis q_def)
  have len: "(if textIndex [CHR 0x27] ?r \<noteq> - 1 \<and> textIndex [CHR 0x27] ?r < textIndex '' '' ?r
      then textIndex [CHR 0x27] ?r else textIndex '' '' ?r) = int (min b q)"
  proof (cases "CHR 0x27 \<in> set ?r")
    case True
    then show ?thesis by (simp only: quote space if_True) (simp add: min_def)
  next
    case False
    then show ?thesis using le(1) none[OF False] by (simp only: quote space if_False) (simp add: min_def)
  qed
  have "4 + 7 = (11::int)" "min b q \<le> length ?r" using le by simp_all
  then show ?thesis
    unfolding getFileNameFromPutCommand_def Let_def start by (simp only: rest len cut both)
qed

end
