(* ===== verification/EncryptModel.thy ===== *)
theory EncryptModel
  imports MultipartModel "HOL-Library.Sublist"
begin

text \<open>
  Encryption of staged files on the client (\<open>file_transfer_agent/encrypt_util.js\<close>).

  The ciphers of the \<open>crypto\<close> module are objects \<open>'c\<close> with their calls in the record \<open>crypt_env\<close>, together with
  the random source and the files of a world \<open>'e\<close>.  A file is fed to a cipher in pieces by callbacks of a
  stream that has no error handler, so an exception there is not a rejection of the promise: it is
  \<open>Crashed\<close>, the uncaught exception that ends the process.
\<close>

section \<open>Base64 of buffers\<close>

text \<open>\<open>Buffer.from(s, 'base64')\<close> and \<open>b.toString('base64')\<close>: decoding skips what is no digit and stops at \<open>=\<close>.\<close>

definition toBase64 :: "bytes \<Rightarrow> string" where
  "toBase64 b = base64 (map (\<lambda>x. char_of (unat x)) b)"

definition sextet :: "char \<Rightarrow> nat option" where
  "sextet c =
     (let k = length (takeWhile (\<lambda>x. x \<noteq> c) ''ABCDEFGHIJKLMNOPQRSTUVWXYZabcdefghijklmnopqrstuvwxyz0123456789+/'')
      in if k < 64 then Some k else if c = CHR ''-'' then Some 62 else if c = CHR ''_'' then Some 63 else None)"

fun octets :: "nat list \<Rightarrow> bytes" where
  "octets (a # b # c # d # rest) =
     of_nat (a * 4 + b div 16) # of_nat (b mod 16 * 16 + c div 4) # of_nat (c mod 4 * 64 + d) # octets rest"
| "octets [a, b, c] = [of_nat (a * 4 + b div 16), of_nat (b mod 16 * 16 + c div 4)]"
| "octets [a, b] = [of_nat (a * 4 + b div 16)]"
| "octets _ = []"

definition fromBase64 :: "string \<Rightarrow> bytes" where
  "fromBase64 s = octets (List.map_filter sextet (takeWhile (\<lambda>c. c \<noteq> CHR ''='') s))"

lemma length_takeWhile_nth: "distinct xs \<Longrightarrow> k < length xs \<Longrightarrow> length (takeWhile (\<lambda>x. x \<noteq> xs ! k) xs) = k"
  by (induction xs arbitrary: k) (auto simp: nth_Cons' split: if_splits)

lemma sextet_digit: "k < 64 \<Longrightarrow> sextet (base64_digit k) = Some k \<and> base64_digit k \<noteq> CHR ''=''"
proof -
  let ?a = "''ABCDEFGHIJKLMNOPQRSTUVWXYZabcdefghijklmnopqrstuvwxyz0123456789+/''"
  assume k: "k < 64"
  have a: "distinct ?a" "length ?a = 64" "CHR ''='' \<notin> set ?a" by simp_all
  then have "?a ! k \<noteq> CHR ''=''" using k by (metis nth_mem)
  moreover have "length (takeWhile (\<lambda>x. x \<noteq> ?a ! k) ?a) = k" using length_takeWhile_nth[OF a(1)] k a(2) by presburger
  ultimately show ?thesis using k by (simp only: sextet_def base64_digit_def Let_def if_True simp_thms)
qed

lemma div_mod_distrib_64:
  "m mod 64 div 16 = m div 16 mod (4::nat)" "m mod 64 div 4 = m div 4 mod (16::nat)"
  by (subst mod_mult2_eq[of m 16 4, simplified], simp) (subst mod_mult2_eq[of m 4 16, simplified], simp)

lemma sextets_back:
  "(m div 64) * 4 + m mod 64 div 16 = m div (16::nat)"
  "m div 64 mod 16 * 16 + m mod 64 div 4 = m div 4 mod (256::nat)"
  "m div 64 mod 4 * 64 + m mod 64 = m mod (256::nat)"
proof -
  have r: "m mod 64 div 16 = m div 16 mod 4" "m mod 64 div 4 = m div 4 mod 16"
    by (simp_all add: div_mod_distrib_64)
  have d: "m div 64 = m div 16 div 4" "m div 64 = m div 4 div 16" by (simp_all add: div_mult2_eq[symmetric])
  show "(m div 64) * 4 + m mod 64 div 16 = m div 16" by (simp only: r d(1) div_mult_mod_eq)
  show "m div 64 mod 16 * 16 + m mod 64 div 4 = m div 4 mod 256"
    using mod_mult2_eq[of "m div 4" 16 16] by (simp only: r d(2)) simp
  show "m div 64 mod 4 * 64 + m mod 64 = m mod 256"
    using mod_mult2_eq[of m 64 4] by simp
qed

lemma octets_of_group:
  fixes a b c n :: nat
  assumes n: "n = a * 65536 + b * 256 + c" and lt: "a < 256" "b < 256" "c < 256"
  shows "n div 262144 < 64" "n div 262144 * 4 + n div 4096 mod 64 div 16 = a"
    "n div 4096 mod 64 mod 16 * 16 + n div 64 mod 64 div 4 = b"
    "n div 64 mod 64 mod 4 * 64 + n mod 64 = c"
proof -
  have m16: "x mod 64 mod 16 = x mod 16" "x mod 64 mod 4 = x mod 4" for x :: nat
    by (simp_all add: mod_mod_cancel)
  have d: "n div 262144 = n div 4096 div 64" "n div 4096 = n div 64 div 64" "n div 4096 div 16 = n div 65536"
    "n div 64 div 4 = n div 256" "n div 65536 = n div 256 div 256"
    by (simp_all add: div_mult2_eq[symmetric])
  have e: "n = c + (b + a * 256) * 256" by (simp add: n)
  have parts: "n mod 256 = c" "n div 256 = b + a * 256" using lt(3) unfolding e mod_mult_self1 by simp_all
  have a: "n div 65536 = a" "(b + a * 256) mod 256 = b" using lt(2) by (auto simp: d(5) parts(2))
  show "n div 262144 * 4 + n div 4096 mod 64 div 16 = a"
    by (simp only: d(1) sextets_back(1) d(3) a)
  have "n < 64 * 262144" using n lt by linarith
  then show "n div 262144 < 64" by (rule less_mult_imp_div_less)
  show "n div 4096 mod 64 mod 16 * 16 + n div 64 mod 64 div 4 = b"
    by (simp only: d(2) m16 sextets_back(2) d(4) parts a)
  show "n div 64 mod 64 mod 4 * 64 + n mod 64 = c"
    by (simp only: m16 sextets_back(3) parts)
qed

lemma octets_base64:
  "octets (List.map_filter sextet (takeWhile (\<lambda>c. c \<noteq> CHR ''='') (base64 s))) = map of_char s"
proof (induction s rule: base64.induct)
  case (2 a)
  define n where "n = (of_char a :: nat) * 16"
  have m: "n * 4096 = of_char a * 65536 + 0 * 256 + 0" by (simp add: n_def)
  have q: "n * 4096 div 262144 = n div 64" "n * 4096 div 4096 mod 64 = n mod 64"
    using div_mult_mult2[of 4096 n 64] by simp_all
  have "n div 64 < 64" "n div 64 * 4 + n mod 64 div 16 = of_char a"
    using octets_of_group(1,2)[OF m nat_of_char_less_256] by (simp_all only: q)
  then show ?case using sextet_digit[of "n div 64"] sextet_digit[of "n mod 64"]
    by (simp add: Let_def List.map_filter_simps n_def[symmetric] of_nat_of_char)
next
  case (3 a b)
  define n where "n = (of_char a :: nat) * 1024 + of_char b * 4"
  have m: "n * 64 = of_char a * 65536 + of_char b * 256 + 0" by (simp add: n_def)
  have q: "n * 64 div 262144 = n div 4096" "n * 64 div 4096 = n div 64" "n * 64 div 64 = n"
    using div_mult_mult2[of 64 n 4096] div_mult_mult2[of 64 n 64] by simp_all
  have "n div 4096 < 64" "n div 4096 * 4 + n div 64 mod 64 div 16 = of_char a"
    "n div 64 mod 64 mod 16 * 16 + n mod 64 div 4 = of_char b"
    using octets_of_group(1-3)[OF m nat_of_char_less_256 nat_of_char_less_256] by (simp_all only: q)
  then show ?case using sextet_digit[of "n div 4096"] sextet_digit[of "n div 64 mod 64"] sextet_digit[of "n mod 64"]
    by (simp add: Let_def List.map_filter_simps n_def[symmetric] of_nat_of_char)
next
  case (4 a b c cs)
  define n where "n = (of_char a :: nat) * 65536 + of_char b * 256 + of_char c"
  note g = octets_of_group[OF n_def nat_of_char_less_256 nat_of_char_less_256 nat_of_char_less_256]
  show ?case
    using 4 g sextet_digit[of "n div 262144"] sextet_digit[of "n div 4096 mod 64"]
      sextet_digit[of "n div 64 mod 64"] sextet_digit[of "n mod 64"]
    by (simp add: Let_def List.map_filter_simps n_def[symmetric] of_nat_of_char)
qed (simp add: List.map_filter_simps)

lemma of_char_unat: "(of_char (char_of (unat (x :: 8 word)) :: char) :: 8 word) = x"
proof -
  have "(of_char (char_of (unat x) :: char) :: nat) = unat x"
    using unsigned_less[of x, where ?'a = nat] by simp
  then show ?thesis by (metis of_nat_of_char of_nat_unat ucast_id)
qed

lemma base64_roundtrip [simp]: "fromBase64 (toBase64 b) = b"
  by (simp add: fromBase64_def toBase64_def octets_base64 comp_def of_char_unat)


section \<open>Ciphers and the world\<close>

definition AES_BLOCK_SIZE :: nat where "AES_BLOCK_SIZE = 128"
definition blockSize :: nat where "blockSize = AES_BLOCK_SIZE div 8"
definition AUTH_TAG_LENGTH_IN_BYTES :: nat where "AUTH_TAG_LENGTH_IN_BYTES = 16"
definition DEFAULT_AAD :: bytes where "DEFAULT_AAD = []"

definition aes_cbc :: "nat \<Rightarrow> string" where "aes_cbc keySize = ''aes-'' @ show_nat (keySize * 8) @ ''-cbc''"
definition aes_ecb :: "nat \<Rightarrow> string" where "aes_ecb keySize = ''aes-'' @ show_nat (keySize * 8) @ ''-ecb''"
definition aes_gcm :: "nat \<Rightarrow> string" where "aes_gcm keySize = ''aes-'' @ show_nat (keySize * 8) @ ''-gcm''"

definition cbc_ivSize :: nat where "cbc_ivSize = 16"
definition gcm_ivSize :: nat where "gcm_ivSize = 12"

record ('c, 'e) crypt_env =
  cy_createCipheriv :: "string \<Rightarrow> bytes \<Rightarrow> bytes option \<Rightarrow> 'c transfer"
  cy_createDecipheriv :: "string \<Rightarrow> bytes \<Rightarrow> bytes option \<Rightarrow> 'c transfer"
  cy_setAAD :: "bytes \<Rightarrow> 'c \<Rightarrow> 'c"
  cy_setAuthTag :: "bytes \<Rightarrow> 'c \<Rightarrow> 'c"
  cy_update :: "'c \<Rightarrow> bytes \<Rightarrow> (bytes \<times> 'c) transfer"
  cy_final :: "'c \<Rightarrow> (bytes \<times> 'c) transfer"
  cy_getAuthTag :: "'c \<Rightarrow> bytes"
  cy_randomBytes :: "nat \<Rightarrow> 'e \<Rightarrow> bytes \<times> 'e"
  cy_randomUUID :: "'e \<Rightarrow> string \<times> 'e"
  cy_tmpdir :: string
  cy_exists :: "'e \<Rightarrow> string \<Rightarrow> bool"
  cy_createFile :: "string \<Rightarrow> 'e \<Rightarrow> unit transfer \<times> 'e"
  cy_readFile :: "'e \<Rightarrow> string \<Rightarrow> bytes transfer"
  cy_writeFile :: "string \<Rightarrow> bytes \<Rightarrow> 'e \<Rightarrow> unit transfer \<times> 'e"
  cy_closeFile :: "string \<Rightarrow> 'e \<Rightarrow> unit transfer \<times> 'e"

text \<open>How an asynchronous function ends: its promise is settled, or an exception was never caught.\<close>

datatype 'a ending = Settled "'a transfer" | Crashed transfer_exn

definition en_bind :: "'a ending \<times> 'e \<Rightarrow> ('a \<Rightarrow> 'e \<Rightarrow> 'b ending \<times> 'e) \<Rightarrow> 'b ending \<times> 'e" where
  "en_bind r f =
     (case r of
        (Crashed x, e) \<Rightarrow> (Crashed x, e)
      | (Settled (Inl x), e) \<Rightarrow> (Settled (Inl x), e)
      | (Settled (Inr v), e) \<Rightarrow> f v e)"

lemma en_bind_simps [simp]:
  "en_bind (Crashed x, e) f = (Crashed x, e)"
  "en_bind (Settled (Inl x), e) f = (Settled (Inl x), e)"
  "en_bind (Settled (Inr v), e) f = f v e"
  by (simp_all add: en_bind_def)

definition settling :: "'a transfer \<times> 'e \<Rightarrow> 'a ending \<times> 'e" where
  "settling r = (Settled (fst r), snd r)"

lemma settled_simps [simp]: "settling (r, e) = (Settled r, e)"
  by (simp add: settling_def)

section \<open>Metadata\<close>

record material_descriptor =
  md_smkId :: string
  md_queryId :: string
  md_keySize :: nat

text \<open>\<open>JSON.stringify\<close> of a text, and \<open>matDescToUnicode\<close>: every value becomes a text.\<close>

definition hexDigit :: "nat \<Rightarrow> char" where "hexDigit k = ''0123456789abcdef'' ! k"

definition jsonChar :: "char \<Rightarrow> string" where
  "jsonChar c =
     (if c = CHR 0x22 \<or> c = CHR 0x5C then [CHR 0x5C, c]
      else if c = CHR 0x08 then [CHR 0x5C, CHR ''b''] else if c = CHR 0x09 then [CHR 0x5C, CHR ''t'']
      else if c = CHR 0x0A then [CHR 0x5C, CHR ''n''] else if c = CHR 0x0C then [CHR 0x5C, CHR ''f'']
      else if c = CHR 0x0D then [CHR 0x5C, CHR ''r'']
      else if (of_char c :: nat) < 32 then
        CHR 0x5C # ''u00'' @ [hexDigit (of_char c div 16), hexDigit (of_char c mod 16)]
      else [c])"

definition jsonQuoted :: "string \<Rightarrow> string" where
  "jsonQuoted s = CHR 0x22 # concat (map jsonChar s) @ [CHR 0x22]"

definition matDescToUnicode :: "material_descriptor \<Rightarrow> string" where
  "matDescToUnicode d =
     ''{'' @ jsonQuoted ''smkId'' @ '':'' @ jsonQuoted (md_smkId d) @ '','' @
     jsonQuoted ''queryId'' @ '':'' @ jsonQuoted (md_queryId d) @ '','' @
     jsonQuoted ''keySize'' @ '':'' @ jsonQuoted (show_nat (md_keySize d)) @ ''}''"

definition createEncryptionMetadata ::
  "enc_material \<Rightarrow> nat \<Rightarrow> bytes \<Rightarrow> bytes \<Rightarrow> bytes option \<Rightarrow> bytes option \<Rightarrow> bytes option \<Rightarrow> enc_metadata"
where
  "createEncryptionMetadata material keySize encryptedKey dataIv keyIv dataAad keyAad =
     \<lparr>en_key = toBase64 encryptedKey, en_iv = toBase64 dataIv,
      en_matDesc = Some (matDescToUnicode
        \<lparr>md_smkId = em_smkId material, md_queryId = em_queryId material, md_keySize = keySize * 8\<rparr>),
      en_keyIv = map_option toBase64 keyIv, en_dataAad = map_option toBase64 dataAad,
      en_keyAad = map_option toBase64 keyAad\<rparr>"

section \<open>Temporary files\<close>

text \<open>
  \<open>TempFileGenerator\<close>.  The ending is \<open>'.' + option.extension || ''\<close>, which is never empty: without an
  extension the name ends with the word \<open>undefined\<close>.
\<close>

record temp_option =
  to_dir :: "string option"
  to_prefix :: string
  to_postfix :: string
  to_extension :: "string option"

definition checkDirInTemp :: "('c, 'e) crypt_env \<Rightarrow> 'e \<Rightarrow> string option \<Rightarrow> bool" where
  "checkDirInTemp cy e dir =
     (case dir of None \<Rightarrow> False | Some d \<Rightarrow> d \<noteq> [] \<and> sublist (cy_tmpdir cy) d \<and> cy_exists cy e d)"

definition tempPath :: "('c, 'e) crypt_env \<Rightarrow> temp_option \<Rightarrow> 'e \<Rightarrow> string \<Rightarrow> string" where
  "tempPath cy opt e uuid =
     joinPath (if checkDirInTemp cy e (to_dir opt) then the (to_dir opt) else cy_tmpdir cy)
       (to_prefix opt @ uuid @ to_postfix opt @ ''.'' @
        (case to_extension opt of None \<Rightarrow> ''undefined'' | Some x \<Rightarrow> x))"

definition fileSync :: "('c, 'e) crypt_env \<Rightarrow> temp_option \<Rightarrow> 'e \<Rightarrow> string transfer \<times> 'e" where
  "fileSync cy opt e =
     (case cy_randomUUID cy e of
        (uuid, e1) \<Rightarrow>
          (let p = tempPath cy opt e1 uuid in dk_bind (cy_createFile cy p e1) (\<lambda>_ e2. (Inr p, e2))))"

definition tempFor :: "string option \<Rightarrow> string \<Rightarrow> temp_option" where
  "tempFor dir pre = \<lparr>to_dir = dir, to_prefix = pre, to_postfix = [], to_extension = None\<rparr>"

section \<open>Buffers\<close>

definition performCrypto :: "('c, 'e) crypt_env \<Rightarrow> 'c \<Rightarrow> bytes \<Rightarrow> (bytes \<times> 'c) transfer" where
  "performCrypto cy c data =
     tr_bind (cy_update cy c data) (\<lambda>(x, c1). tr_bind (cy_final cy c1) (\<lambda>(y, c2). Inr (x @ y, c2)))"

definition encryptGCM :: "('c, 'e) crypt_env \<Rightarrow> bytes \<Rightarrow> bytes \<Rightarrow> bytes \<Rightarrow> bytes \<Rightarrow> bytes transfer" where
  "encryptGCM cy data key iv aad =
     tr_bind (cy_createCipheriv cy (aes_gcm (length key)) key (Some iv))
       (\<lambda>c. tr_bind (performCrypto cy (cy_setAAD cy aad c) data) (\<lambda>(x, c1). Inr (x @ cy_getAuthTag cy c1)))"

text \<open>\<open>b.slice(i, j)\<close>: a negative bound counts from the end.\<close>

definition bytesSlice :: "bytes \<Rightarrow> int \<Rightarrow> int \<Rightarrow> bytes" where
  "bytesSlice b i j =
     (let n = int (length b); pos = (\<lambda>k. nat (min n (if k < 0 then max 0 (n + k) else k)))
      in take (pos j - pos i) (drop (pos i) b))"

definition decryptGCM :: "('c, 'e) crypt_env \<Rightarrow> bytes \<Rightarrow> bytes \<Rightarrow> bytes \<Rightarrow> bytes \<Rightarrow> bytes transfer" where
  "decryptGCM cy data key iv aad =
     tr_bind (cy_createDecipheriv cy (aes_gcm (length key)) key (Some iv))
       (\<lambda>c. let cut = int (length data) - int AUTH_TAG_LENGTH_IN_BYTES;
                authTag = bytesSlice data cut (int (length data));
                cipherText = bytesSlice data 0 cut
             in tr_bind (performCrypto cy (cy_setAuthTag cy authTag (cy_setAAD cy aad c)) cipherText)
                  (\<lambda>(x, c1). Inr x))"

definition stageKey :: "enc_material \<Rightarrow> bytes" where
  "stageKey material = fromBase64 (em_queryStageMasterKey material)"

text \<open>\<open>encryptDataCBC\<close> and \<open>encryptDataGCM\<close>: a fresh key for the data, itself encrypted with the key of the stage.\<close>

definition wrapKey :: "('c, 'e) crypt_env \<Rightarrow> bytes \<Rightarrow> bytes \<Rightarrow> bytes transfer" where
  "wrapKey cy decodedKek fileKey =
     tr_bind (cy_createCipheriv cy (aes_ecb (length decodedKek)) decodedKek None)
       (\<lambda>c. tr_bind (performCrypto cy c fileKey) (\<lambda>(x, c1). Inr x))"

definition encryptDataCBC ::
  "('c, 'e) crypt_env \<Rightarrow> enc_material \<Rightarrow> bytes \<Rightarrow> 'e \<Rightarrow> (enc_metadata \<times> bytes) transfer \<times> 'e"
where
  "encryptDataCBC cy material data e =
     (let decodedKek = stageKey material; keySize = length decodedKek;
          (dataIv, e1) = cy_randomBytes cy cbc_ivSize e;
          (fileKey, e2) = cy_randomBytes cy keySize e1
      in (tr_bind (cy_createCipheriv cy (aes_cbc keySize) fileKey (Some dataIv))
            (\<lambda>c. tr_bind (performCrypto cy c data) (\<lambda>(encryptedData, c1).
               tr_bind (wrapKey cy decodedKek fileKey) (\<lambda>encryptedKey.
                 Inr (createEncryptionMetadata material keySize encryptedKey dataIv None None None, encryptedData)))), e2))"

definition encryptFileStream where "encryptFileStream = encryptDataCBC"

definition wrapKeyGCM ::
  "('c, 'e) crypt_env \<Rightarrow> enc_material \<Rightarrow> nat \<Rightarrow> bytes \<Rightarrow> bytes \<Rightarrow> 'x \<Rightarrow> 'e \<Rightarrow> (enc_metadata \<times> 'x) transfer \<times> 'e"
where
  "wrapKeyGCM cy material keySize fileKey dataIv sealed e =
     (let (keyIv, e1) = cy_randomBytes cy gcm_ivSize e
      in (tr_bind (encryptGCM cy fileKey (stageKey material) keyIv DEFAULT_AAD) (\<lambda>encryptedKey.
            Inr (createEncryptionMetadata material keySize encryptedKey dataIv (Some keyIv)
                   (Some DEFAULT_AAD) (Some DEFAULT_AAD), sealed)), e1))"

definition encryptDataGCM ::
  "('c, 'e) crypt_env \<Rightarrow> enc_material \<Rightarrow> bytes \<Rightarrow> 'e \<Rightarrow> (enc_metadata \<times> bytes) transfer \<times> 'e"
where
  "encryptDataGCM cy material data e =
     (let decodedKek = stageKey material; keySize = length decodedKek;
          (dataIv, e1) = cy_randomBytes cy gcm_ivSize e;
          (fileKey, e2) = cy_randomBytes cy keySize e1
      in case encryptGCM cy data fileKey dataIv DEFAULT_AAD of
           Inl x \<Rightarrow> (Inl x, e2)
         | Inr encryptedData \<Rightarrow> wrapKeyGCM cy material keySize fileKey dataIv encryptedData e2)"

section \<open>Files\<close>

text \<open>The pieces in which a read stream with \<open>highWaterMark\<close> \<open>n\<close> delivers a file.\<close>

function pieces :: "nat \<Rightarrow> bytes \<Rightarrow> bytes list" where
  "pieces n b = (if b = [] \<or> n = 0 then [] else take n b # pieces n (drop n b))"
  by pat_completeness auto
termination
  by (relation "measure (length \<circ> snd)") auto

declare pieces.simps [simp del]

fun updateAll :: "('c, 'e) crypt_env \<Rightarrow> 'c \<Rightarrow> bytes list \<Rightarrow> (bytes list \<times> 'c) transfer" where
  "updateAll cy c [] = Inr ([], c)"
| "updateAll cy c (b # bs) =
     tr_bind (cy_update cy c b) (\<lambda>(x, c1). tr_bind (updateAll cy c1 bs) (\<lambda>(xs, c2). Inr (x # xs, c2)))"

text \<open>What the callbacks of the stream write: an exception there, also of the streams, is not caught.\<close>

definition streamCrypto :: "('c, 'e) crypt_env \<Rightarrow> 'c \<Rightarrow> nat \<Rightarrow> bytes \<Rightarrow> bytes transfer" where
  "streamCrypto cy c chunkSize content =
     tr_bind (updateAll cy c (pieces chunkSize content))
       (\<lambda>(xs, c1). tr_bind (cy_final cy c1) (\<lambda>(y, c2). Inr (concat xs @ y)))"

definition uncaught :: "'a transfer \<times> 'e \<Rightarrow> 'a ending \<times> 'e" where
  "uncaught r = (case r of (Inl x, e) \<Rightarrow> (Crashed x, e) | (Inr v, e) \<Rightarrow> (Settled (Inr v), e))"

lemma uncaught_simps [simp]:
  "uncaught (Inl x, e) = (Crashed x, e)" "uncaught (Inr v, e) = (Settled (Inr v), e)"
  by (simp_all add: uncaught_def)

definition performFileStreamCrypto ::
  "('c, 'e) crypt_env \<Rightarrow> 'c \<Rightarrow> string option \<Rightarrow> string \<Rightarrow> nat \<Rightarrow> 'e \<Rightarrow> string ending \<times> 'e"
where
  "performFileStreamCrypto cy c tmpDir inputFilePath chunkSize e =
     en_bind (settling (fileSync cy (tempFor tmpDir (basename inputFilePath @ ''#'')) e)) (\<lambda>out e1.
     en_bind (uncaught (tr_bind (cy_readFile cy e1 inputFilePath) (streamCrypto cy c chunkSize), e1)) (\<lambda>content e2.
     en_bind (uncaught (cy_writeFile cy out content e2)) (\<lambda>_ e3.
     en_bind (settling (cy_closeFile cy out e3)) (\<lambda>_ e4. (Settled (Inr out), e4)))))"

definition writeContentToFile ::
  "('c, 'e) crypt_env \<Rightarrow> string option \<Rightarrow> string \<Rightarrow> bytes \<Rightarrow> 'e \<Rightarrow> string transfer \<times> 'e"
where
  "writeContentToFile cy tmpDir pre content e =
     dk_bind (fileSync cy (tempFor tmpDir pre) e) (\<lambda>out e1.
     dk_bind (cy_writeFile cy out content e1) (\<lambda>_ e2.
     dk_bind (cy_closeFile cy out e2) (\<lambda>_ e3. (Inr out, e3))))"

definition encryptFileCBC ::
  "('c, 'e) crypt_env \<Rightarrow> enc_material \<Rightarrow> string \<Rightarrow> string option \<Rightarrow> nat \<Rightarrow> 'e \<Rightarrow> (enc_metadata \<times> string) ending \<times> 'e"
where
  "encryptFileCBC cy material inputFilePath tmpDir chunkSize e =
     (let decodedKek = stageKey material; keySize = length decodedKek;
          (dataIv, e1) = cy_randomBytes cy cbc_ivSize e;
          (fileKey, e2) = cy_randomBytes cy keySize e1
      in en_bind (settling (cy_createCipheriv cy (aes_cbc keySize) fileKey (Some dataIv), e2)) (\<lambda>c e3.
         en_bind (performFileStreamCrypto cy c tmpDir inputFilePath chunkSize e3) (\<lambda>out e4.
         en_bind (settling (wrapKey cy decodedKek fileKey, e4)) (\<lambda>encryptedKey e5.
           (Settled (Inr (createEncryptionMetadata material keySize encryptedKey dataIv None None None, out)), e5)))))"

text \<open>\<open>encryptFile\<close> with its default piece size.\<close>

definition encryptFile where
  "encryptFile cy material inputFilePath tmpDir = encryptFileCBC cy material inputFilePath tmpDir (blockSize * 4 * 1024)"

definition encryptFileGCM ::
  "('c, 'e) crypt_env \<Rightarrow> enc_material \<Rightarrow> string \<Rightarrow> string option \<Rightarrow> 'e \<Rightarrow> (enc_metadata \<times> string) transfer \<times> 'e"
where
  "encryptFileGCM cy material inputFilePath tmpDir e =
     (let decodedKek = stageKey material;
          (dataIv, e1) = cy_randomBytes cy gcm_ivSize e;
          (fileKey, e2) = cy_randomBytes cy (length decodedKek) e1
      in dk_bind (tr_bind (cy_readFile cy e2 inputFilePath) (\<lambda>content. encryptGCM cy content fileKey dataIv DEFAULT_AAD), e2)
           (\<lambda>encryptedData e3.
         dk_bind (writeContentToFile cy tmpDir (basename inputFilePath @ ''#'') encryptedData e3) (\<lambda>out e4.
           wrapKeyGCM cy material (length fileKey) fileKey dataIv out e4)))"

text \<open>
  Decryption.  Missing metadata, and a field \<open>Buffer.from\<close> does not get, are a \<open>TypeError\<close>; that is how a
  file encrypted with GCM ends when its metadata went through a storage, which keeps no iv of the key.
\<close>

definition present :: "'a option \<Rightarrow> 'a transfer" where
  "present x = (case x of None \<Rightarrow> Inl (LanguageError TypeError) | Some v \<Rightarrow> Inr v)"

lemma present_simps [simp]: "present None = Inl (LanguageError TypeError)" "present (Some v) = Inr v"
  by (simp_all add: present_def)

definition unwrapKey :: "('c, 'e) crypt_env \<Rightarrow> bytes \<Rightarrow> bytes \<Rightarrow> bytes transfer" where
  "unwrapKey cy decodedKek keyBytes =
     tr_bind (cy_createDecipheriv cy (aes_ecb (length decodedKek)) decodedKek None)
       (\<lambda>c. tr_bind (performCrypto cy c keyBytes) (\<lambda>(x, c1). Inr x))"

definition decryptFileCBC ::
  "('c, 'e) crypt_env \<Rightarrow> enc_metadata option \<Rightarrow> enc_material \<Rightarrow> string \<Rightarrow> string option \<Rightarrow> nat \<Rightarrow> 'e \<Rightarrow> string ending \<times> 'e"
where
  "decryptFileCBC cy metadata material inputFilePath tmpDir chunkSize e =
     en_bind (settling
         (tr_bind (present metadata) (\<lambda>em.
          tr_bind (unwrapKey cy (stageKey material) (fromBase64 (en_key em))) (\<lambda>fileKey.
          cy_createDecipheriv cy (aes_cbc (length fileKey)) fileKey (Some (fromBase64 (en_iv em))))), e))
       (\<lambda>c e1. performFileStreamCrypto cy c tmpDir inputFilePath chunkSize e1)"

definition decryptFile where
  "decryptFile cy metadata material inputFilePath tmpDir =
     decryptFileCBC cy metadata material inputFilePath tmpDir (blockSize * 4 * 1024)"

definition decryptFileGCM ::
  "('c, 'e) crypt_env \<Rightarrow> enc_metadata option \<Rightarrow> enc_material \<Rightarrow> string \<Rightarrow> string option \<Rightarrow> 'e \<Rightarrow> string transfer \<times> 'e"
where
  "decryptFileGCM cy metadata material inputFilePath tmpDir e =
     dk_bind
       (tr_bind (present metadata) (\<lambda>em.
        tr_bind (present (en_keyIv em)) (\<lambda>keyIv.
        tr_bind (present (en_dataAad em)) (\<lambda>dataAad.
        tr_bind (present (en_keyAad em)) (\<lambda>keyAad.
        tr_bind (decryptGCM cy (fromBase64 (en_key em)) (stageKey material) (fromBase64 keyIv) (fromBase64 keyAad)) (\<lambda>fileKey.
        tr_bind (cy_readFile cy e inputFilePath) (\<lambda>content.
          decryptGCM cy content fileKey (fromBase64 (en_iv em)) (fromBase64 dataAad))))))), e)
       (\<lambda>decrypted e1. writeContentToFile cy tmpDir (basename inputFilePath @ ''#'') decrypted e1)"

end
