(* ===== verification/EncryptProps.thy ===== *)
theory EncryptProps
  imports EncryptModel
begin

text \<open>
  What encryption guarantees: feeding a file in pieces gives what a single buffer gives, an encrypted
  file is decrypted to the same content, and an error of a cipher on a file is not caught.

  The laws of the \<open>crypto\<close> module and of the file system are the predicates \<open>piecewise\<close>, \<open>inverts\<close>,
  \<open>gcm_inverts\<close> and \<open>files_work\<close>; \<open>toyCrypt\<close> is a concrete module that has them.
\<close>

section \<open>Laws\<close>

text \<open>An update with two pieces is the two updates in order; one with nothing gives nothing.\<close>

definition piecewise :: "('c, 'e) crypt_env \<Rightarrow> bool" where
  "piecewise cy \<longleftrightarrow>
     (\<forall>c. cy_update cy c [] = Inr ([], c)) \<and>
     (\<forall>c a b. cy_update cy c (a @ b) =
        tr_bind (cy_update cy c a) (\<lambda>(x, c1). tr_bind (cy_update cy c1 b) (\<lambda>(y, c2). Inr (x @ y, c2))))"

text \<open>A decipher for the same cipher, key and iv takes back what the cipher did.\<close>

definition inverts :: "('c, 'e) crypt_env \<Rightarrow> bool" where
  "inverts cy \<longleftrightarrow>
     (\<forall>name key iv c data enc c1.
        cy_createCipheriv cy name key iv = Inr c \<longrightarrow> performCrypto cy c data = Inr (enc, c1) \<longrightarrow>
        (\<exists>d d1. cy_createDecipheriv cy name key iv = Inr d \<and> performCrypto cy d enc = Inr (data, d1)))"

definition gcm_inverts :: "('c, 'e) crypt_env \<Rightarrow> bool" where
  "gcm_inverts cy \<longleftrightarrow>
     (\<forall>name key iv aad c data enc c1.
        cy_createCipheriv cy name key iv = Inr c \<longrightarrow> performCrypto cy (cy_setAAD cy aad c) data = Inr (enc, c1) \<longrightarrow>
        length (cy_getAuthTag cy c1) = AUTH_TAG_LENGTH_IN_BYTES \<and>
        (\<exists>d d1. cy_createDecipheriv cy name key iv = Inr d \<and>
           performCrypto cy (cy_setAuthTag cy (cy_getAuthTag cy c1) (cy_setAAD cy aad d)) enc = Inr (data, d1)))"

text \<open>The disk does not fail, files are separate, and a random name has no slash.\<close>

definition files_work :: "('c, 'e) crypt_env \<Rightarrow> bool" where
  "files_work cy \<longleftrightarrow>
     (\<forall>n e. length (fst (cy_randomBytes cy n e)) = n \<and> cy_readFile cy (snd (cy_randomBytes cy n e)) = cy_readFile cy e) \<and>
     (\<forall>e. CHR ''/'' \<notin> set (fst (cy_randomUUID cy e)) \<and> cy_readFile cy (snd (cy_randomUUID cy e)) = cy_readFile cy e) \<and>
     (\<forall>p e. fst (cy_createFile cy p e) = Inr () \<and>
        (\<forall>q. q \<noteq> p \<longrightarrow> cy_readFile cy (snd (cy_createFile cy p e)) q = cy_readFile cy e q)) \<and>
     (\<forall>p b e. fst (cy_writeFile cy p b e) = Inr () \<and> cy_readFile cy (snd (cy_writeFile cy p b e)) p = Inr b) \<and>
     (\<forall>p e. fst (cy_closeFile cy p e) = Inr () \<and> cy_readFile cy (snd (cy_closeFile cy p e)) = cy_readFile cy e)"

section \<open>Temporary names\<close>

lemma segments_nonempty: "segments d \<noteq> []"
  by (induction d) (auto split: list.splits)

lemma segments_plain: "CHR ''/'' \<notin> set n \<Longrightarrow> segments n = [n]"
  by (induction n) auto

lemma segments_app: "CHR ''/'' \<notin> set n \<Longrightarrow> segments (d @ CHR ''/'' # n) = segments d @ [n]"
  by (induction d) (auto simp: segments_plain segments_nonempty split: list.splits)

lemma normSegs_snoc:
  "n \<noteq> [] \<Longrightarrow> n \<noteq> ''.'' \<Longrightarrow> n \<noteq> ''..'' \<Longrightarrow> \<exists>ys. normSegs a acc (xs @ [n]) = ys @ [n]"
  by (induction a acc xs rule: normSegs.induct) (auto split: list.splits)

lemma slashed_snoc: "slashed (ws @ [n]) = (if ws = [] then n else slashed ws @ CHR ''/'' # n)"
  by (induction ws rule: slashed.induct) auto

lemma basename_last:
  assumes "n \<noteq> []" "CHR ''/'' \<notin> set n"
  shows "basename (x @ CHR ''/'' # n) = n" "basename n = n"
proof -
  have l: "last n \<noteq> CHR ''/''" using assms by (metis last_in_set)
  obtain m c where m: "n = m @ [c]" using assms(1) by (metis rev_exhaust)
  have t: "takeWhile (\<lambda>c. c \<noteq> CHR ''/'') (rev n @ CHR ''/'' # y) = rev n" "takeWhile (\<lambda>c. c \<noteq> CHR ''/'') (rev n) = rev n" for y
    using assms(2) takeWhile_eq_all_conv[of "\<lambda>c. c \<noteq> CHR ''/''" "rev n"] by (auto simp: takeWhile_append)
  have "trimSlashes (y @ n) = y @ n" for y using l by (simp add: trimSlashes_def m)
  from this[of "x @ ''/''"] this[of "[]"] show "basename (x @ CHR ''/'' # n) = n" "basename n = n"
    by (simp_all add: basename_def t)
qed

lemma basename_joinPath:
  assumes n: "CHR ''/'' \<notin> set n" "n \<noteq> []" "n \<noteq> ''.''" "n \<noteq> ''..''"
  shows "basename (joinPath d n) = n"
proof -
  define p where "p = (if d = [] then n else d @ CHR ''/'' # n)"
  have "\<exists>xs. segments p = xs @ [n]" using segments_app[OF n(1), of d] segments_plain[OF n(1)] by (auto simp: p_def)
  then obtain ys where ys: "normSegs (isAbsolute p) [] (segments p) = ys @ [n]"
    using normSegs_snoc[OF n(2-4)] by metis
  have pj: "(if d = [] then n else if n = [] then d else d @ CHR ''/'' # n) = p" using n(2) by (simp add: p_def)
  have last: "p \<noteq> []" "last p \<noteq> CHR ''/''" using n(1,2) by (auto simp: p_def last_append) (metis last_in_set)+
  have t: "slashed (ys @ [n]) \<noteq> []" using n(2) by (simp add: slashed_snoc)
  have "joinPath d n = (if isAbsolute p then CHR ''/'' # slashed (ys @ [n]) else slashed (ys @ [n]))"
    unfolding joinPath_def pj Let_def ys using last t by simp
  then show ?thesis
    using basename_last[OF n(2,1)] basename_last(1)[OF n(2,1), of "CHR ''/'' # slashed ys"] basename_last(1)[OF n(2,1), of "[]"]
    by (simp add: slashed_snoc)
qed

lemma temp_is_new:
  assumes "CHR ''/'' \<notin> set uuid"
  shows "tempPath cy (tempFor dir (basename src @ ''#'')) e uuid \<noteq> src"
proof
  let ?n = "basename src @ ''#'' @ uuid @ ''.undefined''"
  assume eq: "tempPath cy (tempFor dir (basename src @ ''#'')) e uuid = src"
  have "CHR ''/'' \<notin> set ?n" "?n \<noteq> []" "?n \<noteq> ''.''" "?n \<noteq> ''..''"
    using assms basename_no_slash[of src] by (auto dest: arg_cong[of _ _ length])
  then have "basename (tempPath cy (tempFor dir (basename src @ ''#'')) e uuid) = ?n"
    unfolding tempPath_def tempFor_def by (simp add: basename_joinPath)
  then have "length (basename src) = length ?n" using eq by simp
  then show False by simp
qed

section \<open>Files in pieces\<close>

lemma concat_pieces: "0 < n \<Longrightarrow> concat (pieces n b) = b"
proof (induction n b rule: pieces.induct)
  case (1 n b)
  then show ?case by (subst pieces.simps) simp
qed

lemma updateAll_concat:
  "piecewise cy \<Longrightarrow>
     cy_update cy c (concat bs) = tr_bind (updateAll cy c bs) (\<lambda>(xs, c1). Inr (concat xs, c1))"
proof (induction bs arbitrary: c)
  case (Cons b bs)
  have app: "cy_update cy c (b @ concat bs) =
      tr_bind (cy_update cy c b) (\<lambda>(x, c1). tr_bind (cy_update cy c1 (concat bs)) (\<lambda>(y, c2). Inr (x @ y, c2)))"
    using Cons.prems by (simp add: piecewise_def)
  show ?case
    using Cons.IH[OF Cons.prems] by (simp add: app tr_bind_def split: sum.splits prod.splits)
qed (simp add: piecewise_def)

text \<open>
  Encrypting or decrypting a file through the stream callbacks gives the same bytes, or the same error,
  as the cipher gives on the whole content at once, whatever the size of the pieces.
\<close>

lemma streamCrypto_whole:
  assumes "piecewise cy" "0 < chunkSize"
  shows "streamCrypto cy c chunkSize content = map_sum id fst (performCrypto cy c content)"
proof -
  have "cy_update cy c content = tr_bind (updateAll cy c (pieces chunkSize content)) (\<lambda>(xs, c1). Inr (concat xs, c1))"
    using updateAll_concat[OF assms(1), of c "pieces chunkSize content"] concat_pieces[OF assms(2)] by simp
  then show ?thesis
    by (simp add: streamCrypto_def performCrypto_def tr_bind_def split: sum.splits prod.splits)
qed

lemma files_work_random:
  assumes "files_work cy" "cy_randomBytes cy n e = (b, e1)"
  shows "length b = n" "cy_readFile cy e1 = cy_readFile cy e"
  using assms unfolding files_work_def by (metis fst_conv snd_conv)+

lemma fileSync_works:
  assumes "files_work cy" "cy_readFile cy e src = Inr content"
  shows "\<exists>p e1. fileSync cy (tempFor dir (basename src @ ''#'')) e = (Inr p, e1) \<and> cy_readFile cy e1 src = Inr content"
proof -
  obtain u e0 where u: "cy_randomUUID cy e = (u, e0)" by (cases "cy_randomUUID cy e")
  let ?p = "tempPath cy (tempFor dir (basename src @ ''#'')) e0 u"
  have w: "CHR ''/'' \<notin> set u" "cy_readFile cy e0 = cy_readFile cy e" "fst (cy_createFile cy ?p e0) = Inr ()"
    "q \<noteq> ?p \<Longrightarrow> cy_readFile cy (snd (cy_createFile cy ?p e0)) q = cy_readFile cy e0 q" for q
    using assms(1) u unfolding files_work_def by (metis fst_conv snd_conv)+
  obtain e1 where c: "cy_createFile cy ?p e0 = (Inr (), e1)" using w(3) by (cases "cy_createFile cy ?p e0") simp
  have "src \<noteq> ?p" using temp_is_new[OF w(1)] by metis
  then show ?thesis using w(2,4) c assms(2) by (simp add: fileSync_def u Let_def)
qed

lemma file_crypto_cases:
  assumes laws: "files_work cy" "piecewise cy" "0 < chunkSize" and src: "cy_readFile cy e src = Inr content"
  shows "(\<exists>x e1. performCrypto cy c content = Inl x \<and> performFileStreamCrypto cy c dir src chunkSize e = (Crashed x, e1)) \<or>
    (\<exists>result c1 p e1. performCrypto cy c content = Inr (result, c1) \<and>
       performFileStreamCrypto cy c dir src chunkSize e = (Settled (Inr p), e1) \<and> cy_readFile cy e1 p = Inr result)"
proof -
  obtain p e1 where t: "fileSync cy (tempFor dir (basename src @ ''#'')) e = (Inr p, e1)" "cy_readFile cy e1 src = Inr content"
    using fileSync_works[OF laws(1) src] by blast
  have s: "streamCrypto cy c chunkSize content = map_sum id fst (performCrypto cy c content)"
    by (rule streamCrypto_whole[OF laws(2,3)])
  show ?thesis
  proof (cases "performCrypto cy c content")
    case (Inl x)
    then show ?thesis by (simp add: performFileStreamCrypto_def t s)
  next
    case (Inr r)
    obtain result c1 where r: "r = (result, c1)" by (cases r)
    have w: "fst (cy_writeFile cy p result e1) = Inr ()" "cy_readFile cy (snd (cy_writeFile cy p result e1)) p = Inr result"
      "fst (cy_closeFile cy p e') = Inr ()" "cy_readFile cy (snd (cy_closeFile cy p e')) = cy_readFile cy e'" for e'
      using laws(1) unfolding files_work_def by metis+
    obtain e2 where e2: "cy_writeFile cy p result e1 = (Inr (), e2)" using w(1) by (cases "cy_writeFile cy p result e1") simp
    obtain e3 where e3: "cy_closeFile cy p e2 = (Inr (), e3)" using w(3)[of e2] by (cases "cy_closeFile cy p e2") simp
    show ?thesis
      using w(2) w(4)[of e2] e2 e3 Inr by (simp add: performFileStreamCrypto_def t s r)
  qed
qed

section \<open>Round trips\<close>




text \<open>
  An error the decipher reports for the content of a downloaded file, such as wrong padding after a
  wrong key or damage in transit, is thrown in the callback of a stream: it is not a rejection the
  transfer could report but an uncaught exception.  The same holds for an upload.
\<close>

theorem cipher_error_is_uncaught:
  assumes laws: "files_work cy" "piecewise cy" "0 < chunkSize"
    and keys: "unwrapKey cy (stageKey material) (fromBase64 (en_key em)) = Inr key"
      "cy_createDecipheriv cy (aes_cbc (length key)) key (Some (fromBase64 (en_iv em))) = Inr c"
    and bad: "cy_readFile cy e src = Inr content" "performCrypto cy c content = Inl x"
  shows "fst (decryptFileCBC cy (Some em) material src tmp chunkSize e) = Crashed x"
  using file_crypto_cases[OF laws bad(1), of c tmp] bad(2) keys by (auto simp: decryptFileCBC_def)

lemma slice_parts:
  assumes "length tag = AUTH_TAG_LENGTH_IN_BYTES"
  shows "bytesSlice (x @ tag) (int (length x)) (int (length x) + int AUTH_TAG_LENGTH_IN_BYTES) = tag"
    "bytesSlice (x @ tag) 0 (int (length x)) = x"
  using assms by (simp_all add: bytesSlice_def Let_def)

lemma gcm_roundtrip:
  assumes "gcm_inverts cy" "encryptGCM cy data key iv aad = Inr sealed"
  shows "decryptGCM cy sealed key iv aad = Inr data"
proof -
  obtain c x c1 where c: "cy_createCipheriv cy (aes_gcm (length key)) key (Some iv) = Inr c"
    "performCrypto cy (cy_setAAD cy aad c) data = Inr (x, c1)" "sealed = x @ cy_getAuthTag cy c1"
    using assms(2) by (auto simp: encryptGCM_def tr_bind_eq_Inr)
  then have tag: "length (cy_getAuthTag cy c1) = AUTH_TAG_LENGTH_IN_BYTES"
    and "\<exists>d d1. cy_createDecipheriv cy (aes_gcm (length key)) key (Some iv) = Inr d \<and>
       performCrypto cy (cy_setAuthTag cy (cy_getAuthTag cy c1) (cy_setAAD cy aad d)) x = Inr (data, d1)"
    using assms(1) unfolding gcm_inverts_def by blast+
  then show ?thesis by (auto simp: decryptGCM_def c(3) slice_parts[OF tag] tag Let_def)
qed

lemma writeContent_works:
  assumes "files_work cy"
  shows "\<exists>p e1. writeContentToFile cy tmp pre content e = (Inr p, e1) \<and> cy_readFile cy e1 p = Inr content"
proof -
  obtain u e0 where u: "cy_randomUUID cy e = (u, e0)" by (cases "cy_randomUUID cy e")
  let ?p = "tempPath cy (tempFor tmp pre) e0 u"
  have w: "fst (cy_createFile cy ?p e0) = Inr ()" "fst (cy_writeFile cy ?p content e') = Inr ()"
    "cy_readFile cy (snd (cy_writeFile cy ?p content e')) ?p = Inr content"
    "fst (cy_closeFile cy ?p e') = Inr ()" "cy_readFile cy (snd (cy_closeFile cy ?p e')) = cy_readFile cy e'" for e'
    using assms unfolding files_work_def by metis+
  obtain e1 where e1: "cy_createFile cy ?p e0 = (Inr (), e1)" using w(1) by (cases "cy_createFile cy ?p e0") simp
  obtain e2 where e2: "cy_writeFile cy ?p content e1 = (Inr (), e2)" using w(2)[of e1] by (cases "cy_writeFile cy ?p content e1") simp
  obtain e3 where e3: "cy_closeFile cy ?p e2 = (Inr (), e3)" using w(4)[of e2] by (cases "cy_closeFile cy ?p e2") simp
  show ?thesis using w(3)[of e1] w(5)[of e2] e2 e3
    by (simp add: writeContentToFile_def fileSync_def u Let_def e1)
qed

lemma dk_bind_eq_Inr: "dk_bind r f = (Inr y, e') \<longleftrightarrow> (\<exists>x e. r = (Inr x, e) \<and> f x e = (Inr y, e'))"
  by (cases r; cases "fst r") (auto simp: dk_bind_def)

text \<open>
  The same for GCM: encrypting a file and decrypting what was stored with the metadata of the upload
  gives the content back; the tag at the end of the stored bytes is cut off where encryption put it.
\<close>

theorem gcm_file_roundtrip:
  assumes laws: "files_work cy" "gcm_inverts cy"
    and enc: "encryptFileGCM cy material src tmp e = (Inr (em, out), e1)"
    and src: "cy_readFile cy e src = Inr content"
    and stored: "cy_readFile cy e2 dst = cy_readFile cy e1 out"
  shows "\<exists>p e3. decryptFileGCM cy (Some em) material dst tmp' e2 = (Inr p, e3) \<and> cy_readFile cy e3 p = Inr content"
proof -
  let ?kek = "stageKey material"
  obtain iv ea key eb where rnd: "cy_randomBytes cy gcm_ivSize e = (iv, ea)" "cy_randomBytes cy (length ?kek) ea = (key, eb)"
    by (metis surj_pair)
  note r = files_work_random[OF laws(1) rnd(1)] files_work_random[OF laws(1) rnd(2)]
  have src': "cy_readFile cy eb src = Inr content" using src r by simp
  obtain sealed ec where s: "encryptGCM cy content key iv DEFAULT_AAD = Inr sealed"
    "writeContentToFile cy tmp (basename src @ ''#'') sealed eb = (Inr out, ec)"
    "wrapKeyGCM cy material (length key) key iv out ec = (Inr (em, out), e1)"
    using enc by (auto simp: encryptFileGCM_def rnd dk_bind_eq_Inr tr_bind_eq_Inr src' Let_def)
       (auto simp: wrapKeyGCM_def tr_bind_eq_Inr split: prod.splits)
  obtain keyIv e5 where k: "cy_randomBytes cy gcm_ivSize ec = (keyIv, e5)" by (metis surj_pair)
  obtain sealedKey where t: "encryptGCM cy key ?kek keyIv DEFAULT_AAD = Inr sealedKey"
    "em = createEncryptionMetadata material (length key) sealedKey iv (Some keyIv) (Some DEFAULT_AAD) (Some DEFAULT_AAD)"
    "e5 = e1"
    using s(3) by (auto simp: wrapKeyGCM_def k tr_bind_eq_Inr)
  have "cy_readFile cy ec out = Inr sealed"
    using writeContent_works[OF laws(1), of tmp "basename src @ ''#''" sealed eb] s(2) by auto
  then have "cy_readFile cy e2 dst = Inr sealed" using stored files_work_random(2)[OF laws(1) k] t(3) by simp
  then show ?thesis
    using writeContent_works[OF laws(1), of tmp' "basename dst @ ''#''" content e2]
      gcm_roundtrip[OF laws(2) s(1)] gcm_roundtrip[OF laws(2) t(1)]
    by (simp add: decryptFileGCM_def t(2) createEncryptionMetadata_def)
qed


section \<open>A concrete module\<close>

text \<open>A cipher that combines every byte with the first byte of the key, over a list of files.\<close>

definition toyCrypt :: "(8 word, (string \<times> bytes) list) crypt_env" where
  "toyCrypt =
     \<lparr>cy_createCipheriv = (\<lambda>name key iv. Inr (case key of [] \<Rightarrow> 0 | k # _ \<Rightarrow> k)),
      cy_createDecipheriv = (\<lambda>name key iv. Inr (case key of [] \<Rightarrow> 0 | k # _ \<Rightarrow> k)),
      cy_setAAD = (\<lambda>aad k. k), cy_setAuthTag = (\<lambda>tag k. k),
      cy_update = (\<lambda>k b. Inr (map (\<lambda>x. Bit_Operations.xor k x) b, k)), cy_final = (\<lambda>k. Inr ([], k)),
      cy_getAuthTag = (\<lambda>k. replicate 16 0),
      cy_randomBytes = (\<lambda>n e. (replicate n 7, e)), cy_randomUUID = (\<lambda>e. (''uuid'', e)), cy_tmpdir = ''/tmp'',
      cy_exists = (\<lambda>e p. map_of e p \<noteq> None), cy_createFile = (\<lambda>p e. (Inr (), (p, []) # e)),
      cy_readFile = (\<lambda>e p. case map_of e p of None \<Rightarrow> Inl (TransferError ''ENOENT'') | Some b \<Rightarrow> Inr b),
      cy_writeFile = (\<lambda>p b e. (Inr (), (p, b) # e)), cy_closeFile = (\<lambda>p e. (Inr (), e))\<rparr>"

lemma xor_back: "map (\<lambda>x. Bit_Operations.xor k x) (map (\<lambda>x. Bit_Operations.xor k x) b) = (b :: bytes)"
  by (simp add: comp_def xor.assoc[symmetric])

lemma toy_crypto: "performCrypto toyCrypt k b = Inr (map (\<lambda>x. Bit_Operations.xor k x) b, k)"
  by (simp add: performCrypto_def toyCrypt_def)

lemma toy_laws: "files_work toyCrypt" "piecewise toyCrypt" "inverts toyCrypt" "gcm_inverts toyCrypt"
proof -
  show "files_work toyCrypt" by (simp add: files_work_def toyCrypt_def)
  show "piecewise toyCrypt" by (simp add: piecewise_def toyCrypt_def)
  show "inverts toyCrypt" unfolding inverts_def toy_crypto by (auto simp: toyCrypt_def xor_back simp del: map_map)
  show "gcm_inverts toyCrypt" unfolding gcm_inverts_def toy_crypto
    by (auto simp: toyCrypt_def xor_back AUTH_TAG_LENGTH_IN_BYTES_def simp del: map_map)
qed

definition toyMaterial :: enc_material where
  "toyMaterial = \<lparr>em_queryStageMasterKey = toBase64 [1, 2], em_queryId = ''q'', em_smkId = ''92019''\<rparr>"

definition toyFiles :: "(string \<times> bytes) list" where
  "toyFiles = [(''/data/f'', [1, 2, 3, 4, 5])]"

lemma toy_source: "cy_readFile toyCrypt toyFiles ''/data/f'' = Inr [1, 2, 3, 4, 5]"
  by (simp add: toyCrypt_def toyFiles_def)


theorem gcm_file_roundtrip_witness:
  "\<exists>em out e1 p e3. encryptFileGCM toyCrypt toyMaterial ''/data/f'' None toyFiles = (Inr (em, out), e1) \<and>
     decryptFileGCM toyCrypt (Some em) toyMaterial out None e1 = (Inr p, e3) \<and>
     cy_readFile toyCrypt e3 p = Inr [1, 2, 3, 4, 5]"
proof -
  have rnd: "cy_randomBytes toyCrypt n e = (replicate n 7, e)" for n e by (simp add: toyCrypt_def)
  have gcm: "\<exists>x. encryptGCM toyCrypt b k iv aad = Inr x" for b k iv aad
    by (simp add: encryptGCM_def toy_crypto) (simp add: toyCrypt_def toy_crypto[unfolded toyCrypt_def])
  obtain x where x: "encryptGCM toyCrypt [1, 2, 3, 4, 5] (replicate 2 7) (replicate 12 7) DEFAULT_AAD = Inr x" using gcm by blast
  obtain y where y: "encryptGCM toyCrypt (replicate 2 7) [1, 2] (replicate 12 7) DEFAULT_AAD = Inr y" using gcm by blast
  obtain p e1 where "writeContentToFile toyCrypt None (basename ''/data/f'' @ ''#'') x toyFiles = (Inr p, e1)"
    using writeContent_works[OF toy_laws(1)] by blast
  then obtain em where enc: "encryptFileGCM toyCrypt toyMaterial ''/data/f'' None toyFiles = (Inr (em, p), e1)"
    using x y by (auto simp: encryptFileGCM_def wrapKeyGCM_def rnd stageKey_def toyMaterial_def gcm_ivSize_def toy_source Let_def
        numeral_2_eq_2)
  show ?thesis
    using gcm_file_roundtrip[OF toy_laws(1,4) enc toy_source refl] enc by blast
qed

text \<open>The same module, with a final step that rejects the key 3.\<close>

definition paddedCrypt :: "(8 word, (string \<times> bytes) list) crypt_env" where
  "paddedCrypt = toyCrypt\<lparr>cy_final := (\<lambda>k. if k = 3 then Inl (TransferError ''bad decrypt'') else Inr ([], k))\<rparr>"

theorem cipher_error_is_uncaught_witness:
  "fst (decryptFileCBC paddedCrypt
          (Some (createEncryptionMetadata toyMaterial 2 [2, 5] [0] None None None)) toyMaterial ''/data/f'' None 2 toyFiles) =
     Crashed (TransferError ''bad decrypt'')"
proof (rule cipher_error_is_uncaught)
  show "files_work paddedCrypt" "piecewise paddedCrypt"
    using toy_laws(1,2) by (simp_all add: paddedCrypt_def files_work_def piecewise_def tempPath_def checkDirInTemp_def)
  show "unwrapKey paddedCrypt (stageKey toyMaterial)
      (fromBase64 (en_key (createEncryptionMetadata toyMaterial 2 [2, 5] [0] None None None))) = Inr [3, 4]"
    by (simp add: unwrapKey_def stageKey_def toyMaterial_def createEncryptionMetadata_def performCrypto_def paddedCrypt_def
        toyCrypt_def)
  show "cy_createDecipheriv paddedCrypt (aes_cbc (length [3, 4]))
      [3, 4] (Some (fromBase64 (en_iv (createEncryptionMetadata toyMaterial 2 [2, 5] [0] None None None)))) = Inr 3"
    by (simp add: paddedCrypt_def toyCrypt_def)
  show "cy_readFile paddedCrypt toyFiles ''/data/f'' = Inr [1, 2, 3, 4, 5]"
    by (simp add: paddedCrypt_def toyCrypt_def toyFiles_def)
  show "performCrypto paddedCrypt 3 [1, 2, 3, 4, 5] = Inl (TransferError ''bad decrypt'')"
    by (simp add: performCrypto_def paddedCrypt_def toyCrypt_def)
qed simp

end
