(* ===== verification/ConnectionModel.thy ===== *)
theory ConnectionModel
  imports StatementModel SfService FileTransferTypes "HOL-Library.Sublist"
begin

text \<open>
  The public connection object (\<open>connection/connection.js\<close>, \<open>constants/query_status.js\<close>): the status of a
  query and waiting for its results, connecting through the authenticator and the session service, the
  callbacks of \<open>connect\<close> and \<open>destroy\<close> and the keep-alive timer.
\<close>

section \<open>The status of a query\<close>

definition QueryStatus_code :: "string list" where
  "QueryStatus_code =
     [''RUNNING'', ''ABORTING'', ''SUCCESS'', ''FAILED_WITH_ERROR'', ''ABORTED'', ''QUEUED'', ''FAILED_WITH_INCIDENT'',
      ''DISCONNECTED'', ''RESUMING_WAREHOUSE'', ''QUEUED_REPARING_WAREHOUSE'', ''RESTARTED'', ''BLOCKED'', ''NO_DATA'',
      ''NO_QUERY_DATA'']"

definition runningStatuses :: "string list" where
  "runningStatuses = [''RUNNING'', ''RESUMING_WAREHOUSE'', ''QUEUED'', ''QUEUED_REPARING_WAREHOUSE'', ''NO_DATA'']"

definition errorStatuses :: "string list" where
  "errorStatuses = [''ABORTING'', ''FAILED_WITH_ERROR'', ''ABORTED'', ''FAILED_WITH_INCIDENT'', ''DISCONNECTED'', ''BLOCKED'']"

text \<open>\<open>QueryStatus.code[status]\<close>: every code is its own name; a status that is missing has none.\<close>

definition codeOf :: "string option \<Rightarrow> string option" where
  "codeOf status = (case status of Some s \<Rightarrow> if s \<in> set QueryStatus_code then Some s else None | None \<Rightarrow> None)"

definition isStillRunning :: "string option \<Rightarrow> bool" where
  "isStillRunning status = (case codeOf status of Some c \<Rightarrow> c \<in> set runningStatuses | None \<Rightarrow> False)"

definition isAnError :: "string option \<Rightarrow> bool" where
  "isAnError status = (case codeOf status of Some c \<Rightarrow> c \<in> set errorStatuses | None \<Rightarrow> False)"

text \<open>The body of the answer: \<open>data.queries\<close>, \<open>data.sqlState\<close>, \<open>message\<close> and \<open>code\<close>.\<close>

record query_info =
  qi_status :: "string option"
  qi_errorMessage :: "string option"

record query_data =
  qd_queries :: "query_info list option"
  qd_sqlState :: "string option"

record query_response =
  qr_data :: "query_data option"
  qr_message :: "string option"
  qr_code :: err_code

definition extractQueryStatus :: "query_response option \<Rightarrow> string option" where
  "extractQueryStatus r =
     (case r of
        None \<Rightarrow> Some ''NO_QUERY_DATA''
      | Some b \<Rightarrow>
          (case qr_data b of
             None \<Rightarrow> Some ''NO_QUERY_DATA''
           | Some d \<Rightarrow>
               (case qd_queries d of
                  None \<Rightarrow> Some ''NO_QUERY_DATA''
                | Some [] \<Rightarrow> Some ''NO_QUERY_DATA''
                | Some (q # qs) \<Rightarrow> qi_status q)))"

text \<open>What a call of the connection throws or is rejected with; \<open>'x\<close> are errors from elsewhere.\<close>

datatype 'x conn_exn = ConnThrown thrown | QueryFailed "(query_response option, unit) sf_error" | ConnOther 'x

type_synonym ('x, 'a) conn = "'x conn_exn + 'a"

definition cn_bind :: "('x, 'a) conn \<Rightarrow> ('a \<Rightarrow> ('x, 'b) conn) \<Rightarrow> ('x, 'b) conn" where
  "cn_bind m f = (case m of Inl e \<Rightarrow> Inl e | Inr v \<Rightarrow> f v)"

lemma cn_bind_simps [simp]: "cn_bind (Inl e) f = Inl e" "cn_bind (Inr v) f = f v"
  by (simp_all add: cn_bind_def)

definition fromChecked :: "'a checked \<Rightarrow> ('x, 'a) conn" where
  "fromChecked c = map_sum ConnThrown id c"

text \<open>\<open>queryIdRegex\<close>: five groups of hexadecimal digits; letters of both cases.\<close>

definition isHex :: "char \<Rightarrow> bool" where
  "isHex c \<longleftrightarrow> c \<in> set ''0123456789abcdefABCDEF''"

fun hexGroups :: "nat list \<Rightarrow> string \<Rightarrow> bool" where
  "hexGroups [] s = (s = [])"
| "hexGroups [n] s = (length s = n \<and> list_all isHex s)"
| "hexGroups (n # m # ns) s =
     (length (take n s) = n \<and> list_all isHex (take n s) \<and>
      (case drop n s of c # rest \<Rightarrow> c = CHR ''-'' \<and> hexGroups (m # ns) rest | [] \<Rightarrow> False))"

definition queryIdTest :: "string \<Rightarrow> bool" where
  "queryIdTest s \<longleftrightarrow> hexGroups [8, 4, 4, 4, 12] s"

text \<open>
  \<open>getQueryResponse\<close>: \<open>text\<close> is the conversion \<open>test\<close> applies to its argument, \<open>ask\<close> the request to
  \<open>/monitoring/queries/\<close> with the id.
\<close>

definition getQueryResponse ::
  "(jsv \<Rightarrow> string) \<Rightarrow> (string \<Rightarrow> ('x, query_response option) conn) \<Rightarrow> jsv \<Rightarrow> ('x, query_response option) conn"
where
  "getQueryResponse txt ask queryId =
     cn_bind (fromChecked (mustExist (jsExists queryId) (NumCode 410003))) (\<lambda>_.
     cn_bind (fromChecked (mustBeValid (queryIdTest (txt queryId)) (NumCode 460001) [txt queryId])) (\<lambda>_.
       ask (''/monitoring/queries/'' @ txt queryId)))"

definition getQueryStatus where
  "getQueryStatus txt ask queryId =
     cn_bind (getQueryResponse txt ask queryId) (\<lambda>r. Inr (extractQueryStatus r))"

text \<open>The message of a failed query; a missing message of the query is appended as \<open>undefined\<close>.\<close>

definition failureMessage :: "query_response \<Rightarrow> string" where
  "failureMessage b =
     (case qr_message b of Some m \<Rightarrow> m | None \<Rightarrow> []) @
     (case qr_data b of
        Some d \<Rightarrow>
          (case qd_queries d of
             Some (q # qs) \<Rightarrow> (case qi_errorMessage q of Some m \<Rightarrow> m | None \<Rightarrow> ''undefined'')
           | _ \<Rightarrow> [])
      | None \<Rightarrow> [])"

definition failureCode :: "err_code \<Rightarrow> err_code" where
  "failureCode c = (case c of NoCode \<Rightarrow> NumCode (- 1) | NumCode n \<Rightarrow> if n = 0 then NumCode (- 1) else c
                    | StrCode s \<Rightarrow> if s = [] then NumCode (- 1) else c)"

definition queryError :: "query_response option \<Rightarrow> 'x conn_exn" where
  "queryError r =
     (case r of
        None \<Rightarrow> ConnThrown (ThrownJs TypeError)
      | Some b \<Rightarrow>
          QueryFailed (createOperationFailedError (failureCode (qr_code b)) (Some r) (Some (failureMessage b))
            (case qr_data b of Some d \<Rightarrow> qd_sqlState d | None \<Rightarrow> None)))"

definition getQueryStatusThrowIfError ::
  "(jsv \<Rightarrow> string) \<Rightarrow> (string \<Rightarrow> ('x, query_response option) conn) \<Rightarrow> jsv \<Rightarrow> ('x, string option) conn"
where
  "getQueryStatusThrowIfError txt ask queryId =
     cn_bind (getQueryResponse txt ask queryId) (\<lambda>r.
       let status = extractQueryStatus r
       in if isAnError status then Inl (queryError r) else Inr status)"

section \<open>Waiting for the results of a query\<close>

definition asyncNoDataMaxRetry :: nat where "asyncNoDataMaxRetry = 24"
definition asyncRetryPattern :: "nat list" where "asyncRetryPattern = [1, 1, 2, 3, 4, 8, 10]"
definition asyncRetryInMilliseconds :: nat where "asyncRetryInMilliseconds = 500"

definition statusWord :: "string option \<Rightarrow> string" where
  "statusWord s = (case s of Some t \<Rightarrow> t | None \<Rightarrow> ''undefined'')"

definition noDataError :: "string list \<Rightarrow> 'x conn_exn" where
  "noDataError args = ConnThrown (ThrownSf (createClientError (NumCode 460002) (Some True) args))"

text \<open>
  The loop of \<open>getResultsFromQueryId\<close>, over the answers in the order of the requests.  The second result
  are the pauses in milliseconds.  The code has no bound on the number of polls of a running query:
  \<open>None\<close> says that the fuel did not reach the end.
\<close>

fun waitForQuery ::
  "nat \<Rightarrow> (jsv \<Rightarrow> string) \<Rightarrow> (nat \<Rightarrow> string \<Rightarrow> ('x, query_response option) conn) \<Rightarrow> jsv \<Rightarrow> nat \<Rightarrow> nat \<Rightarrow> nat \<Rightarrow>
   (('x, string option) conn \<times> nat list) option"
where
  "waitForQuery 0 txt ask queryId k noData pos = None"
| "waitForQuery (Suc fuel) txt ask queryId k noData pos =
     (case getQueryStatusThrowIfError txt (ask k) queryId of
        Inl e \<Rightarrow> Some (Inl e, [])
      | Inr status \<Rightarrow>
          if \<not> isStillRunning status \<or> status = Some ''NO_QUERY_DATA'' then Some (Inr status, [])
          else
            (let pause = asyncRetryInMilliseconds * (asyncRetryPattern ! pos);
                 noData' = (if codeOf status = Some ''NO_DATA'' then noData + 1 else noData);
                 pos' = (if pos < length asyncRetryPattern - 1 then pos + 1 else pos)
             in if codeOf status = Some ''NO_DATA'' \<and> noData' > asyncNoDataMaxRetry then
                  Some (Inl (noDataError [txt queryId]), [pause])
                else map_option (\<lambda>(r, ps). (r, pause # ps))
                       (waitForQuery fuel txt ask queryId (k + 1) noData' pos')))"

definition getResultsFromQueryId ::
  "nat \<Rightarrow> (jsv \<Rightarrow> string) \<Rightarrow> (rat \<Rightarrow> string) \<Rightarrow> (nat \<Rightarrow> string \<Rightarrow> ('x, query_response option) conn) \<Rightarrow>
   (string \<times> jsv) list \<Rightarrow> (('x, stmt_context) conn \<times> nat list) option"
where
  "getResultsFromQueryId fuel txt nt ask options =
     (let queryId = getProp options ''queryId''
      in map_option (\<lambda>(r, pauses).
           (cn_bind r (\<lambda>status.
              if codeOf status = Some ''NO_QUERY_DATA'' then Inl (noDataError [txt queryId, statusWord status])
              else if codeOf status \<noteq> Some ''SUCCESS'' then
                Inl (ConnThrown (ThrownSf
                  (createClientError (NumCode 460003) (Some True) [txt queryId, statusWord status])))
              else fromChecked (createStatementPostExec nt (JObject options))), pauses))
           (waitForQuery fuel txt ask queryId 0 0 0))"


section \<open>The state of the session\<close>

text \<open>\<open>isUp\<close>, \<open>isTokenValid\<close> (a comparison with NaN or \<open>undefined\<close> is false) and \<open>isValidAsync\<close>.\<close>

definition isUp :: "svc \<Rightarrow> bool" where "isUp sf = isConnected sf"

definition expiresAfter :: "int \<Rightarrow> expiry \<Rightarrow> bool" where
  "expiresAfter now x = (case x of ExpiresAt t \<Rightarrow> t > now | _ \<Rightarrow> False)"

definition isTokenValid :: "int \<Rightarrow> svc \<Rightarrow> bool" where
  "isTokenValid now sf \<longleftrightarrow>
     expiresAfter now (sessionTokenExpirationTime (tokenInfo sf)) \<and>
     expiresAfter now (masterTokenExpirationTime (tokenInfo sf))"

text \<open>The answer to the heartbeat request, if it was an error.\<close>

definition isValidAsync :: "svc \<Rightarrow> 'x option \<Rightarrow> bool" where
  "isValidAsync sf heartbeatError \<longleftrightarrow> isUp sf \<and> heartbeatError = None"

section \<open>Connecting\<close>

datatype credential_manager = CustomManager | JsonManager "string option"

datatype 'x connect_answer = ConnectThrows 'x | ConnectAnswers "'x conn_exn option" | NoAnswer

record 'x login_env =
  le_host :: string
  le_username :: "string option"
  le_storeTemporary :: bool
  le_requestMFA :: bool
  le_cacheDir :: "string option"
  le_read :: "string option \<Rightarrow> 'x + string option"
  le_noAuthenticator :: bool
  le_easyLoggingFails :: bool
  le_authenticate :: "'x option"
  le_connect :: "'x connect_answer"
  le_params :: param_store
  le_externalize :: "'x \<Rightarrow> 'x"

text \<open>A callback, as far as it matters here: what it throws when it is called.\<close>

datatype 'x callback = NoCallback | NotAFunction | Callback "'x conn_exn option \<Rightarrow> 'x option"

record 'x connection =
  cs_idToken :: "string option"
  cs_mfaToken :: "string option"
  cs_manager :: "credential_manager option"
  cs_ocspUrl :: "string option"
  cs_keepalive :: "nat option"
  cs_intervals :: "(nat \<times> rat option) list"
  cs_nextInterval :: nat
  cs_called :: "'x conn_exn option list"
  cs_agentsDestroyed :: bool

definition newConnection :: "credential_manager option \<Rightarrow> 'x connection" where
  "newConnection manager =
     \<lparr>cs_idToken = None, cs_mfaToken = None, cs_manager = manager, cs_ocspUrl = None, cs_keepalive = None,
      cs_intervals = [], cs_nextInterval = 0, cs_called = [], cs_agentsDestroyed = False\<rparr>"

definition externalizeExn :: "('x \<Rightarrow> 'x) \<Rightarrow> 'x conn_exn option \<Rightarrow> 'x conn_exn option" where
  "externalizeExn ext e =
     map_option (\<lambda>x. case x of
        ConnThrown (ThrownSf y) \<Rightarrow> ConnThrown (ThrownSf (the (externalize (Some y))))
      | ConnThrown t \<Rightarrow> ConnThrown t
      | QueryFailed y \<Rightarrow> QueryFailed (the (externalize (Some y)))
      | ConnOther y \<Rightarrow> ConnOther (ext y)) e"

definition keepAliveMs :: "jsv \<Rightarrow> rat option" where
  "keepAliveMs v = (case v of JNumber r \<Rightarrow> Some (r * 1000) | _ \<Rightarrow> None)"

definition startKeepAlive :: "param_store \<Rightarrow> 'x connection \<Rightarrow> 'x connection" where
  "startKeepAlive ps s =
     (if ps ''CLIENT_SESSION_KEEP_ALIVE'' \<noteq> None \<and> truthy (the (ps ''CLIENT_SESSION_KEEP_ALIVE'')) then
        s\<lparr>cs_keepalive := Some (cs_nextInterval s),
          cs_intervals := cs_intervals s @
            [(cs_nextInterval s, Option.bind (ps ''CLIENT_SESSION_KEEP_ALIVE_HEARTBEAT_FREQUENCY'') keepAliveMs)],
          cs_nextInterval := cs_nextInterval s + 1\<rparr>
      else s)"

text \<open>The call of the user's callback; the first result is what it threw.\<close>

definition callUser :: "'x callback \<Rightarrow> 'x conn_exn option \<Rightarrow> 'x connection \<Rightarrow> 'x option \<times> 'x connection" where
  "callUser cb e s =
     (case cb of Callback f \<Rightarrow> (f e, s\<lparr>cs_called := cs_called s @ [e]\<rparr>) | _ \<Rightarrow> (None, s))"

definition connectCallback ::
  "'x login_env \<Rightarrow> 'x callback \<Rightarrow> 'x conn_exn option \<Rightarrow> 'x connection \<Rightarrow> 'x option \<times> 'x connection"
where
  "connectCallback env cb e s =
     callUser cb (externalizeExn (le_externalize env) e) (if e = None then startKeepAlive (le_params env) s else s)"

definition isPrivateLink :: "string \<Rightarrow> bool" where
  "isPrivateLink host = sublist ''privatelink.snowflakecomputing.'' (map lowerChar host)"

definition createOcspResponseCacheServerUrl :: "string \<Rightarrow> string" where
  "createOcspResponseCacheServerUrl host = ''http://ocsp.'' @ host @ ''/ocsp_response_cache.json''"

definition buildCredentialCacheKey :: "string \<Rightarrow> string option \<Rightarrow> string \<Rightarrow> string option" where
  "buildCredentialCacheKey host username credType =
     (if host = [] \<or> \<not> nonempty_str username \<or> credType = [] then None
      else Some (''{'' @ map upperChar host @ ''}:{'' @ map upperChar (the username) @ ''}:{'' @ map upperChar credType @ ''}''))"

definition useManager :: "'x login_env \<Rightarrow> 'x connection \<Rightarrow> 'x connection" where
  "useManager env s = (if cs_manager s = None then s\<lparr>cs_manager := Some (JsonManager (le_cacheDir env))\<rparr> else s)"

text \<open>The two tokens are read before anything else; a manager that rejects ends the attempt.\<close>

definition readTokens :: "'x login_env \<Rightarrow> 'x connection \<Rightarrow> 'x option \<times> 'x connection" where
  "readTokens env s =
     (let (e1, s1) =
        (if le_storeTemporary env then
           (case le_read env (buildCredentialCacheKey (le_host env) (le_username env) ''ID_TOKEN'') of
              Inl x \<Rightarrow> (Some x, useManager env s)
            | Inr t \<Rightarrow> (None, (useManager env s)\<lparr>cs_idToken := t\<rparr>))
         else (None, s))
      in if e1 \<noteq> None then (e1, s1)
         else if le_requestMFA env then
           (case le_read env (buildCredentialCacheKey (le_host env) (le_username env) ''USERNAME_PASSWORD_MFA'') of
              Inl x \<Rightarrow> (Some x, useManager env s1)
            | Inr t \<Rightarrow> (None, (useManager env s1)\<lparr>cs_mfaToken := t\<rparr>))
         else (None, s1))"

definition fatalError :: "int \<Rightarrow> 'x conn_exn" where
  "fatalError c = ConnThrown (ThrownSf (createClientError (NumCode c) (Some True) []))"

datatype 'x promise = Fulfilled | RejectedWith "'x conn_exn" | Unsettled

definition validCallback :: "'x callback \<Rightarrow> int \<Rightarrow> unit checked" where
  "validCallback cb c = mustBeValid (cb \<noteq> NotAFunction) (NumCode c) []"

text \<open>
  \<open>connectAsync\<close>: its promise, an exception that left the callback of the service (where nobody catches
  it), and the state.
\<close>

definition connectAsync ::
  "'x login_env \<Rightarrow> 'x callback \<Rightarrow> 'x connection \<Rightarrow> 'x promise \<times> 'x option \<times> 'x connection"
where
  "connectAsync env cb s =
     (case validCallback cb 405001 of
        Inl t \<Rightarrow> (RejectedWith (ConnThrown t), None, s)
      | Inr _ \<Rightarrow>
          (let s0 = (if isPrivateLink (le_host env)
                     then s\<lparr>cs_ocspUrl := Some (createOcspResponseCacheServerUrl (le_host env))\<rparr> else s)
           in case readTokens env s0 of
                (Some x, s1) \<Rightarrow> (RejectedWith (ConnOther x), None, s1)
              | (None, s1) \<Rightarrow>
                  if le_noAuthenticator env then (RejectedWith (fatalError 405506), None, s1)
                  else if le_easyLoggingFails env then (RejectedWith (fatalError 405505), None, s1)
                  else
                    (case le_authenticate env of
                       Some x \<Rightarrow>
                         (case connectCallback env cb (Some (ConnOther x)) s1 of
                            (None, s2) \<Rightarrow> (Fulfilled, None, s2)
                          | (Some y, s2) \<Rightarrow> (RejectedWith (ConnOther y), None, s2))
                     | None \<Rightarrow>
                         (case le_connect env of
                            ConnectThrows x \<Rightarrow> (RejectedWith (ConnOther x), None, s1)
                          | NoAnswer \<Rightarrow> (Unsettled, None, s1)
                          | ConnectAnswers e \<Rightarrow>
                              (case connectCallback env cb e s1 of
                                 (None, s2) \<Rightarrow> (Fulfilled, None, s2)
                               | (Some y, s2) \<Rightarrow> (Unsettled, Some y, s2))))))"

text \<open>\<open>connect\<close>: a rejection goes to the callback; what that throws is an unhandled rejection.\<close>

definition connect :: "'x login_env \<Rightarrow> 'x callback \<Rightarrow> 'x connection \<Rightarrow> ('x option \<times> 'x connection) checked" where
  "connect env cb s =
     chk_bind (validCallback cb 405001) (\<lambda>_. Inr
       (case connectAsync env cb s of
          (RejectedWith e, u, s1) \<Rightarrow> callUser cb (externalizeExn (le_externalize env) (Some e)) s1
        | (_, u, s1) \<Rightarrow> (u, s1)))"

text \<open>\<open>destroy\<close>, with the answer of the service.\<close>

definition connectionDestroyed ::
  "('x \<Rightarrow> 'x) \<Rightarrow> 'x callback \<Rightarrow> 'x conn_exn option \<Rightarrow> 'x connection \<Rightarrow> 'x option \<times> 'x connection"
where
  "connectionDestroyed ext cb e s =
     callUser cb (externalizeExn ext e)
       (s\<lparr>cs_intervals := filter (\<lambda>(i, _). Some i \<noteq> cs_keepalive s) (cs_intervals s), cs_agentsDestroyed := True\<rparr>)"

definition connectionDestroy ::
  "('x \<Rightarrow> 'x) \<Rightarrow> 'x callback \<Rightarrow> 'x conn_exn option \<Rightarrow> 'x connection \<Rightarrow> ('x option \<times> 'x connection) checked"
where
  "connectionDestroy ext cb answer s =
     chk_bind (validCallback cb 406001) (\<lambda>_. Inr (connectionDestroyed ext cb answer s))"

end
