(* ===== verification/ConnectionProps.thy ===== *)
theory ConnectionProps
  imports ConnectionModel
begin

text \<open>
  What the connection promises: how long it waits for the results of a query and with what outcome, and
  that the callback of \<open>connect\<close> learns the first failure of the attempt once.
\<close>

section \<open>Waiting\<close>

definition pauseAt :: "nat \<Rightarrow> nat" where
  "pauseAt i = asyncRetryInMilliseconds * (asyncRetryPattern ! min i 6)"

definition validId :: "(jsv \<Rightarrow> string) \<Rightarrow> jsv \<Rightarrow> bool" where
  "validId txt queryId \<longleftrightarrow> jsExists queryId \<and> queryIdTest (txt queryId)"

text \<open>The server gives the answer \<open>r i\<close> to the request number \<open>i\<close>.\<close>

definition answers :: "(nat \<Rightarrow> string \<Rightarrow> ('x, query_response option) conn) \<Rightarrow> (nat \<Rightarrow> query_response option) \<Rightarrow> bool" where
  "answers ask r \<longleftrightarrow> (\<forall>i u. ask i u = Inr (r i))"

declare waitForQuery.simps(2) [simp del]

lemma status_of_answer:
  assumes "validId txt queryId" "answers ask r"
  shows "getQueryStatusThrowIfError txt (ask i) queryId =
     (if isAnError (extractQueryStatus (r i)) then Inl (queryError (r i)) else Inr (extractQueryStatus (r i)))"
  using assms by (simp add: answers_def getQueryStatusThrowIfError_def getQueryResponse_def fromChecked_def validId_def)

lemma running_is_no_error: "isStillRunning st \<Longrightarrow> \<not> isAnError st \<and> st \<noteq> Some ''NO_QUERY_DATA''"
  by (auto simp: isStillRunning_def isAnError_def codeOf_def runningStatuses_def errorStatuses_def split: option.splits if_splits)

definition noDataIn :: "(nat \<Rightarrow> query_response option) \<Rightarrow> nat \<Rightarrow> nat" where
  "noDataIn r n = length (filter (\<lambda>i. codeOf (extractQueryStatus (r i)) = Some ''NO_DATA'') [0..<n])"

lemma noDataIn_Suc:
  "noDataIn r (Suc k) = noDataIn r k + (if codeOf (extractQueryStatus (r k)) = Some ''NO_DATA'' then 1 else 0)"
  by (simp add: noDataIn_def)

lemma noDataIn_mono: "k \<le> n \<Longrightarrow> noDataIn r k \<le> noDataIn r n"
  by (induction n) (auto simp: noDataIn_Suc le_Suc_eq)

lemma next_position: "(if min k 6 < length asyncRetryPattern - 1 then min k 6 + 1 else min k 6) = min (Suc k) 6"
  by (simp add: asyncRetryPattern_def min_def)

lemma waitForQuery_runs:
  assumes id: "validId txt queryId" and ask: "answers ask r"
    and running: "\<And>i. i < n \<Longrightarrow> isStillRunning (extractQueryStatus (r i))"
    and few: "noDataIn r n \<le> asyncNoDataMaxRetry"
    and k: "k \<le> n"
  shows "waitForQuery (Suc fuel + (n - k)) txt ask queryId k (noDataIn r k) (min k 6) =
     map_option (\<lambda>(x, ps). (x, map pauseAt [k..<n] @ ps))
       (waitForQuery (Suc fuel) txt ask queryId n (noDataIn r n) (min n 6))"
  using k
proof (induction "n - k" arbitrary: k)
  case 0
  then show ?case by (cases "waitForQuery (Suc fuel) txt ask queryId n (noDataIn r n) (min n 6)") (auto simp: case_prod_beta')
next
  case (Suc d)
  then have lt: "k < n" "n - Suc k = d" "Suc k \<le> n" "n - k = Suc d" by simp_all
  have run: "isStillRunning (extractQueryStatus (r k))" by (rule running[OF lt(1)])
  have bound: "noDataIn r (Suc k) \<le> asyncNoDataMaxRetry" using noDataIn_mono[OF lt(3), of r] few by simp
  have more: "(if codeOf (extractQueryStatus (r k)) = Some ''NO_DATA'' then noDataIn r k + 1 else noDataIn r k) = noDataIn r (Suc k)"
    by (simp add: noDataIn_Suc)
  have IH: "waitForQuery (Suc fuel + d) txt ask queryId (Suc k) (noDataIn r (Suc k)) (min (Suc k) 6) =
     map_option (\<lambda>(x, ps). (x, map pauseAt [Suc k..<n] @ ps))
       (waitForQuery (Suc fuel) txt ask queryId n (noDataIn r n) (min n 6))"
    using Suc(1)[of "Suc k"] lt by simp
  have st: "getQueryStatusThrowIfError txt (ask k) queryId = Inr (extractQueryStatus (r k))"
    using status_of_answer[OF id ask] running_is_no_error[OF run] by simp
  have step: "waitForQuery (Suc (Suc fuel + d)) txt ask queryId k (noDataIn r k) (min k 6) =
     map_option (\<lambda>(x, ps). (x, pauseAt k # ps))
       (waitForQuery (Suc fuel + d) txt ask queryId (Suc k) (noDataIn r (Suc k)) (min (Suc k) 6))"
    unfolding waitForQuery.simps(2) st sum.case Let_def more next_position pauseAt_def
    using run running_is_no_error[OF run] bound by (simp only: simp_thms if_True if_False not_less conj_ac) auto
  have "[k..<n] = k # [Suc k..<n]" using lt(1) by (rule upt_conv_Cons)
  then show ?case using IH step lt(4) by (simp add: option.map_comp comp_def case_prod_beta')
qed

lemma waitForQuery_ends:
  assumes "validId txt queryId" "answers ask r" "\<not> isStillRunning (extractQueryStatus (r n))"
  shows "waitForQuery (Suc fuel) txt ask queryId n c p =
     Some (if isAnError (extractQueryStatus (r n)) then Inl (queryError (r n)) else Inr (extractQueryStatus (r n)), [])"
  unfolding waitForQuery.simps(2) status_of_answer[OF assms(1,2)] using assms(3) by simp

text \<open>
  C22. If a query is running for \<open>n\<close> polls, at most 24 of them without data, and has succeeded at the next,
  then its results are fetched with the options of the caller after exactly \<open>n\<close> pauses, of 0.5, 0.5, 1,
  1.5, 2, 4 and from then on 5 seconds; if it has failed the promise is rejected with the error of the
  server.  Enough fuel is one step more than there are polls.
\<close>

theorem results_when_finished:
  assumes "validId txt (getProp options ''queryId'')" "answers ask r"
    and "\<And>i. i < n \<Longrightarrow> isStillRunning (extractQueryStatus (r i))" "noDataIn r n \<le> asyncNoDataMaxRetry"
    and last: "extractQueryStatus (r n) = Some status" "status = ''SUCCESS'' \<or> status \<in> set errorStatuses"
  shows "getResultsFromQueryId (Suc fuel + n) txt nt ask options =
     Some (if status = ''SUCCESS'' then fromChecked (createStatementPostExec nt (JObject options))
           else Inl (queryError (r n)), map pauseAt [0..<n])"
proof -
  have fin: "\<not> isStillRunning (Some status)" "isAnError (Some status) \<longleftrightarrow> status \<noteq> ''SUCCESS''"
    "codeOf (Some status) = Some status"
    using last(2) by (auto simp: isStillRunning_def isAnError_def codeOf_def runningStatuses_def errorStatuses_def QueryStatus_code_def)
  have "waitForQuery (Suc fuel + n) txt ask (getProp options ''queryId'') 0 0 0 =
      map_option (\<lambda>(x, ps). (x, map pauseAt [0..<n] @ ps))
       (waitForQuery (Suc fuel) txt ask (getProp options ''queryId'') n (noDataIn r n) (min n 6))"
    using waitForQuery_runs[OF assms(1,2,3,4), where k = 0 and fuel = fuel] by (simp add: noDataIn_def)
  also have "\<dots> = Some (if status = ''SUCCESS'' then Inr (Some status) else Inl (queryError (r n)), map pauseAt [0..<n])"
    using waitForQuery_ends[OF assms(1,2), of n] fin last(1) by simp
  moreover have "codeOf (Some ''SUCCESS'') = Some ''SUCCESS''" by code_simp
  ultimately show ?thesis by (simp add: getResultsFromQueryId_def Let_def fin(3))
qed

text \<open>
  If the server never has data for the query, the wait is given up after 25 polls and 104.5 seconds of
  pauses with the error that no data was returned.
\<close>

theorem missing_data_gives_up:
  assumes id: "validId txt (getProp options ''queryId'')" and ask: "answers ask r"
    and none: "\<And>i. extractQueryStatus (r i) = Some ''NO_DATA''"
  shows "\<exists>pauses. getResultsFromQueryId (Suc fuel + 25) txt nt ask options =
       Some (Inl (noDataError [txt (getProp options ''queryId'')]), pauses) \<and>
     length pauses = 25 \<and> sum_list pauses = 104500"
proof -
  let ?q = "getProp options ''queryId''"
  have st: "isStillRunning (extractQueryStatus (r i))" "codeOf (extractQueryStatus (r i)) = Some ''NO_DATA''" for i
    by (simp_all add: none isStillRunning_def codeOf_def runningStatuses_def QueryStatus_code_def)
  have nd: "noDataIn r n = n" for n by (simp add: noDataIn_def st)
  have last: "waitForQuery (Suc (Suc fuel)) txt ask ?q 24 24 6 = Some (Inl (noDataError [txt ?q]), [pauseAt 24])"
    unfolding waitForQuery.simps(2) status_of_answer[OF id ask] Let_def
    using st(1)[of 24] st(2)[of 24] running_is_no_error[OF st(1)[of 24]]
    by (simp add: asyncNoDataMaxRetry_def pauseAt_def)
  have "waitForQuery (Suc (Suc fuel) + 24) txt ask ?q 0 0 0 =
      Some (Inl (noDataError [txt ?q]), map pauseAt [0..<24] @ [pauseAt 24])"
    using waitForQuery_runs[OF id ask st(1), where n = 24 and k = 0 and fuel = "Suc fuel"] last
    by (simp add: nd asyncNoDataMaxRetry_def)
  moreover have "Suc (Suc fuel) + 24 = Suc fuel + 25" by simp
  ultimately have run: "getResultsFromQueryId (Suc fuel + 25) txt nt ask options =
      Some (Inl (noDataError [txt ?q]), map pauseAt [0..<24] @ [pauseAt 24])"
    by (simp only: getResultsFromQueryId_def Let_def option.map prod.case cn_bind_simps)
  have "[0..<24] = [0, 1, 2, 3, 4, 5] @ [6..<24]" by (simp add: upt_conv_Cons)
  moreover have "map pauseAt [6..<24] = replicate 18 5000"
    by (rule replicate_eqI) (auto simp: pauseAt_def asyncRetryInMilliseconds_def asyncRetryPattern_def)
  ultimately have "map pauseAt [0..<24] = [500, 500, 1000, 1500, 2000, 4000] @ replicate 18 5000"
    by (simp add: pauseAt_def asyncRetryInMilliseconds_def asyncRetryPattern_def)
  moreover have "pauseAt 24 = 5000" by (simp add: pauseAt_def asyncRetryInMilliseconds_def asyncRetryPattern_def)
  ultimately have "sum_list (map pauseAt [0..<24] @ [pauseAt 24]) = 104500" by (simp add: sum_list_replicate)
  then show ?thesis using run by simp
qed


definition nilId :: string where
  "nilId = ''00000000-0000-0000-0000-000000000000''"

definition plainText :: "jsv \<Rightarrow> string" where
  "plainText v = the_string v"

definition answerWith :: "string \<Rightarrow> query_response option" where
  "answerWith status =
     Some \<lparr>qr_data = Some \<lparr>qd_queries = Some [\<lparr>qi_status = Some status, qi_errorMessage = Some ''m''\<rparr>], qd_sqlState = None\<rparr>,
           qr_message = None, qr_code = NoCode\<rparr>"

lemma nilId_valid: "validId plainText (getProp [(''queryId'', JString nilId)] ''queryId'')"
  by (simp add: validId_def getProp_def plainText_def queryIdTest_def nilId_def isHex_def)

lemma status_answerWith: "extractQueryStatus (answerWith s) = Some s"
  by (simp add: extractQueryStatus_def answerWith_def)

theorem results_when_finished_witness:
  "\<exists>cx. getResultsFromQueryId 4 plainText (\<lambda>_. []) (\<lambda>i u. Inr (answerWith (if i < 3 then ''QUEUED'' else ''SUCCESS'')))
     [(''queryId'', JString nilId)] = (Some (Inr cx, [500, 500, 1000]) :: ((unit, stmt_context) conn \<times> nat list) option) \<and>
     cx_queryId cx = Some nilId"
proof -
  let ?r = "\<lambda>i::nat. answerWith (if i < 3 then ''QUEUED'' else ''SUCCESS'')"
  have "noDataIn ?r 3 \<le> asyncNoDataMaxRetry"
    by (simp add: noDataIn_def status_answerWith codeOf_def asyncNoDataMaxRetry_def QueryStatus_code_def upt_conv_Cons)
  then have run: "getResultsFromQueryId (Suc 0 + 3) plainText nt (\<lambda>i u. Inr (?r i)) [(''queryId'', JString nilId)] =
      Some (fromChecked (createStatementPostExec nt (JObject [(''queryId'', JString nilId)])), map pauseAt [0..<3])" for nt
    using results_when_finished[OF nilId_valid, where r = ?r and ask = "\<lambda>i u. Inr (?r i)" and n = 3 and fuel = 0
        and status = "''SUCCESS''" and nt = nt]
    by (simp add: answers_def status_answerWith isStillRunning_def codeOf_def runningStatuses_def QueryStatus_code_def)
  have "\<exists>cx. createStatementPostExec (\<lambda>_. []) (JObject [(''queryId'', JString nilId)]) = Inr cx \<and> cx_queryId cx = Some nilId"
    by (simp add: createStatementPostExec_def withOptions_def postExecContext_def fetchResultChecks_def getProp_def
        fetchAsStringOption_def rowModeOption_def validIfExists_def)
  moreover have "map pauseAt [0..<3] = [500, 500, 1000]"
    by (simp add: pauseAt_def asyncRetryInMilliseconds_def asyncRetryPattern_def upt_conv_Cons)
  ultimately show ?thesis using run[of "\<lambda>_. []"] by (auto simp: fromChecked_def)
qed

theorem missing_data_gives_up_witness:
  "\<exists>pauses. getResultsFromQueryId 26 plainText (\<lambda>_. []) (\<lambda>i u. Inr (answerWith ''NO_DATA'')) [(''queryId'', JString nilId)] =
     (Some (Inl (noDataError [nilId]), pauses) :: ((unit, stmt_context) conn \<times> nat list) option) \<and> length pauses = 25"
  using missing_data_gives_up[OF nilId_valid, where r = "\<lambda>i. answerWith ''NO_DATA''" and ask = "\<lambda>i u. Inr (answerWith ''NO_DATA'')"
      and fuel = 0 and nt = "\<lambda>_. []"]
  by (auto simp: answers_def status_answerWith plainText_def getProp_def)

section \<open>The callback of connect\<close>

text \<open>The stages of an attempt to connect, each with its failure: the first one is what the caller learns.\<close>

definition connectStages :: "'x login_env \<Rightarrow> 'x conn_exn option list" where
  "connectStages env =
     [if le_storeTemporary env then
        (case le_read env (buildCredentialCacheKey (le_host env) (le_username env) ''ID_TOKEN'') of
           Inl x \<Rightarrow> Some (ConnOther x) | Inr t \<Rightarrow> None)
      else None,
      if le_requestMFA env then
        (case le_read env (buildCredentialCacheKey (le_host env) (le_username env) ''USERNAME_PASSWORD_MFA'') of
           Inl x \<Rightarrow> Some (ConnOther x) | Inr t \<Rightarrow> None)
      else None,
      if le_noAuthenticator env then Some (fatalError 405506) else None,
      if le_easyLoggingFails env then Some (fatalError 405505) else None,
      map_option ConnOther (le_authenticate env),
      (case le_connect env of ConnectThrows x \<Rightarrow> Some (ConnOther x) | ConnectAnswers e \<Rightarrow> e | NoAnswer \<Rightarrow> None)]"

fun firstSome :: "'a option list \<Rightarrow> 'a option" where
  "firstSome [] = None"
| "firstSome (Some x # xs) = Some x"
| "firstSome (None # xs) = firstSome xs"

lemma readTokens_stages:
  "fst (readTokens env s) = None \<longleftrightarrow> firstSome (take 2 (connectStages env)) = None"
  "fst (readTokens env s) = Some x \<Longrightarrow> firstSome (take 2 (connectStages env)) = Some (ConnOther x)"
  by (auto simp: readTokens_def connectStages_def Let_def numeral_2_eq_2 split: sum.splits if_splits prod.splits)

lemma firstSome_append: "firstSome (xs @ ys) = (case firstSome xs of None \<Rightarrow> firstSome ys | Some x \<Rightarrow> Some x)"
  by (induction xs rule: firstSome.induct) auto

lemma readTokens_keeps:
  "cs_called (snd (readTokens env s)) = cs_called s" "cs_intervals (snd (readTokens env s)) = cs_intervals s"
  "cs_keepalive (snd (readTokens env s)) = cs_keepalive s" "cs_nextInterval (snd (readTokens env s)) = cs_nextInterval s"
  by (auto simp: readTokens_def useManager_def Let_def split: sum.splits prod.splits)

lemma firstSome_single [simp]: "firstSome [x] = x"
  by (cases x) simp_all

lemma stages_split: "connectStages env = take 2 (connectStages env) @ drop 2 (connectStages env)"
  by simp

text \<open>
  C10. \<open>connect\<close> calls a callback that does not throw exactly once, with the first failure of the attempt in
  the order: stored identity token, stored MFA token, authenticator, logging, authentication, session
  service; without a failure it is called with no error.  Errors the code throws and errors it passes on
  take different ways and reach the callback alike.
\<close>

theorem connect_callback_once:
  assumes quiet: "\<And>e. f e = None" and answered: "le_connect env \<noteq> NoAnswer"
  shows "\<exists>s'. connect env (Callback f) s = Inr (None, s') \<and>
     cs_called s' = cs_called s @ [externalizeExn (le_externalize env) (firstSome (connectStages env))]"
proof -
  define s0 where "s0 = (if isPrivateLink (le_host env)
    then s\<lparr>cs_ocspUrl := Some (createOcspResponseCacheServerUrl (le_host env))\<rparr> else s)"
  obtain e1 s1 where rd: "readTokens env s0 = (e1, s1)" by (cases "readTokens env s0")
  have "cs_called s0 = cs_called s" by (simp add: s0_def)
  then have called: "cs_called s1 = cs_called s" using readTokens_keeps(1)[of env s0] by (simp add: rd)
  have rest: "drop 2 (connectStages env) =
      [if le_noAuthenticator env then Some (fatalError 405506) else None,
       if le_easyLoggingFails env then Some (fatalError 405505) else None,
       map_option ConnOther (le_authenticate env),
       (case le_connect env of ConnectThrows x \<Rightarrow> Some (ConnOther x) | ConnectAnswers e \<Rightarrow> e | NoAnswer \<Rightarrow> None)]"
    by (simp add: connectStages_def)
  have none: "callUser (Callback f) e t = (None, t\<lparr>cs_called := cs_called t @ [e]\<rparr>)" for e and t :: "'a connection"
    by (simp add: callUser_def quiet)
  have keep: "cs_called (startKeepAlive ps t) = cs_called t" for ps and t :: "'a connection" by (simp add: startKeepAlive_def)
  have spec: "firstSome (connectStages env) =
      (case e1 of Some x \<Rightarrow> Some (ConnOther x) | None \<Rightarrow> firstSome (drop 2 (connectStages env)))"
    using readTokens_stages[of env s0] by (subst stages_split, subst firstSome_append) (auto simp: rd split: option.splits)
  show ?thesis
  proof (cases e1)
    case (Some x)
    then show ?thesis
      by (simp add: connect_def connectAsync_def validCallback_def s0_def[symmetric] rd none called spec)
  next
    case None
    then show ?thesis
      using answered
      by (cases "le_noAuthenticator env"; cases "le_easyLoggingFails env"; cases "le_authenticate env"; cases "le_connect env")
        (simp_all add: connect_def connectAsync_def validCallback_def s0_def[symmetric] rd none called spec rest
          connectCallback_def keep split: option.splits)
  qed
qed


definition passwordLogin :: "string login_env" where
  "passwordLogin =
     \<lparr>le_host = ''acme.privatelink.snowflakecomputing.com'', le_username = Some ''u'', le_storeTemporary = True,
      le_requestMFA = False, le_cacheDir = None, le_read = (\<lambda>k. Inr None), le_noAuthenticator = False,
      le_easyLoggingFails = False, le_authenticate = None, le_connect = ConnectAnswers None,
      le_params = defaultParameters(''CLIENT_SESSION_KEEP_ALIVE'' \<mapsto> JBoolean True), le_externalize = id\<rparr>"

theorem connect_callback_once_witness:
  "(\<exists>s'. connect passwordLogin (Callback (\<lambda>_. None)) (newConnection None) = Inr (None, s') \<and> cs_called s' = [None]) \<and>
   (\<exists>s'. connect (passwordLogin\<lparr>le_authenticate := Some ''denied''\<rparr>) (Callback (\<lambda>_. None)) (newConnection None) = Inr (None, s') \<and>
      cs_called s' = [Some (ConnOther ''denied'')])"
proof -
  have s: "firstSome (connectStages passwordLogin) = None"
    "firstSome (connectStages (passwordLogin\<lparr>le_authenticate := Some ''denied''\<rparr>)) = Some (ConnOther ''denied'')"
    by (simp_all add: connectStages_def passwordLogin_def)
  show ?thesis
    using connect_callback_once[of "\<lambda>_. None" passwordLogin "newConnection None"]
      connect_callback_once[of "\<lambda>_. None" "passwordLogin\<lparr>le_authenticate := Some ''denied''\<rparr>" "newConnection None"]
    unfolding s by (simp add: externalizeExn_def newConnection_def) (simp add: passwordLogin_def)
qed

text \<open>
  A callback that throws when it is told of a failed authentication is called a second time, with its
  own exception: \<open>connectAsync\<close> is rejected by it and \<open>connect\<close> passes every rejection to the callback.
\<close>

theorem throwing_callback_called_twice:
  assumes denied: "le_authenticate env = Some x" "firstSome (take 4 (connectStages env)) = None"
    and throws: "f (Some (ConnOther (le_externalize env x))) = Some y"
  shows "\<exists>u s'. connect env (Callback f) s = Inr (u, s') \<and>
     cs_called s' = cs_called s @ [Some (ConnOther (le_externalize env x)), Some (ConnOther (le_externalize env y))]"
proof -
  define s0 where "s0 = (if isPrivateLink (le_host env)
    then s\<lparr>cs_ocspUrl := Some (createOcspResponseCacheServerUrl (le_host env))\<rparr> else s)"
  obtain e1 s1 where rd: "readTokens env s0 = (e1, s1)" by (cases "readTokens env s0")
  have "cs_called s0 = cs_called s" by (simp add: s0_def)
  then have called: "cs_called s1 = cs_called s" using readTokens_keeps(1)[of env s0] by (simp add: rd)
  have "take 4 (connectStages env) = take 2 (connectStages env) @
      [if le_noAuthenticator env then Some (fatalError 405506) else None,
       if le_easyLoggingFails env then Some (fatalError 405505) else None]"
    by (simp add: connectStages_def)
  then have "firstSome (take 2 (connectStages env)) = None" "\<not> le_noAuthenticator env" "\<not> le_easyLoggingFails env"
    using denied(2) by (auto simp: firstSome_append split: option.splits if_splits)
  then show ?thesis
    using readTokens_stages(1)[of env s0] denied(1) throws
    by (simp add: connect_def connectAsync_def validCallback_def s0_def[symmetric] rd called connectCallback_def
        callUser_def externalizeExn_def)
qed

theorem throwing_callback_called_twice_witness:
  "\<exists>u s'. connect (passwordLogin\<lparr>le_authenticate := Some ''denied''\<rparr>) (Callback (\<lambda>_. Some ''oops'')) (newConnection None) =
     Inr (u, s') \<and> cs_called s' = [Some (ConnOther ''denied''), Some (ConnOther ''oops'')]"
proof -
  let ?env = "passwordLogin\<lparr>le_authenticate := Some ''denied''\<rparr>"
  have "firstSome (take 4 (connectStages ?env)) = None" by (simp add: connectStages_def passwordLogin_def)
  then show ?thesis
    using throwing_callback_called_twice[of ?env "''denied''" "\<lambda>_. Some ''oops''" "''oops''" "newConnection None"]
    by (simp add: newConnection_def passwordLogin_def)
qed

text \<open>The invariant of the timers: only the one the connection knows is running.\<close>

definition only_current :: "'x connection \<Rightarrow> bool" where
  "only_current s \<longleftrightarrow> (\<forall>(i, d)\<in>set (cs_intervals s). Some i = cs_keepalive s)"

lemma only_current_user [simp]: "only_current (snd (callUser cb e s)) = only_current s"
  by (auto simp: callUser_def only_current_def split: callback.splits)

lemma only_current_callback: "cs_intervals s = [] \<Longrightarrow> only_current (snd (connectCallback env cb e s))"
  by (auto simp: connectCallback_def) (auto simp: startKeepAlive_def only_current_def)

lemma state_of_outcome:
  "snd (snd (case p of (None, s2) \<Rightarrow> (q, None, s2) | (Some y, s2) \<Rightarrow> (g y, h y, s2))) = snd p"
  by (cases p; cases "fst p") auto

lemma only_current_connectAsync:
  assumes "cs_intervals s = []"
  shows "only_current (snd (snd (connectAsync env cb s)))"
proof -
  define s0 where "s0 = (if isPrivateLink (le_host env)
    then s\<lparr>cs_ocspUrl := Some (createOcspResponseCacheServerUrl (le_host env))\<rparr> else s)"
  have none: "cs_intervals t = [] \<Longrightarrow> only_current t" for t :: "'a connection" by (simp add: only_current_def)
  obtain e1 s1 where rd: "readTokens env s0 = (e1, s1)" by (cases "readTokens env s0")
  have "cs_intervals s0 = []" using assms by (simp add: s0_def)
  then have empty: "cs_intervals s1 = []" using readTokens_keeps(2)[of env s0] by (simp add: rd)
  note cb = only_current_callback[OF empty]
  show ?thesis
  proof (cases e1)
    case (Some x)
    then show ?thesis
      unfolding connectAsync_def Let_def s0_def[symmetric] rd by (simp add: none empty assms split: sum.split)
  next
    case None
    then show ?thesis
      unfolding connectAsync_def Let_def s0_def[symmetric] rd
      by (cases "le_authenticate env"; cases "le_connect env")
        (simp_all add: none empty assms state_of_outcome cb split: sum.split)
  qed
qed

lemma only_current_connect:
  "connect env cb s = Inr (u, s1) \<Longrightarrow> cs_intervals s = [] \<Longrightarrow> only_current s1"
  using only_current_connectAsync[of s env cb]
  by (auto simp: connect_def chk_bind_eq_Inr split: prod.splits promise.splits dest: arg_cong[of _ _ "only_current \<circ> snd"])

text \<open>
  The keep-alive timer a successful \<open>connect\<close> starts is stopped when the session service has answered
  \<open>destroy\<close>, with success or not: no timer is left on a connection that was connected once.
\<close>

theorem destroy_stops_keep_alive:
  assumes "connect env cb (newConnection manager) = Inr (u, s1)"
    "connectionDestroy ext cb' answer s1 = Inr (v, s2)"
  shows "cs_intervals s2 = [] \<and> cs_agentsDestroyed s2"
proof -
  have "only_current s1" by (rule only_current_connect[OF assms(1)]) (simp add: newConnection_def)
  then have "filter (\<lambda>(i, _). Some i \<noteq> cs_keepalive s1) (cs_intervals s1) = []" by (auto simp: only_current_def filter_empty_conv)
  then show ?thesis
    using assms(2) by (auto simp: connectionDestroy_def connectionDestroyed_def chk_bind_eq_Inr callUser_def split: callback.splits)
qed

theorem destroy_stops_keep_alive_witness:
  "\<exists>u s1 v s2. connect passwordLogin NoCallback (newConnection None) = Inr (u, s1) \<and> cs_intervals s1 = [(0, Some 3600000)] \<and>
     connectionDestroy id NoCallback (Some (ConnOther ''gone'')) s1 = Inr (v, s2) \<and> cs_intervals s2 = []"
proof -
  obtain u s1 where c: "connect passwordLogin NoCallback (newConnection None) = Inr (u, s1)" "cs_intervals s1 = [(0, Some 3600000)]"
    by (simp add: connect_def validCallback_def connectAsync_def readTokens_def connectCallback_def callUser_def passwordLogin_def
        startKeepAlive_def newConnection_def useManager_def defaultParameters_def keepAliveMs_def Let_def)
  obtain v s2 where d: "connectionDestroy id NoCallback (Some (ConnOther ''gone'')) s1 = Inr (v, s2)"
    by (cases "connectionDestroyed id NoCallback (Some (ConnOther ''gone'')) s1") (simp add: connectionDestroy_def validCallback_def)
  show ?thesis using destroy_stops_keep_alive[OF c(1) d] c d by blast
qed

end
