(* ===== verification/CrlModel.thy ===== *)
theory CrlModel
  imports MultipartModel "HOL-Library.Sublist"
begin

text \<open>
  Checking the certificates of a connection against revocation lists (\<open>agent/crl_validator\<close>: \<open>index.ts\<close>,
  \<open>certificate_utils.ts\<close>, \<open>crl_cache.ts\<close>, \<open>crl_fetcher.ts\<close>, \<open>crl_signature_verifier.ts\<close>,
  \<open>rsassa_pss_parser.ts\<close>).

  Certificates and lists are what the ASN.1 library decodes of them; times are milliseconds.  The library,
  the verification of a signature, the download and the failures of the disk are the record \<open>crl_env\<close>.
\<close>

section \<open>Certificates and lists\<close>

text \<open>
  A distribution point has names with a type, or none; the extension itself may be missing.  The name and
  the subject are the texts the code makes of them.  A list has a next update, and the extension of the
  issuing distribution point a full name; the decoder gives no other list (one without them is a failure of
  the check at its first use).
\<close>

record certificate =
  ce_name :: string
  ce_notBefore :: int
  ce_notAfter :: int
  ce_serial :: int
  ce_subject :: string
  ce_points :: "(string \<times> string) list option list option"
  ce_publicKey :: string

record crl =
  cl_issuer :: string
  cl_nextUpdate :: int
  cl_revoked :: "int list option"
  cl_distribution :: "(string \<times> string) list option"
  cl_algorithm :: string
  cl_parameters :: "bytes option"
  cl_tbs :: bytes
  cl_signature :: bytes

text \<open>The chain of a peer: every certificate is linked to its issuer, a root to itself.\<close>

datatype chain = SelfSigned certificate | IssuedBy certificate chain | Unlinked certificate

fun chainHead :: "chain \<Rightarrow> certificate" where
  "chainHead (SelfSigned c) = c"
| "chainHead (IssuedBy c rest) = c"
| "chainHead (Unlinked c) = c"

fun iterateCertChain :: "chain \<Rightarrow> (certificate \<times> certificate option) list" where
  "iterateCertChain (SelfSigned c) = []"
| "iterateCertChain (IssuedBy c rest) = (c, Some (chainHead rest)) # iterateCertChain rest"
| "iterateCertChain (Unlinked c) = [(c, None)]"

datatype crl_exn = CertificateRevokedError string | CrlFailure string | OtherFailure string | CrlTypeError

type_synonym 'a crl_result = "crl_exn + 'a"

definition cr_bind :: "'a crl_result \<Rightarrow> ('a \<Rightarrow> 'b crl_result) \<Rightarrow> 'b crl_result" where
  "cr_bind m f = (case m of Inl e \<Rightarrow> Inl e | Inr x \<Rightarrow> f x)"

lemma cr_bind_simps [simp]: "cr_bind (Inl e) f = Inl e" "cr_bind (Inr x) f = f x"
  by (simp_all add: cr_bind_def)

lemma cr_bind_eq_Inr: "cr_bind m f = Inr y \<longleftrightarrow> (\<exists>x. m = Inr x \<and> f x = Inr y)"
  by (cases m) simp_all

section \<open>Tests\<close>

text \<open>The first http name of a distribution point.\<close>

fun firstHttp :: "(string \<times> string) list \<Rightarrow> string option" where
  "firstHttp [] = None"
| "firstHttp ((kind, v) # names) =
     (if kind = ''uniformResourceIdentifier'' \<and> prefix ''http'' v then Some v else firstHttp names)"

definition getCertificateCrlUrls :: "certificate \<Rightarrow> string list option" where
  "getCertificateCrlUrls c =
     (case ce_points c of
        None \<Rightarrow> None
      | Some entries \<Rightarrow>
          (let urls = List.map_filter (\<lambda>p. case p of None \<Rightarrow> None | Some names \<Rightarrow> firstHttp names) entries
           in if urls = [] then None else Some urls))"

definition march2026 :: int where "march2026 = 1773532800000"
definition dayMs :: int where "dayMs = 24 * 60 * 60 * 1000"

definition isShortLivedCertificate :: "certificate \<Rightarrow> bool" where
  "isShortLivedCertificate c =
     (let maximumValidityPeriod = (if ce_notBefore c < march2026 then 10 * dayMs else 7 * dayMs) + 60 * 1000
      in maximumValidityPeriod > ce_notAfter c - ce_notBefore c)"

definition isCertificateRevoked :: "certificate \<Rightarrow> crl \<Rightarrow> bool" where
  "isCertificateRevoked c l = (case cl_revoked l of None \<Rightarrow> False | Some xs \<Rightarrow> ce_serial c \<in> set xs)"

definition isIssuingDistributionPointExtensionValid :: "crl \<Rightarrow> string \<Rightarrow> bool" where
  "isIssuingDistributionPointExtensionValid l url =
     (case cl_distribution l of None \<Rightarrow> True | Some names \<Rightarrow> (''uniformResourceIdentifier'', url) \<in> set names)"

section \<open>Environment and state\<close>

record crl_env =
  ev_validityTime :: int
  ev_download :: "string \<Rightarrow> int \<Rightarrow> bytes crl_result \<times> nat"   \<comment> \<open>at a time, with the milliseconds it takes\<close>
  ev_decode :: "bytes \<Rightarrow> crl option"
  ev_pssParams :: "bytes \<Rightarrow> (string option \<times> int option) option"
  ev_verify :: "string \<Rightarrow> bytes \<Rightarrow> string \<Rightarrow> int option \<Rightarrow> bytes \<Rightarrow> bool"
  ev_readFails :: "string \<Rightarrow> bool"
  ev_writeFails :: "string \<Rightarrow> bool"

record crl_state =
  cw_now :: int
  cw_memory :: "string \<rightharpoonup> int \<times> crl"
  cw_disk :: "string \<rightharpoonup> int \<times> bytes"
  cw_downloads :: "string list"

datatype check_mode = DISABLED | ENABLED | ADVISORY

record crl_config =
  cc_checkMode :: check_mode
  cc_allowWithoutUrl :: bool
  cc_inMemoryCache :: bool
  cc_onDiskCache :: bool

definition isCrlValidationEnabled :: "crl_config \<Rightarrow> bool" where
  "isCrlValidationEnabled cfg \<longleftrightarrow> cc_checkMode cfg \<noteq> DISABLED"

section \<open>Signatures\<close>

definition HASH_OID_TO_NAME :: "string \<rightharpoonup> string" where
  "HASH_OID_TO_NAME =
     [''2.16.840.1.101.3.4.2.1'' \<mapsto> ''sha256'', ''2.16.840.1.101.3.4.2.2'' \<mapsto> ''sha384'', ''2.16.840.1.101.3.4.2.3'' \<mapsto> ''sha512'']"

definition HASH_DIGEST_LENGTH :: "string \<Rightarrow> int" where
  "HASH_DIGEST_LENGTH h = (if h = ''sha256'' then 32 else if h = ''sha384'' then 48 else 64)"

definition parseRSASSAPSSParams :: "crl_env \<Rightarrow> bytes option \<Rightarrow> (string \<times> int) crl_result" where
  "parseRSASSAPSSParams env parameters =
     (case parameters of
        None \<Rightarrow> Inl (CrlFailure ''RSASSA-PSS signature algorithm is missing parameters buffer'')
      | Some b \<Rightarrow>
          (case ev_pssParams env b of
             None \<Rightarrow> Inl (OtherFailure ''ASN.1'')
           | Some (oid, salt) \<Rightarrow>
               (case Option.bind oid HASH_OID_TO_NAME of
                  None \<Rightarrow> Inl (CrlFailure (''RSASSA-PSS unsupported hashAlgorithm OID: '' @
                            (case oid of Some t \<Rightarrow> t | None \<Rightarrow> ''null'') @
                            '' (only SHA-256, SHA-384, and SHA-512 are supported)''))
                | Some h \<Rightarrow> Inr (h, case salt of Some n \<Rightarrow> n | None \<Rightarrow> HASH_DIGEST_LENGTH h))))"

definition digestOf :: "string \<rightharpoonup> string" where
  "digestOf =
     [''1.2.840.113549.1.1.11'' \<mapsto> ''sha256'', ''1.2.840.113549.1.1.12'' \<mapsto> ''sha384'', ''1.2.840.113549.1.1.13'' \<mapsto> ''sha512'',
      ''1.2.840.10045.4.3.2'' \<mapsto> ''sha256'', ''1.2.840.10045.4.3.3'' \<mapsto> ''sha384'', ''1.2.840.10045.4.3.4'' \<mapsto> ''sha512'']"

definition isCrlSignatureValid :: "crl_env \<Rightarrow> crl \<Rightarrow> string \<Rightarrow> bool crl_result" where
  "isCrlSignatureValid env l issuerPublicKey =
     (if cl_algorithm l = ''1.2.840.113549.1.1.10'' then
        cr_bind (parseRSASSAPSSParams env (cl_parameters l)) (\<lambda>(h, salt).
          Inr (ev_verify env h (cl_tbs l) issuerPublicKey (Some salt) (cl_signature l)))
      else
        (case digestOf (cl_algorithm l) of
           None \<Rightarrow> Inl (CrlFailure (''Unsupported signature algorithm: '' @ cl_algorithm l))
         | Some h \<Rightarrow> Inr (ev_verify env h (cl_tbs l) issuerPublicKey None (cl_signature l))))"

section \<open>Caches\<close>

definition getCrlFromMemory :: "string \<Rightarrow> crl_state \<Rightarrow> crl option \<times> crl_state" where
  "getCrlFromMemory url s =
     (case cw_memory s url of
        None \<Rightarrow> (None, s)
      | Some (expireAt, l) \<Rightarrow>
          if expireAt > cw_now s then (Some l, s) else (None, s\<lparr>cw_memory := (cw_memory s)(url := None)\<rparr>))"

definition setCrlInMemory :: "crl_env \<Rightarrow> string \<Rightarrow> crl \<Rightarrow> crl_state \<Rightarrow> crl_state" where
  "setCrlInMemory env url l s =
     s\<lparr>cw_memory := (cw_memory s)(url \<mapsto> (min (cw_now s + ev_validityTime env) (cl_nextUpdate l), l))\<rparr>"

definition clearExpiredCrlFromMemoryCache :: "crl_state \<Rightarrow> crl_state" where
  "clearExpiredCrlFromMemoryCache s =
     s\<lparr>cw_memory := (\<lambda>url. case cw_memory s url of
         Some (expireAt, l) \<Rightarrow> if expireAt < cw_now s then None else Some (expireAt, l) | None \<Rightarrow> None)\<rparr>"

text \<open>Files older than thirty days are removed.\<close>

definition clearExpiredCrlFromDiskCache :: "crl_state \<Rightarrow> crl_state" where
  "clearExpiredCrlFromDiskCache s =
     s\<lparr>cw_disk := (\<lambda>url. case cw_disk s url of
         Some (mtime, raw) \<Rightarrow> if mtime < cw_now s - 30 * dayMs then None else Some (mtime, raw) | None \<Rightarrow> None)\<rparr>"

text \<open>A file that cannot be read or decoded counts as missing.\<close>

definition getCrlFromDisk :: "crl_env \<Rightarrow> string \<Rightarrow> crl_state \<Rightarrow> crl option" where
  "getCrlFromDisk env url s =
     (case cw_disk s url of
        None \<Rightarrow> None
      | Some (mtime, raw) \<Rightarrow>
          if ev_readFails env url \<or> cw_now s - mtime > ev_validityTime env then None
          else
            (case ev_decode env raw of
               None \<Rightarrow> None
             | Some l \<Rightarrow> if cl_nextUpdate l > cw_now s then Some l else None))"

text \<open>
  \<open>writeCrlToDisk\<close> returns the promise of the write without awaiting it inside its \<open>try\<close>: a failed write
  is not caught there but rejects the caller.
\<close>

definition writeCrlToDisk :: "crl_env \<Rightarrow> string \<Rightarrow> bytes \<Rightarrow> crl_state \<Rightarrow> unit crl_result \<times> crl_state" where
  "writeCrlToDisk env url raw s =
     (if ev_writeFails env url then (Inl (OtherFailure ''write''), s)
      else (Inr (), s\<lparr>cw_disk := (cw_disk s)(url \<mapsto> (cw_now s, raw))\<rparr>))"

section \<open>Fetching\<close>

definition downloadCrl :: "crl_env \<Rightarrow> crl_config \<Rightarrow> string \<Rightarrow> crl_state \<Rightarrow> crl crl_result \<times> crl_state" where
  "downloadCrl env cfg url s =
     (let (answer, ms) = ev_download env url (cw_now s);
          s1 = s\<lparr>cw_downloads := cw_downloads s @ [url], cw_now := cw_now s + int ms\<rparr>
      in case answer of
           Inl e \<Rightarrow> (Inl e, s1)
         | Inr raw \<Rightarrow>
             (case ev_decode env raw of
                None \<Rightarrow> (Inl (OtherFailure ''ASN.1''), s1)
              | Some l \<Rightarrow>
                  (let s2 = (if cc_inMemoryCache cfg then setCrlInMemory env url l s1 else s1)
                   in if cc_onDiskCache cfg then
                        (case writeCrlToDisk env url raw s2 of
                           (Inl e, s3) \<Rightarrow> (Inl e, s3)
                         | (Inr _, s3) \<Rightarrow> (Inr l, s3))
                      else (Inr l, s2))))"

text \<open>\<open>getCrl\<close> when no request for the same url is pending.\<close>

definition getCrl :: "crl_env \<Rightarrow> crl_config \<Rightarrow> string \<Rightarrow> crl_state \<Rightarrow> crl crl_result \<times> crl_state" where
  "getCrl env cfg url s =
     (case (if cc_inMemoryCache cfg then getCrlFromMemory url s else (None, s)) of
        (Some l, s1) \<Rightarrow> (Inr l, s1)
      | (None, s1) \<Rightarrow>
          (case (if cc_onDiskCache cfg then getCrlFromDisk env url s1 else None) of
             Some l \<Rightarrow> (Inr l, if cc_inMemoryCache cfg then setCrlInMemory env url l s1 else s1)
           | None \<Rightarrow> downloadCrl env cfg url s1))"

section \<open>Validation\<close>

text \<open>The tests of one list, in the order of the code.\<close>

definition checkCrl :: "crl_env \<Rightarrow> certificate \<Rightarrow> certificate \<Rightarrow> string \<Rightarrow> crl \<Rightarrow> int \<Rightarrow> unit crl_result" where
  "checkCrl env c issuer url l now =
     cr_bind (isCrlSignatureValid env l (ce_publicKey issuer)) (\<lambda>valid.
       if \<not> valid then
         Inl (CrlFailure (''CRL '' @ url @ '' signature is invalid. Expected signature by '' @ ce_name issuer))
       else if \<not> isIssuingDistributionPointExtensionValid l url then
         Inl (CrlFailure (''CRL '' @ url @ '' issuingDistributionPoint extension is invalid''))
       else if ce_subject issuer \<noteq> cl_issuer l then
         Inl (CrlFailure (''CRL '' @ url @ '' issuer is invalid. Expected '' @ ce_subject issuer @ '' but got '' @ cl_issuer l))
       else if cl_nextUpdate l < now then Inl (CrlFailure (''CRL '' @ url @ '' nextUpdate is expired''))
       else if isCertificateRevoked c l then
         Inl (CertificateRevokedError (''Certificate '' @ ce_name c @ '' is revoked in '' @ url))
       else Inr ())"

fun checkUrls ::
  "crl_env \<Rightarrow> crl_config \<Rightarrow> certificate \<Rightarrow> certificate \<Rightarrow> string list \<Rightarrow> crl_state \<Rightarrow> unit crl_result \<times> crl_state"
where
  "checkUrls env cfg c issuer [] s = (Inr (), s)"
| "checkUrls env cfg c issuer (url # urls) s =
     (case getCrl env cfg url s of
        (Inl e, s1) \<Rightarrow> (Inl e, s1)
      | (Inr l, s1) \<Rightarrow>
          (case checkCrl env c issuer url l (cw_now s1) of
             Inl e \<Rightarrow> (Inl e, s1)
           | Inr _ \<Rightarrow> checkUrls env cfg c issuer urls s1))"

definition checkCertificate ::
  "crl_env \<Rightarrow> crl_config \<Rightarrow> certificate \<Rightarrow> certificate option \<Rightarrow> crl_state \<Rightarrow> unit crl_result \<times> crl_state"
where
  "checkCertificate env cfg c issuer s =
     (if isShortLivedCertificate c then (Inr (), s)
      else
        (case getCertificateCrlUrls c of
           None \<Rightarrow>
             if cc_allowWithoutUrl cfg then (Inr (), s)
             else (Inl (CrlFailure (''Certificate '' @ ce_name c @
                     '' does not have CRL http URL. This could be disabled with allowCertificatesWithoutCrlURL'')), s)
         | Some urls \<Rightarrow>
             (case issuer of None \<Rightarrow> (Inl CrlTypeError, s) | Some i \<Rightarrow> checkUrls env cfg c i urls s)))"

fun checkChain ::
  "crl_env \<Rightarrow> crl_config \<Rightarrow> (certificate \<times> certificate option) list \<Rightarrow> crl_state \<Rightarrow> unit crl_result \<times> crl_state"
where
  "checkChain env cfg [] s = (Inr (), s)"
| "checkChain env cfg ((c, issuer) # rest) s =
     (case checkCertificate env cfg c issuer s of
        (Inl e, s1) \<Rightarrow> (Inl e, s1)
      | (Inr _, s1) \<Rightarrow> checkChain env cfg rest s1)"

definition validateCrl :: "crl_env \<Rightarrow> crl_config \<Rightarrow> chain \<Rightarrow> crl_state \<Rightarrow> unit crl_result \<times> crl_state" where
  "validateCrl env cfg ch s = checkChain env cfg (iterateCertChain ch) s"

text \<open>
  \<open>corkSocketAndValidateCrl\<close>: data written to the socket waits until the check is over; a socket that is
  not destroyed is used.
\<close>

datatype socket_fate = Used | UsedWithWarning crl_exn | Destroyed crl_exn

fun isRevocation :: "crl_exn \<Rightarrow> bool" where
  "isRevocation (CertificateRevokedError m) = True"
| "isRevocation _ = False"

definition socketFate :: "crl_config \<Rightarrow> unit crl_result \<Rightarrow> socket_fate" where
  "socketFate cfg r =
     (case r of
        Inr _ \<Rightarrow> Used
      | Inl e \<Rightarrow>
          if \<not> isRevocation e \<and> cc_checkMode cfg = ADVISORY then UsedWithWarning e else Destroyed e)"

definition corkSocketAndValidateCrl :: "crl_env \<Rightarrow> crl_config \<Rightarrow> chain \<Rightarrow> crl_state \<Rightarrow> socket_fate \<times> crl_state" where
  "corkSocketAndValidateCrl env cfg ch s =
     (case validateCrl env cfg ch s of (r, s1) \<Rightarrow> (socketFate cfg r, s1))"

text \<open>Without validation the agent does not cork the socket at all.\<close>

definition secureConnect :: "crl_env \<Rightarrow> crl_config \<Rightarrow> chain \<Rightarrow> crl_state \<Rightarrow> socket_fate \<times> crl_state" where
  "secureConnect env cfg ch s =
     (if isCrlValidationEnabled cfg then corkSocketAndValidateCrl env cfg ch s else (Used, s))"

end
