(* ===== verification/CrlProps.thy ===== *)
theory CrlProps
  imports CrlModel
begin

text \<open>
  What the check of revocation lists guarantees: an accepted chain had every certificate looked up in a
  current list signed by its issuer, a revoked certificate is refused, a list from a cache has not expired,
  and what a failing cache directory does.
\<close>

section \<open>What a list must satisfy\<close>

definition listAccepted :: "crl_env \<Rightarrow> certificate \<Rightarrow> certificate \<Rightarrow> string \<Rightarrow> crl \<Rightarrow> int \<Rightarrow> bool" where
  "listAccepted env c i url l now \<longleftrightarrow>
     isCrlSignatureValid env l (ce_publicKey i) = Inr True \<and> isIssuingDistributionPointExtensionValid l url \<and>
     cl_issuer l = ce_subject i \<and> now \<le> cl_nextUpdate l \<and> \<not> isCertificateRevoked c l"

lemma checkCrl_iff: "checkCrl env c i url l now = Inr () \<longleftrightarrow> listAccepted env c i url l now"
  by (cases "isCrlSignatureValid env l (ce_publicKey i)") (auto simp: checkCrl_def listAccepted_def)

text \<open>The lists of the memory cache were decoded from something, and leave it no later than they expire.\<close>

definition memorySound :: "crl_env \<Rightarrow> crl_state \<Rightarrow> bool" where
  "memorySound env s \<longleftrightarrow>
     (\<forall>url e l. cw_memory s url = Some (e, l) \<longrightarrow> e \<le> cl_nextUpdate l \<and> (\<exists>raw. ev_decode env raw = Some l))"

lemma memorySoundD:
  "memorySound env s \<Longrightarrow> cw_memory s url = Some (e, l) \<Longrightarrow> e \<le> cl_nextUpdate l \<and> (\<exists>raw. ev_decode env raw = Some l)"
  by (simp add: memorySound_def)

lemma memorySound_set:
  "memorySound env s \<Longrightarrow> ev_decode env raw = Some l \<Longrightarrow> memorySound env (setCrlInMemory env url l s)"
  by (auto simp: memorySound_def setCrlInMemory_def)

lemma memorySound_clear: "memorySound env s \<Longrightarrow> memorySound env (clearExpiredCrlFromMemoryCache s)"
  by (auto simp: memorySound_def clearExpiredCrlFromMemoryCache_def split: option.splits prod.splits if_splits)

lemma memorySound_cong: "cw_memory s' = cw_memory s \<Longrightarrow> memorySound env s' = memorySound env s"
  by (simp add: memorySound_def)

lemma memorySound_get: "memorySound env s \<Longrightarrow> memorySound env (snd (getCrlFromMemory url s))"
  by (auto simp: memorySound_def getCrlFromMemory_def split: option.splits prod.splits if_splits)

lemma getCrlFromMemory_fields:
  "cw_now (snd (getCrlFromMemory url s)) = cw_now s"
  "cw_downloads (snd (getCrlFromMemory url s)) = cw_downloads s"
  "cw_disk (snd (getCrlFromMemory url s)) = cw_disk s"
  by (simp_all add: getCrlFromMemory_def split: option.split prod.split)

lemma getCrlFromMemory_hit:
  "memorySound env s \<Longrightarrow> getCrlFromMemory url s = (Some l, s') \<Longrightarrow>
     s' = s \<and> cl_nextUpdate l > cw_now s \<and> (\<exists>raw. ev_decode env raw = Some l)"
  using memorySoundD[of env s url] by (fastforce simp: getCrlFromMemory_def split: option.splits if_splits)

lemma getCrlFromDisk_hit:
  "getCrlFromDisk env url s = Some l \<Longrightarrow>
     cl_nextUpdate l > cw_now s \<and>
     (\<exists>mtime raw. cw_disk s url = Some (mtime, raw) \<and> ev_decode env raw = Some l \<and> cw_now s - mtime \<le> ev_validityTime env)"
  by (auto simp: getCrlFromDisk_def split: option.splits if_splits)

lemma writeCrlToDisk_fields:
  "cw_now (snd (writeCrlToDisk env url raw s)) = cw_now s"
  "cw_downloads (snd (writeCrlToDisk env url raw s)) = cw_downloads s"
  "cw_memory (snd (writeCrlToDisk env url raw s)) = cw_memory s"
  by (simp_all add: writeCrlToDisk_def)

lemma setCrlInMemory_fields [simp]:
  "cw_now (setCrlInMemory env url l s) = cw_now s"
  "cw_downloads (setCrlInMemory env url l s) = cw_downloads s"
  "cw_disk (setCrlInMemory env url l s) = cw_disk s"
  by (simp_all add: setCrlInMemory_def)

section \<open>One lookup\<close>

lemma downloadCrl_spec:
  assumes "downloadCrl env cfg url s = (r, s')" "memorySound env s"
  shows "memorySound env s' \<and> cw_now s \<le> cw_now s' \<and> cw_downloads s' = cw_downloads s @ [url] \<and>
         (\<forall>l. r = Inr l \<longrightarrow> (\<exists>raw. ev_decode env raw = Some l))"
proof -
  obtain answer ms where a: "ev_download env url (cw_now s) = (answer, ms)" by fastforce
  let ?s1 = "s\<lparr>cw_downloads := cw_downloads s @ [url], cw_now := cw_now s + int ms\<rparr>"
  have m1: "memorySound env ?s1" using assms(2) memorySound_cong[of ?s1 s] by simp
  show ?thesis
  proof (cases answer)
    case (Inl e)
    then show ?thesis using assms(1) a m1 by (auto simp: downloadCrl_def)
  next
    case (Inr raw)
    show ?thesis
    proof (cases "ev_decode env raw")
      case None
      then show ?thesis using assms(1) a Inr m1 by (auto simp: downloadCrl_def)
    next
      case (Some l)
      let ?s2 = "if cc_inMemoryCache cfg then setCrlInMemory env url l ?s1 else ?s1"
      have m2: "memorySound env ?s2" using m1 memorySound_set[OF m1 Some] by simp
      have f2: "cw_now ?s2 = cw_now s + int ms" "cw_downloads ?s2 = cw_downloads s @ [url]" by simp_all
      obtain w s3 where w: "writeCrlToDisk env url raw ?s2 = (w, s3)" by fastforce
      have m3: "memorySound env s3" "cw_now s3 = cw_now s + int ms" "cw_downloads s3 = cw_downloads s @ [url]"
        using m2 f2 w writeCrlToDisk_fields[of env url raw ?s2] memorySound_cong[of s3 ?s2 env] by simp_all
      have eq: "downloadCrl env cfg url s =
          (if cc_onDiskCache cfg then (case w of Inl e \<Rightarrow> (Inl e, s3) | Inr _ \<Rightarrow> (Inr l, s3)) else (Inr l, ?s2))"
        using a Inr Some w by (simp add: downloadCrl_def Let_def split: sum.split)
      show ?thesis
      proof (cases "cc_onDiskCache cfg")
        case True
        then show ?thesis using assms(1) eq m3 Some by (auto split: sum.splits)
      next
        case False
        then show ?thesis using assms(1) eq m2 f2 Some by auto
      qed
    qed
  qed
qed

lemma getCrl_spec:
  assumes "getCrl env cfg url s = (r, s')" "memorySound env s"
  shows "memorySound env s' \<and> cw_now s \<le> cw_now s' \<and>
         (\<forall>l. r = Inr l \<longrightarrow> (\<exists>raw. ev_decode env raw = Some l) \<and>
            (cw_downloads s' = cw_downloads s \<longrightarrow> cl_nextUpdate l > cw_now s'))"
proof -
  obtain h s1 where h: "(if cc_inMemoryCache cfg then getCrlFromMemory url s else (None, s)) = (h, s1)" by fastforce
  have s1: "memorySound env s1" "cw_now s1 = cw_now s" "cw_downloads s1 = cw_downloads s"
    using h assms(2) memorySound_get[OF assms(2), of url] getCrlFromMemory_fields[of url s] by (auto split: if_splits)
  show ?thesis
  proof (cases h)
    case (Some l)
    then have "getCrlFromMemory url s = (Some l, s1)" using h by (auto split: if_splits)
    then show ?thesis using getCrlFromMemory_hit[OF assms(2)] assms h Some by (auto simp: getCrl_def)
  next
    case None
    show ?thesis
    proof (cases "if cc_onDiskCache cfg then getCrlFromDisk env url s1 else None")
      case None2: None
      then have "downloadCrl env cfg url s1 = (r, s')" using assms(1) h None by (simp add: getCrl_def)
      then show ?thesis using downloadCrl_spec[OF _ s1(1)] s1 by fastforce
    next
      case (Some l)
      then have d: "getCrlFromDisk env url s1 = Some l" by (auto split: if_splits)
      then obtain raw where raw: "ev_decode env raw = Some l" using getCrlFromDisk_hit by blast
      have "(r, s') = (Inr l, if cc_inMemoryCache cfg then setCrlInMemory env url l s1 else s1)"
        using assms(1) h None Some by (simp add: getCrl_def)
      then show ?thesis using s1 memorySound_set[OF s1(1) raw, of url] getCrlFromDisk_hit[OF d] raw by auto
    qed
  qed
qed

section \<open>The whole chain\<close>

lemma checkUrls_spec:
  assumes "checkUrls env cfg c i urls s = (r, s')" "memorySound env s"
  shows "memorySound env s' \<and> cw_now s \<le> cw_now s' \<and>
         (r = Inr () \<longrightarrow> (\<forall>url \<in> set urls. \<exists>l now raw. ev_decode env raw = Some l \<and>
              cw_now s \<le> now \<and> now \<le> cw_now s' \<and> listAccepted env c i url l now))"
  using assms
proof (induction urls arbitrary: s)
  case (Cons url urls)
  obtain q s1 where q: "getCrl env cfg url s = (q, s1)" by fastforce
  note sp = getCrl_spec[OF q Cons.prems(2)]
  show ?case
  proof (cases q)
    case (Inl e)
    then show ?thesis using Cons.prems q sp by auto
  next
    case (Inr l)
    show ?thesis
    proof (cases "checkCrl env c i url l (cw_now s1)")
      case Inl2: (Inl e)
      then show ?thesis using Cons.prems q sp Inr by auto
    next
      case Inr2: (Inr u)
      then have rest: "checkUrls env cfg c i urls s1 = (r, s')" using Cons.prems(1) q Inr by simp
      have m1: "memorySound env s1" using sp by simp
      note ih = Cons.IH[OF rest m1]
      have acc: "listAccepted env c i url l (cw_now s1)" using Inr2 checkCrl_iff by (metis old.unit.exhaust)
      obtain raw where raw: "ev_decode env raw = Some l" using sp Inr by blast
      have t: "cw_now s \<le> cw_now s1" "cw_now s1 \<le> cw_now s'" using sp ih by auto
      have hd: "\<exists>l now raw. ev_decode env raw = Some l \<and> cw_now s \<le> now \<and> now \<le> cw_now s' \<and> listAccepted env c i url l now"
        using acc raw t by blast
      have tl: "\<exists>l now raw. ev_decode env raw = Some l \<and> cw_now s \<le> now \<and> now \<le> cw_now s' \<and> listAccepted env c i u l now"
        if "u \<in> set urls" "r = Inr ()" for u
        using ih that t by (meson order_trans)
      show ?thesis using ih t hd tl by auto
    qed
  qed
qed auto

definition certificateCleared ::
  "crl_env \<Rightarrow> crl_config \<Rightarrow> certificate \<Rightarrow> certificate option \<Rightarrow> int \<Rightarrow> int \<Rightarrow> bool"
where
  "certificateCleared env cfg c issuer from to \<longleftrightarrow>
     isShortLivedCertificate c \<or>
     (case getCertificateCrlUrls c of
        None \<Rightarrow> cc_allowWithoutUrl cfg
      | Some urls \<Rightarrow> (\<exists>i. issuer = Some i \<and> (\<forall>url \<in> set urls. \<exists>l now raw. ev_decode env raw = Some l \<and>
            from \<le> now \<and> now \<le> to \<and> listAccepted env c i url l now)))"

lemma certificateCleared_mono:
  "certificateCleared env cfg c issuer a b \<Longrightarrow> a' \<le> a \<Longrightarrow> b \<le> b' \<Longrightarrow> certificateCleared env cfg c issuer a' b'"
  unfolding certificateCleared_def by (auto split: option.splits) (meson order_trans)+

lemma checkCertificate_spec:
  assumes "checkCertificate env cfg c issuer s = (r, s')" "memorySound env s"
  shows "memorySound env s' \<and> cw_now s \<le> cw_now s' \<and>
         (r = Inr () \<longrightarrow> certificateCleared env cfg c issuer (cw_now s) (cw_now s'))"
  using assms checkUrls_spec[of env cfg c _ _ s r s']
  by (auto simp: checkCertificate_def certificateCleared_def split: if_splits option.splits)

lemma checkChain_spec:
  assumes "checkChain env cfg cs s = (r, s')" "memorySound env s"
  shows "memorySound env s' \<and> cw_now s \<le> cw_now s' \<and>
         (r = Inr () \<longrightarrow> (\<forall>(c, issuer) \<in> set cs. certificateCleared env cfg c issuer (cw_now s) (cw_now s')))"
  using assms
proof (induction cs arbitrary: s)
  case (Cons x cs)
  obtain c issuer where x: "x = (c, issuer)" by fastforce
  obtain q s1 where q: "checkCertificate env cfg c issuer s = (q, s1)" by fastforce
  note sp = checkCertificate_spec[OF q Cons.prems(2)]
  show ?case
  proof (cases q)
    case (Inl e)
    then show ?thesis using Cons.prems q sp x by auto
  next
    case (Inr u)
    then have rest: "checkChain env cfg cs s1 = (r, s')" using Cons.prems(1) q x by simp
    have m1: "memorySound env s1" using sp by simp
    note ih = Cons.IH[OF rest m1]
    have t: "cw_now s \<le> cw_now s1" "cw_now s1 \<le> cw_now s'" using sp ih by auto
    have hd: "certificateCleared env cfg c issuer (cw_now s) (cw_now s')"
      using sp Inr t by (auto intro: certificateCleared_mono)
    have tl: "certificateCleared env cfg c' i' (cw_now s) (cw_now s')" if "(c', i') \<in> set cs" "r = Inr ()" for c' i'
      using ih that t by (fastforce intro: certificateCleared_mono)
    show ?thesis using ih t hd tl x by auto
  qed
qed auto


section \<open>An example\<close>

definition rootCa :: certificate where
  "rootCa = \<lparr>ce_name = ''ca'', ce_notBefore = 0, ce_notAfter = 4000000000000, ce_serial = 1, ce_subject = ''CN=ca'',
     ce_points = None, ce_publicKey = ''K''\<rparr>"

definition serverCertificate :: certificate where
  "serverCertificate = \<lparr>ce_name = ''server'', ce_notBefore = 1700000000000, ce_notAfter = 1800000000000, ce_serial = 77,
     ce_subject = ''CN=server'', ce_points = Some [Some [(''uniformResourceIdentifier'', ''http://crl'')]], ce_publicKey = ''S''\<rparr>"

definition sampleList :: "int list \<Rightarrow> crl" where
  "sampleList revoked = \<lparr>cl_issuer = ''CN=ca'', cl_nextUpdate = 1760000000000, cl_revoked = Some revoked, cl_distribution = None,
     cl_algorithm = ''1.2.840.113549.1.1.11'', cl_parameters = None, cl_tbs = [], cl_signature = []\<rparr>"

definition sampleEnv :: "int list \<Rightarrow> bool \<Rightarrow> crl_env" where
  "sampleEnv revoked diskFails = \<lparr>ev_validityTime = 86400000, ev_download = (\<lambda>url t. (Inr [1], 50)),
     ev_decode = (\<lambda>b. if b = [1] then Some (sampleList revoked) else None), ev_pssParams = (\<lambda>b. None),
     ev_verify = (\<lambda>h tbs key salt sig. key = ''K''), ev_readFails = (\<lambda>u. False), ev_writeFails = (\<lambda>u. diskFails)\<rparr>"

definition sampleState :: crl_state where
  "sampleState = \<lparr>cw_now = 1750000000000, cw_memory = Map.empty, cw_disk = Map.empty, cw_downloads = []\<rparr>"

definition sampleConfig :: "check_mode \<Rightarrow> crl_config" where
  "sampleConfig mode = \<lparr>cc_checkMode = mode, cc_allowWithoutUrl = False, cc_inMemoryCache = True, cc_onDiskCache = True\<rparr>"

definition sampleChain :: chain where "sampleChain = IssuedBy serverCertificate (SelfSigned rootCa)"

lemma sampleState_sound: "memorySound env sampleState"
  by (simp add: memorySound_def sampleState_def)

lemmas sample_defs = rootCa_def serverCertificate_def sampleList_def sampleEnv_def sampleState_def sampleConfig_def
  sampleChain_def

lemmas crl_eval = validateCrl_def checkCertificate_def getCertificateCrlUrls_def isShortLivedCertificate_def
  march2026_def dayMs_def getCrl_def getCrlFromMemory_def getCrlFromDisk_def downloadCrl_def setCrlInMemory_def
  writeCrlToDisk_def checkCrl_def isCrlSignatureValid_def digestOf_def isIssuingDistributionPointExtensionValid_def
  isCertificateRevoked_def map_filter_simps

section \<open>Properties\<close>

text \<open>C8. A chain is accepted only if every certificate of it, the root apart, is short-lived, or names no
  list while such certificates are allowed, or every one of its lists was at some moment of the check a decoded
  list correctly signed with the key of the issuer, issued by it, for this address, not past its next update,
  in which the certificate does not occur.\<close>

theorem validated_chain_checked:
  assumes "validateCrl env cfg ch s = (Inr (), s')"
    and "memorySound env s"
    and "(c, issuer) \<in> set (iterateCertChain ch)"
  shows "certificateCleared env cfg c issuer (cw_now s) (cw_now s')"
  using checkChain_spec[of env cfg "iterateCertChain ch" s "Inr ()" s'] assms by (auto simp: validateCrl_def)

lemma sample_validated:
  "fst (validateCrl (sampleEnv [5] False) (sampleConfig ENABLED) sampleChain sampleState) = Inr ()"
  by (simp add: sample_defs crl_eval)

theorem validated_chain_checked_witness:
  "certificateCleared (sampleEnv [5] False) (sampleConfig ENABLED) serverCertificate (Some rootCa) 1750000000000
     (cw_now (snd (validateCrl (sampleEnv [5] False) (sampleConfig ENABLED) sampleChain sampleState)))"
  using validated_chain_checked[of "sampleEnv [5] False" "sampleConfig ENABLED" sampleChain sampleState _ serverCertificate "Some rootCa"]
    sample_validated sampleState_sound
  by (simp add: prod_eq_iff sampleChain_def sampleState_def)




section \<open>The caches over time\<close>

text \<open>What may happen to the caches: lookups, the two clean-ups, and time passing.\<close>

inductive crl_step :: "crl_env \<Rightarrow> crl_config \<Rightarrow> crl_state \<Rightarrow> crl_state \<Rightarrow> bool" for env cfg where
  lookup: "crl_step env cfg s (snd (getCrl env cfg url s))"
| clearMemory: "crl_step env cfg s (clearExpiredCrlFromMemoryCache s)"
| clearDisk: "crl_step env cfg s (clearExpiredCrlFromDiskCache s)"
| time: "crl_step env cfg s (s\<lparr>cw_now := cw_now s + int ms\<rparr>)"

inductive crl_reachable :: "crl_env \<Rightarrow> crl_config \<Rightarrow> crl_state \<Rightarrow> bool" for env cfg where
  start: "cw_memory s = Map.empty \<Longrightarrow> crl_reachable env cfg s"
| step: "crl_reachable env cfg s \<Longrightarrow> crl_step env cfg s s' \<Longrightarrow> crl_reachable env cfg s'"

inductive_cases crl_stepE: "crl_step env cfg s s'"

lemma crl_step_sound: "crl_step env cfg s s' \<Longrightarrow> memorySound env s \<Longrightarrow> memorySound env s'"
proof (erule crl_stepE)
  fix url assume "s' = snd (getCrl env cfg url s)" "memorySound env s"
  then show "memorySound env s'" using getCrl_spec[of env cfg url s] by (metis prod.collapse)
qed (simp_all add: memorySound_clear, simp_all add: clearExpiredCrlFromDiskCache_def memorySound_def)

lemma crl_reachable_sound: "crl_reachable env cfg s \<Longrightarrow> memorySound env s"
  by (induction rule: crl_reachable.induct) (simp add: memorySound_def, blast intro: crl_step_sound)

text \<open>C28. Whatever lookups, clean-ups and delays came before, a list that a lookup returns without
  downloading it has not reached its next update.\<close>

theorem cached_list_not_expired:
  assumes "crl_reachable env cfg s"
    and "getCrl env cfg url s = (Inr l, s')" and "cw_downloads s' = cw_downloads s"
  shows "cl_nextUpdate l > cw_now s'"
  using getCrl_spec[OF assms(2) crl_reachable_sound[OF assms(1)]] assms(3) by auto

definition afterFirst :: crl_state where
  "afterFirst = snd (getCrl (sampleEnv [5] False) (sampleConfig ENABLED) ''http://crl'' sampleState)"

theorem cached_list_not_expired_witness:
  "getCrl (sampleEnv [5] False) (sampleConfig ENABLED) ''http://crl'' afterFirst = (Inr (sampleList [5]), afterFirst) \<and>
   cw_downloads afterFirst = [''http://crl''] \<and> cl_nextUpdate (sampleList [5]) > cw_now afterFirst"
proof -
  have r: "crl_reachable (sampleEnv [5] False) (sampleConfig ENABLED) afterFirst"
    unfolding afterFirst_def by (rule crl_reachable.step[OF crl_reachable.start crl_step.lookup]) (simp add: sampleState_def)
  have g: "getCrl (sampleEnv [5] False) (sampleConfig ENABLED) ''http://crl'' afterFirst = (Inr (sampleList [5]), afterFirst)"
    by (simp add: afterFirst_def sample_defs crl_eval)
  have d: "cw_downloads afterFirst = [''http://crl'']" by (simp add: afterFirst_def sample_defs crl_eval)
  show ?thesis using cached_list_not_expired[OF r g refl] g d by simp
qed

text \<open>When the cache directory cannot be written, the lookup that downloaded a good list is rejected
  with the failure of the write, although the list is already in the memory cache: until it expires the next
  lookup succeeds without a download.\<close>

theorem failed_disk_write_rejects:
  assumes "cc_inMemoryCache cfg" "cc_onDiskCache cfg"
    and "getCrlFromMemory url s = (None, s1)" "getCrlFromDisk env url s1 = None"
    and "ev_download env url (cw_now s) = (Inr raw, ms)" "ev_decode env raw = Some l"
    and "ev_writeFails env url"
    and "ev_validityTime env > int wait" "cl_nextUpdate l > cw_now s + int ms + int wait"
  shows "\<exists>s2. getCrl env cfg url s = (Inl (OtherFailure ''write''), s2) \<and>
           getCrl env cfg url (s2\<lparr>cw_now := cw_now s2 + int wait\<rparr>) = (Inr l, s2\<lparr>cw_now := cw_now s2 + int wait\<rparr>)"
proof -
  have n: "cw_now s1 = cw_now s" using getCrlFromMemory_fields[of url s] assms(3) by simp
  show ?thesis using assms n
    by (simp add: getCrl_def downloadCrl_def writeCrlToDisk_def setCrlInMemory_def getCrlFromMemory_def)
qed

theorem failed_disk_write_rejects_witness:
  "\<exists>s2. getCrl (sampleEnv [5] True) (sampleConfig ENABLED) ''http://crl'' sampleState = (Inl (OtherFailure ''write''), s2) \<and>
     getCrl (sampleEnv [5] True) (sampleConfig ENABLED) ''http://crl'' (s2\<lparr>cw_now := cw_now s2 + int 1000\<rparr>) =
       (Inr (sampleList [5]), s2\<lparr>cw_now := cw_now s2 + int 1000\<rparr>)"
  by (rule failed_disk_write_rejects[of "sampleConfig ENABLED" "''http://crl''" sampleState sampleState "sampleEnv [5] True" "[1]" 50])
    (simp_all add: sample_defs crl_eval)

end
