(* ===== verification/CredentialModel.thy ===== *)
theory CredentialModel
  imports ColumnModel FileUtilModel "HOL-Library.AList"
begin

text \<open>
  The token cache on disk (\<open>authentication/secure_storage/json_credential_manager.js\<close>): one JSON file of
  tokens in a private directory, guarded by a lock that is a directory next to it.

  The second part of the theory is the lock as several processes see it, one system call at a time.
\<close>

section \<open>Files, directories and failures\<close>

text \<open>\<open>tf_text\<close> is the parsed content, \<open>None\<close> for a text that is not JSON.  Times are milliseconds.\<close>

record token_file =
  tf_stats :: file_stats
  tf_text :: "json option"

record cred_state =
  cd_now :: int
  cd_lock :: "int option"                            \<comment> \<open>time of birth of the lock\<close>
  cd_file :: "token_file option"
  cd_paths :: "string \<rightharpoonup> bool \<times> file_stats"             \<comment> \<open>whether it is a directory\<close>
  cd_handles :: nat                                   \<comment> \<open>open handles of this process\<close>

datatype platform = Win32 | Linux | Darwin | OtherPlatform

datatype cred_exn = SecureFile permission_error | SystemError string | CredentialType | NoTokenDirectory

record cred_env =
  cv_platform :: platform
  cv_cacheDir :: "string option"
  cv_variables :: "string \<rightharpoonup> string"
  cv_homedir :: string
  cv_uid :: nat
  cv_skipVerification :: bool
  cv_timeout :: int
  cv_hash :: "string \<Rightarrow> string"
  cv_statError :: "string \<Rightarrow> string option"            \<comment> \<open>codes other than ENOENT\<close>
  cv_mkdirFails :: "string \<Rightarrow> bool"
  cv_chmodFails :: "string \<Rightarrow> bool"
  cv_openError :: "string option"
  cv_readFails :: bool
  cv_truncateFails :: bool
  cv_writeFails :: bool
  cv_closeFails :: bool
  cv_rmdirFails :: bool
  cv_others :: "cred_state \<Rightarrow> cred_state"               \<comment> \<open>what other processes do during a pause\<close>

section \<open>The directory\<close>

definition defaultJsonTokenCachePaths :: "platform \<Rightarrow> string list" where
  "defaultJsonTokenCachePaths p =
     (case p of Win32 \<Rightarrow> [''AppData'', ''Local'', ''Snowflake'', ''Caches'']
      | Linux \<Rightarrow> [''.cache'', ''snowflake''] | Darwin \<Rightarrow> [''Library'', ''Caches'', ''Snowflake''] | OtherPlatform \<Rightarrow> [])"

definition getTokenDirCandidates :: "cred_env \<Rightarrow> (string option \<times> string list) list" where
  "getTokenDirCandidates env =
     [(cv_cacheDir env, []), (cv_variables env ''SF_TEMPORARY_CREDENTIAL_CACHE_DIR'', [])] @
     (case cv_platform env of
        Win32 \<Rightarrow> [(Some (cv_homedir env), defaultJsonTokenCachePaths Win32)]
      | Linux \<Rightarrow> [(cv_variables env ''XDG_CACHE_HOME'', [''snowflake'']),
                  (cv_variables env ''HOME'', defaultJsonTokenCachePaths Linux)]
      | Darwin \<Rightarrow> [(cv_variables env ''HOME'', defaultJsonTokenCachePaths Darwin)]
      | OtherPlatform \<Rightarrow> [])"

definition joinAll :: "string \<Rightarrow> string list \<Rightarrow> string" where
  "joinAll dir subs = foldl joinPath (joinPath dir []) subs"

definition statPath :: "cred_env \<Rightarrow> string \<Rightarrow> cred_state \<Rightarrow> string + (bool \<times> file_stats)" where
  "statPath env p s =
     (case cv_statError env p of Some code \<Rightarrow> Inl code
      | None \<Rightarrow> (case cd_paths s p of None \<Rightarrow> Inl ''ENOENT'' | Some st \<Rightarrow> Inr st))"

text \<open>\<open>mkdir\<close> with \<open>recursive\<close>: the missing directories on the way, from the outermost.\<close>

fun makePath :: "cred_env \<Rightarrow> string list \<Rightarrow> cred_state \<Rightarrow> bool \<times> cred_state" where
  "makePath env [] s = (True, s)"
| "makePath env (p # ps) s =
     (case cd_paths s p of
        Some (isDirectory, st) \<Rightarrow> if isDirectory then makePath env ps s else (False, s)
      | None \<Rightarrow>
          if cv_mkdirFails env p then (False, s)
          else makePath env ps (s\<lparr>cd_paths := (cd_paths s)(p \<mapsto> (True, \<lparr>st_mode = 0x1ED, st_uid = cv_uid env\<rparr>))\<rparr>))"

definition createCacheDir :: "cred_env \<Rightarrow> string \<Rightarrow> string list \<Rightarrow> cred_state \<Rightarrow> bool \<times> cred_state" where
  "createCacheDir env dir subs s =
     (let cacheDir = joinAll dir subs;
          (made, s1) = makePath env (map (\<lambda>n. joinAll dir (take n subs)) [0..<Suc (length subs)]) s
      in if \<not> made then (False, s1)
         else if cv_platform env = Win32 then (True, s1)
         else if cv_chmodFails env cacheDir then (False, s1)
         else (True, s1\<lparr>cd_paths := (cd_paths s1)(cacheDir \<mapsto> (True, \<lparr>st_mode = 0x1C0, st_uid = cv_uid env\<rparr>))\<rparr>))"

text \<open>An insecure owner or mode of the directory is only logged.\<close>

definition tryTokenDir :: "cred_env \<Rightarrow> string option \<Rightarrow> string list \<Rightarrow> cred_state \<Rightarrow> bool \<times> cred_state" where
  "tryTokenDir env dir subs s =
     (case dir of
        None \<Rightarrow> (False, s)
      | Some d \<Rightarrow>
          (case statPath env d s of
             Inl code \<Rightarrow> (False, s)
           | Inr (isDirectory, st) \<Rightarrow>
               if \<not> isDirectory then (False, s)
               else
                 (case statPath env (joinAll d subs) s of
                    Inr (isDirectory, st) \<Rightarrow> (isDirectory, s)
                  | Inl code \<Rightarrow>
                      if code \<noteq> ''ENOENT'' then (False, s)
                      else
                        (case createCacheDir env d subs s of
                           (False, s1) \<Rightarrow> (False, s1)
                         | (True, s1) \<Rightarrow>
                             (case statPath env (joinAll d subs) s1 of
                                Inl code \<Rightarrow> (False, s1) | Inr (isDirectory, st) \<Rightarrow> (isDirectory, s1))))))"

fun firstTokenDir :: "cred_env \<Rightarrow> (string option \<times> string list) list \<Rightarrow> cred_state \<Rightarrow> string option \<times> cred_state" where
  "firstTokenDir env [] s = (None, s)"
| "firstTokenDir env ((dir, subs) # cs) s =
     (case tryTokenDir env dir subs s of
        (True, s1) \<Rightarrow> (Some (joinAll (the dir) subs), s1)
      | (False, s1) \<Rightarrow> firstTokenDir env cs s1)"

definition getTokenDir :: "cred_env \<Rightarrow> cred_state \<Rightarrow> string option \<times> cred_state" where
  "getTokenDir env s = firstTokenDir env (getTokenDirCandidates env) s"

definition getTokenFilePath :: "cred_env \<Rightarrow> cred_state \<Rightarrow> (cred_exn + string) \<times> cred_state" where
  "getTokenFilePath env s =
     (case getTokenDir env s of
        (None, s1) \<Rightarrow> (Inl NoTokenDirectory, s1)
      | (Some d, s1) \<Rightarrow> (Inr (joinPath d ''credential_cache_v1.json''), s1))"

section \<open>The lock\<close>

definition retryInterval :: int where "retryInterval = 100"

definition removeStale :: "cred_env \<Rightarrow> cred_state \<Rightarrow> cred_state" where
  "removeStale env s =
     (case cd_lock s of
        None \<Rightarrow> s
      | Some birth \<Rightarrow>
          if cd_now s - birth > cv_timeout env \<and> \<not> cv_rmdirFails env then s\<lparr>cd_lock := None\<rparr> else s)"

fun lockAttempts :: "cred_env \<Rightarrow> string \<Rightarrow> nat \<Rightarrow> cred_state \<Rightarrow> bool \<times> cred_state" where
  "lockAttempts env lckFile 0 s = (False, s)"
| "lockAttempts env lckFile (Suc n) s =
     (if cd_lock s = None \<and> \<not> cv_mkdirFails env lckFile then (True, s\<lparr>cd_lock := Some (cd_now s)\<rparr>)
      else lockAttempts env lckFile n (cv_others env (s\<lparr>cd_now := cd_now s + retryInterval\<rparr>)))"

definition lockFile :: "cred_env \<Rightarrow> string \<Rightarrow> cred_state \<Rightarrow> bool \<times> cred_state" where
  "lockFile env filename s = lockAttempts env (filename @ ''.lck'') 10 (removeStale env s)"

definition unlockFile :: "cred_env \<Rightarrow> cred_state \<Rightarrow> (cred_exn + unit) \<times> cred_state" where
  "unlockFile env s =
     (if cd_lock s = None then (Inl (SystemError ''ENOENT''), s)
      else if cv_rmdirFails env then (Inl (SystemError ''rmdir''), s)
      else (Inr (), s\<lparr>cd_lock := None\<rparr>))"

text \<open>
  \<open>withFileLocked\<close>: without the lock the answer is \<open>null\<close>, here the second argument; an exception of the
  operation leaves the lock in place.
\<close>

definition withFileLocked ::
  "cred_env \<Rightarrow> (cred_state \<Rightarrow> (cred_exn + 'a) \<times> cred_state) \<Rightarrow> 'a \<Rightarrow> cred_state \<Rightarrow> (cred_exn + 'a) \<times> cred_state"
where
  "withFileLocked env f null s =
     (case getTokenFilePath env s of
        (Inl e, s1) \<Rightarrow> (Inl e, s1)
      | (Inr filename, s1) \<Rightarrow>
          (case lockFile env filename s1 of
             (False, s2) \<Rightarrow> (Inr null, s2)
           | (True, s2) \<Rightarrow>
               (case f s2 of
                  (Inl e, s3) \<Rightarrow> (Inl e, s3)
                | (Inr res, s3) \<Rightarrow>
                    (case unlockFile env s3 of (Inl e, s4) \<Rightarrow> (Inl e, s4) | (Inr _, s4) \<Rightarrow> (Inr res, s4)))))"

section \<open>Tokens\<close>

fun json_falsy :: "json \<Rightarrow> bool" where
  "json_falsy JNull = True"
| "json_falsy (JBool b) = (\<not> b)"
| "json_falsy (JNum n) = (n = 0)"
| "json_falsy (JStr t) = (t = [])"
| "json_falsy _ = False"

text \<open>Own properties of objects; a hash is no index of an array or a string.\<close>

fun json_get :: "json \<Rightarrow> string \<Rightarrow> json option" where
  "json_get (JObj props) k = map_of props k"
| "json_get _ k = None"

text \<open>What \<open>JSON.stringify\<close> shows of an assignment: properties set on anything but an object are lost.\<close>

fun json_put :: "string \<Rightarrow> json \<Rightarrow> json \<Rightarrow> json" where
  "json_put k v (JObj props) = JObj (AList.update k v props)"
| "json_put k v j = j"

definition tokenMapKey :: string where "tokenMapKey = ''tokens''"

definition tokensOf :: "json \<Rightarrow> json" where
  "tokensOf cred = (case json_get cred tokenMapKey of None \<Rightarrow> JObj [] | Some v \<Rightarrow> if v = JNull then JObj [] else v)"

text \<open>
  \<open>jsonCredential.tokens[keyHash] = token\<close>; on a number, a text or a boolean the property stays undefined
  and the second access fails.
\<close>

fun putToken :: "string \<Rightarrow> json \<Rightarrow> json \<Rightarrow> json option" where
  "putToken h token (JObj props) = Some (json_put tokenMapKey (json_put h token (tokensOf (JObj props))) (JObj props))"
| "putToken h token (JArr xs) = Some (JArr xs)"
| "putToken h token _ = None"

definition getToken :: "string \<Rightarrow> json \<Rightarrow> json option" where
  "getToken h cred =
     (if json_falsy cred then None
      else (case json_get cred tokenMapKey of
              None \<Rightarrow> None
            | Some tokens \<Rightarrow>
                if json_falsy tokens then None
                else (case json_get tokens h of None \<Rightarrow> None | Some t \<Rightarrow> if json_falsy t then None else Some t)))"

section \<open>Reading and writing the file\<close>

text \<open>Opening, with or without creating the file; a handle whose file is refused stays open.\<close>

definition openFile :: "cred_env \<Rightarrow> bool \<Rightarrow> cred_state \<Rightarrow> (cred_exn + bool) \<times> cred_state" where
  "openFile env create s =
     (let s1 = (if create \<and> cd_file s = None \<and> cv_openError env = None
                then s\<lparr>cd_file := Some \<lparr>tf_stats = \<lparr>st_mode = 0x180, st_uid = cv_uid env\<rparr>, tf_text = None\<rparr>\<rparr> else s);
          opened = (case cv_openError env of
                      Some code \<Rightarrow> Inl code
                    | None \<Rightarrow> (case cd_file s1 of None \<Rightarrow> Inl ''ENOENT'' | Some f \<Rightarrow> Inr ((), tf_stats f)));
          s2 = (case opened of Inl _ \<Rightarrow> s1 | Inr _ \<Rightarrow> s1\<lparr>cd_handles := Suc (cd_handles s1)\<rparr>)
      in case getSecureHandle (cv_platform env = Win32 \<or> cv_skipVerification env) (cv_uid env) opened of
           Inl e \<Rightarrow> (Inl (SecureFile e), s2)
         | Inr h \<Rightarrow> (Inr (h \<noteq> None), s2))"

definition readJsonCredentialFile :: "cred_env \<Rightarrow> bool \<Rightarrow> cred_state \<Rightarrow> json" where
  "readJsonCredentialFile env handle s =
     (if \<not> handle \<or> cv_readFails env then JNull
      else (case cd_file s of None \<Rightarrow> JNull | Some f \<Rightarrow> (case tf_text f of None \<Rightarrow> JNull | Some v \<Rightarrow> v)))"

definition closeHandle :: "cred_env \<Rightarrow> bool \<Rightarrow> cred_state \<Rightarrow> (cred_exn + unit) \<times> cred_state" where
  "closeHandle env handle s =
     (if \<not> handle then (Inr (), s)
      else if cv_closeFails env then (Inl (SystemError ''close''), s)
      else (Inr (), s\<lparr>cd_handles := cd_handles s - 1\<rparr>))"

definition withText :: "json option \<Rightarrow> cred_state \<Rightarrow> cred_state" where
  "withText t s = s\<lparr>cd_file := map_option (\<lambda>f. f\<lparr>tf_text := t\<rparr>) (cd_file s)\<rparr>"

text \<open>Truncate, write and close; a failure is logged and the handle stays open.\<close>

definition storeCredential :: "cred_env \<Rightarrow> json \<Rightarrow> cred_state \<Rightarrow> cred_state" where
  "storeCredential env cred s =
     (if cv_truncateFails env then s
      else if cv_writeFails env then withText None s
      else snd (closeHandle env True (withText (Some cred) s)))"

definition writeLocked :: "cred_env \<Rightarrow> string \<Rightarrow> json \<Rightarrow> cred_state \<Rightarrow> (cred_exn + unit) \<times> cred_state" where
  "writeLocked env keyHash token s =
     (case openFile env True s of
        (Inl e, s1) \<Rightarrow> (Inl e, s1)
      | (Inr handle, s1) \<Rightarrow>
          (let old = readJsonCredentialFile env handle s1;
               cred = (if json_falsy old then JObj [] else old)
           in case putToken keyHash token cred of
                None \<Rightarrow> (Inl CredentialType, s1)
              | Some new \<Rightarrow> (Inr (), if handle then storeCredential env new s1 else s1)))"

definition readLocked :: "cred_env \<Rightarrow> string \<Rightarrow> cred_state \<Rightarrow> (cred_exn + json) \<times> cred_state" where
  "readLocked env keyHash s =
     (case openFile env False s of
        (Inl e, s1) \<Rightarrow> (Inl e, s1)
      | (Inr handle, s1) \<Rightarrow>
          (let cred = readJsonCredentialFile env handle s1
           in case closeHandle env handle s1 of
                (Inl e, s2) \<Rightarrow> (Inl e, s2)
              | (Inr _, s2) \<Rightarrow> (Inr (case getToken keyHash cred of Some t \<Rightarrow> t | None \<Rightarrow> JNull), s2)))"

text \<open>When there is nothing to remove the handle is not closed.\<close>

definition removeLocked :: "cred_env \<Rightarrow> string \<Rightarrow> cred_state \<Rightarrow> (cred_exn + unit) \<times> cred_state" where
  "removeLocked env keyHash s =
     (case openFile env False s of
        (Inl e, s1) \<Rightarrow> (Inl e, s1)
      | (Inr handle, s1) \<Rightarrow>
          (let cred = readJsonCredentialFile env handle s1
           in if getToken keyHash cred = None then (Inr (), s1)
              else (Inr (), storeCredential env (json_put tokenMapKey (json_put keyHash JNull (tokensOf cred)) cred) s1)))"

text \<open>The three operations; without a key they answer \<open>null\<close> at once.\<close>

definition writeKey :: "cred_env \<Rightarrow> string option \<Rightarrow> json \<Rightarrow> cred_state \<Rightarrow> (cred_exn + unit) \<times> cred_state" where
  "writeKey env key token s =
     (case key of None \<Rightarrow> (Inr (), s) | Some k \<Rightarrow> withFileLocked env (writeLocked env (cv_hash env k) token) () s)"

definition readKey :: "cred_env \<Rightarrow> string option \<Rightarrow> cred_state \<Rightarrow> (cred_exn + json) \<times> cred_state" where
  "readKey env key s =
     (case key of None \<Rightarrow> (Inr JNull, s) | Some k \<Rightarrow> withFileLocked env (readLocked env (cv_hash env k)) JNull s)"

definition removeKey :: "cred_env \<Rightarrow> string option \<Rightarrow> cred_state \<Rightarrow> (cred_exn + unit) \<times> cred_state" where
  "removeKey env key s =
     (case key of None \<Rightarrow> (Inr (), s) | Some k \<Rightarrow> withFileLocked env (removeLocked env (cv_hash env k)) () s)"

end
