(* ===== verification/CredentialProps.thy ===== *)
theory CredentialProps
  imports CredentialModel
begin

text \<open>
  The token cache: what is written is read back and nothing else changes, what failures of the file leave
  behind, and the lock between processes, as a relation of single system calls.
\<close>

section \<open>Finding the file\<close>

lemma makePath_frame:
  "cd_paths s' = cd_paths s \<Longrightarrow>
     fst (makePath env ps s') = fst (makePath env ps s) \<and>
     cd_paths (snd (makePath env ps s')) = cd_paths (snd (makePath env ps s)) \<and>
     snd (makePath env ps s') = s'\<lparr>cd_paths := cd_paths (snd (makePath env ps s))\<rparr>"
proof (induction ps arbitrary: s s')
  case (Cons p ps)
  have ih: "fst (makePath env ps (s'\<lparr>cd_paths := m\<rparr>)) = fst (makePath env ps (s\<lparr>cd_paths := m\<rparr>)) \<and>
      cd_paths (snd (makePath env ps (s'\<lparr>cd_paths := m\<rparr>))) = cd_paths (snd (makePath env ps (s\<lparr>cd_paths := m\<rparr>))) \<and>
      snd (makePath env ps (s'\<lparr>cd_paths := m\<rparr>)) = s'\<lparr>cd_paths := cd_paths (snd (makePath env ps (s\<lparr>cd_paths := m\<rparr>)))\<rparr>" for m
    using Cons.IH[of "s'\<lparr>cd_paths := m\<rparr>" "s\<lparr>cd_paths := m\<rparr>"] by simp
  show ?case using Cons.IH[OF Cons.prems] Cons.prems ih by (auto split: option.splits)
qed simp

text \<open>An outcome on a state with the same directories: the answer is the same, other parts are untouched.\<close>

definition framed :: "('a \<times> cred_state) \<Rightarrow> cred_state \<Rightarrow> ('a \<times> cred_state) \<Rightarrow> bool" where
  "framed r' s' r \<longleftrightarrow> r' = (fst r, s'\<lparr>cd_paths := cd_paths (snd r)\<rparr>)"

lemma makePath_framed: "cd_paths s' = cd_paths s \<Longrightarrow> framed (makePath env ps s') s' (makePath env ps s)"
  using makePath_frame[of s' s env ps] by (simp add: framed_def prod_eq_iff)

lemma statPath_cong: "cd_paths s' = cd_paths s \<Longrightarrow> statPath env p s' = statPath env p s"
  by (simp add: statPath_def split: option.split)

lemma same_paths: "cd_paths s' = cd_paths s \<Longrightarrow> s'\<lparr>cd_paths := cd_paths s\<rparr> = s'"
  by (metis cred_state.surjective cred_state.update_convs(4))

lemma createCacheDir_framed:
  "cd_paths s' = cd_paths s \<Longrightarrow> framed (createCacheDir env d subs s') s' (createCacheDir env d subs s)"
  using makePath_framed[of s' s env "map (\<lambda>n. joinAll d (take n subs)) [0..<Suc (length subs)]"]
  by (simp add: createCacheDir_def framed_def Let_def split: prod.split)

lemma tryTokenDir_framed:
  assumes "cd_paths s' = cd_paths s"
  shows "framed (tryTokenDir env dir subs s') s' (tryTokenDir env dir subs s)"
proof (cases dir)
  case None
  then show ?thesis using same_paths[OF assms] by (simp add: tryTokenDir_def framed_def)
next
  case (Some d)
  obtain b t where c: "createCacheDir env d subs s = (b, t)" by fastforce
  have c': "createCacheDir env d subs s' = (b, s'\<lparr>cd_paths := cd_paths t\<rparr>)"
    using createCacheDir_framed[OF assms, of env d subs] c by (simp add: framed_def)
  have st: "statPath env p (s'\<lparr>cd_paths := cd_paths t\<rparr>) = statPath env p t" for p by (rule statPath_cong) simp
  show ?thesis using same_paths[OF assms] c c' st
    by (simp add: tryTokenDir_def Some framed_def statPath_cong[OF assms] split: sum.split prod.split bool.split)
qed

lemma firstTokenDir_framed:
  "cd_paths s' = cd_paths s \<Longrightarrow> framed (firstTokenDir env cs s') s' (firstTokenDir env cs s)"
proof (induction cs arbitrary: s s')
  case Nil
  then show ?case using same_paths by (simp add: framed_def)
next
  case (Cons x cs)
  obtain dir subs where x: "x = (dir, subs)" by fastforce
  obtain b t where c: "tryTokenDir env dir subs s = (b, t)" by fastforce
  have c': "tryTokenDir env dir subs s' = (b, s'\<lparr>cd_paths := cd_paths t\<rparr>)"
    using tryTokenDir_framed[OF Cons.prems, of env dir subs] c by (simp add: framed_def)
  show ?case using Cons.IH[of "s'\<lparr>cd_paths := cd_paths t\<rparr>" t] c c' x by (cases b) (simp_all add: framed_def)
qed

lemma getTokenDir_stable:
  "getTokenDir env s = (Some d, s) \<Longrightarrow> cd_paths s' = cd_paths s \<Longrightarrow> getTokenDir env s' = (Some d, s')"
  using firstTokenDir_framed[of s' s env "getTokenDirCandidates env"] same_paths[of s' s]
  by (simp add: getTokenDir_def framed_def)

section \<open>Operations under the lock\<close>

definition fileName :: "string \<Rightarrow> string" where "fileName d = joinPath d ''credential_cache_v1.json''"

definition lockName :: "string \<Rightarrow> string" where "lockName d = fileName d @ ''.lck''"

lemma withFileLocked_free:
  assumes "getTokenDir env s = (Some d, s)" "cd_lock s = None" "\<not> cv_mkdirFails env (lockName d)"
  shows "withFileLocked env f null s =
    (case f (s\<lparr>cd_lock := Some (cd_now s)\<rparr>) of
       (Inl e, s3) \<Rightarrow> (Inl e, s3)
     | (Inr res, s3) \<Rightarrow> (case unlockFile env s3 of (Inl e, s4) \<Rightarrow> (Inl e, s4) | (Inr _, s4) \<Rightarrow> (Inr res, s4)))"
proof -
  have "lockFile env (fileName d) s = (True, s\<lparr>cd_lock := Some (cd_now s)\<rparr>)"
    using assms by (simp add: lockFile_def removeStale_def eval_nat_numeral lockName_def)
  then show ?thesis using assms by (simp add: withFileLocked_def getTokenFilePath_def fileName_def)
qed

lemma lockAttempts_busy:
  "cv_others env = (\<lambda>x. x) \<Longrightarrow> cd_lock s = Some b \<Longrightarrow>
     lockAttempts env l n s = (False, s\<lparr>cd_now := cd_now s + int n * 100\<rparr>)"
  by (induction n arbitrary: s) (simp_all add: retryInterval_def algebra_simps)

lemma withFileLocked_busy:
  assumes "getTokenDir env s = (Some d, s)" "cd_lock s = Some b" "cd_now s - b \<le> cv_timeout env"
    and "cv_others env = (\<lambda>x. x)"
  shows "withFileLocked env f null s = (Inr null, s\<lparr>cd_now := cd_now s + 1000\<rparr>)"
  using assms lockAttempts_busy[OF assms(4,2), of _ 10]
  by (simp add: withFileLocked_def getTokenFilePath_def lockFile_def removeStale_def)

definition healthy :: "cred_env \<Rightarrow> bool" where
  "healthy env \<longleftrightarrow> cv_openError env = None \<and> \<not> cv_readFails env \<and> \<not> cv_truncateFails env \<and> \<not> cv_writeFails env \<and>
     \<not> cv_closeFails env \<and> \<not> cv_rmdirFails env"

definition secureStats :: "cred_env \<Rightarrow> file_stats \<Rightarrow> bool" where
  "secureStats env st \<longleftrightarrow> cv_platform env = Win32 \<or> cv_skipVerification env \<or>
     (permissionBits (st_mode st) = 384 \<and> st_uid st = cv_uid env)"

lemma secureStats_new: "secureStats env \<lparr>st_mode = 0x180, st_uid = cv_uid env\<rparr>"
  by (simp add: secureStats_def permissionBits_def)

lemma openFile_secure:
  "cv_openError env = None \<Longrightarrow> cd_file s = Some f \<Longrightarrow> secureStats env (tf_stats f) \<Longrightarrow>
     openFile env create s = (Inr True, s\<lparr>cd_handles := Suc (cd_handles s)\<rparr>)"
  by (auto simp: openFile_def getSecureHandle_def secureStats_def Let_def)

lemma openFile_missing: "cv_openError env = None \<Longrightarrow> cd_file s = None \<Longrightarrow> openFile env False s = (Inr False, s)"
  by (simp add: openFile_def getSecureHandle_def Let_def)

lemma openFile_create:
  "cv_openError env = None \<Longrightarrow> cd_file s = None \<Longrightarrow>
     openFile env True s = (Inr True, s\<lparr>cd_file := Some \<lparr>tf_stats = \<lparr>st_mode = 0x180, st_uid = cv_uid env\<rparr>, tf_text = None\<rparr>,
       cd_handles := Suc (cd_handles s)\<rparr>)"
  using secureStats_new[of env] by (auto simp: openFile_def getSecureHandle_def secureStats_def Let_def)

lemma openFile_refused:
  assumes "cv_openError env = None" "cd_file s = Some f" "\<not> secureStats env (tf_stats f)"
  shows "\<exists>e. openFile env create s = (Inl (SecureFile e), s\<lparr>cd_handles := Suc (cd_handles s)\<rparr>)"
proof -
  have "\<exists>e. getSecureHandle (cv_platform env = Win32 \<or> cv_skipVerification env) (cv_uid env) (Inr ((), tf_stats f)) = Inl e"
    using assms(3) by (auto simp: getSecureHandle_def secureStats_def)
  then show ?thesis using assms(1,2) by (auto simp: openFile_def Let_def)
qed

text \<open>The file as the operations see it: its value, with an unreadable text as \<open>null\<close>.\<close>

definition content :: "cred_state \<Rightarrow> json" where
  "content s = (case cd_file s of None \<Rightarrow> JNull | Some f \<Rightarrow> (case tf_text f of None \<Rightarrow> JNull | Some v \<Rightarrow> v))"

definition usable :: "cred_env \<Rightarrow> string \<Rightarrow> cred_state \<Rightarrow> bool" where
  "usable env d s \<longleftrightarrow> getTokenDir env s = (Some d, s) \<and> cd_lock s = None \<and> \<not> cv_mkdirFails env (lockName d) \<and>
     (\<forall>f. cd_file s = Some f \<longrightarrow> secureStats env (tf_stats f))"

definition tokenOr :: "json option \<Rightarrow> json" where
  "tokenOr t = (case t of Some v \<Rightarrow> v | None \<Rightarrow> JNull)"

lemma unlock_state: "(s\<lparr>cd_lock := Some b\<rparr>)\<lparr>cd_lock := None\<rparr> = s" if "cd_lock s = None"
  using that by simp

lemma readKey_usable:
  assumes "healthy env" "usable env d s"
  shows "readKey env (Some k) s = (Inr (tokenOr (getToken (cv_hash env k) (content s))), s)"
proof -
  let ?s = "s\<lparr>cd_lock := Some (cd_now s)\<rparr>"
  have h: "cv_openError env = None" "\<not> cv_readFails env" "\<not> cv_closeFails env" "\<not> cv_rmdirFails env"
    using assms(1) by (simp_all add: healthy_def)
  have lk: "cd_lock s = None" using assms(2) by (simp add: usable_def)
  have "readLocked env (cv_hash env k) ?s = (Inr (tokenOr (getToken (cv_hash env k) (content s))), ?s)"
  proof (cases "cd_file s")
    case None
    then show ?thesis using h openFile_missing[OF h(1), of ?s]
      by (simp add: readLocked_def readJsonCredentialFile_def closeHandle_def content_def tokenOr_def)
  next
    case (Some f)
    then have "secureStats env (tf_stats f)" using assms(2) by (simp add: usable_def)
    then show ?thesis using h Some openFile_secure[OF h(1), of ?s f False]
      by (simp add: readLocked_def readJsonCredentialFile_def closeHandle_def content_def tokenOr_def Let_def)
  qed
  then show ?thesis using assms(2) h lk
    by (simp add: readKey_def withFileLocked_free usable_def unlockFile_def)
qed

lemma usable_file:
  "usable env d s \<Longrightarrow> secureStats env (tf_stats f) \<Longrightarrow> usable env d (s\<lparr>cd_file := Some f\<rparr>)"
  using getTokenDir_stable[of env s d "s\<lparr>cd_file := Some f\<rparr>"] by (simp add: usable_def)


section \<open>Tokens in the file\<close>

text \<open>A content in which tokens can be kept: nothing, or an object whose tokens are an object or missing.\<close>

definition keepsTokens :: "json \<Rightarrow> bool" where
  "keepsTokens j \<longleftrightarrow> json_falsy j \<or>
     (\<exists>props. j = JObj props \<and> (map_of props tokenMapKey = None \<or> map_of props tokenMapKey = Some JNull \<or>
        (\<exists>g. map_of props tokenMapKey = Some (JObj g))))"

definition orEmpty :: "json \<Rightarrow> json" where "orEmpty j = (if json_falsy j then JObj [] else j)"

lemma getToken_JObj:
  "getToken h (JObj props) =
     (case map_of props tokenMapKey of Some (JObj g) \<Rightarrow>
        (case map_of g h of None \<Rightarrow> None | Some t \<Rightarrow> if json_falsy t then None else Some t) | _ \<Rightarrow> None)"
  by (auto simp: getToken_def split: option.split json.split)

lemma putToken_getToken:
  assumes "keepsTokens j" "\<not> json_falsy token"
  shows "\<exists>new. putToken h token (orEmpty j) = Some new \<and>
     (\<forall>h'. getToken h' new = (if h' = h then Some token else getToken h' j))"
proof -
  obtain props where p: "orEmpty j = JObj props" "\<And>h'. getToken h' j = getToken h' (JObj props)"
    and t: "map_of props tokenMapKey = None \<or> map_of props tokenMapKey = Some JNull \<or> (\<exists>g. map_of props tokenMapKey = Some (JObj g))"
    using assms(1) by (cases "json_falsy j") (fastforce simp: keepsTokens_def orEmpty_def getToken_def)+
  obtain g where g: "tokensOf (JObj props) = JObj g"
    and gm: "\<And>h'. getToken h' (JObj props) = (case map_of g h' of None \<Rightarrow> None | Some t \<Rightarrow> if json_falsy t then None else Some t)"
    using t by (auto simp: tokensOf_def getToken_JObj)
  have "getToken h' (JObj (AList.update tokenMapKey (JObj (AList.update h token g)) props)) =
      (if h' = h then Some token else getToken h' j)" for h'
    using assms(2) by (simp add: getToken_JObj update_conv' p(2)) (simp add: gm[unfolded getToken_JObj])
  then show ?thesis using p(1) g by simp
qed

lemma dropToken_getToken:
  assumes "getToken h j = Some t"
  shows "getToken h' (json_put tokenMapKey (json_put h JNull (tokensOf j)) j) = (if h' = h then None else getToken h' j)"
proof -
  obtain props where j: "j = JObj props" using assms by (cases j) (simp_all add: getToken_def split: if_splits)
  then obtain g where g: "map_of props tokenMapKey = Some (JObj g)"
    using assms by (auto simp: getToken_JObj split: option.splits json.splits)
  then show ?thesis by (simp add: j tokensOf_def getToken_JObj update_conv')
qed

lemma store_healthy:
  "healthy env \<Longrightarrow> cd_file s = Some f \<Longrightarrow>
     storeCredential env new s = s\<lparr>cd_file := Some (f\<lparr>tf_text := Some new\<rparr>), cd_handles := cd_handles s - 1\<rparr>"
  by (simp add: healthy_def storeCredential_def withText_def closeHandle_def)

text \<open>The file after a write: the old one, or a new private one.\<close>

definition fileOr :: "cred_env \<Rightarrow> cred_state \<Rightarrow> token_file" where
  "fileOr env s = (case cd_file s of Some f \<Rightarrow> f | None \<Rightarrow> \<lparr>tf_stats = \<lparr>st_mode = 0x180, st_uid = cv_uid env\<rparr>, tf_text = None\<rparr>)"

lemma openFile_any:
  assumes "cv_openError env = None" "\<forall>f. cd_file s = Some f \<longrightarrow> secureStats env (tf_stats f)"
  shows "openFile env True s = (Inr True, s\<lparr>cd_file := Some (fileOr env s), cd_handles := Suc (cd_handles s)\<rparr>)"
proof (cases "cd_file s")
  case None
  then show ?thesis using openFile_create[OF assms(1)] by (simp add: fileOr_def)
next
  case (Some f)
  then have "openFile env True s = (Inr True, s\<lparr>cd_handles := Suc (cd_handles s)\<rparr>)"
    using openFile_secure[OF assms(1) Some, of True] assms(2) by simp
  then show ?thesis using Some by (simp add: fileOr_def)
qed

lemma writeKey_usable:
  assumes "healthy env" "usable env d s" "putToken (cv_hash env k) token (orEmpty (content s)) = Some new"
  shows "writeKey env (Some k) token s = (Inr (), s\<lparr>cd_file := Some ((fileOr env s)\<lparr>tf_text := Some new\<rparr>)\<rparr>)"
proof -
  let ?s = "s\<lparr>cd_lock := Some (cd_now s)\<rparr>"
  let ?o = "?s\<lparr>cd_file := Some (fileOr env s), cd_handles := Suc (cd_handles s)\<rparr>"
  have h: "cv_openError env = None" "\<not> cv_readFails env" "\<not> cv_rmdirFails env"
    using assms(1) by (simp_all add: healthy_def)
  have lk: "cd_lock s = None" using assms(2) by (simp add: usable_def)
  have op: "openFile env True ?s = (Inr True, ?o)"
    using openFile_any[OF h(1), of ?s] assms(2) by (simp add: usable_def fileOr_def)
  have "readJsonCredentialFile env True ?o = content s"
    using h by (simp add: readJsonCredentialFile_def content_def fileOr_def split: option.split)
  then have "writeLocked env (cv_hash env k) token ?s = (Inr (), storeCredential env new ?o)"
    using op assms(3) unfolding writeLocked_def orEmpty_def by (simp only: Let_def prod.case sum.case option.case if_True)
  then have "writeLocked env (cv_hash env k) token ?s =
      (Inr (), ?s\<lparr>cd_file := Some ((fileOr env s)\<lparr>tf_text := Some new\<rparr>)\<rparr>)"
    using store_healthy[OF assms(1), of ?o "fileOr env s" new] by simp
  then show ?thesis using assms(2) h lk by (simp add: writeKey_def withFileLocked_free usable_def unlockFile_def)
qed

lemma fileOr_secure: "usable env d s \<Longrightarrow> secureStats env (tf_stats (fileOr env s))"
  using secureStats_new[of env] by (auto simp: usable_def fileOr_def split: option.split)

lemma makePath_env: "makePath (env\<lparr>cv_writeFails := b\<rparr>) ps s = makePath env ps s"
  by (induction ps arbitrary: s) (simp_all split: option.split prod.split)

lemma statPath_env: "statPath (env\<lparr>cv_writeFails := b\<rparr>) p s = statPath env p s"
  by (simp add: statPath_def)

lemma createCacheDir_env: "createCacheDir (env\<lparr>cv_writeFails := b\<rparr>) d subs s = createCacheDir env d subs s"
  by (simp add: createCacheDir_def makePath_env Let_def split: prod.split)

lemma tryTokenDir_env: "tryTokenDir (env\<lparr>cv_writeFails := b\<rparr>) dir subs s = tryTokenDir env dir subs s"
  unfolding tryTokenDir_def statPath_env createCacheDir_env by (rule refl)

lemma firstTokenDir_env: "firstTokenDir (env\<lparr>cv_writeFails := b\<rparr>) cs s = firstTokenDir env cs s"
  by (induction cs arbitrary: s) (auto simp: tryTokenDir_env split: prod.split bool.split)

lemma getTokenDir_env: "getTokenDir (env\<lparr>cv_writeFails := b\<rparr>) s = getTokenDir env s"
proof -
  have "getTokenDirCandidates (env\<lparr>cv_writeFails := b\<rparr>) = getTokenDirCandidates env"
    by (cases "cv_platform env") (simp_all add: getTokenDirCandidates_def)
  then show ?thesis by (simp only: getTokenDir_def firstTokenDir_env)
qed

section \<open>Properties\<close>

text \<open>C18. With a healthy disk, the directory found and the lock free, a token that was written is what a
  read of its key answers, the reads of all other keys answer what they did, and the lock is free again; a
  missing file is created.\<close>

theorem written_token_is_read:
  assumes "healthy env" "usable env d s" "keepsTokens (content s)" "\<not> json_falsy token"
  shows "\<exists>s'. writeKey env (Some k) token s = (Inr (), s') \<and> cd_lock s' = None \<and> cd_handles s' = cd_handles s \<and>
     (\<forall>k'. readKey env (Some k') s' =
        (if cv_hash env k' = cv_hash env k then Inr token else fst (readKey env (Some k') s), s'))"
proof -
  obtain new where new: "putToken (cv_hash env k) token (orEmpty (content s)) = Some new"
    "\<forall>h'. getToken h' new = (if h' = cv_hash env k then Some token else getToken h' (content s))"
    using putToken_getToken[OF assms(3,4)] by blast
  let ?f = "(fileOr env s)\<lparr>tf_text := Some new\<rparr>"
  have u: "usable env d (s\<lparr>cd_file := Some ?f\<rparr>)" using usable_file[OF assms(2)] fileOr_secure[OF assms(2)] by simp
  have c: "content (s\<lparr>cd_file := Some ?f\<rparr>) = new" by (simp add: content_def)
  show ?thesis
    using writeKey_usable[OF assms(1,2) new(1)] readKey_usable[OF assms(1) u] readKey_usable[OF assms(1,2)] new(2) c assms(2)
    by (auto simp: tokenOr_def usable_def)
qed

text \<open>A removed token is no longer found, and the reads of all other keys answer what they did.\<close>

theorem removed_token_is_gone:
  assumes "healthy env" "usable env d s"
  shows "\<exists>s'. removeKey env (Some k) s = (Inr (), s') \<and> cd_lock s' = None \<and>
     (\<forall>k'. readKey env (Some k') s' =
        (if cv_hash env k' = cv_hash env k then Inr JNull else fst (readKey env (Some k') s), s'))"
proof -
  let ?s = "s\<lparr>cd_lock := Some (cd_now s)\<rparr>" and ?h = "cv_hash env k"
  have h: "cv_openError env = None" "\<not> cv_readFails env" "\<not> cv_rmdirFails env"
    using assms(1) by (simp_all add: healthy_def)
  note rd = readKey_usable[OF assms]
  show ?thesis
  proof (cases "getToken ?h (content s)")
    case None
    obtain hd n where op: "openFile env False ?s = (Inr hd, ?s\<lparr>cd_handles := n\<rparr>)" "hd \<longleftrightarrow> cd_file s \<noteq> None"
      using openFile_missing[OF h(1), of ?s] openFile_secure[OF h(1), of ?s _ False] assms(2)
      by (cases "cd_file s") (auto simp: usable_def, metis cred_state.surjective cred_state.update_convs(5))
    have "readJsonCredentialFile env hd (?s\<lparr>cd_handles := n\<rparr>) = content s"
      using h op(2) by (simp add: readJsonCredentialFile_def content_def split: option.split)
    then have "removeLocked env ?h ?s = (Inr (), ?s\<lparr>cd_handles := n\<rparr>)" using op(1) None by (simp add: removeLocked_def)
    then have rm: "removeKey env (Some k) s = (Inr (), s\<lparr>cd_handles := n\<rparr>)"
      using assms(2) h by (simp add: removeKey_def withFileLocked_free usable_def unlockFile_def)
    have "usable env d (s\<lparr>cd_handles := n\<rparr>)"
      using assms(2) getTokenDir_stable[of env s d "s\<lparr>cd_handles := n\<rparr>"] by (simp add: usable_def)
    from readKey_usable[OF assms(1) this] show ?thesis using rm rd None assms(2)
      by (auto simp: content_def tokenOr_def usable_def)
  next
    case (Some t)
    then obtain f where f: "cd_file s = Some f" by (cases "cd_file s") (auto simp: content_def getToken_def)
    let ?new = "json_put tokenMapKey (json_put ?h JNull (tokensOf (content s))) (content s)"
    let ?o = "?s\<lparr>cd_handles := Suc (cd_handles s)\<rparr>"
    have op: "openFile env False ?s = (Inr True, ?o)"
      using openFile_secure[OF h(1), of ?s f False] f assms(2) by (simp add: usable_def)
    have "readJsonCredentialFile env True ?o = content s" using h by (simp add: readJsonCredentialFile_def content_def)
    then have "removeLocked env ?h ?s = (Inr (), storeCredential env ?new ?o)"
      using op Some unfolding removeLocked_def by (simp only: Let_def prod.case sum.case option.simps if_False)
    then have "removeLocked env ?h ?s = (Inr (), ?s\<lparr>cd_file := Some (f\<lparr>tf_text := Some ?new\<rparr>)\<rparr>)"
      using store_healthy[OF assms(1), of ?o f ?new] f by simp
    then have rm: "removeKey env (Some k) s = (Inr (), s\<lparr>cd_file := Some (f\<lparr>tf_text := Some ?new\<rparr>)\<rparr>)"
      using assms(2) h by (simp add: removeKey_def withFileLocked_free usable_def unlockFile_def)
    have u: "usable env d (s\<lparr>cd_file := Some (f\<lparr>tf_text := Some ?new\<rparr>)\<rparr>)"
      using usable_file[OF assms(2), of "f\<lparr>tf_text := Some ?new\<rparr>"] assms(2) f by (simp add: usable_def)
    have c: "content (s\<lparr>cd_file := Some (f\<lparr>tf_text := Some ?new\<rparr>)\<rparr>) = ?new" by (simp add: content_def)
    show ?thesis using rm readKey_usable[OF assms(1) u] rd c dropToken_getToken[OF Some] assms(2)
      by (auto simp: tokenOr_def usable_def)
  qed
qed


text \<open>An operation that finds the file not private to the user fails and leaves its lock behind: until
  the lock is stale every read and write, also after the file was repaired, gives up after a second, the read
  with \<open>null\<close> and the write without storing anything.\<close>

theorem refused_file_leaves_lock:
  assumes "getTokenDir env s = (Some d, s)" "cd_lock s = None" "\<not> cv_mkdirFails env (lockName d)"
    and "cv_openError env = None" "cd_file s = Some f" "\<not> secureStats env (tf_stats f)"
    and "cv_others env = (\<lambda>x. x)" "0 \<le> wait" "wait \<le> cv_timeout env"
  shows "\<exists>e s'. writeKey env (Some k) token s = (Inl (SecureFile e), s') \<and> cd_lock s' = Some (cd_now s) \<and>
     (\<forall>fl k' token'. let later = s'\<lparr>cd_file := fl, cd_now := cd_now s' + wait\<rparr>; after = later\<lparr>cd_now := cd_now s' + wait + 1000\<rparr>
        in readKey env (Some k') later = (Inr JNull, after) \<and> writeKey env (Some k') token' later = (Inr (), after))"
proof -
  let ?s = "s\<lparr>cd_lock := Some (cd_now s)\<rparr>" and ?e = "s\<lparr>cd_lock := Some (cd_now s), cd_handles := Suc (cd_handles s)\<rparr>"
  have f: "cd_file ?s = Some f" using assms(5) by simp
  obtain e where "openFile env True ?s = (Inl (SecureFile e), ?e)"
    using openFile_refused[OF assms(4) f assms(6), of True] by auto
  then have w: "writeKey env (Some k) token s = (Inl (SecureFile e), ?e)"
    unfolding writeKey_def withFileLocked_free[OF assms(1-3)] writeLocked_def by simp
  have later: "withFileLocked env g null (?e\<lparr>cd_file := fl, cd_now := cd_now s + wait\<rparr>) =
      (Inr null, ?e\<lparr>cd_file := fl, cd_now := cd_now s + wait + 1000\<rparr>)" for g fl and null :: 'x
    using withFileLocked_busy[of env "?e\<lparr>cd_file := fl, cd_now := cd_now s + wait\<rparr>" d "cd_now s" g null]
      getTokenDir_stable[OF assms(1), of "?e\<lparr>cd_file := fl, cd_now := cd_now s + wait\<rparr>"] assms(7,9) by simp
  show ?thesis by (rule exI[of _ e], rule exI[of _ ?e]) (simp add: w[unfolded writeKey_def option.case] Let_def readKey_def writeKey_def later)
qed

text \<open>A write whose file was truncated but could not be written reports success, and every stored token
  is lost: with the disk healthy again each key reads as \<open>null\<close>.\<close>

theorem failed_write_loses_all_tokens:
  assumes "healthy (env\<lparr>cv_writeFails := False\<rparr>)" "cv_writeFails env" "usable env d s"
    and "keepsTokens (content s)" "\<not> json_falsy token"
  shows "\<exists>s'. writeKey env (Some k) token s = (Inr (), s') \<and>
     (\<forall>k'. readKey (env\<lparr>cv_writeFails := False\<rparr>) (Some k') s' = (Inr JNull, s'))"
proof -
  let ?s = "s\<lparr>cd_lock := Some (cd_now s)\<rparr>" and ?env = "env\<lparr>cv_writeFails := False\<rparr>"
  let ?o = "?s\<lparr>cd_file := Some (fileOr env s), cd_handles := Suc (cd_handles s)\<rparr>"
  let ?t = "s\<lparr>cd_file := Some ((fileOr env s)\<lparr>tf_text := None\<rparr>), cd_handles := Suc (cd_handles s)\<rparr>"
  have h: "cv_openError env = None" "\<not> cv_readFails env" "\<not> cv_rmdirFails env" "\<not> cv_truncateFails env"
    using assms(1) by (simp_all add: healthy_def)
  obtain new where new: "putToken (cv_hash env k) token (orEmpty (content s)) = Some new"
    using putToken_getToken[OF assms(4,5)] by blast
  have op: "openFile env True ?s = (Inr True, ?o)"
    using openFile_any[OF h(1), of ?s] assms(3) by (simp add: usable_def fileOr_def)
  have "readJsonCredentialFile env True ?o = content s"
    using h by (simp add: readJsonCredentialFile_def content_def fileOr_def split: option.split)
  then have "writeLocked env (cv_hash env k) token ?s = (Inr (), storeCredential env new ?o)"
    using op new unfolding writeLocked_def orEmpty_def by (simp only: Let_def prod.case sum.case option.case if_True)
  then have w: "writeKey env (Some k) token s = (Inr (), ?t)"
    using assms(2,3) h by (simp add: writeKey_def withFileLocked_free usable_def unlockFile_def storeCredential_def withText_def)
  have "usable ?env d ?t"
    using assms(3) getTokenDir_stable[of env s d ?t] fileOr_secure[OF assms(3)]
    by (simp add: usable_def getTokenDir_env secureStats_def)
  from readKey_usable[OF assms(1) this] show ?thesis using w by (simp add: content_def tokenOr_def getToken_def)
qed


section \<open>Examples\<close>

definition diskEnv :: cred_env where
  "diskEnv = \<lparr>cv_platform = Linux, cv_cacheDir = None, cv_variables = [''HOME'' \<mapsto> ''/h''], cv_homedir = ''/h'', cv_uid = 7,
     cv_skipVerification = False, cv_timeout = 60000, cv_hash = (\<lambda>k. k), cv_statError = (\<lambda>p. None),
     cv_mkdirFails = (\<lambda>p. False), cv_chmodFails = (\<lambda>p. False), cv_openError = None, cv_readFails = False,
     cv_truncateFails = False, cv_writeFails = False, cv_closeFails = False, cv_rmdirFails = False, cv_others = (\<lambda>s. s)\<rparr>"

definition privateDir :: "bool \<times> file_stats" where "privateDir = (True, \<lparr>st_mode = 0x1C0, st_uid = 7\<rparr>)"

definition diskState :: "32 word \<Rightarrow> json \<Rightarrow> cred_state" where
  "diskState mode j = \<lparr>cd_now = 100000, cd_lock = None, cd_file = Some \<lparr>tf_stats = \<lparr>st_mode = mode, st_uid = 7\<rparr>, tf_text = Some j\<rparr>,
     cd_paths = [''/h'' \<mapsto> privateDir, ''/h/.cache'' \<mapsto> privateDir, ''/h/.cache/snowflake'' \<mapsto> privateDir], cd_handles = 0\<rparr>"

definition twoTokens :: json where
  "twoTokens = JObj [(''tokens'', JObj [(''a'', JStr ''old''), (''b'', JStr ''other'')])]"

lemma diskPath: "joinAll ''/h'' [''.cache'', ''snowflake''] = ''/h/.cache/snowflake''"
  by code_simp

lemma diskState_dir: "getTokenDir diskEnv (diskState m j) = (Some ''/h/.cache/snowflake'', diskState m j)"
  by (simp add: getTokenDir_def getTokenDirCandidates_def defaultJsonTokenCachePaths_def tryTokenDir_def statPath_def
      diskEnv_def diskState_def privateDir_def diskPath)

lemma diskEnv_healthy: "healthy diskEnv" "healthy (diskEnv\<lparr>cv_writeFails := True\<rparr>\<lparr>cv_writeFails := False\<rparr>)"
  by (simp_all add: healthy_def diskEnv_def)

lemma diskState_usable: "usable diskEnv ''/h/.cache/snowflake'' (diskState 0x8180 j)"
  using diskState_dir[of "0x8180" j]
  by (simp add: usable_def secureStats_def permissionBits_def diskState_def diskEnv_def)

lemma twoTokens_keeps: "keepsTokens (content (diskState m twoTokens))"
  by (simp add: keepsTokens_def content_def diskState_def twoTokens_def tokenMapKey_def)

theorem written_token_is_read_witness:
  "\<exists>s'. writeKey diskEnv (Some ''a'') (JStr ''new'') (diskState 0x8180 twoTokens) = (Inr (), s') \<and>
     readKey diskEnv (Some ''a'') s' = (Inr (JStr ''new''), s') \<and> readKey diskEnv (Some ''b'') s' = (Inr (JStr ''other''), s')"
proof -
  have "fst (readKey diskEnv (Some ''b'') (diskState 0x8180 twoTokens)) = Inr (JStr ''other'')"
    using readKey_usable[OF diskEnv_healthy(1) diskState_usable[of twoTokens], of "''b''"]
    by (simp add: content_def diskState_def twoTokens_def tokenOr_def getToken_JObj tokenMapKey_def diskEnv_def)
  moreover have "cv_hash diskEnv k = k" for k by (simp add: diskEnv_def)
  ultimately show ?thesis
    using written_token_is_read[OF diskEnv_healthy(1) diskState_usable[of twoTokens] twoTokens_keeps, of "JStr ''new''" "''a''"] by fastforce
qed

theorem removed_token_is_gone_witness:
  "\<exists>s'. removeKey diskEnv (Some ''a'') (diskState 0x8180 twoTokens) = (Inr (), s') \<and> readKey diskEnv (Some ''a'') s' = (Inr JNull, s')"
  using removed_token_is_gone[OF diskEnv_healthy(1) diskState_usable[of twoTokens], of "''a''"] by fastforce

theorem refused_file_leaves_lock_witness:
  "\<exists>e s'. writeKey diskEnv (Some ''a'') (JStr ''new'') (diskState 0x81A4 twoTokens) = (Inl (SecureFile e), s') \<and>
     cd_lock s' = Some 100000 \<and> cd_now s' = 100000"
proof -
  have p: "getTokenDir diskEnv (diskState 0x81A4 twoTokens) = (Some ''/h/.cache/snowflake'', diskState 0x81A4 twoTokens)"
    by (rule diskState_dir)
  have "\<exists>e s'. writeKey diskEnv (Some ''a'') (JStr ''new'') (diskState 0x81A4 twoTokens) = (Inl (SecureFile e), s') \<and>
      cd_lock s' = Some (cd_now (diskState 0x81A4 twoTokens)) \<and>
      (\<forall>fl k' token'. let later = s'\<lparr>cd_file := fl, cd_now := cd_now s' + 0\<rparr>; after = later\<lparr>cd_now := cd_now s' + 0 + 1000\<rparr>
        in readKey diskEnv (Some k') later = (Inr JNull, after) \<and> writeKey diskEnv (Some k') token' later = (Inr (), after))"
    by (rule refused_file_leaves_lock[OF p, of "\<lparr>tf_stats = \<lparr>st_mode = 0x81A4, st_uid = 7\<rparr>, tf_text = Some twoTokens\<rparr>"]) (simp_all add: diskState_def diskEnv_def secureStats_def permissionBits_def)
  moreover have "cd_now s' = 100000" if "writeKey diskEnv (Some ''a'') (JStr ''new'') (diskState 0x81A4 twoTokens) = (Inl (SecureFile e), s')" for e s'
  proof -
    obtain x where "openFile diskEnv True (diskState 0x81A4 twoTokens\<lparr>cd_lock := Some 100000\<rparr>) =
        (Inl (SecureFile x), diskState 0x81A4 twoTokens\<lparr>cd_lock := Some 100000, cd_handles := 1\<rparr>)"
      using openFile_refused[of diskEnv "diskState 0x81A4 twoTokens\<lparr>cd_lock := Some 100000\<rparr>"
          "\<lparr>tf_stats = \<lparr>st_mode = 0x81A4, st_uid = 7\<rparr>, tf_text = Some twoTokens\<rparr>" True]
      by (auto simp: diskState_def diskEnv_def secureStats_def permissionBits_def)
    then show ?thesis using that withFileLocked_free[OF p, of "writeLocked diskEnv ''a'' (JStr ''new'')" "()"]
      by (simp add: writeKey_def writeLocked_def diskState_def diskEnv_def)
  qed
  ultimately show ?thesis by (auto simp: diskState_def)
qed

theorem failed_write_loses_all_tokens_witness:
  "\<exists>s'. writeKey (diskEnv\<lparr>cv_writeFails := True\<rparr>) (Some ''a'') (JStr ''new'') (diskState 0x8180 twoTokens) = (Inr (), s') \<and>
     readKey (diskEnv\<lparr>cv_writeFails := True\<rparr>\<lparr>cv_writeFails := False\<rparr>) (Some ''b'') s' = (Inr JNull, s')"
proof -
  have "usable (diskEnv\<lparr>cv_writeFails := True\<rparr>) ''/h/.cache/snowflake'' (diskState 0x8180 twoTokens)"
    using diskState_usable[of twoTokens] by (simp add: usable_def secureStats_def getTokenDir_env)
  then show ?thesis
    using failed_write_loses_all_tokens[where env = "diskEnv\<lparr>cv_writeFails := True\<rparr>" and d = "''/h/.cache/snowflake''" and
        s = "diskState 0x8180 twoTokens" and token = "JStr ''new''" and k = "''a''"] diskEnv_healthy(2) twoTokens_keeps
    by fastforce
qed

end
