(* ===== verification/CredentialLock.thy ===== *)
theory CredentialLock
  imports CredentialModel
begin

text \<open>
  The lock of the token cache between processes (\<open>removeStale\<close>, \<open>lockFile\<close>, \<open>unlockFile\<close> of
  \<open>json_credential_manager.js\<close>): every process runs the code of \<open>withFileLocked\<close>, and between any two of
  its system calls the others may run.
\<close>

datatype lock_pc =
    Outside          \<comment> \<open>before \<open>stat\<close> in \<open>removeStale\<close>\<close>
  | Removing         \<comment> \<open>the lock was found stale, before \<open>rmdir\<close>\<close>
  | Trying nat       \<comment> \<open>before \<open>mkdir\<close>, with the attempts made\<close>
  | Holding          \<comment> \<open>in the operation on the file\<close>
  | GaveUp           \<comment> \<open>the operation ended without the lock\<close>

record lock_state =
  ls_now :: int
  ls_lock :: "int option"
  ls_pc :: "nat \<Rightarrow> lock_pc"

definition goto :: "nat \<Rightarrow> lock_pc \<Rightarrow> lock_state \<Rightarrow> lock_state" where
  "goto p c s = s\<lparr>ls_pc := (ls_pc s)(p := c)\<rparr>"

definition isStale :: "int \<Rightarrow> lock_state \<Rightarrow> bool" where
  "isStale timeout s = (case ls_lock s of None \<Rightarrow> False | Some birth \<Rightarrow> ls_now s - birth > timeout)"

inductive lock_step :: "int \<Rightarrow> lock_state \<Rightarrow> lock_state \<Rightarrow> bool" for timeout where
  stale: "ls_pc s p = Outside \<Longrightarrow> isStale timeout s \<Longrightarrow> lock_step timeout s (goto p Removing s)"
| fresh: "ls_pc s p = Outside \<Longrightarrow> \<not> isStale timeout s \<Longrightarrow> lock_step timeout s (goto p (Trying 0) s)"
| rmdir: "ls_pc s p = Removing \<Longrightarrow> lock_step timeout s (goto p (Trying 0) (s\<lparr>ls_lock := None\<rparr>))"
| rmdirFails: "ls_pc s p = Removing \<Longrightarrow> lock_step timeout s (goto p (Trying 0) s)"
| mkdir: "ls_pc s p = Trying n \<Longrightarrow> n < 10 \<Longrightarrow> ls_lock s = None \<Longrightarrow>
    lock_step timeout s (goto p Holding (s\<lparr>ls_lock := Some (ls_now s)\<rparr>))"
| mkdirFails: "ls_pc s p = Trying n \<Longrightarrow> n < 10 \<Longrightarrow> lock_step timeout s (goto p (Trying (Suc n)) s)"
| giveUp: "ls_pc s p = Trying n \<Longrightarrow> 10 \<le> n \<Longrightarrow> lock_step timeout s (goto p GaveUp s)"
| unlock: "ls_pc s p = Holding \<Longrightarrow> lock_step timeout s (goto p Outside (s\<lparr>ls_lock := None\<rparr>))"
| throws: "ls_pc s p = Holding \<Longrightarrow> lock_step timeout s (goto p GaveUp s)"
| again: "ls_pc s p = GaveUp \<Longrightarrow> lock_step timeout s (goto p Outside s)"
| time: "lock_step timeout s (s\<lparr>ls_now := ls_now s + int ms\<rparr>)"

inductive_cases lock_stepE: "lock_step timeout s s'"

lemma goto_fields [simp]:
  "ls_lock (goto p c s) = ls_lock s" "ls_now (goto p c s) = ls_now s" "ls_pc (goto p c s) = (ls_pc s)(p := c)"
  by (simp_all add: goto_def)

section \<open>Mutual exclusion\<close>

text \<open>Runs from a state without holders in which nobody finds the lock stale.\<close>

inductive unhurried :: "int \<Rightarrow> lock_state \<Rightarrow> bool" for timeout where
  start: "\<forall>p. ls_pc s p \<noteq> Holding \<and> ls_pc s p \<noteq> Removing \<Longrightarrow> unhurried timeout s"
| step: "unhurried timeout s \<Longrightarrow> lock_step timeout s s' \<Longrightarrow> \<forall>p. ls_pc s' p \<noteq> Removing \<Longrightarrow> unhurried timeout s'"

definition exclusive :: "lock_state \<Rightarrow> bool" where
  "exclusive s \<longleftrightarrow> (\<forall>p. ls_pc s p = Holding \<longrightarrow> ls_lock s \<noteq> None \<and> (\<forall>q. ls_pc s q = Holding \<longrightarrow> q = p))"

lemma lock_step_exclusive:
  "lock_step timeout s s' \<Longrightarrow> exclusive s \<Longrightarrow> \<forall>p. ls_pc s p \<noteq> Removing \<Longrightarrow> exclusive s'"
  by (erule lock_stepE) (auto simp: exclusive_def split: if_splits)

lemma unhurried_exclusive: "unhurried timeout s \<Longrightarrow> exclusive s \<and> (\<forall>p. ls_pc s p \<noteq> Removing)"
proof (induction rule: unhurried.induct)
  case (start s)
  then show ?case by (simp add: exclusive_def)
next
  case (step s s')
  then show ?case using lock_step_exclusive by blast
qed

text \<open>C16. As long as no process finds the lock stale, at most one process at a time is in its operation on
  the token file, and the lock exists while it is.\<close>

theorem lock_excludes:
  assumes "unhurried timeout s" and "ls_pc s p = Holding"
  shows "ls_lock s \<noteq> None \<and> (ls_pc s q = Holding \<longrightarrow> q = p)"
  using unhurried_exclusive[OF assms(1)] assms(2) by (auto simp: exclusive_def)

definition idle :: "int \<Rightarrow> int option \<Rightarrow> lock_state" where
  "idle now lock = \<lparr>ls_now = now, ls_lock = lock, ls_pc = (\<lambda>p. Outside)\<rparr>"

theorem lock_excludes_witness:
  "ls_lock (goto 1 Holding ((goto 1 (Trying 0) (idle 0 None))\<lparr>ls_lock := Some 0\<rparr>)) \<noteq> None"
proof -
  let ?a = "idle 0 None" let ?b = "goto 1 (Trying 0) ?a" let ?c = "goto 1 Holding (?b\<lparr>ls_lock := Some 0\<rparr>)"
  have a: "unhurried 60000 ?a" by (rule unhurried.start) (simp add: idle_def)
  have b: "lock_step 60000 ?a ?b" by (rule lock_step.fresh) (simp_all add: idle_def isStale_def)
  have c: "lock_step 60000 ?b ?c" using lock_step.mkdir[of ?b 1 0 60000] by (simp add: idle_def)
  have ub: "unhurried 60000 ?b" by (rule unhurried.step[OF a b]) (simp add: idle_def)
  have "unhurried 60000 ?c" by (rule unhurried.step[OF ub c]) (simp add: idle_def)
  from lock_excludes[OF this, of 1] show ?thesis by simp
qed

text \<open>C38. Two processes that find the same abandoned lock can both end up in their operation at once: the
  second one removes the lock that the first has just made, because between \<open>stat\<close> and \<open>rmdir\<close> nothing
  shows that the lock is still the old one.\<close>

theorem stale_lock_admits_two:
  assumes "now - birth > timeout" and "p \<noteq> q"
  shows "\<exists>s. (lock_step timeout)\<^sup>*\<^sup>* (idle now (Some birth)) s \<and> ls_pc s p = Holding \<and> ls_pc s q = Holding"
proof -
  let ?s0 = "idle now (Some birth)"
  let ?s1 = "goto p Removing ?s0"
  let ?s2 = "goto q Removing ?s1"
  let ?s3 = "goto p (Trying 0) (?s2\<lparr>ls_lock := None\<rparr>)"
  let ?s4 = "goto p Holding (?s3\<lparr>ls_lock := Some (ls_now ?s3)\<rparr>)"
  let ?s5 = "goto q (Trying 0) (?s4\<lparr>ls_lock := None\<rparr>)"
  let ?s6 = "goto q Holding (?s5\<lparr>ls_lock := Some (ls_now ?s5)\<rparr>)"
  have 1: "lock_step timeout ?s0 ?s1" by (rule lock_step.stale) (use assms in \<open>simp_all add: idle_def isStale_def\<close>)
  have 2: "lock_step timeout ?s1 ?s2" by (rule lock_step.stale) (use assms in \<open>simp_all add: idle_def isStale_def\<close>)
  have 3: "lock_step timeout ?s2 ?s3" by (rule lock_step.rmdir) (use assms in \<open>simp_all add: idle_def\<close>)
  have 4: "lock_step timeout ?s3 ?s4" by (rule lock_step.mkdir[of _ _ 0]) (use assms in \<open>simp_all add: idle_def\<close>)
  have 5: "lock_step timeout ?s4 ?s5" by (rule lock_step.rmdir) (use assms in \<open>simp_all add: idle_def\<close>)
  have 6: "lock_step timeout ?s5 ?s6" by (rule lock_step.mkdir[of _ _ 0]) (use assms in \<open>simp_all add: idle_def\<close>)
  have "(lock_step timeout)\<^sup>*\<^sup>* ?s0 ?s6"
    using 1 2 3 4 5 6 by (meson rtranclp.rtrancl_refl rtranclp.rtrancl_into_rtrancl)
  then show ?thesis using assms(2) by (intro exI[of _ ?s6]) simp
qed

theorem stale_lock_admits_two_witness:
  "\<exists>s. (lock_step 60000)\<^sup>*\<^sup>* (idle 70000 (Some 0)) s \<and> ls_pc s 1 = Holding \<and> ls_pc s 2 = Holding"
  by (rule stale_lock_admits_two) simp_all

section \<open>The sequential code\<close>

text \<open>A state of the cache with the places of the processes.\<close>

definition view :: "cred_state \<Rightarrow> (nat \<Rightarrow> lock_pc) \<Rightarrow> lock_state" where
  "view s pc = \<lparr>ls_now = cd_now s, ls_lock = cd_lock s, ls_pc = pc\<rparr>"

lemma view_simps [simp]:
  "ls_now (view s pc) = cd_now s" "ls_lock (view s pc) = cd_lock s" "ls_pc (view s pc) = pc"
  "goto p c (view s pc) = view s (pc(p := c))"
  "(view s pc)\<lparr>ls_lock := l\<rparr> = view (s\<lparr>cd_lock := l\<rparr>) pc"
  "(view s pc)\<lparr>ls_now := t\<rparr> = view (s\<lparr>cd_now := t\<rparr>) pc"
  by (simp_all add: view_def goto_def)

lemma lockAttempts_run:
  assumes "cv_others env = (\<lambda>s. s)" "n + m = 10" "pc p = Trying m"
  shows "case lockAttempts env l n s of (b, s') \<Rightarrow>
           (lock_step timeout)\<^sup>*\<^sup>* (view s pc) (view s' (pc(p := if b then Holding else GaveUp)))"
  using assms(2,3)
proof (induction n arbitrary: m s pc)
  case 0
  then show ?case using lock_step.giveUp[of "view s pc" p m timeout] by (simp add: fun_upd_def)
next
  case (Suc n)
  show ?case
  proof (cases "cd_lock s = None \<and> \<not> cv_mkdirFails env l")
    case True
    then have "lock_step timeout (view s pc) (view (s\<lparr>cd_lock := Some (cd_now s)\<rparr>) (pc(p := Holding)))"
      using lock_step.mkdir[of "view s pc" p m timeout] Suc.prems by simp
    then show ?thesis using True by (simp add: fun_upd_def)
  next
    case False
    let ?s = "s\<lparr>cd_now := cd_now s + retryInterval\<rparr>" and ?pc = "pc(p := Trying (Suc m))"
    have "lock_step timeout (view s pc) (view s ?pc)"
      using lock_step.mkdirFails[of "view s pc" p m timeout] Suc.prems by simp
    moreover have "lock_step timeout (view s ?pc) (view ?s ?pc)"
      using lock_step.time[of timeout "view s ?pc" 100] by (simp add: retryInterval_def)
    moreover have "case lockAttempts env l n ?s of (b, s') \<Rightarrow>
        (lock_step timeout)\<^sup>*\<^sup>* (view ?s ?pc) (view s' (?pc(p := if b then Holding else GaveUp)))"
      by (rule Suc.IH) (use Suc.prems in simp_all)
    ultimately have "case lockAttempts env l n ?s of (b, s') \<Rightarrow>
        (lock_step timeout)\<^sup>*\<^sup>* (view s pc) (view s' (pc(p := if b then Holding else GaveUp)))"
      by (cases "lockAttempts env l n ?s") (auto simp only: prod.case fun_upd_upd intro: converse_rtranclp_into_rtranclp)
    moreover have "lockAttempts env l (Suc n) s = lockAttempts env l n ?s" using False assms(1) by auto
    ultimately show ?thesis by (simp only:)
  qed
qed

text \<open>C17. The code of \<open>lockFile\<close> is a run of one process in the relation of system calls: it ends with the
  lock held or with the process having given up.\<close>

theorem lockFile_refines_steps:
  assumes "cv_others env = (\<lambda>s. s)" and "pc p = Outside" and "lockFile env filename s = (b, s')"
  shows "(lock_step (cv_timeout env))\<^sup>*\<^sup>* (view s pc) (view s' (pc(p := if b then Holding else GaveUp)))"
proof -
  let ?pc = "pc(p := Trying 0)"
  have run: "(lock_step (cv_timeout env))\<^sup>*\<^sup>* (view (removeStale env s) ?pc) (view s' (pc(p := if b then Holding else GaveUp)))"
    using lockAttempts_run[where env = env and n = 10 and m = 0 and pc = ?pc and p = p and l = "filename @ ''.lck''" and
      s = "removeStale env s" and timeout = "cv_timeout env"] assms(1,3)
    by (simp add: lockFile_def split: prod.splits)
  have "(lock_step (cv_timeout env))\<^sup>*\<^sup>* (view s pc) (view (removeStale env s) ?pc)"
  proof (cases "isStale (cv_timeout env) (view s pc)")
    case False
    then have "removeStale env s = s" by (auto simp: isStale_def removeStale_def split: option.splits)
    then show ?thesis using lock_step.fresh[OF _ False, of p] assms(2) by (auto simp: fun_upd_def)
  next
    case True
    let ?r = "pc(p := Removing)"
    have a: "lock_step (cv_timeout env) (view s pc) (view s ?r)" using lock_step.stale[OF _ True, of p] assms(2) by simp
    have b: "lock_step (cv_timeout env) (view s ?r) (view (s\<lparr>cd_lock := None\<rparr>) ?pc)"
      using lock_step.rmdir[of "view s ?r" p "cv_timeout env"] by simp
    have c: "lock_step (cv_timeout env) (view s ?r) (view s ?pc)"
      using lock_step.rmdirFails[of "view s ?r" p "cv_timeout env"] by simp
    have "removeStale env s = s \<or> removeStale env s = s\<lparr>cd_lock := None\<rparr>"
      by (auto simp: removeStale_def split: option.splits)
    then show ?thesis using a b c by (metis converse_rtranclp_into_rtranclp rtranclp.rtrancl_refl)
  qed
  then show ?thesis using run by simp
qed


text \<open>A lock that is held and not stale: the run ends without it.\<close>

definition busyEnv :: cred_env where
  "busyEnv = \<lparr>cv_platform = Linux, cv_cacheDir = None, cv_variables = Map.empty, cv_homedir = [], cv_uid = 7,
     cv_skipVerification = False, cv_timeout = 60000, cv_hash = (\<lambda>k. k), cv_statError = (\<lambda>p. None),
     cv_mkdirFails = (\<lambda>p. False), cv_chmodFails = (\<lambda>p. False), cv_openError = None, cv_readFails = False,
     cv_truncateFails = False, cv_writeFails = False, cv_closeFails = False, cv_rmdirFails = False, cv_others = (\<lambda>s. s)\<rparr>"

definition busyState :: cred_state where
  "busyState = \<lparr>cd_now = 5000, cd_lock = Some 0, cd_file = None, cd_paths = Map.empty, cd_handles = 0\<rparr>"

theorem lockFile_refines_steps_witness:
  "(lock_step 60000)\<^sup>*\<^sup>* (view busyState (\<lambda>p. Outside)) (view (busyState\<lparr>cd_now := 6000\<rparr>) ((\<lambda>p. Outside)(3 := GaveUp)))"
  using lockFile_refines_steps[of busyEnv "\<lambda>p. Outside" 3 "''f''" busyState False "busyState\<lparr>cd_now := 6000\<rparr>"]
  by (simp add: busyEnv_def busyState_def lockFile_def removeStale_def eval_nat_numeral retryInterval_def)

end
