(* ===== verification/AuthModel.thy ===== *)
theory AuthModel
  imports ConfigModel TextModel "HOL-Library.AList"
begin

text \<open>
  Authenticators (\<open>authentication/authentication.js\<close>, \<open>auth_default.js\<close>, \<open>auth_idtoken.js\<close>, \<open>auth_oauth.js\<close>,
  \<open>auth_oauth_pat.js\<close>, \<open>auth_keypair.js\<close>, \<open>auth_okta.js\<close>): which one a configuration gets, what each adds to
  the body of the login, and the exchange with an Okta identity provider.

  The data of a login body is a list of keys and values in the order of their insertion; a key whose value is
  \<open>undefined\<close> stays in the list and is left out when the body becomes JSON.
\<close>

section \<open>Choosing an authenticator\<close>

record auth_config =
  au_authenticator :: string
  au_account :: string
  au_username :: string
  au_password :: jsv
  au_region :: "string option"
  au_mfaToken :: jsv
  au_passcode :: jsv
  au_passcodeInPassword :: jsv
  au_idToken :: jsv
  au_storeTemporaryCredential :: jsv
  au_token :: jsv
  au_serviceName :: jsv
  au_clientType :: string
  au_clientVersion :: string
  au_privateKey :: "string option"
  au_privateKeyPath :: "string option"
  au_privateKeyPass :: jsv
  au_disableSamlURLCheck :: bool
  au_retryTimeout :: int
  au_maxLoginRetries :: int

type_synonym login_data = "(string \<times> jsv) list"

definition putKey :: "string \<Rightarrow> jsv \<Rightarrow> login_data \<Rightarrow> login_data" where
  "putKey k v d = AList.update k v d"

definition isOktaAuth :: "string \<Rightarrow> bool" where
  "isOktaAuth a \<longleftrightarrow> prefix ''HTTPS://'' (map upperChar a)"

definition formAuthJSON ::
  "string \<Rightarrow> string \<Rightarrow> string \<Rightarrow> string \<Rightarrow> string \<Rightarrow> (string \<Rightarrow> jsv) \<Rightarrow> login_data"
where
  "formAuthJSON authenticator account username clientType clientVersion clientEnv =
     (let d = [(''ACCOUNT_NAME'', JString account), (''CLIENT_APP_ID'', JString clientType),
               (''CLIENT_APP_VERSION'', JString clientVersion),
               (''CLIENT_ENVIRONMENT'', JObject [(''OS'', clientEnv ''OS''), (''OS_VERSION'', clientEnv ''OS_VERSION''),
                                                 (''OCSP_MODE'', clientEnv ''OCSP_MODE'')])]
      in if isOktaAuth authenticator then d
         else putKey ''LOGIN_NAME'' (JString username) (putKey ''AUTHENTICATOR'' (JString authenticator) d))"

datatype authenticator =
    AuthDefault | AuthIdToken | AuthWeb | AuthKeyPair | AuthOauth | AuthOauthPAT
  | AuthOauthCode | AuthOauthClient | AuthOktaSaml | AuthWorkloadIdentity

definition getAuthenticator :: "auth_config \<Rightarrow> authenticator" where
  "getAuthenticator c =
     (let authType = au_authenticator c
      in if authType = ''SNOWFLAKE'' \<or> authType = ''USERNAME_PASSWORD_MFA'' then AuthDefault
         else if authType = ''EXTERNALBROWSER'' then
           (if truthy (au_storeTemporaryCredential c) \<and> truthy (au_idToken c) then AuthIdToken else AuthWeb)
         else if authType = ''SNOWFLAKE_JWT'' then AuthKeyPair
         else if authType = ''OAUTH'' then AuthOauth
         else if authType = ''PROGRAMMATIC_ACCESS_TOKEN'' then AuthOauthPAT
         else if authType = ''OAUTH_AUTHORIZATION_CODE'' then AuthOauthCode
         else if authType = ''OAUTH_CLIENT_CREDENTIALS'' then AuthOauthClient
         else if isOktaAuth authType then AuthOktaSaml
         else if authType = ''WORKLOAD_IDENTITY'' then AuthWorkloadIdentity
         else AuthDefault)"

section \<open>Bodies\<close>

definition isMFAAuth :: "auth_config \<Rightarrow> bool" where
  "isMFAAuth c \<longleftrightarrow> au_authenticator c = ''USERNAME_PASSWORD_MFA'' \<or> truthy (au_mfaToken c) \<or>
     truthy (au_passcode c) \<or> truthy (au_passcodeInPassword c)"

definition setMFASessionParams :: "auth_config \<Rightarrow> login_data \<Rightarrow> login_data" where
  "setMFASessionParams c d =
     (let d1 = putKey ''AUTHENTICATOR'' (JString ''USERNAME_PASSWORD_MFA'') (putKey ''TOKEN'' (au_mfaToken c) d)
      in if truthy (au_passcodeInPassword c) then
           putKey ''passcodeInPassword'' (JBoolean True) (putKey ''EXT_AUTHN_DUO_METHOD'' (JString ''passcode'') d1)
         else if truthy (au_passcode c) then
           putKey ''PASSCODE'' (au_passcode c) (putKey ''EXT_AUTHN_DUO_METHOD'' (JString ''passcode'') d1)
         else putKey ''EXT_AUTHN_DUO_METHOD'' (JString ''push'') d1)"

definition updateBodyDefault :: "auth_config \<Rightarrow> login_data \<Rightarrow> login_data" where
  "updateBodyDefault c d =
     (let d1 = putKey ''PASSWORD'' (au_password c) d in if isMFAAuth c then setMFASessionParams c d1 else d1)"

definition updateBodyIDToken :: "jsv \<Rightarrow> login_data \<Rightarrow> login_data" where
  "updateBodyIDToken idToken d = putKey ''AUTHENTICATOR'' (JString ''ID_TOKEN'') (putKey ''TOKEN'' idToken d)"

definition updateBodyOauth :: "jsv \<Rightarrow> login_data \<Rightarrow> login_data" where
  "updateBodyOauth token d = putKey ''TOKEN'' token d"

definition updateBodyPAT :: "jsv \<Rightarrow> jsv \<Rightarrow> login_data \<Rightarrow> login_data" where
  "updateBodyPAT token password d =
     (if jsExists token then putKey ''TOKEN'' token d
      else if jsExists password then putKey ''TOKEN'' password d else d)"

definition updateBodyOkta :: "string option \<Rightarrow> login_data \<Rightarrow> login_data" where
  "updateBodyOkta samlResponse d =
     putKey ''RAW_SAML_RESPONSE'' (case samlResponse of None \<Rightarrow> JUndefined | Some t \<Rightarrow> JString t) d"

section \<open>Key pairs\<close>

text \<open>The cryptographic library, and the file of the key; \<open>None\<close> is an exception.\<close>

record key_env =
  ke_parse :: "string \<Rightarrow> jsv \<Rightarrow> string option"       \<comment> \<open>\<open>createPrivateKey\<close> and \<open>export\<close>\<close>
  ke_publicHash :: "string \<Rightarrow> string option"          \<comment> \<open>SHA-256 of the public key in Base64\<close>
  ke_readFile :: "string \<Rightarrow> string option"

record jwt_payload =
  jw_iss :: string
  jw_sub :: string
  jw_iat :: int
  jw_exp :: int

record key_state =
  ks_privateKey :: "string option"
  ks_token :: "(jwt_payload \<times> string option) option"   \<comment> \<open>payload and signing key\<close>

definition LIFETIME :: int where "LIFETIME = 120"

definition calculatePublicKeyFingerprint :: "key_env \<Rightarrow> string \<Rightarrow> string option" where
  "calculatePublicKeyFingerprint env key = map_option (\<lambda>h. ''SHA256:'' @ h) (ke_publicHash env key)"

definition loadPrivateKey :: "key_env \<Rightarrow> string \<Rightarrow> jsv \<Rightarrow> string option" where
  "loadPrivateKey env path pass = Option.bind (ke_readFile env path) (\<lambda>t. ke_parse env t pass)"

text \<open>The key and its fingerprint; without a key the fingerprint is the text of \<open>undefined\<close>.\<close>

definition preparedKey :: "key_env \<Rightarrow> auth_config \<Rightarrow> key_state \<Rightarrow> (string option \<times> string) option" where
  "preparedKey env c ks =
     (let use = (\<lambda>k. Option.bind k (\<lambda>key. map_option (\<lambda>f. (Some key, f)) (calculatePublicKeyFingerprint env key)))
      in case ks_privateKey ks of
           Some key \<Rightarrow> if key \<noteq> [] then use (ke_parse env key (au_privateKeyPass c))
                       else (case au_privateKeyPath c of Some p \<Rightarrow>
                               if p \<noteq> [] then use (loadPrivateKey env p (au_privateKeyPass c)) else Some (Some key, ''undefined'')
                             | None \<Rightarrow> Some (Some key, ''undefined''))
         | None \<Rightarrow> (case au_privateKeyPath c of
                      Some p \<Rightarrow> if p \<noteq> [] then use (loadPrivateKey env p (au_privateKeyPass c)) else Some (None, ''undefined'')
                    | None \<Rightarrow> Some (None, ''undefined'')))"

definition jwtPayload :: "auth_config \<Rightarrow> string \<Rightarrow> int \<Rightarrow> jwt_payload" where
  "jwtPayload c fingerprint now =
     \<lparr>jw_iss = map upperChar (au_account c) @ ''.'' @ map upperChar (au_username c) @ ''.'' @ fingerprint,
      jw_sub = map upperChar (au_account c) @ ''.'' @ map upperChar (au_username c),
      jw_iat = now, jw_exp = now + LIFETIME * 1000\<rparr>"

text \<open>\<open>authenticate\<close>; \<open>None\<close> is the exception of the library, also of signing without a key.\<close>

definition keyPairAuthenticate :: "key_env \<Rightarrow> auth_config \<Rightarrow> int \<Rightarrow> key_state \<Rightarrow> key_state option" where
  "keyPairAuthenticate env c now ks =
     (case preparedKey env c ks of
        None \<Rightarrow> None
      | Some (key, fingerprint) \<Rightarrow>
          (case key of
             None \<Rightarrow> None
           | Some k \<Rightarrow>
               if k = [] then None
               else Some \<lparr>ks_privateKey = key, ks_token = Some (jwtPayload c fingerprint now, key)\<rparr>))"

text \<open>The token that \<open>updateBody\<close> puts into the body: its payload and the key that signed it.\<close>

definition updateBodyKeypair :: "key_state \<Rightarrow> (jwt_payload \<times> string option) option" where
  "updateBodyKeypair ks = ks_token ks"

text \<open>
  \<open>reauthenticate\<close> starts \<open>authenticate\<close> without awaiting it.  It has no pause, so a success is seen by
  \<open>updateBody\<close>; a failure is an unhandled rejection (the flag) and the old token goes into the body.
\<close>

definition keyPairReauthenticate :: "key_env \<Rightarrow> auth_config \<Rightarrow> int \<Rightarrow> key_state \<Rightarrow> key_state \<times> bool" where
  "keyPairReauthenticate env c now ks =
     (case keyPairAuthenticate env c now ks of None \<Rightarrow> (ks, True) | Some ks' \<Rightarrow> (ks', False))"

section \<open>Okta\<close>

datatype auth_exn = AuthError string | OktaRejected jsv jsv | AuthTypeError | HttpFailure string

text \<open>The answer to the authenticator request; the URLs of the data, if there are data.\<close>

record okta_answer =
  oa_success :: jsv
  oa_code :: jsv
  oa_message :: jsv
  oa_data :: "(string \<times> string) option"

datatype okta_request = AuthenticatorRequest string login_data | TokenRequest string jsv jsv | SamlRequest string jsv

text \<open>The server, the identity provider, the clock, and the parser of URLs (protocol and host).\<close>

record 'e okta_env =
  ok_now :: "'e \<Rightarrow> int"
  ok_urls :: "okta_request \<Rightarrow> 'e \<Rightarrow> (auth_exn + okta_answer) \<times> 'e"
  ok_token :: "okta_request \<Rightarrow> 'e \<Rightarrow> (auth_exn + jsv \<times> jsv) \<times> 'e"       \<comment> \<open>\<open>sessionToken\<close> and \<open>cookieToken\<close>\<close>
  ok_saml :: "okta_request \<Rightarrow> 'e \<Rightarrow> (auth_exn + string) \<times> 'e"
  ok_url :: "string \<Rightarrow> (string \<times> string) option"

record okta =
  okt_user :: jsv
  okt_ssoUrl :: string
  okt_tokenUrl :: string
  okt_saml :: "string option"
  okt_log :: "okta_request list"

definition oktaHost :: "auth_config \<Rightarrow> string" where
  "oktaHost c = constructHostname (au_region c) (au_account c)"

definition getAuthURLs ::
  "auth_config \<Rightarrow> 'e okta_env \<Rightarrow> string \<Rightarrow> jsv \<Rightarrow> string \<Rightarrow> jsv \<Rightarrow> okta \<Rightarrow> 'e \<Rightarrow> (auth_exn + okta_answer) \<times> okta \<times> 'e"
where
  "getAuthURLs c env authenticator serviceName account username st e =
     (let r = AuthenticatorRequest (''https://'' @ oktaHost c @ ''/session/authenticator-request'')
                [(''ACCOUNT_NAME'', JString account), (''LOGIN_NAME'', username), (''PORT'', JNumber 443),
                 (''PROTOCOL'', JString ''https''), (''AUTHENTICATOR'', JString authenticator),
                 (''CLIENT_APP_ID'', JString (au_clientType c)), (''CLIENT_APP_VERSION'', JString (au_clientVersion c))];
          (res, e1) = ok_urls env r e
      in (res, st\<lparr>okt_log := okt_log st @ [r]\<rparr>, e1))"

definition validateURLs :: "'e okta_env \<Rightarrow> string \<Rightarrow> string \<Rightarrow> string \<Rightarrow> auth_exn + unit" where
  "validateURLs env authenticator ssoUrl tokenUrl =
     (case (ok_url env authenticator, ok_url env ssoUrl, ok_url env tokenUrl) of
        (Some a, Some s, Some t) \<Rightarrow>
          if a = s \<and> a = t then Inr ()
          else Inl (AuthError ''The prefix of the SSO/token URL and the specified authenticator do not match.'')
      | _ \<Rightarrow> Inl (AuthError ''Authenticator, SSO, or token URL is invalid.''))"

text \<open>\<open>createAccessToken\<close> followed by \<open>getSAMLResponse\<close>.\<close>

definition fetchSaml :: "auth_config \<Rightarrow> 'e okta_env \<Rightarrow> jsv \<Rightarrow> okta \<Rightarrow> 'e \<Rightarrow> (auth_exn + string) \<times> okta \<times> 'e" where
  "fetchSaml c env username st e =
     (let r = TokenRequest (okt_tokenUrl st) username (au_password c);
          (res, e1) = ok_token env r e;
          st1 = st\<lparr>okt_log := okt_log st @ [r]\<rparr>
      in case res of
           Inl x \<Rightarrow> (Inl x, st1, e1)
         | Inr (sessionToken, cookieToken) \<Rightarrow>
             (let q = SamlRequest (okt_ssoUrl st1) (if truthy sessionToken then sessionToken else cookieToken);
                  (res2, e2) = ok_saml env q e1
              in (res2, st1\<lparr>okt_log := okt_log st1 @ [q]\<rparr>, e2)))"

fun replaceEvery :: "string \<Rightarrow> string \<Rightarrow> string \<Rightarrow> string" where
  "replaceEvery old new [] = []"
| "replaceEvery old new (c # cs) =
     (if prefix old (c # cs) then new @ replaceEvery old new (drop (length old - 1) cs)
      else c # replaceEvery old new cs)"

definition unescapeHtml :: "string \<Rightarrow> string" where
  "unescapeHtml html = replaceEvery ''&#x2f;'' ''/'' (replaceEvery ''&#x3a;'' '':'' html)"

text \<open>\<open>s.indexOf(sub, from)\<close>\<close>

definition indexFrom :: "string \<Rightarrow> string \<Rightarrow> int \<Rightarrow> int" where
  "indexFrom sub s from =
     (let k = nat (max 0 (min from (int (length s)))); n = textIndex sub (drop k s)
      in if n = - 1 then - 1 else n + int k)"

definition getPostBackUrlFromHtml :: "string \<Rightarrow> string" where
  "getPostBackUrlFromHtml html =
     (let index = textIndex ''<form'' html;
          startIndex = indexFrom ''action=\"'' html index;
          endIndex = indexFrom ''\"'' html (startIndex + 8)
      in unescapeHtml (js_substring html (startIndex + 8) endIndex))"

text \<open>\<open>validateSAML\<close>; \<open>None\<close> is \<open>undefined\<close>, which has no \<open>search\<close>.\<close>

definition validateSAML :: "auth_config \<Rightarrow> string option \<Rightarrow> okta \<Rightarrow> (auth_exn + unit) \<times> okta" where
  "validateSAML c responseHtml st =
     (case responseHtml of
        None \<Rightarrow> (Inl AuthTypeError, st)
      | Some html \<Rightarrow>
          (let postBackUrl = getPostBackUrlFromHtml html;
               fullUrl = ''https://'' @ oktaHost c @ '':443''
           in if \<not> au_disableSamlURLCheck c \<and> take 20 postBackUrl \<noteq> take 20 fullUrl then
                (Inl (AuthError (''The specified authenticator and destination URL in the SAML assertion do not match: expected: '' @
                        fullUrl @ '' postback: '' @ postBackUrl)), st)
              else (Inr (), st\<lparr>okt_saml := Some html\<rparr>)))"

definition oktaAuthenticate ::
  "auth_config \<Rightarrow> 'e okta_env \<Rightarrow> string \<Rightarrow> jsv \<Rightarrow> string \<Rightarrow> jsv \<Rightarrow> okta \<Rightarrow> 'e \<Rightarrow> (auth_exn + unit) \<times> okta \<times> 'e"
where
  "oktaAuthenticate c env authenticator serviceName account username st e =
     (case getAuthURLs c env authenticator serviceName account username st e of
        (Inl x, st1, e1) \<Rightarrow> (Inl x, st1, e1)
      | (Inr answer, st1, e1) \<Rightarrow>
          (let st2 = st1\<lparr>okt_user := username\<rparr>
           in if oa_success answer = JUndefined \<or> oa_code answer = JString ''undefined'' \<or>
                 oa_message answer = JString ''undefined'' then
                (Inl (AuthError ''Unable to use provided Okta address as an authenticator. Is the authenticator URL correct?''), st2, e1)
              else if oa_success answer \<noteq> JBoolean True then
                (Inl (OktaRejected (oa_code answer) (oa_message answer)), st2, e1)
              else
                (case oa_data answer of
                   None \<Rightarrow> (Inl AuthTypeError, st2, e1)
                 | Some (sso, tok) \<Rightarrow>
                     (let st3 = st2\<lparr>okt_ssoUrl := sso, okt_tokenUrl := tok\<rparr>
                      in case validateURLs env authenticator sso tok of
                           Inl x \<Rightarrow> (Inl x, st3, e1)
                         | Inr _ \<Rightarrow>
                             (case fetchSaml c env username st3 e1 of
                                (Inl x, st4, e2) \<Rightarrow> (Inl x, st4, e2)
                              | (Inr html, st4, e2) \<Rightarrow>
                                  (let (r, st5) = validateSAML c (Some html) st4 in (r, st5, e2)))))))"

section \<open>Renewing the Okta token\<close>

definition shouldRetryOktaAuth :: "int \<Rightarrow> int \<Rightarrow> int \<Rightarrow> rat \<Rightarrow> int \<Rightarrow> int \<Rightarrow> bool" where
  "shouldRetryOktaAuth maxRetryTimeout maxRetryCount startTime remainingTimeout now numRetries \<longleftrightarrow>
     (maxRetryTimeout = 0 \<or> of_int now < of_int startTime + remainingTimeout) \<and> numRetries \<le> maxRetryCount"

text \<open>The answer, if one came, and the retries made.\<close>

function reauthLoop ::
  "auth_config \<Rightarrow> 'e okta_env \<Rightarrow> int \<Rightarrow> rat \<Rightarrow> int \<Rightarrow> okta \<Rightarrow> 'e \<Rightarrow> string option \<times> int \<times> okta \<times> 'e"
where
  "reauthLoop c env startTime remaining n st e =
     (if shouldRetryOktaAuth (au_retryTimeout c) (au_maxLoginRetries c) startTime remaining (ok_now env e) n then
        (case fetchSaml c env (okt_user st) st e of
           (Inr html, st1, e1) \<Rightarrow> (Some html, n, st1, e1)
         | (Inl x, st1, e1) \<Rightarrow> reauthLoop c env startTime remaining (n + 1) st1 e1)
      else (None, n, st, e))"
  by pat_completeness auto
termination
  by (relation "measure (\<lambda>(c, env, startTime, remaining, n, st, e). nat (au_maxLoginRetries c + 1 - n))")
    (auto simp: shouldRetryOktaAuth_def)

declare reauthLoop.simps [simp del]

text \<open>
  \<open>reauthenticate\<close>: seconds in \<open>totalElapsedTime\<close>, milliseconds on the clock.  The second component is
  \<open>retryOption\<close> after the call.
\<close>

definition oktaReauthenticate ::
  "auth_config \<Rightarrow> 'e okta_env \<Rightarrow> rat \<times> int \<Rightarrow> login_data \<Rightarrow> okta \<Rightarrow> 'e \<Rightarrow> (auth_exn + login_data) \<times> (rat \<times> int) \<times> okta \<times> 'e"
where
  "oktaReauthenticate c env retryOption body st e =
     (let (totalElapsedTime, numRetries) = retryOption;
          remaining = (of_int (au_retryTimeout c) - totalElapsedTime) * 1000;
          startTime = ok_now env e;
          (responseHtml, n, st1, e1) = reauthLoop c env startTime remaining numRetries st e
      in if remaining \<noteq> 0 \<and> of_int startTime + remaining < of_int (ok_now env e1) then
           (Inl (AuthError ''Reached out to the Login Timeout''), retryOption, st1, e1)
         else if au_maxLoginRetries c < n then
           (Inl (AuthError ''Reached out to the max retry count''), retryOption, st1, e1)
         else
           (let retryOption' = (totalElapsedTime + of_int (ok_now env e1 - startTime) / 1000, n)
            in case validateSAML c responseHtml st1 of
                 (Inl x, st2) \<Rightarrow> (Inl x, retryOption', st2, e1)
               | (Inr _, st2) \<Rightarrow> (Inr (updateBodyOkta (okt_saml st2) body), retryOption', st2, e1)))"

end
