(* ===== verification/AuthProps.thy ===== *)
theory AuthProps
  imports AuthModel
begin

text \<open>
  What holds of the authenticators: the Okta password stays with the identity provider, how far the check of
  the SAML answer goes, how a renewal ends, and what the login bodies contain.
\<close>

section \<open>Requests to the identity provider\<close>

text \<open>A request that carries credentials goes to the protocol and host of the authenticator.\<close>

definition toProvider :: "'e okta_env \<Rightarrow> string \<Rightarrow> okta_request \<Rightarrow> bool" where
  "toProvider env authenticator r \<longleftrightarrow> ok_url env authenticator \<noteq> None \<and>
     (case r of AuthenticatorRequest u d \<Rightarrow> True
      | TokenRequest u name pw \<Rightarrow> ok_url env u = ok_url env authenticator
      | SamlRequest u t \<Rightarrow> ok_url env u = ok_url env authenticator)"

definition credentialRequest :: "okta_request \<Rightarrow> bool" where
  "credentialRequest r = (case r of AuthenticatorRequest u d \<Rightarrow> False | _ \<Rightarrow> True)"

definition logSafe :: "'e okta_env \<Rightarrow> string \<Rightarrow> okta \<Rightarrow> bool" where
  "logSafe env authenticator st \<longleftrightarrow> (\<forall>r \<in> set (okt_log st). credentialRequest r \<longrightarrow> toProvider env authenticator r)"

definition urlsMatch :: "'e okta_env \<Rightarrow> string \<Rightarrow> okta \<Rightarrow> bool" where
  "urlsMatch env authenticator st \<longleftrightarrow> ok_url env authenticator \<noteq> None \<and>
     ok_url env (okt_ssoUrl st) = ok_url env authenticator \<and> ok_url env (okt_tokenUrl st) = ok_url env authenticator"

lemma fetchSaml_safe:
  assumes "fetchSaml c env username st e = (r, st', e')" "urlsMatch env a st" "logSafe env a st"
  shows "logSafe env a st' \<and> urlsMatch env a st' \<and> okt_user st' = okt_user st \<and> okt_saml st' = okt_saml st \<and>
    length (okt_log st') \<le> length (okt_log st) + 2"
  using assms
  by (auto simp: fetchSaml_def Let_def logSafe_def urlsMatch_def toProvider_def split: prod.splits sum.splits)

lemma validateURLs_match:
  "validateURLs env a sso tok = Inr () \<Longrightarrow> okt_ssoUrl st = sso \<Longrightarrow> okt_tokenUrl st = tok \<Longrightarrow> urlsMatch env a st"
  by (auto simp: validateURLs_def urlsMatch_def split: option.splits if_splits)

lemma validateSAML_fields:
  "validateSAML c h st = (r, st') \<Longrightarrow> okt_log st' = okt_log st \<and> okt_ssoUrl st' = okt_ssoUrl st \<and>
     okt_tokenUrl st' = okt_tokenUrl st \<and> okt_user st' = okt_user st"
  by (auto simp: validateSAML_def Let_def split: option.splits if_splits)

lemma oktaAuthenticate_safe:
  assumes "oktaAuthenticate c env a sn account username st e = (r, st', e')" "okt_log st = []"
  shows "logSafe env a st' \<and> (r = Inr () \<longrightarrow> urlsMatch env a st')"
proof -
  obtain q st1 e1 where g: "getAuthURLs c env a sn account username st e = (q, st1, e1)" by (metis prod_cases3)
  have s1: "logSafe env a (st1\<lparr>okt_user := username\<rparr>)"
    using g assms(2) by (auto simp: getAuthURLs_def Let_def logSafe_def credentialRequest_def split: prod.splits)
  have s1': "logSafe env a st1" using s1 by (simp add: logSafe_def)
  show ?thesis
  proof (cases q)
    case (Inl x)
    then show ?thesis using assms(1) g s1' by (auto simp: oktaAuthenticate_def)
  next
    case (Inr answer)
    show ?thesis
    proof (cases "oa_success answer = JBoolean True \<and> oa_code answer \<noteq> JString ''undefined'' \<and>
        oa_message answer \<noteq> JString ''undefined'' \<and> (\<exists>sso tok. oa_data answer = Some (sso, tok) \<and> validateURLs env a sso tok = Inr ())")
      case False
      then show ?thesis using assms(1) g Inr s1
        by (auto simp: oktaAuthenticate_def Let_def logSafe_def split: if_splits option.splits sum.splits)
    next
      case True
      then obtain sso tok where d: "oa_data answer = Some (sso, tok)" and v: "validateURLs env a sso tok = Inr ()" by blast
      let ?st3 = "st1\<lparr>okt_user := username, okt_ssoUrl := sso, okt_tokenUrl := tok\<rparr>"
      have m: "urlsMatch env a ?st3" by (rule validateURLs_match[OF v]) simp_all
      have l: "logSafe env a ?st3" using s1' by (simp add: logSafe_def)
      obtain h st4 e2 where f: "fetchSaml c env username ?st3 e1 = (h, st4, e2)" by (metis prod_cases3)
      note fs = fetchSaml_safe[OF f m l]
      have eq: "oktaAuthenticate c env a sn account username st e =
          (case h of Inl x \<Rightarrow> (Inl x, st4, e2) | Inr html \<Rightarrow> (let (r, st5) = validateSAML c (Some html) st4 in (r, st5, e2)))"
        using True g Inr d v f by (auto simp: oktaAuthenticate_def Let_def split: sum.split)
      show ?thesis
      proof (cases h)
        case (Inl x)
        then show ?thesis using eq assms(1) fs by simp
      next
        case (Inr html)
        then show ?thesis using eq assms(1) fs validateSAML_fields[of c "Some html" st4]
          by (auto simp: logSafe_def urlsMatch_def split: prod.splits)
      qed
    qed
  qed
qed

lemma reauthLoop_spec:
  assumes "reauthLoop c env start remaining n st e = (h, n', st', e')" "urlsMatch env a st" "logSafe env a st"
  shows "logSafe env a st' \<and> urlsMatch env a st' \<and> n \<le> n' \<and> n' \<le> max n (au_maxLoginRetries c + 1) \<and>
    int (length (okt_log st')) \<le> int (length (okt_log st)) + 2 * max 0 (au_maxLoginRetries c + 1 - n)"
  using assms
proof (induction c env start remaining n st e rule: reauthLoop.induct)
  case (1 c env start remaining n st e)
  show ?case
  proof (cases "shouldRetryOktaAuth (au_retryTimeout c) (au_maxLoginRetries c) start remaining (ok_now env e) n")
    case False
    then show ?thesis using 1(2-4) by (simp add: reauthLoop.simps[of c env start remaining n st e])
  next
    case True
    then have n: "n \<le> au_maxLoginRetries c" by (simp add: shouldRetryOktaAuth_def)
    obtain q st1 e1 where f: "fetchSaml c env (okt_user st) st e = (q, st1, e1)" by (metis prod_cases3)
    note fs = fetchSaml_safe[OF f 1(3,4)]
    show ?thesis
    proof (cases q)
      case (Inr html)
      then show ?thesis using 1(2) True f fs n by (auto simp: reauthLoop.simps[of c env start remaining n st e])
    next
      case (Inl x)
      then have "reauthLoop c env start remaining (n + 1) st1 e1 = (h, n', st', e')"
        using 1(2) True f by (simp add: reauthLoop.simps[of c env start remaining n st e])
      then show ?thesis using 1(1)[OF True f[symmetric] Inl refl] fs n by fastforce
    qed
  qed
qed

section \<open>Properties\<close>

text \<open>C9. The password and the one-time token are sent only to the protocol and host of the configured Okta
  address, during the authentication and in every later renewal, and a renewal sends at most two requests for
  each retry that is left.\<close>

theorem okta_credentials_stay_with_provider:
  assumes "oktaAuthenticate c env a sn account username st0 e0 = (r, st, e)" and "okt_log st0 = []"
  shows "logSafe env a st \<and>
    (r = Inr () \<longrightarrow> (case oktaReauthenticate c env (elapsed, n) body st later of (res, opt, st', e') \<Rightarrow>
       logSafe env a st' \<and>
       int (length (okt_log st')) \<le> int (length (okt_log st)) + 2 * max 0 (au_maxLoginRetries c + 1 - n)))"
proof -
  note s = oktaAuthenticate_safe[OF assms]
  show ?thesis
  proof (cases "r = Inr ()")
    case False
    then show ?thesis using s by simp
  next
    case True
    let ?rem = "(of_int (au_retryTimeout c) - elapsed) * 1000"
    obtain h k st1 e1 where l: "reauthLoop c env (ok_now env later) ?rem n st later = (h, k, st1, e1)" by (metis prod_cases4)
    obtain v st2 where v: "validateSAML c h st1 = (v, st2)" by fastforce
    note vf = validateSAML_fields[OF v]
    from reauthLoop_spec[OF l] s True show ?thesis
      using l v vf by (auto simp: oktaReauthenticate_def Let_def logSafe_def split: sum.split)
  qed
qed

definition samlForm :: "string \<Rightarrow> string" where
  "samlForm url = ''<form action=\"'' @ url @ ''\">''"

lemma indexOfText_first: "prefix sub (sub @ r)" by simp

lemma indexOfText_char:
  "c \<notin> set u \<Longrightarrow> indexOfText [c] (u @ c # r) = Some (length u)"
  by (induction u) (auto simp: Sublist.prefix_def)

lemma take_form: "js_substring (''<form action=\"'' @ url @ ''\">'') 14 (14 + int (length url)) = url"
  by (simp add: js_substring_def Let_def)

lemma getPostBackUrl_form:
  assumes "CHR 0x22 \<notin> set url"
  shows "getPostBackUrlFromHtml (samlForm url) = unescapeHtml url"
proof -
  have i: "textIndex ''<form'' (samlForm url) = 0"
    by (simp add: textIndex_def samlForm_def Sublist.prefix_def)
  have s: "indexFrom ''action=\"'' (samlForm url) 0 = 6"
    by (simp add: indexFrom_def Let_def textIndex_def samlForm_def)
  have d: "drop 14 (samlForm url) = url @ CHR 0x22 # ''>''" by (simp add: samlForm_def)
  have len: "14 \<le> length (samlForm url)" by (simp add: samlForm_def)
  have e: "indexFrom ''\"'' (samlForm url) 14 = int (length url) + 14"
    using len indexOfText_char[OF assms, of "''>''"] by (simp add: indexFrom_def Let_def textIndex_def d min_def)
  have "js_substring (samlForm url) 14 (int (length url) + 14) = url"
    using take_form[of url] by (simp add: samlForm_def add.commute)
  then show ?thesis by (simp add: getPostBackUrlFromHtml_def Let_def i s e)
qed

lemma replaceEvery_none: "hd old \<notin> set s \<Longrightarrow> old \<noteq> [] \<Longrightarrow> replaceEvery old new s = s"
  by (induction s) (auto simp: prefix_Cons hd_Cons_tl dest: list.set_sel(1))

text \<open>C39. The answer of the identity provider is compared with the address of Snowflake in its first twenty
  characters only, of which eight are the protocol: for an account of at least twelve characters an answer that
  posts the assertion to any host beginning with these twelve characters is accepted.\<close>

theorem saml_check_compares_twenty_characters:
  assumes "12 \<le> length (oktaHost c)"
    and "CHR 0x22 \<notin> set (oktaHost c @ foreign)" and "CHR 0x26 \<notin> set (oktaHost c @ foreign)"
  shows "validateSAML c (Some (samlForm (''https://'' @ take 12 (oktaHost c) @ foreign))) st =
     (Inr (), st\<lparr>okt_saml := Some (samlForm (''https://'' @ take 12 (oktaHost c) @ foreign))\<rparr>)"
proof -
  let ?u = "''https://'' @ take 12 (oktaHost c) @ foreign"
  have q: "CHR 0x22 \<notin> set ?u" using assms(2) by (auto dest: in_set_takeD)
  have a: "CHR 0x26 \<notin> set ?u" using assms(3) by (auto dest: in_set_takeD)
  have "unescapeHtml ?u = ?u" unfolding unescapeHtml_def using a by (subst (1 2) replaceEvery_none) simp_all
  then have p: "getPostBackUrlFromHtml (samlForm ?u) = ?u" using getPostBackUrl_form[OF q] by simp
  have "take 20 ?u = ''https://'' @ take 12 (oktaHost c)" using assms(1) by simp
  moreover have "take 20 (''https://'' @ oktaHost c @ '':443'') = ''https://'' @ take 12 (oktaHost c)" using assms(1) by simp
  ultimately show ?thesis by (simp only: validateSAML_def Let_def p option.case simp_thms if_False)
qed

definition clockForward :: "'e okta_env \<Rightarrow> bool" where
  "clockForward env \<longleftrightarrow> (\<forall>r e. ok_now env e \<le> ok_now env (snd (ok_token env r e)) \<and> ok_now env e \<le> ok_now env (snd (ok_saml env r e)))"

lemma fetchSaml_clock:
  assumes "clockForward env" "fetchSaml c env u st e = (r, st', e')"
  shows "ok_now env e \<le> ok_now env e'"
proof -
  let ?r = "TokenRequest (okt_tokenUrl st) u (au_password c)"
  obtain q e1 where t: "ok_token env ?r e = (q, e1)" by fastforce
  have a: "ok_now env e \<le> ok_now env e1" using assms(1) t by (metis clockForward_def snd_conv)
  have b: "ok_now env e1 \<le> ok_now env e2" if "ok_saml env s e1 = (x, e2)" for s x e2
    using assms(1) that by (metis clockForward_def snd_conv)
  show ?thesis using assms(2) t a b by (fastforce simp: fetchSaml_def Let_def split: prod.splits sum.splits)
qed

lemma reauthLoop_clock:
  "clockForward env \<Longrightarrow> reauthLoop c env s rem n st e = (h, n', st', e') \<Longrightarrow> ok_now env e \<le> ok_now env e'"
proof (induction c env s rem n st e rule: reauthLoop.induct)
  case (1 c env s rem n st e)
  obtain q st1 e1 where f: "fetchSaml c env (okt_user st) st e = (q, st1, e1)" by (metis prod_cases3)
  note fc = fetchSaml_clock[OF 1(2) f]
  show ?case
  proof (cases "shouldRetryOktaAuth (au_retryTimeout c) (au_maxLoginRetries c) s rem (ok_now env e) n")
    case False
    then show ?thesis using 1(3) by (simp add: reauthLoop.simps[of c env s rem n st e])
  next
    case True
    note step = reauthLoop.simps[of c env s rem n st e]
    show ?thesis
    proof (cases q)
      case (Inr html)
      then show ?thesis using 1(3) True f fc by (simp add: step)
    next
      case (Inl x)
      then have "reauthLoop c env s rem (n + 1) st1 e1 = (h, n', st', e')" using 1(3) True f by (simp add: step)
      then show ?thesis using 1(1)[OF True f[symmetric] Inl refl 1(2)] fc by simp
    qed
  qed
qed

text \<open>C40. With the retry timeout zero, which means no limit, every renewal after some elapsed time fails with
  the login timeout, whatever the identity provider answers: the remaining time is negative.\<close>

theorem unlimited_timeout_never_renews:
  assumes "au_retryTimeout c = 0" and "0 < elapsed" and "clockForward env"
  shows "fst (oktaReauthenticate c env (elapsed, n) body st e) = Inl (AuthError ''Reached out to the Login Timeout'')"
proof -
  let ?rem = "(of_int (au_retryTimeout c) - elapsed) * 1000"
  obtain h k st1 e1 where l: "reauthLoop c env (ok_now env e) ?rem n st e = (h, k, st1, e1)" by (metis prod_cases4)
  have "ok_now env e \<le> ok_now env e1" by (rule reauthLoop_clock[OF assms(3) l])
  then have "(of_int (ok_now env e) :: rat) \<le> of_int (ok_now env e1)" by simp
  then have "?rem \<noteq> 0 \<and> of_int (ok_now env e) + ?rem < of_int (ok_now env e1)" using assms(1,2) by simp
  then show ?thesis using l by (simp add: oktaReauthenticate_def Let_def)
qed

text \<open>A login body of the default authenticator carries the password; with multi-factor authentication it
  names that authenticator whatever the configuration says, carries the cached token, and asks for exactly one of
  the passcode in the password, the passcode, and a push; otherwise the authenticator and the token are left
  as they were.\<close>

theorem default_login_body:
  "let b = map_of (updateBodyDefault c d) in b ''PASSWORD'' = Some (au_password c) \<and>
    (if isMFAAuth c then
       b ''AUTHENTICATOR'' = Some (JString ''USERNAME_PASSWORD_MFA'') \<and> b ''TOKEN'' = Some (au_mfaToken c) \<and>
       b ''EXT_AUTHN_DUO_METHOD'' =
         Some (JString (if truthy (au_passcodeInPassword c) \<or> truthy (au_passcode c) then ''passcode'' else ''push'')) \<and>
       (if truthy (au_passcodeInPassword c) then b ''passcodeInPassword'' = Some (JBoolean True) \<and> b ''PASSCODE'' = map_of d ''PASSCODE''
        else b ''PASSCODE'' = (if truthy (au_passcode c) then Some (au_passcode c) else map_of d ''PASSCODE''))
     else b ''AUTHENTICATOR'' = map_of d ''AUTHENTICATOR'' \<and> b ''TOKEN'' = map_of d ''TOKEN'')"
  unfolding updateBodyDefault_def setMFASessionParams_def putKey_def Let_def by (simp add: update_conv')

text \<open>When the renewal of a key-pair token fails the failure is an unhandled rejection, and the body of the
  next login request carries the token that was there before.\<close>

theorem failed_key_renewal_keeps_old_token:
  assumes "ks_privateKey ks = Some key" and "key \<noteq> []" and "ke_parse env key (au_privateKeyPass c) = None"
  shows "keyPairReauthenticate env c now ks = (ks, True) \<and>
    updateBodyKeypair (fst (keyPairReauthenticate env c now ks)) = ks_token ks"
  using assms by (simp add: keyPairReauthenticate_def keyPairAuthenticate_def preparedKey_def updateBodyKeypair_def Let_def)


section \<open>Examples\<close>

definition oktaConfig :: auth_config where
  "oktaConfig = \<lparr>au_authenticator = ''https://idp.okta.com'', au_account = ''myaccount'', au_username = ''u'', au_password = JString ''p'',
     au_region = None, au_mfaToken = JUndefined, au_passcode = JUndefined, au_passcodeInPassword = JBoolean False,
     au_idToken = JUndefined, au_storeTemporaryCredential = JBoolean False, au_token = JUndefined, au_serviceName = JUndefined,
     au_clientType = ''JS'', au_clientVersion = ''1'', au_privateKey = None, au_privateKeyPath = None, au_privateKeyPass = JUndefined,
     au_disableSamlURLCheck = False, au_retryTimeout = 0, au_maxLoginRetries = 7\<rparr>"

definition oktaEnv :: "int okta_env" where
  "oktaEnv = \<lparr>ok_now = (\<lambda>t. t),
     ok_urls = (\<lambda>r t. (Inr \<lparr>oa_success = JBoolean True, oa_code = JNullV, oa_message = JNullV,
                              oa_data = Some (''https://idp.okta.com/sso'', ''https://idp.okta.com/token'')\<rparr>, t + 5)),
     ok_token = (\<lambda>r t. (Inr (JString ''once'', JUndefined), t + 5)),
     ok_saml = (\<lambda>r t. (Inr (samlForm ''https://myaccount.snowflakecomputing.com:443/x''), t + 5)),
     ok_url = (\<lambda>u. if prefix ''https://idp.okta.com'' u then Some (''https:'', ''idp.okta.com'') else None)\<rparr>"

definition oktaStart :: okta where
  "oktaStart = \<lparr>okt_user = JUndefined, okt_ssoUrl = [], okt_tokenUrl = [], okt_saml = None, okt_log = []\<rparr>"

lemma oktaHost_sample: "oktaHost oktaConfig = ''myaccount.snowflakecomputing.com''"
  by (simp add: oktaHost_def oktaConfig_def constructHostname_def)

lemma okta_sample_accepted:
  "validateSAML oktaConfig (Some (samlForm ''https://myaccount.snowflakecomputing.com:443/x'')) st =
     (Inr (), st\<lparr>okt_saml := Some (samlForm ''https://myaccount.snowflakecomputing.com:443/x'')\<rparr>)"
proof -
  have "getPostBackUrlFromHtml (samlForm ''https://myaccount.snowflakecomputing.com:443/x'') =
      ''https://myaccount.snowflakecomputing.com:443/x''"
    by (subst getPostBackUrl_form) (simp_all add: unescapeHtml_def replaceEvery_none)
  then show ?thesis by (simp add: validateSAML_def oktaHost_sample Let_def)
qed

lemma sample_authenticates:
  "fst (oktaAuthenticate oktaConfig oktaEnv ''https://idp.okta.com'' JUndefined ''myaccount'' (JString ''u'') oktaStart 0) = Inr ()"
  by (simp add: oktaAuthenticate_def getAuthURLs_def oktaEnv_def validateURLs_def fetchSaml_def Let_def okta_sample_accepted)

theorem okta_credentials_stay_with_provider_witness:
  "case oktaAuthenticate oktaConfig oktaEnv ''https://idp.okta.com'' JUndefined ''myaccount'' (JString ''u'') oktaStart 0 of
     (r, st, e) \<Rightarrow> r = Inr () \<and> logSafe oktaEnv ''https://idp.okta.com'' st \<and>
       (case oktaReauthenticate oktaConfig oktaEnv (3, 1) [] st 1000 of (res, opt, st', e') \<Rightarrow> logSafe oktaEnv ''https://idp.okta.com'' st')"
proof -
  obtain r st e where o: "oktaAuthenticate oktaConfig oktaEnv ''https://idp.okta.com'' JUndefined ''myaccount'' (JString ''u'') oktaStart 0 = (r, st, e)"
    by (metis prod_cases3)
  have "r = Inr ()" using sample_authenticates o by simp
  then show ?thesis using okta_credentials_stay_with_provider[OF o, of 1 3 "[]" 1000] o by (auto simp: oktaStart_def)
qed

theorem saml_check_compares_twenty_characters_witness:
  "fst (validateSAML oktaConfig (Some (samlForm (''https://'' @ take 12 (oktaHost oktaConfig) @ ''ooping.example/steal''))) oktaStart) = Inr ()"
  by (subst saml_check_compares_twenty_characters) (simp_all add: oktaHost_sample)

theorem unlimited_timeout_never_renews_witness:
  "fst (oktaReauthenticate oktaConfig oktaEnv (3, 1) [] oktaStart 1000) = Inl (AuthError ''Reached out to the Login Timeout'')"
  by (rule unlimited_timeout_never_renews) (simp_all add: oktaConfig_def clockForward_def oktaEnv_def)

definition brokenKeys :: key_env where
  "brokenKeys = \<lparr>ke_parse = (\<lambda>k p. None), ke_publicHash = (\<lambda>k. Some ''H''), ke_readFile = (\<lambda>p. None)\<rparr>"

theorem failed_key_renewal_keeps_old_token_witness:
  "keyPairReauthenticate brokenKeys oktaConfig 9000 \<lparr>ks_privateKey = Some ''K'', ks_token = Some (jwtPayload oktaConfig ''SHA256:H'' 0, Some ''K'')\<rparr> =
     (\<lparr>ks_privateKey = Some ''K'', ks_token = Some (jwtPayload oktaConfig ''SHA256:H'' 0, Some ''K'')\<rparr>, True)"
  using failed_key_renewal_keeps_old_token[of
      "\<lparr>ks_privateKey = Some ''K'', ks_token = Some (jwtPayload oktaConfig ''SHA256:H'' 0, Some ''K'')\<rparr>" "''K''" brokenKeys oktaConfig 9000]
  by (simp add: brokenKeys_def)

end
