(* ===== verification/AuthWebModel.thy ===== *)
theory AuthWebModel
  imports AuthModel
begin

text \<open>
  Authentication in a browser (\<open>auth_web.js\<close>, \<open>sso_url_provider.js\<close>, \<open>auth_coordinator.ts\<close>, and the local
  server of \<open>authentication_util.js\<close>): the request of the browser that brings the token, how long it is
  awaited, and how logins that need the same browser window share one.
\<close>

section \<open>Query strings\<close>

text \<open>
  \<open>querystring.parse\<close> on the bytes of a text: fields end at ampersands, keys at the first equals sign, a plus
  is a blank, and two hexadecimal digits after a percent sign are a byte.
\<close>

definition hexValue :: "char \<Rightarrow> nat option" where
  "hexValue c =
     (let n = of_char c :: nat
      in if 48 \<le> n \<and> n \<le> 57 then Some (n - 48)
         else if 65 \<le> n \<and> n \<le> 70 then Some (n - 55)
         else if 97 \<le> n \<and> n \<le> 102 then Some (n - 87) else None)"

fun percentDecode :: "string \<Rightarrow> string" where
  "percentDecode (c # a # b # cs) =
     (if c = CHR ''%'' then
        (case (hexValue a, hexValue b) of
           (Some x, Some y) \<Rightarrow> char_of (16 * x + y) # percentDecode cs
         | _ \<Rightarrow> c # percentDecode (a # b # cs))
      else c # percentDecode (a # b # cs))"
| "percentDecode cs = cs"

definition unescapeField :: "string \<Rightarrow> string" where
  "unescapeField s = percentDecode (map (\<lambda>c. if c = CHR ''+'' then CHR '' '' else c) s)"

definition splitPair :: "string \<Rightarrow> string \<times> string" where
  "splitPair f =
     (unescapeField (takeWhile (\<lambda>c. c \<noteq> CHR ''='') f), unescapeField (drop 1 (dropWhile (\<lambda>c. c \<noteq> CHR ''='') f)))"

definition parseQuery :: "string \<Rightarrow> (string \<times> string) list" where
  "parseQuery s = map splitPair (filter (\<lambda>f. f \<noteq> []) (splitOn CHR ''&'' s))"

text \<open>The property of a key: \<open>undefined\<close>, a text, or an array for a key that occurs again.\<close>

definition queryValue :: "string \<Rightarrow> (string \<times> string) list \<Rightarrow> jsv" where
  "queryValue k q =
     (case map snd (filter (\<lambda>(a, b). a = k) q) of
        [] \<Rightarrow> JUndefined | [v] \<Rightarrow> JString v | vs \<Rightarrow> JArray (map JString vs))"

text \<open>The second word of the request line; without one \<open>parse\<close> answers an empty object.\<close>

definition parseToken :: "string \<Rightarrow> jsv" where
  "parseToken tokenHttpGetLine =
     (let data = splitOn CHR '' '' tokenHttpGetLine
      in if 1 < length data then queryValue ''/?token'' (parseQuery (data ! 1)) else JUndefined)"

section \<open>The local server\<close>

definition crlf :: string where "crlf = [CHR 0x0D, CHR 0x0A]"

definition firstLine :: "string \<Rightarrow> string" where
  "firstLine chunk = (case indexOfText crlf chunk of None \<Rightarrow> chunk | Some k \<Rightarrow> take k chunk)"

text \<open>\<open>rawDescription.replace(/\sHTTP\/.*/, '')\<close>: up to the first blank before \<open>HTTP/\<close>, to the end of the line.\<close>

fun dropProtocol :: "string \<Rightarrow> string" where
  "dropProtocol [] = []"
| "dropProtocol (c # cs) =
     (if is_space c \<and> prefix ''HTTP/'' cs then dropWhile (\<lambda>x. \<not> is_newline x) cs else c # dropProtocol cs)"

definition errorText :: "jsv \<Rightarrow> string" where
  "errorText v = (case v of JString s \<Rightarrow> s | JUndefined \<Rightarrow> ''undefined'' | _ \<Rightarrow> [])"

text \<open>An error that occurs twice in the line is shown as the inspected array, which \<open>inspect\<close> stands for.\<close>

definition prepareError :: "(jsv \<Rightarrow> string) \<Rightarrow> string \<Rightarrow> string" where
  "prepareError inspect rejected =
     (let q = parseQuery (js_substring rejected (textIndex ''?'' rejected + 1) (int (length rejected)));
          error = queryValue ''error'' q;
          errorDescription = (case queryValue ''error_description'' q of JString d \<Rightarrow> dropProtocol d | _ \<Rightarrow> ''(no description)'')
      in ''Error while getting oauth authorization code. ErrorCode '' @
         (case error of JArray vs \<Rightarrow> inspect error | _ \<Rightarrow> errorText error) @ ''. Message: '' @ errorDescription)"

text \<open>
  What happens while the browser is awaited.  \<open>rendererOk\<close> tells for an error or its absence whether the
  renderer of the page returns.
\<close>

datatype browser_event = Data string | SocketError string | TimeUp

datatype browser_outcome = Line string | Rejected string

fun awaitBrowser ::
  "(jsv \<Rightarrow> string) \<Rightarrow> (string option \<Rightarrow> bool) \<Rightarrow> int \<Rightarrow> browser_event list \<Rightarrow> browser_outcome option"
where
  "awaitBrowser inspect rendererOk millis [] = None"
| "awaitBrowser inspect rendererOk millis (Data chunk # es) =
     (let line = firstLine chunk;
          error = (if contains ''?error='' line then Some (prepareError inspect line) else None)
      in if \<not> rendererOk error then Some (Rejected ''renderer'')
         else (case error of Some t \<Rightarrow> Some (Rejected t) | None \<Rightarrow> Some (Line line)))"
| "awaitBrowser inspect rendererOk millis (SocketError code # es) =
     (if code = ''ECONNRESET'' then awaitBrowser inspect rendererOk millis es else Some (Rejected code))"
| "awaitBrowser inspect rendererOk millis (TimeUp # es) =
     Some (Rejected (''Browser action timed out after '' @ inspect (JNumber (of_int millis)) @ '' ms.''))"

section \<open>The login\<close>

record web_env =
  wb_listens :: bool
  wb_sso :: "(string \<times> string) option"             \<comment> \<open>\<open>proofKey\<close> and \<open>ssoUrl\<close>, when the request succeeds\<close>
  wb_ssoError :: string
  wb_proofKey :: string                              \<comment> \<open>random\<close>
  wb_loginUrl :: "string \<Rightarrow> string \<Rightarrow> string"          \<comment> \<open>of a user and a proof key\<close>
  wb_validUrl :: "string \<Rightarrow> bool"
  wb_events :: "browser_event list"
  wb_rendererOk :: "string option \<Rightarrow> bool"
  wb_inspect :: "jsv \<Rightarrow> string"

datatype web_step = Listened | Opened string | Closed

text \<open>
  \<open>openBrowserAndCollectTokens\<close>: the token and the proof key, and what was done.  \<open>None\<close> as the result is a
  login that is still waiting.
\<close>

definition openBrowserAndCollectTokens ::
  "web_env \<Rightarrow> bool \<Rightarrow> string \<Rightarrow> int \<Rightarrow> (string + jsv \<times> string) option \<times> web_step list"
where
  "openBrowserAndCollectTokens env disableConsoleLogin username timeout =
     (if \<not> wb_listens env then (Some (Inl ''Error while creating local server''), [])
      else
        (case (if disableConsoleLogin then wb_sso env else Some (wb_proofKey env, wb_loginUrl env username (wb_proofKey env))) of
           None \<Rightarrow> (Some (Inl (wb_ssoError env)), [Listened, Closed])
         | Some (proofKey, loginUrl) \<Rightarrow>
             if \<not> wb_validUrl env loginUrl then (Some (Inl (''Invalid SSO URL found - '' @ loginUrl @ '' '')), [Listened, Closed])
             else
               (case awaitBrowser (wb_inspect env) (wb_rendererOk env) timeout (wb_events env) of
                  None \<Rightarrow> (None, [Listened, Opened loginUrl])
                | Some (Rejected t) \<Rightarrow> (Some (Inl (''Error while getting SAML token: '' @ t)), [Listened, Opened loginUrl, Closed])
                | Some (Line line) \<Rightarrow> (Some (Inr (parseToken line, proofKey)), [Listened, Opened loginUrl, Closed]))))"

definition updateBodyWeb :: "jsv \<Rightarrow> string \<Rightarrow> login_data \<Rightarrow> login_data" where
  "updateBodyWeb token proofKey d =
     putKey ''AUTHENTICATOR'' (JString ''EXTERNALBROWSER'') (putKey ''PROOF_KEY'' (JString proofKey) (putKey ''TOKEN'' token d))"

section \<open>Sharing a login\<close>

definition buildCoordinatorKey :: "string \<Rightarrow> string \<Rightarrow> string \<Rightarrow> string" where
  "buildCoordinatorKey host username authType = host @ '':'' @ username @ '':'' @ authType"

text \<open>
  \<open>PENDING_AUTHS\<close> holds the number of the run whose promise it is; a run is started by the call with its
  number and is settled when it has a result.  The \<open>finally\<close> of the call that started the run removes the
  key in a later step.
\<close>

datatype 'r run_state = Running | Ended 'r | Cleared 'r

record 'r coordinator =
  co_pending :: "string \<rightharpoonup> nat"
  co_runs :: "(string \<times> 'r run_state) list"        \<comment> \<open>by number\<close>
  co_calls :: "(string \<times> nat) list"                 \<comment> \<open>the run that each call awaits\<close>

definition coordinateAuth :: "string \<Rightarrow> 'r coordinator \<Rightarrow> 'r coordinator" where
  "coordinateAuth key s =
     (case co_pending s key of
        Some run \<Rightarrow> s\<lparr>co_calls := co_calls s @ [(key, run)]\<rparr>
      | None \<Rightarrow>
          (let run = length (co_runs s)
           in s\<lparr>co_pending := (co_pending s)(key \<mapsto> run), co_runs := co_runs s @ [(key, Running)],
                co_calls := co_calls s @ [(key, run)]\<rparr>))"

inductive coordinator_step :: "'r coordinator \<Rightarrow> 'r coordinator \<Rightarrow> bool" where
  call: "coordinator_step s (coordinateAuth key s)"
| settle: "n < length (co_runs s) \<Longrightarrow> co_runs s ! n = (key, Running) \<Longrightarrow>
    coordinator_step s (s\<lparr>co_runs := (co_runs s)[n := (key, Ended r)]\<rparr>)"
| clear: "n < length (co_runs s) \<Longrightarrow> co_runs s ! n = (key, Ended r) \<Longrightarrow>
    coordinator_step s (s\<lparr>co_runs := (co_runs s)[n := (key, Cleared r)], co_pending := (co_pending s)(key := None)\<rparr>)"

inductive_cases coordinator_stepE: "coordinator_step s s'"

definition newCoordinator :: "'r coordinator" where
  "newCoordinator = \<lparr>co_pending = Map.empty, co_runs = [], co_calls = []\<rparr>"

inductive coordinated :: "'r coordinator \<Rightarrow> bool" where
  start: "coordinated newCoordinator"
| step: "coordinated s \<Longrightarrow> coordinator_step s s' \<Longrightarrow> coordinated s'"

end
