(* ===== verification/AuthWebProps.thy ===== *)
theory AuthWebProps
  imports AuthWebModel
begin

text \<open>
  The token that the browser brings is the one that is used, the first request to the local server ends the
  wait, and logins for the same user share one run.
\<close>

section \<open>The token\<close>

definition plainToken :: "string \<Rightarrow> bool" where
  "plainToken t \<longleftrightarrow> (\<forall>c \<in> set t. c \<notin> {CHR '' '', CHR ''&'', CHR ''='', CHR ''+'', CHR ''%''})"

lemma splitOn_none: "c \<notin> set w \<Longrightarrow> splitOn c w = [w]"
  by (induction w) auto

lemma splitOn_first: "c \<notin> set w \<Longrightarrow> splitOn c (w @ c # r) = w # splitOn c r"
  by (induction w) auto

lemma percentDecode_plain: "CHR ''%'' \<notin> set s \<Longrightarrow> percentDecode s = s"
  by (induction s rule: percentDecode.induct) auto

lemma unescapeField_plain: "CHR ''+'' \<notin> set s \<Longrightarrow> CHR ''%'' \<notin> set s \<Longrightarrow> unescapeField s = s"
proof -
  assume a: "CHR ''+'' \<notin> set s" "CHR ''%'' \<notin> set s"
  have "map (\<lambda>c. if c = CHR ''+'' then CHR '' '' else c) s = s" using a(1) by (induction s) auto
  then show ?thesis using a(2) by (simp add: unescapeField_def percentDecode_plain)
qed

text \<open>The line that a browser sends for the redirect with a token.\<close>

definition redirectLine :: "string \<Rightarrow> string" where
  "redirectLine token = ''GET /?token='' @ token @ '' HTTP/1.1''"

lemma parseToken_redirect:
  assumes "plainToken token"
  shows "parseToken (redirectLine token) = JString token"
proof -
  have c: "CHR '' '' \<notin> set token" "CHR ''&'' \<notin> set token" "CHR ''+'' \<notin> set token" "CHR ''%'' \<notin> set token"
    using assms by (auto simp: plainToken_def)
  have "splitOn CHR '' '' (redirectLine token) = [''GET'', ''/?token='' @ token, ''HTTP/1.1'']"
    using c(1) splitOn_first[of "CHR '' ''" "''/?token='' @ token" "''HTTP/1.1''"] by (simp add: redirectLine_def)
  moreover have "splitOn CHR ''&'' (''/?token='' @ token) = [''/?token='' @ token]"
    using c(2) by (subst splitOn_none) simp_all
  moreover have "splitPair (''/?token='' @ token) = (''/?token'', token)"
    using c by (simp add: splitPair_def unescapeField_plain)
  ultimately show ?thesis by (simp add: parseToken_def parseQuery_def queryValue_def)
qed

lemma firstLine_crlf:
  assumes "CHR 0x0D \<notin> set line"
  shows "firstLine (line @ crlf @ rest) = line"
proof -
  have "indexOfText crlf (line @ crlf @ rest) = Some (length line)"
    using assms by (induction line) (auto simp: crlf_def Sublist.prefix_def)
  then show ?thesis by (simp add: firstLine_def)
qed

section \<open>Properties\<close>

text \<open>When the browser is redirected with a token of plain characters, possibly after connections that were
  reset, the login ends with that token and the proof key it started with, and the server is closed.\<close>

theorem browser_token_is_used:
  assumes "wb_listens env" "plainToken token" "CHR 0x0D \<notin> set token" "CHR ''?'' \<notin> set token"
    and "wb_validUrl env (wb_loginUrl env username (wb_proofKey env))" "wb_rendererOk env None"
    and "wb_events env = replicate n (SocketError ''ECONNRESET'') @ Data (redirectLine token @ crlf @ headers) # later"
  shows "openBrowserAndCollectTokens env False username timeout =
    (Some (Inr (JString token, wb_proofKey env)), [Listened, Opened (wb_loginUrl env username (wb_proofKey env)), Closed])"
proof -
  have line: "firstLine (redirectLine token @ crlf @ headers) = redirectLine token"
    by (rule firstLine_crlf) (use assms(3) in \<open>simp add: redirectLine_def\<close>)
  have "\<not> contains ''?error='' (token @ '' HTTP/1.1'')"
    using assms(4) by (induction token) auto
  then have "\<not> contains ''?error='' (redirectLine token)" by (simp add: redirectLine_def)
  then have "awaitBrowser (wb_inspect env) (wb_rendererOk env) timeout (wb_events env) = Some (Line (redirectLine token))"
    unfolding assms(7) by (induction n) (simp_all add: line assms(6))
  then show ?thesis using assms(1,5) parseToken_redirect[OF assms(2)] by (simp add: openBrowserAndCollectTokens_def)
qed

text \<open>The first request of any kind ends the wait: a request for another path, without an error, ends the
  login with an undefined token, and the redirect that follows is not read.\<close>

theorem first_request_ends_login:
  assumes "wb_listens env" "wb_validUrl env (wb_loginUrl env username (wb_proofKey env))" "wb_rendererOk env None"
    and "path \<noteq> []" "\<forall>c \<in> set path. c \<notin> {CHR '' '', CHR ''?'', CHR ''&'', CHR 0x0D, CHR ''+'', CHR ''%'', CHR ''=''}"
    and "wb_events env = Data ((''GET '' @ path @ '' HTTP/1.1'') @ crlf @ headers) # later"
  shows "fst (openBrowserAndCollectTokens env False username timeout) = Some (Inr (JUndefined, wb_proofKey env))"
proof -
  let ?line = "''GET '' @ path @ '' HTTP/1.1''"
  have p: "CHR '' '' \<notin> set path" "CHR ''?'' \<notin> set path" "CHR ''&'' \<notin> set path" "CHR 0x0D \<notin> set path"
    "CHR ''+'' \<notin> set path" "CHR ''%'' \<notin> set path" "CHR ''='' \<notin> set path" using assms(5) by auto
  have line: "firstLine (?line @ crlf @ headers) = ?line"
    by (rule firstLine_crlf) (use p(4) in simp)
  have "\<not> contains ''?error='' (path @ '' HTTP/1.1'')" using p(2) by (induction path) auto
  then have "\<not> contains ''?error='' ?line" by simp
  then have aw: "awaitBrowser (wb_inspect env) (wb_rendererOk env) timeout (wb_events env) = Some (Line ?line)"
    unfolding assms(6) by (simp add: line[simplified] assms(3))
  have "splitOn CHR '' '' ?line = [''GET'', path, ''HTTP/1.1'']"
    using p(1) splitOn_first[of "CHR '' ''" path "''HTTP/1.1''"] by simp
  moreover have "splitPair path = (path, [])"
  proof -
    have "takeWhile (\<lambda>c. c \<noteq> CHR ''='') path = path" "dropWhile (\<lambda>c. c \<noteq> CHR ''='') path = []"
      using p(7) by (auto simp: takeWhile_eq_all_conv)
    moreover have "unescapeField [] = []" by (simp add: unescapeField_def)
    ultimately show ?thesis using unescapeField_plain[OF p(5,6)] by (simp only: splitPair_def drop_Nil)
  qed
  moreover have "path \<noteq> ''/?token''" using p(2) by auto
  ultimately have "parseToken ?line = JUndefined"
    using p(3) assms(4) by (simp add: parseToken_def parseQuery_def queryValue_def splitOn_none)
  then show ?thesis using assms(1,2) aw by (simp add: openBrowserAndCollectTokens_def)
qed

section \<open>Sharing\<close>

definition runKey :: "'r coordinator \<Rightarrow> nat \<Rightarrow> string" where "runKey s n = fst (co_runs s ! n)"

definition cleared :: "'r run_state \<Rightarrow> bool" where
  "cleared q = (case q of Cleared r \<Rightarrow> True | _ \<Rightarrow> False)"

text \<open>The pending entry of a key is exactly the run of that key that is not cleared.\<close>

definition coordinator_inv :: "'r coordinator \<Rightarrow> bool" where
  "coordinator_inv s \<longleftrightarrow>
     (\<forall>key n. co_pending s key = Some n \<longleftrightarrow> n < length (co_runs s) \<and> runKey s n = key \<and> \<not> cleared (snd (co_runs s ! n))) \<and>
     (\<forall>(key, n) \<in> set (co_calls s). n < length (co_runs s) \<and> runKey s n = key)"

lemma coordinator_inv_call:
  assumes "coordinator_inv s"
  shows "coordinator_inv (coordinateAuth key s)"
proof (cases "co_pending s key")
  case None
  have "coordinator_inv (coordinateAuth key s)" if "\<forall>n < length (co_runs s). runKey s n = key \<longrightarrow> cleared (snd (co_runs s ! n))"
    using assms that None
    by (auto simp: coordinator_inv_def coordinateAuth_def Let_def runKey_def cleared_def nth_append less_Suc_eq
        split: if_splits)
  moreover have "\<forall>n < length (co_runs s). runKey s n = key \<longrightarrow> cleared (snd (co_runs s ! n))"
    using assms None by (metis coordinator_inv_def option.distinct(1))
  ultimately show ?thesis by blast
next
  case (Some n)
  then have eq: "coordinateAuth key s = s\<lparr>co_calls := co_calls s @ [(key, n)]\<rparr>" by (simp add: coordinateAuth_def)
  have "n < length (co_runs s) \<and> runKey s n = key" using assms Some by (simp add: coordinator_inv_def)
  then show ?thesis using assms unfolding eq by (auto simp: coordinator_inv_def runKey_def)
qed

lemma coordinator_inv_step:
  assumes "coordinator_step s s'" "coordinator_inv s"
  shows "coordinator_inv s'"
  using assms
proof (cases rule: coordinator_step.cases)
  case (call key)
  then show ?thesis using coordinator_inv_call[OF assms(2)] by simp
next
  case (settle n key r)
  then show ?thesis using assms(2)
    by (auto simp: coordinator_inv_def runKey_def cleared_def nth_list_update split: if_splits)
next
  case (clear n key r)
  have p: "co_pending s key = Some n" using clear assms(2) by (auto simp: coordinator_inv_def runKey_def cleared_def)
  have only: "m = n" if "m < length (co_runs s)" "fst (co_runs s ! m) = key" "\<not> cleared (snd (co_runs s ! m))" for m
  proof -
    have "co_pending s key = Some m" using that assms(2) by (simp add: coordinator_inv_def runKey_def)
    then show ?thesis using p by simp
  qed
  have old: "co_pending s k = Some m \<longleftrightarrow> m < length (co_runs s) \<and> fst (co_runs s ! m) = k \<and> \<not> cleared (snd (co_runs s ! m))" for k m
    using assms(2) by (simp add: coordinator_inv_def runKey_def)
  have new: "snd (co_runs s' ! m) = (if m = n then Cleared r else snd (co_runs s ! m))" "fst (co_runs s' ! m) = fst (co_runs s ! m)"
    if "m < length (co_runs s)" for m using clear that by (auto simp: nth_list_update)
  have "co_pending s' k = Some m \<longleftrightarrow> m < length (co_runs s') \<and> fst (co_runs s' ! m) = k \<and> \<not> cleared (snd (co_runs s' ! m))" for k m
  proof (cases "m < length (co_runs s)")
    case True
    then show ?thesis using old[of k m] new[OF True] only[OF True] p clear(1) by (auto simp: cleared_def)
  next
    case False
    then show ?thesis using old[of k m] clear(1) by auto
  qed
  moreover have "\<forall>(k, m) \<in> set (co_calls s'). m < length (co_runs s') \<and> fst (co_runs s' ! m) = k"
    using assms(2) clear(1) new(2) by (auto simp: coordinator_inv_def runKey_def)
  ultimately show ?thesis by (simp add: coordinator_inv_def runKey_def)
qed

lemma coordinated_inv: "coordinated s \<Longrightarrow> coordinator_inv s"
proof (induction rule: coordinated.induct)
  case start
  then show ?case by (simp add: coordinator_inv_def newCoordinator_def)
next
  case (step s s')
  then show ?case using coordinator_inv_step by blast
qed

text \<open>For every host, user and kind of login at most one run is under way, whatever calls come in, and
  every call awaits a run of its own key: a call that comes while a run is under way starts none.\<close>

theorem one_login_at_a_time:
  assumes "coordinated s"
    and "n < length (co_runs s)" "m < length (co_runs s)" "co_runs s ! n = (key, Running)" "co_runs s ! m = (key, Running)"
  shows "n = m \<and> co_runs (coordinateAuth key s) = co_runs s \<and> last (co_calls (coordinateAuth key s)) = (key, n)"
proof -
  have i: "coordinator_inv s" by (rule coordinated_inv[OF assms(1)])
  have p: "co_pending s key = Some n" "co_pending s key = Some m"
    using i assms(2-5) by (simp_all add: coordinator_inv_def runKey_def cleared_def)
  then show ?thesis by (simp add: coordinateAuth_def)
qed

section \<open>Examples\<close>

definition webEnv :: "browser_event list \<Rightarrow> web_env" where
  "webEnv es = \<lparr>wb_listens = True, wb_sso = None, wb_ssoError = [], wb_proofKey = ''K'', wb_loginUrl = (\<lambda>u k. ''https://h/'' @ u @ k),
     wb_validUrl = (\<lambda>u. True), wb_events = es, wb_rendererOk = (\<lambda>e. True), wb_inspect = (\<lambda>v. [])\<rparr>"

theorem browser_token_is_used_witness:
  "openBrowserAndCollectTokens (webEnv [SocketError ''ECONNRESET'', Data (redirectLine ''ver:1-abc'' @ crlf @ ''Host: x'')]) False ''u'' 5000 =
     (Some (Inr (JString ''ver:1-abc'', ''K'')), [Listened, Opened ''https://h/uK'', Closed])"
  using browser_token_is_used[of "webEnv [SocketError ''ECONNRESET'', Data (redirectLine ''ver:1-abc'' @ crlf @ ''Host: x'')]" "''ver:1-abc''"
      "''u''" 1 "''Host: x''" "[]" 5000]
  by (simp add: webEnv_def plainToken_def)

theorem first_request_ends_login_witness:
  "fst (openBrowserAndCollectTokens
      (webEnv [Data ((''GET '' @ ''/favicon.ico'' @ '' HTTP/1.1'') @ crlf @ []), Data (redirectLine ''t'')]) False ''u'' 5000) =
     Some (Inr (JUndefined, ''K''))"
  by (subst first_request_ends_login[where path = "''/favicon.ico''" and headers = "[]" and later = "[Data (redirectLine ''t'')]"])
    (simp_all add: webEnv_def)

theorem one_login_at_a_time_witness:
  "last (co_calls (coordinateAuth ''k'' (coordinateAuth ''k'' (newCoordinator :: nat coordinator)))) = (''k'', 0)"
proof -
  let ?s = "coordinateAuth ''k'' (newCoordinator :: nat coordinator)"
  have "coordinated ?s" by (rule coordinated.step[OF coordinated.start coordinator_step.call])
  moreover have "co_runs ?s = [(''k'', Running)]" by (simp add: coordinateAuth_def newCoordinator_def)
  ultimately show ?thesis using one_login_at_a_time[of ?s 0 0 "''k''"] by simp
qed

end
