(* ===== verification/Spec2Isabelle.thy ===== *)
theory Spec2Isabelle
  imports Prelude QueryContextCache ChunkModel DoublyLinkedListModel ChunkCacheModel ResultModel
    ColumnNames ErrorsModel UtilModel SfService SfServiceProps LargeResultSetModel FetchRowsModel
    RowStreamModel TimestampModel ColumnModel JsValue ProxyModel ConfigModel
    StatementModel StatementRun StatementProps BindUploaderModel TransferProps EncryptProps ConnectionProps
    CrlProps CredentialProps CredentialLock AuthProps AuthWebProps
begin

text \<open>
  Verification library of the Snowflake connector for Node.js.
\<close>

end
